(* ===== verification/Prelude.thy ===== *)
theory Prelude
  imports Main "HOL-Library.Word" "HOL-Library.State_Monad" "HOL-Library.List_Lexorder"
    "HOL-Library.Char_ord" "HOL-Library.Sublist"
begin

text \<open>
  The prelude of the development: the Go string operations the program uses (packages
  \<open>strings\<close>, \<open>strconv\<close>, \<open>fmt\<close>, \<open>sort\<close>), on strings as lists of bytes, the conversions
  between Go's \<open>int\<close> and \<open>uint\<close>, the named collections of the shared proof rules, and the
  generic lemmas on lists and words the components use.
\<close>

named_theorems emits_intros "rules that show which requests a program can send"
named_theorems go_defs "definitions of small helpers that proofs unfold together"

section \<open>Package strings\<close>

definition HasPrefix :: "string \<Rightarrow> string \<Rightarrow> bool" where
  "HasPrefix s p \<longleftrightarrow> take (length p) s = p"

definition TrimPrefix :: "string \<Rightarrow> string \<Rightarrow> string" where
  "TrimPrefix s p = (if HasPrefix s p then drop (length p) s else s)"

fun Split :: "char \<Rightarrow> string \<Rightarrow> string list" where
  "Split c [] = [[]]"
| "Split c (x # xs) =
     (if x = c then [] # Split c xs
      else (case Split c xs of [] \<Rightarrow> [[x]] | w # ws \<Rightarrow> (x # w) # ws))"

fun Join :: "string \<Rightarrow> string list \<Rightarrow> string" where
  "Join sep [] = []"
| "Join sep [w] = w"
| "Join sep (w # v # ws) = w @ sep @ Join sep (v # ws)"

fun Contains :: "string \<Rightarrow> string \<Rightarrow> bool" where
  "Contains [] p = (p = [])"
| "Contains (x # xs) p = (HasPrefix (x # xs) p \<or> Contains xs p)"

definition ReplaceChar :: "char \<Rightarrow> string \<Rightarrow> string \<Rightarrow> string" where
  "ReplaceChar c r s = concat (map (\<lambda>x. if x = c then r else [x]) s)"

text \<open>A line feed, and a text between double quotes.\<close>

definition NL :: string where "NL = [CHR 0x0A]"

definition dquote :: "string \<Rightarrow> string" where
  "dquote s = CHR 0x22 # s @ [CHR 0x22]"

text \<open>
  \<open>%q\<close>: the text as a literal of Go. What is not ASCII is taken to be printable, and stays as it is.
\<close>

definition hexDigit :: "nat \<Rightarrow> char" where
  "hexDigit n = ''0123456789abcdef'' ! n"

definition escapeChar :: "char \<Rightarrow> string" where
  "escapeChar x = (let n = of_char x :: nat in
     if n = 34 \<or> n = 92 then [CHR 0x5C, x]
     else if 7 \<le> n \<and> n \<le> 13 then [CHR 0x5C, ''abtnvfr'' ! (n - 7)]
     else if n < 32 \<or> n = 127 then CHR 0x5C # ''x'' @ [hexDigit (n div 16), hexDigit (n mod 16)]
     else [x])"

definition Quote :: "string \<Rightarrow> string" where
  "Quote s = dquote (concat (map escapeChar s))"

text \<open>\<open>strings.ReplaceAll\<close> with a non-empty old string: leftmost matches, none overlapping.\<close>

function ReplaceAll :: "string \<Rightarrow> string \<Rightarrow> string \<Rightarrow> string" where
  "ReplaceAll [] old new = []"
| "ReplaceAll (x # xs) old new =
     (if old \<noteq> [] \<and> HasPrefix (x # xs) old then new @ ReplaceAll (drop (length old) (x # xs)) old new
      else x # ReplaceAll xs old new)"
  by pat_completeness auto

termination ReplaceAll
  by (relation "measure (\<lambda>(s, _, _). length s)") auto

lemma HasPrefix_iff: "HasPrefix s p \<longleftrightarrow> (\<exists>r. s = p @ r)"
  unfolding HasPrefix_def by (metis append_eq_conv_conj append_take_drop_id)

lemma HasPrefix_append [simp]: "HasPrefix (p @ r) p"
  by (simp add: HasPrefix_def)

lemma TrimPrefix_append [simp]: "TrimPrefix (p @ r) p = r"
  by (simp add: TrimPrefix_def)

lemma Split_not_Nil [simp]: "Split c s \<noteq> []"
  by (induction s) (auto split: list.splits)

lemma Split_no_sep: "c \<notin> set s \<Longrightarrow> Split c s = [s]"
  by (induction s) auto

lemma Split_append_sep: "c \<notin> set w \<Longrightarrow> Split c (w @ c # s) = w # Split c s"
  by (induction w) auto

lemma Split_fields_no_sep: "w \<in> set (Split c s) \<Longrightarrow> c \<notin> set w"
  by (induction s arbitrary: w) (auto split: if_splits list.splits)

text \<open>Splitting what was joined gives the words back, when no word holds the separator.\<close>

lemma Split_Join:
  "ws \<noteq> [] \<Longrightarrow> (\<And>w. w \<in> set ws \<Longrightarrow> c \<notin> set w) \<Longrightarrow> Split c (Join [c] ws) = ws"
  by (induction "[c]" ws rule: Join.induct) (auto simp: Split_no_sep Split_append_sep)

lemma Join_Split: "Join [c] (Split c s) = s"
  by (induction s) (auto split: list.splits elim: Join.elims)

section \<open>Package strconv\<close>

definition digit :: "nat \<Rightarrow> char" where
  "digit n = ''0123456789'' ! n"

fun digits :: "nat \<Rightarrow> string" where
  "digits n = (if n < 10 then [digit n] else digits (n div 10) @ [digit (n mod 10)])"

declare digits.simps [simp del]

text \<open>\<open>strconv.Itoa\<close>, also \<open>%d\<close> of an integer.\<close>

definition Itoa :: "int \<Rightarrow> string" where
  "Itoa i = (if i < 0 then ''-'' @ digits (nat (- i)) else digits (nat i))"

text \<open>
  \<open>strconv.Atoi\<close>: the number and whether there was no error; the number is 0 after a syntax error and
  the nearest bound after a range error.
\<close>

fun digitsValue :: "nat \<Rightarrow> string \<Rightarrow> nat option" where
  "digitsValue acc [] = Some acc"
| "digitsValue acc (c # cs) =
     (let d = (of_char c :: nat) in
      if 48 \<le> d \<and> d \<le> 57 then digitsValue (acc * 10 + (d - 48)) cs else None)"

definition boundedInt :: "int \<Rightarrow> int \<times> bool" where
  "boundedInt i = (if i \<ge> 2 ^ 63 then (2 ^ 63 - 1, False) else if i < - (2 ^ 63) then (- (2 ^ 63), False)
     else (i, True))"

definition unsignedPart :: "string \<Rightarrow> nat option" where
  "unsignedPart s = (if s = [] then None else digitsValue 0 s)"

definition Atoi :: "string \<Rightarrow> int \<times> bool" where
  "Atoi s =
     (let neg = (take 1 s = ''-''); rest = (if take 1 s = ''-'' \<or> take 1 s = ''+'' then drop 1 s else s)
      in case unsignedPart rest of
           None \<Rightarrow> (0, False)
         | Some n \<Rightarrow> boundedInt (if neg then - int n else int n))"

lemma of_char_digit: "n < 10 \<Longrightarrow> (of_char (digit n) :: nat) = 48 + n"
proof -
  assume "n < 10"
  then have "n \<in> {0, 1, 2, 3, 4, 5, 6, 7, 8, 9}" by auto
  then show ?thesis by (auto simp: digit_def)
qed

lemma digitsValue_append:
  "digitsValue acc (xs @ ys) = Option.bind (digitsValue acc xs) (\<lambda>v. digitsValue v ys)"
  by (induction acc xs rule: digitsValue.induct) (auto simp: Let_def)

lemma digits_not_Nil [simp]: "digits n \<noteq> []"
  by (subst digits.simps) simp

lemma digitsValue_digits: "digitsValue 0 (digits n) = Some n"
proof (induction n rule: digits.induct)
  case (1 n)
  then show ?case
    by (subst digits.simps) (auto simp: digitsValue_append of_char_digit Let_def)
qed

lemma hd_digits: "hd (digits n) \<in> digit ` {..<10}"
proof (induction n rule: digits.induct)
  case (1 n)
  then show ?case
    by (subst digits.simps) (auto simp: hd_append)
qed

lemma digit_no_sign: "n < 10 \<Longrightarrow> digit n \<noteq> CHR ''-'' \<and> digit n \<noteq> CHR ''+''"
  using of_char_digit [of n] by auto

text \<open>A number survives being written and read back.\<close>

lemma Atoi_Itoa:
  assumes "- (2 ^ 63) \<le> i" "i < 2 ^ 63"
  shows "Atoi (Itoa i) = (i, True)"
proof -
  have nosign: "take 1 (digits n) \<noteq> ''-'' \<and> take 1 (digits n) \<noteq> ''+''" for n
    using hd_digits [of n] digit_no_sign by (cases "digits n") auto
  show ?thesis
    using nosign assms
    by (auto simp: Atoi_def Itoa_def unsignedPart_def digitsValue_digits boundedInt_def Let_def)
qed

text \<open>\<open>%t\<close> of a boolean.\<close>

definition show_bool :: "bool \<Rightarrow> string" where
  "show_bool b = (if b then ''true'' else ''false'')"

section \<open>Integers of the language\<close>

text \<open>
  Go's \<open>int\<close> has 64 bits on the platforms ekco is built for. The program's counters stay far
  below that bound, so an \<open>int\<close> of the code is an HOL \<open>int\<close>; only where the code converts to
  or from \<open>uint\<close> is the width visible, and the conversions are these two.
\<close>

type_synonym uint = "64 word"

definition to_uint :: "int \<Rightarrow> uint" where
  "to_uint i = word_of_int i"

definition of_uint :: "uint \<Rightarrow> int" where
  "of_uint w = sint w"

lemma of_uint_to_uint: "- (2 ^ 63) \<le> i \<Longrightarrow> i < 2 ^ 63 \<Longrightarrow> of_uint (to_uint i) = i"
  unfolding of_uint_def to_uint_def
  by (simp add: sint_sbintrunc' signed_take_bit_int_eq_self)

lemma to_uint_of_uint [simp]: "to_uint (of_uint w) = w"
  by (simp add: of_uint_def to_uint_def)

section \<open>Maps\<close>

text \<open>
  A Go map is an association list with distinct keys. Reading a missing key gives the zero
  value; the loops of the program over such maps do not depend on the order, except where a
  definition takes the order as an argument.
\<close>

definition index_map :: "(string \<times> string) list \<Rightarrow> string \<Rightarrow> string" where
  "index_map m k = (case map_of m k of None \<Rightarrow> '''' | Some v \<Rightarrow> v)"

fun store_map :: "(string \<times> 'v) list \<Rightarrow> string \<Rightarrow> 'v \<Rightarrow> (string \<times> 'v) list" where
  "store_map [] k v = [(k, v)]"
| "store_map ((k', v') # m) k v =
     (if k' = k then (k, v) # m else (k', v') # store_map m k v)"

definition delete_map :: "(string \<times> 'v) list \<Rightarrow> string \<Rightarrow> (string \<times> 'v) list" where
  "delete_map m k = filter (\<lambda>(k', _). k' \<noteq> k) m"

lemma map_of_store_map [simp]: "map_of (store_map m k v) = (map_of m)(k \<mapsto> v)"
  by (induction m k v rule: store_map.induct) auto

lemma map_of_delete_map [simp]: "map_of (delete_map m k) = (map_of m)(k := None)"
  unfolding delete_map_def by (induction m) auto

lemma index_map_store_map [simp]:
  "index_map (store_map m k v) k' = (if k' = k then v else index_map m k')"
  by (simp add: index_map_def)

section \<open>Durations\<close>

text \<open>A \<open>time.Duration\<close> counts nanoseconds, and so do the clock readings of the model.\<close>

definition Second :: int where "Second = 1000000000"
definition Minute :: int where "Minute = 60 * Second"

end
