(* ===== verification/GoError.thy ===== *)
theory GoError
  imports Prelude
begin

text \<open>
  Go's \<open>error\<close> values as the program builds and inspects them (\<open>src/pkg/util/errors.go\<close> and
  the calls of \<open>errors.Wrap\<close>, \<open>errors.Wrapf\<close>, \<open>fmt.Errorf\<close> and \<open>multierror.Append\<close>), and
  results as a sum of an error and a value. A Kubernetes API error carries the status reason by
  which the client library classifies it.
\<close>

datatype api_reason = NotFound | AlreadyExists | OtherReason

text \<open>
  \<open>ApiErr\<close> is an error status of the Kubernetes API, \<open>NewErr\<close> an error made from a text,
  \<open>Wrap\<close> the result of \<open>errors.Wrap\<close> and \<open>errors.Wrapf\<close>, \<open>WrapW\<close> the result of
  \<open>fmt.Errorf\<close> with the verb \<open>%w\<close>, \<open>Flat\<close> the result of \<open>fmt.Errorf\<close> with the verb
  \<open>%v\<close> (the text of the cause is kept, the cause is not), \<open>Multi\<close> a \<open>multierror.Error\<close>,
  \<open>Sentinel\<close> a package-level error variable that callers compare with. Two constructors are not
  error values of Go but ways not to return: \<open>Panic\<close> is a run-time panic, which unwinds the whole
  operation, and \<open>Running\<close> stands for a waiting loop that has not ended within the number of
  rounds the model follows it (\<open>loopBound\<close> of the environment).
\<close>

datatype go_error =
    ApiErr api_reason string
  | NewErr string
  | Wrap string go_error
  | WrapW string go_error
  | Flat string go_error
  | Multi "go_error list"
  | Sentinel string
  | Panic string
  | Running

type_synonym 'a res = "go_error + 'a"

section \<open>Classification: src/pkg/util/errors.go\<close>

text \<open>\<open>errors.As\<close> follows the chain of causes; a \<open>multierror.Error\<close> offers its members.\<close>

fun has_reason :: "api_reason \<Rightarrow> go_error \<Rightarrow> bool" where
  "has_reason r (ApiErr r' _) = (r' = r)"
| "has_reason r (NewErr _) = False"
| "has_reason r (Wrap _ e) = has_reason r e"
| "has_reason r (WrapW _ e) = has_reason r e"
| "has_reason r (Flat _ _) = False"
| "has_reason r (Multi es) = list_ex (has_reason r) es"
| "has_reason r (Sentinel _) = False"
| "has_reason r (Panic _) = False"
| "has_reason r Running = False"

definition IsNotFoundErr :: "go_error \<Rightarrow> bool" where
  "IsNotFoundErr e = has_reason NotFound e"

definition IsAlreadyExists :: "go_error \<Rightarrow> bool" where
  "IsAlreadyExists e = has_reason AlreadyExists e"

text \<open>\<open>errors.Cause\<close> of \<open>pkg/errors\<close> unwraps what \<open>errors.Wrap\<close> wrapped, and nothing else.\<close>

fun Cause :: "go_error \<Rightarrow> go_error" where
  "Cause (Wrap _ e) = Cause e"
| "Cause e = e"

definition FilterOutErr :: "go_error \<Rightarrow> (go_error \<Rightarrow> bool) \<Rightarrow> go_error option" where
  "FilterOutErr err match = (let c = Cause err in if match c then None else Some c)"

definition FilterOutReasonNotFoundErr :: "go_error \<Rightarrow> go_error option" where
  "FilterOutReasonNotFoundErr err = FilterOutErr err IsNotFoundErr"

text \<open>The operation did not return to its caller.\<close>

fun is_panic :: "go_error \<Rightarrow> bool" where
  "is_panic (Panic _) = True"
| "is_panic Running = True"
| "is_panic (Wrap _ e) = is_panic e"
| "is_panic (WrapW _ e) = is_panic e"
| "is_panic (Flat _ e) = is_panic e"
| "is_panic _ = False"

lemma IsNotFoundErr_simps [simp]:
  "IsNotFoundErr (ApiErr r m) = (r = NotFound)"
  "IsNotFoundErr (NewErr m) = False"
  "IsNotFoundErr (Wrap m e) = IsNotFoundErr e"
  "IsNotFoundErr (WrapW m e) = IsNotFoundErr e"
  "IsNotFoundErr (Flat m e) = False"
  "IsNotFoundErr (Sentinel m) = False"
  "IsNotFoundErr (Panic m) = False"
  "IsNotFoundErr Running = False"
  by (simp_all add: IsNotFoundErr_def)

lemma IsAlreadyExists_simps [simp]:
  "IsAlreadyExists (ApiErr r m) = (r = AlreadyExists)"
  "IsAlreadyExists (NewErr m) = False"
  "IsAlreadyExists (Wrap m e) = IsAlreadyExists e"
  "IsAlreadyExists (WrapW m e) = IsAlreadyExists e"
  "IsAlreadyExists (Flat m e) = False"
  "IsAlreadyExists (Sentinel m) = False"
  "IsAlreadyExists (Panic m) = False"
  "IsAlreadyExists Running = False"
  by (simp_all add: IsAlreadyExists_def)

text \<open>The cause of an error is classified as the error itself.\<close>

lemma has_reason_Cause [simp]: "has_reason r (Cause e) = has_reason r e"
  by (induction e) auto

lemma IsNotFoundErr_Cause [simp]: "IsNotFoundErr (Cause e) = IsNotFoundErr e"
  by (simp add: IsNotFoundErr_def)

lemma FilterOutReasonNotFoundErr_None_iff:
  "FilterOutReasonNotFoundErr e = None \<longleftrightarrow> IsNotFoundErr e"
  by (simp add: FilterOutReasonNotFoundErr_def FilterOutErr_def Let_def)

section \<open>Wrapping and accumulating\<close>

text \<open>
  \<open>errors.Wrap (err, msg)\<close> of a nil error is nil. The program relies on it in
  \<open>purgeNode\<close>, and trips over it where it wraps an error it has just checked to be nil.
  An \<open>error\<close> variable that may be nil is an option.
\<close>

definition wrap_nilable :: "go_error option \<Rightarrow> string \<Rightarrow> go_error option" where
  "wrap_nilable err msg = map_option (Wrap msg) err"

lemma wrap_nilable_simps [simp]:
  "wrap_nilable None msg = None"
  "wrap_nilable (Some e) msg = Some (Wrap msg e)"
  by (simp_all add: wrap_nilable_def)

definition err_of :: "'a res \<Rightarrow> go_error option" where
  "err_of r = (case r of Inl e \<Rightarrow> Some e | Inr _ \<Rightarrow> None)"

definition res_of :: "go_error option \<Rightarrow> unit res" where
  "res_of o1 = (case o1 of None \<Rightarrow> Inr () | Some e \<Rightarrow> Inl e)"

lemma err_of_simps [simp]: "err_of (Inl e) = Some e" "err_of (Inr x) = None"
  by (simp_all add: err_of_def)

lemma res_of_simps [simp]: "res_of None = Inr ()" "res_of (Some e) = Inl e"
  by (simp_all add: res_of_def)

definition map_err :: "(go_error \<Rightarrow> go_error) \<Rightarrow> 'a res \<Rightarrow> 'a res" where
  "map_err f r = (case r of Inl e \<Rightarrow> Inl (f e) | Inr x \<Rightarrow> Inr x)"

lemma map_err_simps [simp]: "map_err f (Inl e) = Inl (f e)" "map_err f (Inr x) = Inr x"
  by (simp_all add: map_err_def)

lemma map_err_Inr_iff [simp]: "map_err f r = Inr x \<longleftrightarrow> r = Inr x"
  by (cases r) auto

text \<open>
  \<open>multierror.Append\<close>: the accumulated value is nil or a \<open>multierror.Error\<close>, here the
  list of its members; an appended \<open>multierror.Error\<close> is flattened.
\<close>

definition multi_append :: "go_error list \<Rightarrow> go_error \<Rightarrow> go_error list" where
  "multi_append acc e = (case e of Multi es \<Rightarrow> acc @ es | _ \<Rightarrow> acc @ [e])"

definition multi_res :: "go_error list \<Rightarrow> unit res" where
  "multi_res acc = (if acc = [] then Inr () else Inl (Multi acc))"

definition append_err :: "go_error list \<Rightarrow> (go_error \<Rightarrow> go_error) \<Rightarrow> 'a res \<Rightarrow> go_error list" where
  "append_err acc w r = (case r of Inl e \<Rightarrow> multi_append acc (w e) | Inr _ \<Rightarrow> acc)"

lemma append_err_simps [simp]:
  "append_err acc w (Inr x) = acc"
  "append_err acc w (Inl e) = multi_append acc (w e)"
  by (simp_all add: append_err_def)

lemma multi_append_not_Nil: "e \<noteq> Multi [] \<Longrightarrow> multi_append acc e \<noteq> []"
  by (cases e) (auto simp: multi_append_def)

lemma multi_append_Wrap [simp]: "multi_append acc (Wrap m e) = acc @ [Wrap m e]"
  by (simp add: multi_append_def)

lemma multi_res_simps [simp]:
  "multi_res [] = Inr ()" "multi_res (e # es) = Inl (Multi (e # es))"
  "multi_res (es @ [e]) = Inl (Multi (es @ [e]))"
  by (simp_all add: multi_res_def)

lemma multi_res_Inr_iff: "multi_res acc = Inr () \<longleftrightarrow> acc = []"
  by (simp add: multi_res_def)

section \<open>The text of an error\<close>

text \<open>\<open>err.Error ()\<close>; the constructors with a cause put a colon between their message and its text.\<close>

fun errorText :: "go_error \<Rightarrow> string" where
  "errorText (ApiErr _ m) = m"
| "errorText (NewErr m) = m"
| "errorText (Wrap m e) = m @ '': '' @ errorText e"
| "errorText (WrapW m e) = m @ '': '' @ errorText e"
| "errorText (Flat m e) = m @ '': '' @ errorText e"
| "errorText (Multi es) =
     (if length es = 1 then ''1 error occurred:'' else Itoa (int (length es)) @ '' errors occurred:'') @
     concat (map (\<lambda>e. NL @ [CHR 0x09] @ ''* '' @ errorText e) es) @ NL @ NL"
| "errorText (Sentinel m) = m"
| "errorText (Panic m) = m"
| "errorText Running = ''''"

text \<open>\<open>errors.Is\<close> of the standard library with a package-level variable.\<close>

fun errorsIs :: "go_error \<Rightarrow> string \<Rightarrow> bool" where
  "errorsIs (Sentinel m') m = (m' = m)"
| "errorsIs (Wrap _ e) m = errorsIs e m"
| "errorsIs (WrapW _ e) m = errorsIs e m"
| "errorsIs (Multi es) m = list_ex (\<lambda>e. errorsIs e m) es"
| "errorsIs _ m = False"

end
