(* ===== verification/Kube.thy ===== *)
theory Kube
  imports GoError
begin

text \<open>
  The data the program exchanges with the cluster. The records hold the fields of the
  Kubernetes, Rook, Prometheus and Velero objects that the program reads or writes (the field
  each stands for is named beside it); an update of an object leaves every other field of it
  as it was read, so a field the program never touches needs no model. A \<open>request\<close> is one call
  on the cluster (or on the host or the clock), a \<open>response\<close> its outcome. What the cluster
  answers is the argument \<open>env\<close> of the program (record \<open>env\<close>): a function of the requests
  sent so far and of the current one, so it can be any server, with any faults, and can change
  its mind between two equal requests.
\<close>

section \<open>Objects\<close>

record taint =
  taintKey :: string
  taintTimeAdded :: "int option" \<comment> \<open>\<open>TimeAdded\<close>: \<open>None\<close> when nil or the zero time\<close>

record node =
  nodeName :: string
  nodeLabels :: "(string \<times> string) list"
  nodeTaints :: "taint list" \<comment> \<open>\<open>Spec.Taints\<close>\<close>
  nodeAddresses :: "(string \<times> string) list" \<comment> \<open>\<open>Status.Addresses\<close>: type and address\<close>

record condition =
  condType :: string
  condStatus :: string
  condReason :: string
  condMessage :: string
  condLastTransitionTime :: int

record container_status =
  csName :: string
  csReady :: bool
  csRunningStartedAt :: "int option" \<comment> \<open>\<open>State.Running.StartedAt\<close>: \<open>None\<close> when not running\<close>

record container =
  ctrName :: string
  ctrImage :: string
  ctrCommand :: "string list"
  ctrArgs :: "string list"
  ctrMounts :: "(string \<times> string) list" \<comment> \<open>volume name and mount path\<close>
  ctrEnvFields :: "(string \<times> string) list" \<comment> \<open>environment variables set from a field path\<close>
  ctrWorkingDir :: string
  ctrImagePullPolicy :: string
  ctrPrivileged :: bool

record pod =
  podName :: string
  podGenerateName :: string
  podNamespace :: string
  podLabels :: "(string \<times> string) list"
  podAnnotations :: "(string \<times> string) list"
  podDeletionTimestamp :: "int option"
  podNodeSelector :: "(string \<times> string) list"
  podTolerations :: "string list" \<comment> \<open>keys tolerated with effect NoSchedule, operator Exists\<close>
  podInitContainers :: "container list"
  podContainers :: "container list"
  podVolumeClaims :: "string option list" \<comment> \<open>the PVC name of each volume, \<open>None\<close> for other volumes\<close>
  podHostPaths :: "(string \<times> string) list" \<comment> \<open>host path volumes: name and path\<close>
  podRestartPolicy :: string
  podPhase :: string
  podConditions :: "condition list"
  podContainerStatuses :: "container_status list"
  podPodIP :: string
  podHostIP :: string

record deployment =
  depName :: string
  depLabels :: "(string \<times> string) list"
  depNodeSelector :: "(string \<times> string) list" \<comment> \<open>\<open>Spec.Template.Spec.NodeSelector\<close>\<close>
  depPriorityClassName :: string \<comment> \<open>\<open>Spec.Template.Spec.PriorityClassName\<close>\<close>
  depContainers :: "container list" \<comment> \<open>\<open>Spec.Template.Spec.Containers\<close>\<close>
  depTemplateAnnotations :: "(string \<times> string) list"
  depReplicas :: int \<comment> \<open>the five counters of \<open>Status\<close>\<close>
  depReadyReplicas :: int
  depAvailableReplicas :: int
  depUnavailableReplicas :: int
  depUpdatedReplicas :: int

record statefulset =
  stsName :: string
  stsAnnotations :: "(string \<times> string) list"
  stsSpecReplicas :: "int option" \<comment> \<open>\<open>Spec.Replicas\<close>, a pointer\<close>
  stsContainers :: "container list"
  stsTemplateAnnotations :: "(string \<times> string) list"
  stsReplicas :: int
  stsReadyReplicas :: int
  stsAvailableReplicas :: int
  stsUpdatedReplicas :: int

record daemonset =
  dsName :: string
  dsPriorityClassName :: string
  dsTemplateAnnotations :: "(string \<times> string) list"
  dsNumberUnavailable :: int

record configmap =
  cmName :: string
  cmNamespace :: string
  cmData :: "(string \<times> string) list"

record secret =
  secName :: string
  secData :: "(string \<times> string) list"

record service =
  svcName :: string
  svcSelector :: "(string \<times> string) list"
  svcPorts :: "(int \<times> int) list" \<comment> \<open>port and target port\<close>
  svcClusterIP :: string

record csr =
  csrName :: string
  csrSignerName :: string
  csrConditions :: "condition list"
  csrCertificate :: string

record storageclass =
  scName :: string
  scAnnotations :: "(string \<times> string) list"

text \<open>A node entry of a CephCluster's storage list; \<open>cnRest\<close> is the rest of the entry, kept as read.\<close>

record cephnode =
  cnName :: string
  cnRest :: string

record cephcluster =
  ccStorageNodes :: "cephnode list" \<comment> \<open>\<open>Spec.Storage.Nodes\<close>\<close>
  ccMonCount :: int
  ccMgrCount :: int
  ccImage :: string \<comment> \<open>\<open>Spec.CephVersion.Image\<close>\<close>
  ccStatusVersion :: "string option" \<comment> \<open>\<open>Status.CephVersion.Version\<close>, \<open>None\<close> when nil\<close>
  ccPhase :: string
  ccHealth :: "string option" \<comment> \<open>\<open>Status.CephStatus.Health\<close>, \<open>None\<close> when nil\<close>

record cephblockpool =
  bpName :: string
  bpReplicatedSize :: uint

record cephfilesystem =
  fsName :: string
  fsDataPools :: "uint list" \<comment> \<open>the replicated size of each data pool\<close>
  fsMetadataPool :: uint
  fsPreferredAntiAffinity :: "nat option" \<comment> \<open>number of preferred pod anti-affinity terms of the metadata
    server, \<open>None\<close> when \<open>PodAntiAffinity\<close> is nil\<close>
  fsGeneration :: int

record cephobjectstore =
  osName :: string
  osDataPool :: uint
  osMetadataPool :: uint

record backup_storage_location =
  bslName :: string
  bslConfig :: "(string \<times> string) list" \<comment> \<open>\<open>Spec.Config\<close>\<close>

record backup_repository =
  brName :: string
  brResticIdentifier :: string

record cephobjectstoreuser =
  osuName :: string
  osuNamespace :: string
  osuStore :: string
  osuDisplayName :: string

text \<open>
  The parts of an X.509 certificate the program reads or sets. The algorithm is the kind of the
  public key and its size in bits or the name of its curve.
\<close>

datatype public_key = RSAKey nat | ECDSAKey string | OtherKey string

record x509 =
  xSubjectCommonName :: string
  xSubjectOrganization :: "string list"
  xIssuerCommonName :: string
  xDNSNames :: "string list"
  xIPAddresses :: "string list"
  xExtKeyUsage :: "nat list"
  xNotBefore :: int
  xNotAfter :: int
  xSerialNumber :: int
  xKeyUsage :: nat
  xBasicConstraintsValid :: bool
  xIsCA :: bool
  xPublicKey :: public_key

text \<open>
  What a certificate is made from (\<open>certConfig\<close> of \<open>src/pkg/cluster/registry_cert.go\<close>, and the
  \<open>CertConfig\<close> of kubeadm, which has no \<open>NotBefore\<close>).
\<close>

record certConfig =
  CommonName :: string
  Organization :: "string list"
  AltNamesIPs :: "string list"
  AltNamesDNSNames :: "string list"
  Usages :: "nat list"
  NotBefore :: "int option"
  NotAfter :: "int option"
  PublicKeyAlgorithm :: string

text \<open>
  A Prometheus or Alertmanager resource, read without a schema: \<open>None\<close> when \<open>spec\<close> is not an
  object, \<open>Some None\<close> when \<open>spec.replicas\<close> is not an integer.
\<close>

record monitoring =
  monSpecReplicas :: "int option option"

record priorityclass =
  pcName :: string
  pcValue :: int
  pcDescription :: string

record webhook_rule =
  ruleAPIGroups :: "string list"
  ruleAPIVersions :: "string list"
  ruleResources :: "string list"
  ruleOperations :: "string list"

record mutating_webhook =
  mwName :: string
  mwMatchPolicy :: string
  mwFailurePolicy :: string
  mwSideEffects :: string
  mwTimeoutSeconds :: int
  mwAdmissionReviewVersions :: "string list"
  mwNamespaceSelectorExists :: "string list" \<comment> \<open>keys required to exist on the namespace\<close>
  mwRules :: "webhook_rule list"
  mwServiceNamespace :: string
  mwServiceName :: string
  mwServicePath :: string
  mwServicePort :: int
  mwCABundle :: string

record mutating_webhook_configuration =
  mwcName :: string
  mwcWebhooks :: "mutating_webhook list"

text \<open>A client configuration file: the address of the server of each cluster, and the rest of it.\<close>

record kubeconf =
  kcClusters :: "(string \<times> string) list"
  kcRest :: string

text \<open>The values of a Helm chart, as decoded from YAML.\<close>

datatype yaml_value =
    YNull
  | YString string
  | YMap "(string \<times> yaml_value) list"
  | YOther string

datatype obj =
    ObjNode node
  | ObjPod pod
  | ObjNamespace string
  | ObjDeployment deployment
  | ObjStatefulSet statefulset
  | ObjDaemonSet daemonset
  | ObjConfigMap configmap
  | ObjSecret secret
  | ObjService service
  | ObjCSR csr
  | ObjStorageClass storageclass
  | ObjCephCluster cephcluster
  | ObjCephBlockPool cephblockpool
  | ObjCephFilesystem cephfilesystem
  | ObjCephObjectStore cephobjectstore
  | ObjCephObjectStoreUser cephobjectstoreuser
  | ObjMonitoring monitoring
  | ObjBackupStorageLocation backup_storage_location
  | ObjBackupRepository backup_repository
  | ObjPriorityClass priorityclass
  | ObjMutatingWebhookConfiguration mutating_webhook_configuration

datatype kind =
    Nodes | Pods | Namespaces | Deployments | StatefulSets | DaemonSets | ConfigMaps | Secrets
  | Services | PersistentVolumeClaims | CertificateSigningRequests | StorageClasses
  | CephClusters | CephBlockPools | CephFilesystems | CephObjectStores | CephObjectStoreUsers
  | Prometheuses | Alertmanagers | MutatingWebhookConfigurations | PriorityClasses
  | BackupStorageLocations | BackupRepositories

section \<open>Patches: src/pkg/k8s/patch.go\<close>

text \<open>
  The \<open>Value\<close> of a patch operation is an interface value; these are the ones the program
  stores in it. \<open>json.Marshal\<close> of the standard library encodes every one of them without an
  error, so a patch is kept as the list of its operations.
\<close>

datatype json_value =
    JUint uint
  | JInt int
  | JBool bool
  | JCephNodes "cephnode list"

record JSONPatchOperation =
  Op :: string
  Path :: string
  Value :: json_value

definition JSONPatchOpAdd :: string where "JSONPatchOpAdd = ''add''"
definition JSONPatchOpRemove :: string where "JSONPatchOpRemove = ''remove''"
definition JSONPatchOpReplace :: string where "JSONPatchOpReplace = ''replace''"

abbreviation replace_op :: "string \<Rightarrow> json_value \<Rightarrow> JSONPatchOperation" where
  "replace_op p v \<equiv> \<lparr>Op = JSONPatchOpReplace, Path = p, Value = v\<rparr>"

datatype patch =
    JSONPatch "JSONPatchOperation list"
  | RawJSONPatch string
  | MergePatch string
  | StrategicMergePatch string

section \<open>Requests and responses\<close>

text \<open>
  The calls of the typed clients: kind, namespace (empty for a cluster-wide resource or for all
  namespaces) and name or selector. \<open>Exec\<close> runs a command in a container, \<open>HttpGet\<close> is
  \<open>http.Get\<close>, \<open>Now\<close> reads the clock, \<open>PollTick\<close> waits for the next tick of a timer or for the end of
  the context, \<open>RandomInt\<close> draws a serial number, \<open>OpenFile\<close> to \<open>FileWrite\<close> are the operations
  on one open file, \<open>HelmInit\<close>, \<open>HelmList\<close> and \<open>HelmInstall\<close> (namespace, chart, release, values)
  those of the Helm library, \<open>ObjectStoreCall\<close> is a call of the object store client (endpoint, operation,
  arguments), \<open>RenewCall\<close> a call of kubeadm's certificate renewal manager; the others name their
  call.
\<close>

datatype store_op =
    StoreNew | ListBuckets | BucketExists | MakeBucket | ListObjects | GetObject | PutObject

datatype request =
    Get kind string string
  | ListReq kind string string
  | Create kind string obj
  | Update kind string obj
  | Patch kind string string patch
  | Delete kind string string
  | ForceDelete kind string string
  | DeleteCollection kind string string
  | UpdateApproval obj
  | UpdateScale string string int
  | Exec string string string "string list"
  | HttpGet string
  | EtcdConnect "string list"
  | EtcdMemberList
  | EtcdMemberRemove uint
  | ReadFile string
  | GetLogs string string
  | HelmInit string
  | HelmList string
  | HelmInstall string string string "(string \<times> yaml_value) list"
  | LoadCertificateAuthority string string
  | NewPrivateKey string
  | GenerateSelfSignedCertKey string "string list" "string list"
  | GenerateContourCerts string
  | ObjectStoreCall string store_op "string list"
  | PvMigrate string string string
  | Rename string string
  | WriteFile string string
  | MkdirParents string
  | OpenFile string
  | ReadAll string
  | TruncateFile string
  | SeekStart string
  | FileWrite string string
  | RenewCall string string
  | RenewFromCA certConfig x509 string
  | WriteCertAndKey string string x509 string
  | DbusConnect
  | RestartUnit string string
  | RandomInt
  | Now
  | Sleep int
  | PollTick

text \<open>
  How a remote command ends: it exits with status 0, the stream reports an exit code, the
  executor cannot be created, or the stream fails for another reason.
\<close>

datatype exec_end = ExecOK | ExecExit int | ExecCreateErr go_error | ExecStreamErr go_error

text \<open>
  A member of the etcd cluster: \<open>GetID\<close> and \<open>GetPeerURLs\<close>.
\<close>

record etcd_member =
  memberID :: uint
  memberPeerURLs :: "string list"

text \<open>An entry of a listing of a bucket (\<open>minio.ObjectInfo\<close>).\<close>

record object_info =
  oiKey :: string
  oiSize :: int
  oiContentType :: string
  oiContentEncoding :: string

datatype response =
    Done
  | Failed go_error
  | Obj obj
  | Objs "obj list"
  | ExecOut string string exec_end
  | HttpStatus int
  | Members "etcd_member list"
  | Bytes string
  | Strings "string list"
  | ObjectInfos "object_info list"
  | Bool bool
  | Time int
  | CertKey x509 string
  | Number int
  | CtxDone go_error

section \<open>Versions\<close>

text \<open>
  \<open>semver.Version\<close>: the program reads the major number and replaces the pre-release list; it
  compares and parses versions with the library's \<open>LT\<close> and \<open>Parse\<close>, which are arguments of
  the model.
\<close>

datatype prversion = PRNum nat | PRStr string

record semver =
  Major :: nat
  Minor :: nat
  PatchNum :: nat
  Pre :: "prversion list"
  Build :: "string list"

definition mk_version :: "nat \<Rightarrow> nat \<Rightarrow> nat \<Rightarrow> semver" where
  "mk_version ma mi pa = \<lparr>Major = ma, Minor = mi, PatchNum = pa, Pre = [], Build = []\<rparr>"

text \<open>\<open>src/pkg/cluster/controller.go\<close>: the versions the program compares against.\<close>

definition Rookv14 :: semver where "Rookv14 = mk_version 1 4 0"
definition Rookv19 :: semver where "Rookv19 = mk_version 1 9 0"
definition CephPacific :: semver where "CephPacific = mk_version 16 2 0"
definition CephQuincy :: semver where "CephQuincy = mk_version 17 2 0"

end
