(* ===== verification/ClusterStatus.thy ===== *)
theory ClusterStatus
  imports Kube
begin

text \<open>
  The kubeadm ClusterStatus document of \<open>src/pkg/cluster/purge_node.go\<close>: the structures
  \<open>k8s121ClusterStatus\<close> and \<open>k8s121APIEndpoint\<close> with their accessor methods, which read a
  document written with lower-case keys by an earlier release as well as a correct one, and
  \<open>clusterStatusToWrite\<close>, the structure \<open>marshalClusterStatus\<close> builds before it encodes it.
  A Go map that may be nil is an option; \<open>delete\<close> works on the map the accessor returned, which
  is shared with the structure, so \<open>deleteEndpoint\<close> changes the field the accessor chose.
\<close>

type_synonym int32 = "32 word"

record k8s121APIEndpoint =
  AdvertiseAddress :: string
  AdvertiseAddressLC :: string
  BindPort :: int32
  BindPortLC :: int32

type_synonym endpoints = "(string \<times> k8s121APIEndpoint) list"

record k8s121ClusterStatus =
  TypeMetaKind :: string
  TypeMetaAPIVersion :: string
  Kind :: string
  APIVersion :: string
  APIEndpoints :: "endpoints option"
  APIEndpointsLC :: "endpoints option"

definition advertiseAddress :: "k8s121APIEndpoint \<Rightarrow> string" where
  "advertiseAddress k =
     (if AdvertiseAddressLC k \<noteq> '''' then AdvertiseAddressLC k else AdvertiseAddress k)"

definition bindPort :: "k8s121APIEndpoint \<Rightarrow> int32" where
  "bindPort k = (if BindPortLC k \<noteq> 0 then BindPortLC k else BindPort k)"

definition cs_kind :: "k8s121ClusterStatus \<Rightarrow> string" where
  "cs_kind k = (if TypeMetaKind k \<noteq> '''' then TypeMetaKind k else Kind k)"

definition apiVersion :: "k8s121ClusterStatus \<Rightarrow> string" where
  "apiVersion k = (if TypeMetaAPIVersion k \<noteq> '''' then TypeMetaAPIVersion k else APIVersion k)"

definition apiEndpoints :: "k8s121ClusterStatus \<Rightarrow> endpoints option" where
  "apiEndpoints k = (if APIEndpointsLC k \<noteq> None then APIEndpointsLC k else APIEndpoints k)"

definition isMalformed :: "k8s121ClusterStatus \<Rightarrow> bool" where
  "isMalformed k \<longleftrightarrow> TypeMetaKind k \<noteq> '''' \<or> TypeMetaAPIVersion k \<noteq> ''''"

definition deleteEndpoint :: "k8s121ClusterStatus \<Rightarrow> string \<Rightarrow> k8s121ClusterStatus" where
  "deleteEndpoint k name =
     (if APIEndpointsLC k \<noteq> None
      then k\<lparr>APIEndpointsLC := map_option (\<lambda>m. delete_map m name) (APIEndpointsLC k)\<rparr>
      else k\<lparr>APIEndpoints := map_option (\<lambda>m. delete_map m name) (APIEndpoints k)\<rparr>)"

definition canonicalEndpoint :: "k8s121APIEndpoint \<Rightarrow> k8s121APIEndpoint" where
  "canonicalEndpoint v =
     \<lparr>AdvertiseAddress = advertiseAddress v, AdvertiseAddressLC = '''',
      BindPort = bindPort v, BindPortLC = 0\<rparr>"

definition clusterStatusToWrite :: "k8s121ClusterStatus \<Rightarrow> k8s121ClusterStatus" where
  "clusterStatusToWrite k =
     (let apiEndpointsCopy =
            map (\<lambda>(n, v). (n, canonicalEndpoint v))
              (case apiEndpoints k of None \<Rightarrow> [] | Some m \<Rightarrow> m)
      in \<lparr>TypeMetaKind = '''', TypeMetaAPIVersion = '''', Kind = cs_kind k,
          APIVersion = apiVersion k, APIEndpoints = Some apiEndpointsCopy,
          APIEndpointsLC = None\<rparr>)"

text \<open>The endpoints of a document as the program sees them: each name with its address and port.\<close>

definition endpointView :: "k8s121ClusterStatus \<Rightarrow> string \<Rightarrow> (string \<times> int32) option" where
  "endpointView k name =
     map_option (\<lambda>v. (advertiseAddress v, bindPort v))
       (map_of (case apiEndpoints k of None \<Rightarrow> [] | Some m \<Rightarrow> m) name)"

section \<open>What writing and deleting keep\<close>

lemma canonicalEndpoint_view [simp]:
  "advertiseAddress (canonicalEndpoint v) = advertiseAddress v"
  "bindPort (canonicalEndpoint v) = bindPort v"
  "canonicalEndpoint (canonicalEndpoint v) = canonicalEndpoint v"
  by (simp_all add: canonicalEndpoint_def advertiseAddress_def bindPort_def)

lemma apiEndpoints_toWrite:
  "apiEndpoints (clusterStatusToWrite k) =
     Some (map (\<lambda>(n, v). (n, canonicalEndpoint v))
       (case apiEndpoints k of None \<Rightarrow> [] | Some m \<Rightarrow> m))"
  by (simp add: clusterStatusToWrite_def apiEndpoints_def Let_def)

lemma map_of_canonical:
  "map_of (map (\<lambda>(n, v). (n, canonicalEndpoint v)) m) x =
     map_option canonicalEndpoint (map_of m x)"
  by (induction m) auto

lemma endpointView_toWrite: "endpointView (clusterStatusToWrite k) = endpointView k"
  by (rule ext) (simp add: endpointView_def apiEndpoints_toWrite map_of_canonical
    option.map_comp comp_def)

lemma toWrite_wellformed: "\<not> isMalformed (clusterStatusToWrite k)"
  by (simp add: isMalformed_def clusterStatusToWrite_def Let_def)

lemma toWrite_header:
  "cs_kind (clusterStatusToWrite k) = cs_kind k"
  "apiVersion (clusterStatusToWrite k) = apiVersion k"
  by (simp_all add: clusterStatusToWrite_def cs_kind_def apiVersion_def Let_def)

lemma toWrite_idem: "clusterStatusToWrite (clusterStatusToWrite k) = clusterStatusToWrite k"
  by (simp add: clusterStatusToWrite_def [of "clusterStatusToWrite k"] Let_def toWrite_header
    apiEndpoints_toWrite comp_def split_def)
    (simp add: clusterStatusToWrite_def Let_def split_def)

lemma apiEndpoints_delete:
  "apiEndpoints (deleteEndpoint k name) =
     map_option (\<lambda>m. delete_map m name) (apiEndpoints k)"
  by (auto simp: apiEndpoints_def deleteEndpoint_def)

lemma endpointView_delete:
  "endpointView (deleteEndpoint k name) = (endpointView k)(name := None)"
  by (rule ext) (auto simp: endpointView_def apiEndpoints_delete split: option.splits)

end
