(* ===== verification/Program.thy ===== *)
theory Program
  imports ClusterStatus
begin

text \<open>
  How the program runs. The state of the process (\<open>proc\<close>) is the list of the requests it has
  sent, and its package-level variables: the pause flags of \<open>src/pkg/ekcoops/overrides\<close>, the
  mutex \<open>minioMutex\<close> of \<open>src/pkg/ekcoops/operator.go\<close> and the migration status and log of
  \<open>src/pkg/migrate/storage.go\<close>. A function of the program is a computation in the state monad
  of the library over this state, its result a sum of an error and a value. \<open>env\<close> holds what is
  not code of the repository: the answers of the cluster and the pure functions of third-party
  packages. Log output is left out. The rules at the end show which requests a program can send
  (\<open>emits\<close>) and compute the weakest precondition of a program (\<open>wp\<close>).
\<close>

section \<open>Environment and process state\<close>

record env =
  respond :: "request list \<Rightarrow> request \<Rightarrow> response"
  semver_LT :: "semver \<Rightarrow> semver \<Rightarrow> bool"
  semver_Parse :: "string \<Rightarrow> semver res"
  yaml_Unmarshal :: "string \<Rightarrow> k8s121ClusterStatus res"
  yaml_Marshal :: "k8s121ClusterStatus \<Rightarrow> string res"
  APIEndpointFromString :: "string \<Rightarrow> string res" \<comment> \<open>the \<open>AdvertiseAddress\<close> of the endpoint\<close>
  ParseCertsPEM :: "string \<Rightarrow> x509 list res"
  CreateCertificate :: "x509 \<Rightarrow> x509 \<Rightarrow> string \<Rightarrow> string \<Rightarrow> x509 res" \<comment> \<open>template, authority,
    key to certify, key of the authority; the certificate as \<open>ParseCertificate\<close> reads it back\<close>
  EncodeCertificates :: "x509 \<Rightarrow> string res"
  MarshalPrivateKeyToPEM :: "string \<Rightarrow> string res"
  RemoveDuplicateAltNames :: "string list \<Rightarrow> string list"
  AppendCertsFromPEM :: "string \<Rightarrow> bool"
  X509KeyPair :: "string \<Rightarrow> string \<Rightarrow> unit res"
  ParseRFC3339 :: "string \<Rightarrow> int res"
  FormatRFC3339 :: "int \<Rightarrow> string"
  DurationString :: "int \<Rightarrow> string"
  CertificateValidityPeriod :: int \<comment> \<open>a constant of kubeadm, as are the names of its certificates\<close>
  ControllerManagerKubeConfigFileName :: string
  SchedulerKubeConfigFileName :: string
  APIServerEtcdClientCertAndKeyBaseName :: string
  APIServerKubeletClientCertAndKeyBaseName :: string
  FrontProxyClientCertAndKeyBaseName :: string
  ShortHumanDuration :: "int \<Rightarrow> string"
  ParseIP :: "string \<Rightarrow> string option" \<comment> \<open>the canonical text of the address\<close>
  yaml_Pod :: "string \<Rightarrow> pod res"
  clientcmd_Load :: "string \<Rightarrow> kubeconf res"
  clientcmd_Write :: "kubeconf \<Rightarrow> string res"
  chartFiles :: "string list" \<comment> \<open>the names of the files embedded beside \<open>src/pkg/helm/charts/name.go\<close>\<close>
  chartName :: "string \<Rightarrow> string res" \<comment> \<open>\<open>LoadArchive\<close> of such a file, and the name of the chart\<close>
  chartValues :: "(string \<times> yaml_value) list res" \<comment> \<open>\<open>values.yaml\<close>, decoded\<close>
  IntOfNonFinite :: int \<comment> \<open>\<open>int(f)\<close> of an infinite or undefined \<open>float64\<close>, which the language leaves open\<close>
  rangeOrder :: "request list \<Rightarrow> nat \<Rightarrow> string list \<Rightarrow> string list" \<comment> \<open>see \<open>rangeMap\<close>\<close>
  loopBound :: nat \<comment> \<open>how many rounds of a waiting loop are followed\<close>

record proc =
  history :: "request list"
  prometheusPaused :: bool
  minioPaused :: bool
  kotsadmPaused :: bool
  minioMutex :: bool \<comment> \<open>held\<close>
  minioTasks :: nat \<comment> \<open>goroutines started to reconcile MinIO that have not run yet\<close>
  migrationTasks :: nat \<comment> \<open>goroutines started to migrate the storage that have not run yet\<close>
  migrationStatus :: string
  migrationLogs :: string

type_synonym 'a go = "(proc, 'a) state"

abbreviation ret :: "'a \<Rightarrow> 'a go" where "ret \<equiv> State_Monad.return"

abbreviation Ok :: "'a \<Rightarrow> 'a res go" where "Ok x \<equiv> State_Monad.return (Inr x)"

abbreviation Fail :: "go_error \<Rightarrow> 'a res go" where "Fail e \<equiv> State_Monad.return (Inl e)"

definition call :: "env \<Rightarrow> request \<Rightarrow> response go" where
  "call env r = State (\<lambda>s. (respond env (history s) r, s\<lparr>history := history s @ [r]\<rparr>))"

text \<open>\<open>x, err := m; if err != nil { return err }\<close>, and the same with the error wrapped.\<close>

definition bindE :: "'a res go \<Rightarrow> ('a \<Rightarrow> 'b res go) \<Rightarrow> 'b res go" where
  "bindE m f = do { r \<leftarrow> m; case r of Inl e \<Rightarrow> Fail e | Inr x \<Rightarrow> f x }"

definition wrapE :: "string \<Rightarrow> 'a res go \<Rightarrow> 'a res go" where
  "wrapE msg m = do { r \<leftarrow> m; ret (map_err (Wrap msg) r) }"

definition wrapWE :: "string \<Rightarrow> 'a res go \<Rightarrow> 'a res go" where
  "wrapWE msg m = do { r \<leftarrow> m; ret (map_err (WrapW msg) r) }"

definition flatE :: "string \<Rightarrow> 'a res go \<Rightarrow> 'a res go" where
  "flatE msg m = do { r \<leftarrow> m; ret (map_err (Flat msg) r) }"

section \<open>Typed calls\<close>

text \<open>A response of another shape than the call's is a decoding error of the client.\<close>

definition badResponse :: go_error where "badResponse = NewErr ''unexpected response''"

definition as_done :: "response \<Rightarrow> unit res" where
  "as_done r = (case r of Failed e \<Rightarrow> Inl e | _ \<Rightarrow> Inr ())"

definition as_obj :: "(obj \<Rightarrow> 'a option) \<Rightarrow> response \<Rightarrow> 'a res" where
  "as_obj dec r = (case r of
       Failed e \<Rightarrow> Inl e
     | Obj x \<Rightarrow> (case dec x of Some a \<Rightarrow> Inr a | None \<Rightarrow> Inl badResponse)
     | _ \<Rightarrow> Inl badResponse)"

definition as_objs :: "(obj \<Rightarrow> 'a option) \<Rightarrow> response \<Rightarrow> 'a list res" where
  "as_objs dec r = (case r of
       Failed e \<Rightarrow> Inl e
     | Objs xs \<Rightarrow> (if list_all (\<lambda>x. dec x \<noteq> None) xs then Inr (map (the \<circ> dec) xs) else Inl badResponse)
     | _ \<Rightarrow> Inl badResponse)"

definition getObj :: "env \<Rightarrow> (obj \<Rightarrow> 'a option) \<Rightarrow> kind \<Rightarrow> string \<Rightarrow> string \<Rightarrow> 'a res go" where
  "getObj env dec k ns name = do { r \<leftarrow> call env (Get k ns name); ret (as_obj dec r) }"

definition listObjs :: "env \<Rightarrow> (obj \<Rightarrow> 'a option) \<Rightarrow> kind \<Rightarrow> string \<Rightarrow> string \<Rightarrow> 'a list res go" where
  "listObjs env dec k ns sel = do { r \<leftarrow> call env (ListReq k ns sel); ret (as_objs dec r) }"

text \<open>A call that changes the cluster and whose result the program does not read.\<close>

definition send :: "env \<Rightarrow> request \<Rightarrow> unit res go" where
  "send env r = do { x \<leftarrow> call env r; ret (as_done x) }"

definition now :: "env \<Rightarrow> int go" where
  "now env = do { r \<leftarrow> call env Now; ret (case r of Time t \<Rightarrow> t | _ \<Rightarrow> 0) }"

fun dec_node :: "obj \<Rightarrow> node option" where
  "dec_node (ObjNode x) = Some x" | "dec_node _ = None"

fun dec_pod :: "obj \<Rightarrow> pod option" where
  "dec_pod (ObjPod x) = Some x" | "dec_pod _ = None"

fun dec_namespace :: "obj \<Rightarrow> string option" where
  "dec_namespace (ObjNamespace x) = Some x" | "dec_namespace _ = None"

fun dec_deployment :: "obj \<Rightarrow> deployment option" where
  "dec_deployment (ObjDeployment x) = Some x" | "dec_deployment _ = None"

fun dec_statefulset :: "obj \<Rightarrow> statefulset option" where
  "dec_statefulset (ObjStatefulSet x) = Some x" | "dec_statefulset _ = None"

fun dec_daemonset :: "obj \<Rightarrow> daemonset option" where
  "dec_daemonset (ObjDaemonSet x) = Some x" | "dec_daemonset _ = None"

fun dec_configmap :: "obj \<Rightarrow> configmap option" where
  "dec_configmap (ObjConfigMap x) = Some x" | "dec_configmap _ = None"

fun dec_secret :: "obj \<Rightarrow> secret option" where
  "dec_secret (ObjSecret x) = Some x" | "dec_secret _ = None"

fun dec_service :: "obj \<Rightarrow> service option" where
  "dec_service (ObjService x) = Some x" | "dec_service _ = None"

fun dec_csr :: "obj \<Rightarrow> csr option" where
  "dec_csr (ObjCSR x) = Some x" | "dec_csr _ = None"

fun dec_storageclass :: "obj \<Rightarrow> storageclass option" where
  "dec_storageclass (ObjStorageClass x) = Some x" | "dec_storageclass _ = None"

fun dec_cephcluster :: "obj \<Rightarrow> cephcluster option" where
  "dec_cephcluster (ObjCephCluster x) = Some x" | "dec_cephcluster _ = None"

fun dec_cephblockpool :: "obj \<Rightarrow> cephblockpool option" where
  "dec_cephblockpool (ObjCephBlockPool x) = Some x" | "dec_cephblockpool _ = None"

fun dec_cephfilesystem :: "obj \<Rightarrow> cephfilesystem option" where
  "dec_cephfilesystem (ObjCephFilesystem x) = Some x" | "dec_cephfilesystem _ = None"

fun dec_cephobjectstore :: "obj \<Rightarrow> cephobjectstore option" where
  "dec_cephobjectstore (ObjCephObjectStore x) = Some x" | "dec_cephobjectstore _ = None"

fun dec_monitoring :: "obj \<Rightarrow> monitoring option" where
  "dec_monitoring (ObjMonitoring x) = Some x" | "dec_monitoring _ = None"

fun dec_bsl :: "obj \<Rightarrow> backup_storage_location option" where
  "dec_bsl (ObjBackupStorageLocation x) = Some x" | "dec_bsl _ = None"

fun dec_backuprepo :: "obj \<Rightarrow> backup_repository option" where
  "dec_backuprepo (ObjBackupRepository x) = Some x" | "dec_backuprepo _ = None"

fun dec_mwc :: "obj \<Rightarrow> mutating_webhook_configuration option" where
  "dec_mwc (ObjMutatingWebhookConfiguration x) = Some x" | "dec_mwc _ = None"

fun dec_priorityclass :: "obj \<Rightarrow> priorityclass option" where
  "dec_priorityclass (ObjPriorityClass x) = Some x" | "dec_priorityclass _ = None"

text \<open>The requests that change neither the cluster nor the host.\<close>

fun is_read :: "request \<Rightarrow> bool" where
  "is_read (Get _ _ _) = True"
| "is_read (ListReq _ _ _) = True"
| "is_read (HttpGet _) = True"
| "is_read (EtcdConnect _) = True"
| "is_read EtcdMemberList = True"
| "is_read (ReadFile _) = True"
| "is_read (GetLogs _ _) = True"
| "is_read (LoadCertificateAuthority _ _) = True"
| "is_read (NewPrivateKey _) = True"
| "is_read (GenerateSelfSignedCertKey _ _ _) = True"
| "is_read (GenerateContourCerts _) = True"
| "is_read (Sleep _) = True"
| "is_read Now = True"
| "is_read (ObjectStoreCall _ op _) = (op \<notin> {MakeBucket, PutObject})"
| "is_read PollTick = True"
| "is_read RandomInt = True"
| "is_read (OpenFile _) = True"
| "is_read (ReadAll _) = True"
| "is_read DbusConnect = True"
| "is_read (HelmInit _) = True"
| "is_read (HelmList _) = True"
| "is_read _ = False"

section \<open>Running a program\<close>

definition sent :: "'a go \<Rightarrow> proc \<Rightarrow> request list" where
  "sent m s = drop (length (history s)) (history (snd (run_state m s)))"

definition result :: "'a go \<Rightarrow> proc \<Rightarrow> 'a" where
  "result m s = fst (run_state m s)"

definition after :: "'a go \<Rightarrow> proc \<Rightarrow> proc" where
  "after m s = snd (run_state m s)"

lemma run_call [simp]:
  "run_state (call env r) s = (respond env (history s) r, s\<lparr>history := history s @ [r]\<rparr>)"
  by (simp add: call_def)

lemma run_bindE [simp]:
  "run_state (bindE m f) s =
     (case run_state m s of (r, s') \<Rightarrow>
       (case r of Inl e \<Rightarrow> (Inl e, s') | Inr x \<Rightarrow> run_state (f x) s'))"
  by (simp add: bindE_def split: prod.split sum.split)

lemma run_wrap [simp]:
  "run_state (wrapE msg m) s = (case run_state m s of (r, s') \<Rightarrow> (map_err (Wrap msg) r, s'))"
  "run_state (wrapWE msg m) s = (case run_state m s of (r, s') \<Rightarrow> (map_err (WrapW msg) r, s'))"
  "run_state (flatE msg m) s = (case run_state m s of (r, s') \<Rightarrow> (map_err (Flat msg) r, s'))"
  by (simp_all add: wrapE_def wrapWE_def flatE_def)

lemma run_typed [simp]:
  "run_state (getObj env dec k ns name) s =
     (as_obj dec (respond env (history s) (Get k ns name)),
      s\<lparr>history := history s @ [Get k ns name]\<rparr>)"
  "run_state (listObjs env dec k ns sel) s =
     (as_objs dec (respond env (history s) (ListReq k ns sel)),
      s\<lparr>history := history s @ [ListReq k ns sel]\<rparr>)"
  "run_state (send env r) s =
     (as_done (respond env (history s) r), s\<lparr>history := history s @ [r]\<rparr>)"
  "run_state (now env) s =
     ((case respond env (history s) Now of Time t \<Rightarrow> t | _ \<Rightarrow> 0),
      s\<lparr>history := history s @ [Now]\<rparr>)"
  by (simp_all add: getObj_def listObjs_def send_def now_def)

lemma as_done_simps [simp]:
  "as_done (Failed e) = Inl e" "as_done Done = Inr ()" "as_done (Obj x) = Inr ()"
  by (simp_all add: as_done_def)

lemma as_obj_simps [simp]:
  "as_obj dec (Failed e) = Inl e"
  "as_obj dec (Obj x) = (case dec x of Some a \<Rightarrow> Inr a | None \<Rightarrow> Inl badResponse)"
  by (simp_all add: as_obj_def)

lemma as_objs_simps [simp]:
  "as_objs dec (Failed e) = Inl e"
  "as_objs dec (Objs xs) =
     (if list_all (\<lambda>x. dec x \<noteq> None) xs then Inr (map (the \<circ> dec) xs) else Inl badResponse)"
  by (simp_all add: as_objs_def)

section \<open>Which requests a program can send\<close>

definition emits :: "(request \<Rightarrow> bool) \<Rightarrow> 'a go \<Rightarrow> bool" where
  "emits P m \<longleftrightarrow>
     (\<forall>s. \<exists>t. history (snd (run_state m s)) = history s @ t \<and> (\<forall>r\<in>set t. P r))"

lemma emits_return [emits_intros]: "emits P (ret x)"
  by (simp add: emits_def)

lemma emits_call [emits_intros]: "P r \<Longrightarrow> emits P (call env r)"
  by (simp add: emits_def)

lemma emits_bind [emits_intros]:
  assumes m: "emits P m" and f: "\<And>x. emits P (f x)"
  shows "emits P (m \<bind> f)"
  unfolding emits_def
proof
  fix s
  obtain x s' where r: "run_state m s = (x, s')" by fastforce
  from m r obtain t where t: "history s' = history s @ t" "\<forall>r\<in>set t. P r"
    unfolding emits_def by (metis snd_conv)
  from f obtain u where
    "history (snd (run_state (f x) s')) = history s' @ u" "\<forall>r\<in>set u. P r"
    unfolding emits_def by metis
  with t r show "\<exists>t. history (snd (run_state (m \<bind> f) s)) = history s @ t \<and> (\<forall>r\<in>set t. P r)"
    by (intro exI [of _ "t @ u"]) auto
qed

lemma emits_if [emits_intros]:
  "(b \<Longrightarrow> emits P m) \<Longrightarrow> (\<not> b \<Longrightarrow> emits P n) \<Longrightarrow> emits P (if b then m else n)"
  by simp

lemma emits_case_sum [emits_intros]:
  "(\<And>e. r = Inl e \<Longrightarrow> emits P (f e)) \<Longrightarrow> (\<And>x. r = Inr x \<Longrightarrow> emits P (g x)) \<Longrightarrow>
   emits P (case r of Inl e \<Rightarrow> f e | Inr x \<Rightarrow> g x)"
  by (simp split: sum.split)

lemma emits_case_option [emits_intros]:
  "(x = None \<Longrightarrow> emits P f) \<Longrightarrow> (\<And>y. x = Some y \<Longrightarrow> emits P (g y)) \<Longrightarrow>
   emits P (case x of None \<Rightarrow> f | Some y \<Rightarrow> g y)"
  by (simp split: option.split)

lemma emits_case_list [emits_intros]:
  "(xs = [] \<Longrightarrow> emits P f) \<Longrightarrow> (\<And>y ys. xs = y # ys \<Longrightarrow> emits P (g y ys)) \<Longrightarrow>
   emits P (case xs of [] \<Rightarrow> f | y # ys \<Rightarrow> g y ys)"
  by (simp split: list.split)

lemma emits_case_prod [emits_intros]:
  "(\<And>a b. x = (a, b) \<Longrightarrow> emits P (f a b)) \<Longrightarrow> emits P (case x of (a, b) \<Rightarrow> f a b)"
  by (simp split: prod.split)

lemma emits_Let [emits_intros]: "emits P (f x) \<Longrightarrow> emits P (let y = x in f y)"
  by (simp add: Let_def)

lemma emits_bindE [emits_intros]:
  "emits P m \<Longrightarrow> (\<And>x. emits P (f x)) \<Longrightarrow> emits P (bindE m f)"
  unfolding bindE_def by (intro emits_intros)

lemma emits_wrapE [emits_intros]: "emits P m \<Longrightarrow> emits P (wrapE msg m)"
  unfolding wrapE_def by (intro emits_intros)

lemma emits_wrapWE [emits_intros]: "emits P m \<Longrightarrow> emits P (wrapWE msg m)"
  unfolding wrapWE_def by (intro emits_intros)

lemma emits_flatE [emits_intros]: "emits P m \<Longrightarrow> emits P (flatE msg m)"
  unfolding flatE_def by (intro emits_intros)

lemma emits_getObj [emits_intros]: "P (Get k ns name) \<Longrightarrow> emits P (getObj env dec k ns name)"
  unfolding getObj_def by (intro emits_intros)

lemma emits_listObjs [emits_intros]: "P (ListReq k ns sel) \<Longrightarrow> emits P (listObjs env dec k ns sel)"
  unfolding listObjs_def by (intro emits_intros)

lemma emits_send [emits_intros]: "P r \<Longrightarrow> emits P (send env r)"
  unfolding send_def by (intro emits_intros)

lemma emits_now [emits_intros]: "P Now \<Longrightarrow> emits P (now env)"
  unfolding now_def by (intro emits_intros)

lemma emits_mono: "emits P m \<Longrightarrow> (\<And>r. P r \<Longrightarrow> Q r) \<Longrightarrow> emits Q m"
  unfolding emits_def by meson

lemma emits_history: "emits P m \<Longrightarrow> history (after m s) = history s @ sent m s"
  unfolding emits_def sent_def after_def by (metis append_eq_conv_conj)

lemma emits_sent: "emits P m \<Longrightarrow> r \<in> set (sent m s) \<Longrightarrow> P r"
  unfolding emits_def sent_def by (metis append_eq_conv_conj)

lemma emits_sent_all: "emits P m \<Longrightarrow> list_all P (sent m s)"
  by (simp add: list_all_iff emits_sent)

section \<open>Weakest preconditions\<close>

definition wp :: "'a go \<Rightarrow> ('a \<Rightarrow> proc \<Rightarrow> bool) \<Rightarrow> proc \<Rightarrow> bool" where
  "wp m Q s = (case run_state m s of (x, s') \<Rightarrow> Q x s')"

lemma wp_return [simp]: "wp (ret x) Q s = Q x s"
  by (simp add: wp_def)

lemma wp_bind [simp]: "wp (m \<bind> f) Q s = wp m (\<lambda>x. wp (f x) Q) s"
  by (simp add: wp_def split: prod.split)

lemma wp_bindE [simp]:
  "wp (bindE m f) Q s =
     wp m (\<lambda>r s'. case r of Inl e \<Rightarrow> Q (Inl e) s' | Inr x \<Rightarrow> wp (f x) Q s') s"
  by (simp add: wp_def split: prod.split sum.split)

lemma wp_wrap [simp]:
  "wp (wrapE msg m) Q s = wp m (\<lambda>r. Q (map_err (Wrap msg) r)) s"
  "wp (wrapWE msg m) Q s = wp m (\<lambda>r. Q (map_err (WrapW msg) r)) s"
  "wp (flatE msg m) Q s = wp m (\<lambda>r. Q (map_err (Flat msg) r)) s"
  by (simp_all add: wp_def split: prod.split)

lemma wp_call [simp]:
  "wp (call env r) Q s = Q (respond env (history s) r) (s\<lparr>history := history s @ [r]\<rparr>)"
  by (simp add: wp_def)

lemma wp_getObj [simp]:
  "wp (getObj env dec k ns name) Q s =
     Q (as_obj dec (respond env (history s) (Get k ns name)))
       (s\<lparr>history := history s @ [Get k ns name]\<rparr>)"
  by (simp add: wp_def)

lemma wp_listObjs [simp]:
  "wp (listObjs env dec k ns sel) Q s =
     Q (as_objs dec (respond env (history s) (ListReq k ns sel)))
       (s\<lparr>history := history s @ [ListReq k ns sel]\<rparr>)"
  by (simp add: wp_def)

lemma wp_send [simp]:
  "wp (send env r) Q s =
     Q (as_done (respond env (history s) r)) (s\<lparr>history := history s @ [r]\<rparr>)"
  by (simp add: wp_def)

lemma wp_now [simp]:
  "wp (now env) Q s =
     Q (case respond env (history s) Now of Time t \<Rightarrow> t | _ \<Rightarrow> 0)
       (s\<lparr>history := history s @ [Now]\<rparr>)"
  by (simp add: wp_def)

lemma wp_mono: "wp m Q s \<Longrightarrow> (\<And>x s'. Q x s' \<Longrightarrow> R x s') \<Longrightarrow> wp m R s"
  by (auto simp: wp_def split: prod.splits)

lemma wp_result_after: "wp m Q s \<longleftrightarrow> Q (result m s) (after m s)"
  by (simp add: wp_def result_def after_def split_beta)

section \<open>The requests of a composition\<close>

abbreviation grows :: "'a go \<Rightarrow> bool" where "grows m \<equiv> emits (\<lambda>_. True) m"

lemma grows_history: "grows m \<Longrightarrow> history (after m s) = history s @ sent m s"
  by (rule emits_history)

lemma emits_grows: "emits P m \<Longrightarrow> grows m"
  by (erule emits_mono) simp

lemma sent_after: "sent m s = drop (length (history s)) (history (after m s))"
  by (simp add: sent_def after_def)

lemma result_bindE:
  "result (bindE m f) s =
     (case result m s of Inl e \<Rightarrow> Inl e | Inr x \<Rightarrow> result (f x) (after m s))"
  by (simp add: result_def after_def split: prod.split sum.split)

lemma after_bindE:
  "after (bindE m f) s =
     (case result m s of Inl e \<Rightarrow> after m s | Inr x \<Rightarrow> after (f x) (after m s))"
  by (simp add: result_def after_def split: prod.split sum.split)

lemma sent_bindE:
  assumes m: "grows m" and f: "\<And>x. grows (f x)"
  shows "sent (bindE m f) s =
     sent m s @ (case result m s of Inl e \<Rightarrow> [] | Inr x \<Rightarrow> sent (f x) (after m s))"
proof (cases "result m s")
  case (Inl e)
  then have "after (bindE m f) s = after m s" by (simp add: after_bindE)
  then show ?thesis using Inl by (simp add: sent_def after_def)
next
  case (Inr x)
  then have "after (bindE m f) s = after (f x) (after m s)" by (simp add: after_bindE)
  moreover have "history (after (f x) (after m s)) = history s @ sent m s @ sent (f x) (after m s)"
    using grows_history [OF f, of x "after m s"] grows_history [OF m, of s] by simp
  ultimately show ?thesis using Inr by (simp add: sent_after [of "bindE m f"])
qed

lemma result_bind: "result (m \<bind> f) s = result (f (result m s)) (after m s)"
  by (simp add: result_def after_def split: prod.split)

lemma after_bind: "after (m \<bind> f) s = after (f (result m s)) (after m s)"
  by (simp add: result_def after_def split: prod.split)

lemma sent_bind:
  assumes m: "grows m" and f: "\<And>x. grows (f x)"
  shows "sent (m \<bind> f) s = sent m s @ sent (f (result m s)) (after m s)"
proof -
  have "history (after (m \<bind> f) s) =
      history s @ sent m s @ sent (f (result m s)) (after m s)"
    using grows_history [OF f, of "result m s" "after m s"] grows_history [OF m, of s]
    by (simp add: after_bind)
  then show ?thesis by (simp add: sent_after [of "m \<bind> f"])
qed

lemma obs_wrap [simp]:
  "result (wrapE msg m) s = map_err (Wrap msg) (result m s)"
  "after (wrapE msg m) s = after m s"
  "sent (wrapE msg m) s = sent m s"
  "result (wrapWE msg m) s = map_err (WrapW msg) (result m s)"
  "after (wrapWE msg m) s = after m s"
  "sent (wrapWE msg m) s = sent m s"
  "result (flatE msg m) s = map_err (Flat msg) (result m s)"
  "after (flatE msg m) s = after m s"
  "sent (flatE msg m) s = sent m s"
  by (simp_all add: result_def after_def sent_def split: prod.split)

lemma obs_return [simp]:
  "result (ret x) s = x" "after (ret x) s = s" "sent (ret x) s = []"
  by (simp_all add: result_def after_def sent_def)

lemma obs_call [simp]:
  "result (call env r) s = respond env (history s) r"
  "after (call env r) s = s\<lparr>history := history s @ [r]\<rparr>"
  "sent (call env r) s = [r]"
  by (simp_all add: result_def after_def sent_def)

lemma obs_typed [simp]:
  "result (getObj env dec k ns name) s = as_obj dec (respond env (history s) (Get k ns name))"
  "after (getObj env dec k ns name) s = s\<lparr>history := history s @ [Get k ns name]\<rparr>"
  "sent (getObj env dec k ns name) s = [Get k ns name]"
  "result (listObjs env dec k ns sel) s = as_objs dec (respond env (history s) (ListReq k ns sel))"
  "after (listObjs env dec k ns sel) s = s\<lparr>history := history s @ [ListReq k ns sel]\<rparr>"
  "sent (listObjs env dec k ns sel) s = [ListReq k ns sel]"
  "result (send env r) s = as_done (respond env (history s) r)"
  "after (send env r) s = s\<lparr>history := history s @ [r]\<rparr>"
  "sent (send env r) s = [r]"
  "result (now env) s = (case respond env (history s) Now of Time t \<Rightarrow> t | _ \<Rightarrow> 0)"
  "after (now env) s = s\<lparr>history := history s @ [Now]\<rparr>"
  "sent (now env) s = [Now]"
  by (simp_all add: result_def after_def sent_def)

text \<open>A request that the first of two programs cannot send was sent by the second.\<close>

lemma split_after:
  assumes "xs @ ys = pre @ r # post" "r \<notin> set xs"
  obtains mid where "pre = xs @ mid" "ys = mid @ r # post"
  using assms by (auto simp: append_eq_append_conv2 append_eq_Cons_conv)

text \<open>How many of the requests satisfy a predicate.\<close>

definition counts :: "(request \<Rightarrow> bool) \<Rightarrow> request list \<Rightarrow> nat" where
  "counts P t = length (filter P t)"

lemma counts_simps [simp]:
  "counts P [] = 0"
  "counts P (r # t) = (if P r then Suc (counts P t) else counts P t)"
  "counts P (t @ u) = counts P t + counts P u"
  by (simp_all add: counts_def)

lemma emits_counts_zero: "emits (\<lambda>r. \<not> P r) m \<Longrightarrow> counts P (sent m s) = 0"
  using emits_sent [of "\<lambda>r. \<not> P r" m] by (auto simp: counts_def filter_empty_conv)

text \<open>
  Phases: when a program first runs \<open>m\<close>, which cannot send the request \<open>r\<close>, and \<open>r\<close> is sent,
  then \<open>m\<close> succeeded, and all it sent comes before \<open>r\<close>.
\<close>

lemma bindE_phase:
  assumes "emits P m" "\<not> P r" "\<And>x. grows (f x)" "sent (bindE m f) s = pre @ r # post"
  obtains x mid where "result m s = Inr x" "pre = sent m s @ mid"
    "sent (f x) (after m s) = mid @ r # post"
proof -
  have nr: "r \<notin> set (sent m s)" using emits_sent [OF assms(1)] assms(2) by blast
  have eq: "sent m s @ (case result m s of Inl e \<Rightarrow> [] | Inr x \<Rightarrow> sent (f x) (after m s)) = pre @ r # post"
    using assms(4) by (simp add: sent_bindE [OF emits_grows [OF assms(1)] assms(3)])
  show thesis
  proof (cases "result m s")
    case (Inl e)
    then have "r \<in> set (sent m s)" using arg_cong [OF eq, of set] by auto
    with nr show thesis by blast
  next
    case (Inr x)
    with eq have "sent m s @ sent (f x) (after m s) = pre @ r # post" by simp
    from split_after [OF this nr] Inr that show thesis by blast
  qed
qed

lemma bind_phase:
  assumes "emits P m" "\<not> P r" "\<And>x. grows (f x)" "sent (m \<bind> f) s = pre @ r # post"
  obtains mid where "pre = sent m s @ mid" "sent (f (result m s)) (after m s) = mid @ r # post"
proof -
  have nr: "r \<notin> set (sent m s)" using emits_sent [OF assms(1)] assms(2) by blast
  have "sent m s @ sent (f (result m s)) (after m s) = pre @ r # post"
    using assms(4) by (simp add: sent_bind [OF emits_grows [OF assms(1)] assms(3)])
  from split_after [OF this nr] that show thesis by blast
qed

text \<open>The rules for sequences again, with what is known of the results of the first program.\<close>

lemma emits_bind_result:
  assumes m: "emits P m" and f: "\<And>s. emits P (f (result m s))"
  shows "emits P (m \<bind> f)"
  unfolding emits_def
proof
  fix s
  obtain t where t: "history (after m s) = history s @ t" "\<forall>r\<in>set t. P r"
    using m unfolding emits_def after_def by metis
  obtain u where u: "history (after (f (result m s)) (after m s)) = history (after m s) @ u"
    "\<forall>r\<in>set u. P r"
    using f [of s] unfolding emits_def after_def by metis
  have "history (snd (run_state (m \<bind> f) s)) = history s @ t @ u"
    using t(1) u(1) after_bind [of m f s] by (simp add: after_def)
  then show "\<exists>t. history (snd (run_state (m \<bind> f) s)) = history s @ t \<and> (\<forall>r\<in>set t. P r)"
    using t(2) u(2) by (intro exI [of _ "t @ u"]) auto
qed

lemma emits_bindE_result:
  assumes "emits P m" "\<And>s x. result m s = Inr x \<Longrightarrow> emits P (f x)"
  shows "emits P (bindE m f)"
  unfolding bindE_def
  by (rule emits_bind_result [OF assms(1)]) (auto intro: emits_intros assms(2) split: sum.split)

definition clock :: "env \<Rightarrow> request list \<Rightarrow> int" where
  "clock env h = (case respond env h Now of Time t \<Rightarrow> t | _ \<Rightarrow> 0)"

lemma emits_now_bind: "P Now \<Longrightarrow> (\<And>h. emits P (f (clock env h))) \<Longrightarrow> emits P (now env \<bind> f)"
  by (rule emits_bind_result) (auto intro: emits_intros simp flip: clock_def)

lemma emits_list_bindE:
  assumes "P (ListReq k ns sel)"
    and "\<And>h xs. as_objs dec (respond env h (ListReq k ns sel)) = Inr xs \<Longrightarrow> emits P (f xs)"
  shows "emits P (bindE (wrapE msg (listObjs env dec k ns sel)) f)"
proof (rule emits_bindE_result)
  show "emits P (wrapE msg (listObjs env dec k ns sel))" using assms(1) by (intro emits_intros)
next
  fix s x
  assume "result (wrapE msg (listObjs env dec k ns sel)) s = Inr x"
  then have "as_objs dec (respond env (history s) (ListReq k ns sel)) = Inr x" by simp
  then show "emits P (f x)" by (rule assms(2))
qed

section \<open>Ranging over a map\<close>

text \<open>
  A \<open>range\<close> over a Go map visits the entries in an unspecified order, another one each time. The
  order is up to the environment, as long as it is a permutation of the keys; the number tells
  apart the loops of one function.
\<close>

definition rangeMap :: "env \<Rightarrow> nat \<Rightarrow> (string \<times> 'v) list \<Rightarrow> (string \<times> 'v) list go" where
  "rangeMap env i m = State (\<lambda>s.
     (let ks = rangeOrder env (history s) i (map fst m)
      in (if length ks = length m \<and> distinct ks \<and> set ks = fst ` set m
          then map (\<lambda>k. (k, the (map_of m k))) ks else m), s))"

lemma rangeMap_after [simp]: "after (rangeMap env i m) s = s" "sent (rangeMap env i m) s = []"
  by (simp_all add: rangeMap_def after_def sent_def)

lemma rangeMap_set: "distinct (map fst m) \<Longrightarrow> set (result (rangeMap env i m) s) = set m"
proof -
  assume d: "distinct (map fst m)"
  have "(\<lambda>k. (k, the (map_of m k))) ` fst ` set m = set m"
    unfolding image_image using d by (subst image_cong [of "set m" "set m" _ id]) auto
  then show ?thesis by (simp add: rangeMap_def result_def Let_def)
qed

lemma emits_rangeMap [emits_intros]: "emits P (rangeMap env i m)"
  by (simp add: emits_def rangeMap_def)

section \<open>Waiting loops\<close>

text \<open>
  A loop that waits: each round either ends it with a result or asks for another one. It is
  followed for a bounded number of rounds; a loop that has returned within the bound returns the
  same with a larger one.
\<close>

fun poll_loop :: "nat \<Rightarrow> 'a res option go \<Rightarrow> 'a res go" where
  "poll_loop 0 body = Fail Running"
| "poll_loop (Suc n) body = do {
     r \<leftarrow> body;
     case r of Some x \<Rightarrow> ret x | None \<Rightarrow> poll_loop n body }"

lemma emits_poll_loop [emits_intros]: "emits P body \<Longrightarrow> emits P (poll_loop n body)"
  by (induction n) (auto intro: emits_intros)

lemma poll_loop_more:
  "fst (run_state (poll_loop n body) s) \<noteq> Inl Running \<Longrightarrow>
   run_state (poll_loop (n + k) body) s = run_state (poll_loop n body) s"
proof (induction n arbitrary: s)
  case (Suc n)
  then show ?case
    by (cases "run_state body s") (auto split: option.splits)
qed simp

text \<open>
  The state before round \<open>k\<close>, when all rounds before it have asked for another one, and the rule
  that a loop returns as soon as one round ends it.
\<close>

fun rounds :: "nat \<Rightarrow> 'a res option go \<Rightarrow> proc \<Rightarrow> proc" where
  "rounds 0 body s = s"
| "rounds (Suc k) body s = rounds k body (after body s)"

lemma poll_loop_returns:
  assumes "result body (rounds k body s) = Some x" "k < n"
  shows "\<exists>j\<le>k. result body (rounds j body s) \<noteq> None \<and>
    (\<forall>i<j. result body (rounds i body s) = None) \<and>
    Some (result (poll_loop n body) s) = result body (rounds j body s)"
  using assms
proof (induction n arbitrary: s k)
  case (Suc n)
  show ?case
  proof (cases "result body s")
    case (Some y)
    then show ?thesis by (intro exI [of _ 0]) (simp add: result_bind)
  next
    case None
    with Suc.prems obtain k' where k: "k = Suc k'" by (cases k) auto
    from Suc.IH [of k' "after body s"] Suc.prems k obtain j where
      j: "j \<le> k'" "result body (rounds j body (after body s)) \<noteq> None"
        "\<forall>i<j. result body (rounds i body (after body s)) = None"
        "Some (result (poll_loop n body) (after body s)) = result body (rounds j body (after body s))"
      by auto
    have "\<forall>i<Suc j. result body (rounds i body s) = None"
    proof (intro allI impI)
      fix i assume "i < Suc j"
      then show "result body (rounds i body s) = None" using None j(3) by (cases i) auto
    qed
    then show ?thesis using j None k
      by (intro exI [of _ "Suc j"]) (simp add: result_bind)
  qed
qed simp

end
