(* ===== verification/Nodes.thy ===== *)
theory Nodes
  imports Program
begin

text \<open>
  \<open>src/pkg/util/node.go\<close>: when a node is ready, when it is a master, the counts of ready
  masters and workers that every scaling and purging decision of the operator rests on, and the
  internal address of a node.
\<close>

definition MasterRoleLabel :: string where
  "MasterRoleLabel = ''node-role.kubernetes.io/master''"
definition ControlPlaneRoleLabel :: string where
  "ControlPlaneRoleLabel = ''node-role.kubernetes.io/control-plane''"
definition UnreachableTaint :: string where
  "UnreachableTaint = ''node.kubernetes.io/unreachable''"
definition NotReadyTaint :: string where
  "NotReadyTaint = ''node.kubernetes.io/not-ready''"
definition NetworkUnavailableTaint :: string where
  "NetworkUnavailableTaint = ''node.kubernetes.io/network-unavailable''"
definition UnschedulableTaint :: string where
  "UnschedulableTaint = ''node.kubernetes.io/unschedulable''"

lemmas taint_defs [go_defs] =
  UnreachableTaint_def NotReadyTaint_def NetworkUnavailableTaint_def UnschedulableTaint_def

fun taintsReady :: "taint list \<Rightarrow> bool" where
  "taintsReady [] = True"
| "taintsReady (t # ts) =
     (if taintKey t = NotReadyTaint then False
      else if taintKey t = UnreachableTaint then False
      else if taintKey t = NetworkUnavailableTaint then False
      else if taintKey t = UnschedulableTaint then False
      else taintsReady ts)"

definition NodeIsReady :: "node \<Rightarrow> bool" where
  "NodeIsReady n = taintsReady (nodeTaints n)"

definition NodeIsMaster :: "node \<Rightarrow> bool" where
  "NodeIsMaster n =
     (if map_of (nodeLabels n) MasterRoleLabel \<noteq> None then True
      else if map_of (nodeLabels n) ControlPlaneRoleLabel \<noteq> None then True
      else False)"

fun readyCounts :: "node list \<Rightarrow> int \<Rightarrow> int \<Rightarrow> int \<times> int" where
  "readyCounts [] masters workers = (masters, workers)"
| "readyCounts (n # ns) masters workers =
     (if \<not> NodeIsReady n then readyCounts ns masters workers
      else if NodeIsMaster n then readyCounts ns (masters + 1) workers
      else readyCounts ns masters (workers + 1))"

definition NodeReadyCounts :: "node list \<Rightarrow> int \<times> int" where
  "NodeReadyCounts ns = readyCounts ns 0 0"

fun internalIP :: "(string \<times> string) list \<Rightarrow> string" where
  "internalIP [] = ''''"
| "internalIP ((ty, addr) # rest) = (if ty = ''InternalIP'' then addr else internalIP rest)"

definition NodeInternalIP :: "node \<Rightarrow> string" where
  "NodeInternalIP n = internalIP (nodeAddresses n)"

section \<open>Facts\<close>

definition blockingTaints :: "string set" where
  "blockingTaints = {NotReadyTaint, UnreachableTaint, NetworkUnavailableTaint, UnschedulableTaint}"

lemma taintsReady_iff: "taintsReady ts \<longleftrightarrow> (\<forall>t\<in>set ts. taintKey t \<notin> blockingTaints)"
  by (induction ts) (auto simp: blockingTaints_def)

lemma NodeIsReady_iff: "NodeIsReady n \<longleftrightarrow> (\<forall>t\<in>set (nodeTaints n). taintKey t \<notin> blockingTaints)"
  by (simp add: NodeIsReady_def taintsReady_iff)

lemma unreachable_not_ready:
  "t \<in> set (nodeTaints n) \<Longrightarrow> taintKey t = UnreachableTaint \<Longrightarrow> \<not> NodeIsReady n"
  by (auto simp: NodeIsReady_iff blockingTaints_def)

abbreviation readyMaster :: "node \<Rightarrow> bool" where
  "readyMaster n \<equiv> NodeIsReady n \<and> NodeIsMaster n"

abbreviation readyWorker :: "node \<Rightarrow> bool" where
  "readyWorker n \<equiv> NodeIsReady n \<and> \<not> NodeIsMaster n"

lemma readyCounts_eq:
  "readyCounts ns m w =
     (m + int (length (filter readyMaster ns)), w + int (length (filter readyWorker ns)))"
  by (induction ns arbitrary: m w) auto

lemma NodeReadyCounts_eq:
  "NodeReadyCounts ns =
     (int (length (filter readyMaster ns)), int (length (filter readyWorker ns)))"
  by (simp add: NodeReadyCounts_def readyCounts_eq)

lemma NodeReadyCounts_nonneg: "NodeReadyCounts ns = (m, w) \<Longrightarrow> 0 \<le> m \<and> 0 \<le> w"
  by (auto simp: NodeReadyCounts_eq)

lemma filter_split_length:
  "length (filter (\<lambda>x. P x \<and> Q x) xs) + length (filter (\<lambda>x. P x \<and> \<not> Q x) xs) =
     length (filter P xs)"
  by (induction xs) auto

lemma NodeReadyCounts_total:
  "NodeReadyCounts ns = (m, w) \<Longrightarrow> m + w = int (length (filter NodeIsReady ns))"
  using filter_split_length [of NodeIsReady NodeIsMaster ns] by (auto simp: NodeReadyCounts_eq)

lemma NodeInternalIP_cases:
  "NodeInternalIP n = '''' \<or> (''InternalIP'', NodeInternalIP n) \<in> set (nodeAddresses n)"
proof -
  have "internalIP as = '''' \<or> (''InternalIP'', internalIP as) \<in> set as" for as
    by (induction as rule: internalIP.induct) auto
  then show ?thesis by (simp add: NodeInternalIP_def)
qed

end
