(* ===== verification/Overrides.thy ===== *)
theory Overrides
  imports Program
begin

text \<open>
  \<open>src/pkg/ekcoops/overrides/pause.go\<close>: the three flags by which a storage migration keeps the
  operator's reconcile loop from changing what it is migrating. Each function holds the lock
  \<open>changeMut\<close> for its whole body, so each is one step. The three flags follow one contract,
  the locale \<open>pausable\<close>.
\<close>

definition modify :: "(proc \<Rightarrow> proc) \<Rightarrow> unit go" where
  "modify f = State (\<lambda>s. ((), f s))"

definition reads :: "(proc \<Rightarrow> 'a) \<Rightarrow> 'a go" where
  "reads f = State (\<lambda>s. (f s, s))"

lemma run_modify [simp]: "run_state (modify f) s = ((), f s)"
  by (simp add: modify_def)

lemma run_reads [simp]: "run_state (reads f) s = (f s, s)"
  by (simp add: reads_def)

lemma wp_modify [simp]: "wp (modify f) Q s = Q () (f s)"
  by (simp add: wp_def)

lemma wp_reads [simp]: "wp (reads f) Q s = Q (f s) s"
  by (simp add: wp_def)

lemma obs_state [simp]:
  "result (modify f) s = ()" "after (modify f) s = f s"
  "result (reads g) s = g s" "after (reads g) s = s" "sent (reads g) s = []"
  by (simp_all add: result_def after_def sent_def)

lemma emits_reads [emits_intros]: "emits P (reads f)"
  by (simp add: emits_def)

lemma emits_modify [emits_intros]: "(\<And>s. history (f s) = history s) \<Longrightarrow> emits P (modify f)"
  by (simp add: emits_def)

definition PausePrometheus :: "unit go" where
  "PausePrometheus = modify (\<lambda>s. s\<lparr>prometheusPaused := True\<rparr>)"
definition ResumePrometheus :: "unit go" where
  "ResumePrometheus = modify (\<lambda>s. s\<lparr>prometheusPaused := False\<rparr>)"
definition PrometheusPaused :: "bool go" where
  "PrometheusPaused = reads prometheusPaused"
definition PauseMinIO :: "unit go" where
  "PauseMinIO = modify (\<lambda>s. s\<lparr>minioPaused := True\<rparr>)"
definition ResumeMinIO :: "unit go" where
  "ResumeMinIO = modify (\<lambda>s. s\<lparr>minioPaused := False\<rparr>)"
definition MinIOPaused :: "bool go" where
  "MinIOPaused = reads minioPaused"
definition PauseKotsadm :: "unit go" where
  "PauseKotsadm = modify (\<lambda>s. s\<lparr>kotsadmPaused := True\<rparr>)"
definition ResumeKotsadm :: "unit go" where
  "ResumeKotsadm = modify (\<lambda>s. s\<lparr>kotsadmPaused := False\<rparr>)"
definition KotsadmPaused :: "bool go" where
  "KotsadmPaused = reads kotsadmPaused"

lemmas pause_defs =
  PausePrometheus_def ResumePrometheus_def PrometheusPaused_def
  PauseMinIO_def ResumeMinIO_def MinIOPaused_def
  PauseKotsadm_def ResumeKotsadm_def KotsadmPaused_def

text \<open>\<open>pause(); defer resume()\<close> at the start of a function whose rest is \<open>m\<close>.\<close>

definition deferring :: "unit go \<Rightarrow> unit go \<Rightarrow> 'a go \<Rightarrow> 'a go" where
  "deferring pause resume m = do { _ \<leftarrow> pause; x \<leftarrow> m; _ \<leftarrow> resume; ret x }"

lemma run_deferring:
  "run_state (deferring pause resume m) s =
     (result m (after pause s), after resume (after m (after pause s)))"
  by (simp add: deferring_def result_def after_def split: prod.split)

text \<open>
  The contract: pausing sets what the query reads, resuming clears it, and neither sends a
  request. A section of the program that pauses, works and resumes leaves the flag clear, and
  sees it set while it works, whatever that work is, as long as it does not touch the flag.
\<close>

locale pausable =
  fixes pause :: "unit go" and resume :: "unit go" and paused :: "bool go"
  assumes pause_paused: "result paused (after pause s) = True"
    and resume_paused: "result paused (after resume s) = False"
    and paused_pure: "after paused s = s"
    and pause_silent: "emits P pause"
    and resume_silent: "emits P resume"
begin

lemma deferred_clears: "result paused (after (deferring pause resume m) s) = False"
  using resume_paused [of "after m (after pause s)"]
  by (simp add: after_def [of "deferring pause resume m"] run_deferring)

lemma deferred_emits: "emits P m \<Longrightarrow> emits P (deferring pause resume m)"
  unfolding deferring_def by (intro emits_intros pause_silent resume_silent)

lemma deferred_starts_paused: "result paused (after pause s) = True"
  by (rule pause_paused)

end

interpretation prometheus: pausable PausePrometheus ResumePrometheus PrometheusPaused
  by unfold_locales (simp_all add: pause_defs result_def after_def emits_intros)

interpretation minio: pausable PauseMinIO ResumeMinIO MinIOPaused
  by unfold_locales (simp_all add: pause_defs result_def after_def emits_intros)

interpretation kotsadm: pausable PauseKotsadm ResumeKotsadm KotsadmPaused
  by unfold_locales (simp_all add: pause_defs result_def after_def emits_intros)

end
