(* ===== verification/Controller.thy ===== *)
theory Controller
  imports Nodes Overrides
begin

text \<open>
  The controller of \<open>src/pkg/cluster\<close>: its configuration (\<open>types/types.go\<close>), the structure
  itself (\<open>controller.go\<close>), the names and pool lists of \<open>constants.go\<close>, and the executor of
  remote commands of \<open>src/pkg/k8s/exec.go\<close>, which the controller reaches through the interface
  \<open>SyncExecutorInterface\<close>. That interface is the locale \<open>sync_executor\<close>; the program's own
  executor is shown to satisfy it.
\<close>

section \<open>Remote commands: src/pkg/k8s/exec.go\<close>

type_synonym exec_result = "int \<times> string \<times> string \<times> go_error option"

text \<open>
  \<open>ExecContainer\<close>: the exit code and the error of the stream, with what the command wrote. Only
  an error of the stream that is an exit code carries one.
\<close>

definition ExecContainer :: "env \<Rightarrow> string \<Rightarrow> string \<Rightarrow> string \<Rightarrow> string list \<Rightarrow> exec_result go" where
  "ExecContainer env ns pod ctr cmd = do {
     r \<leftarrow> call env (Exec ns pod ctr cmd);
     ret (case r of
         ExecOut stdout stderr end \<Rightarrow>
           (case end of
              ExecCreateErr e \<Rightarrow> (0, stdout, stderr, Some (Wrap ''create exec'' e))
            | ExecExit code \<Rightarrow>
                (code, stdout, stderr, Some (Wrap ''stream exec'' (NewErr ''command terminated'')))
            | ExecStreamErr e \<Rightarrow> (0, stdout, stderr, Some (Wrap ''stream exec'' e))
            | ExecOK \<Rightarrow> (0, stdout, stderr, None))
       | _ \<Rightarrow> (0, '''', '''', Some badResponse)) }"

text \<open>\<open>SyncExec\<close>: a non-zero exit code of the command is not an error.\<close>

definition SyncExec :: "env \<Rightarrow> string \<Rightarrow> string \<Rightarrow> string \<Rightarrow> string list \<Rightarrow> exec_result go" where
  "SyncExec env ns pod ctr cmd = do {
     (exitCode, stdout, stderr, err) \<leftarrow> ExecContainer env ns pod ctr cmd;
     let err = (if exitCode \<noteq> 0 then None else err);
     ret (exitCode, stdout, stderr, err) }"

section \<open>Configuration and controller\<close>

record ControllerConfig =
  cfgCertificatesDir :: string
  cfgRookPriorityClass :: string
  cfgRotateCertsImage :: string
  cfgRotateCertsNamespace :: string
  cfgRotateCertsCheckInterval :: int
  cfgRotateCertsTTL :: int
  cfgRegistryCertNamespace :: string
  cfgRegistryCertSecret :: string
  cfgKurlProxyCertNamespace :: string
  cfgKurlProxyCertSecret :: string
  cfgKotsadmKubeletCertNamespace :: string
  cfgKotsadmKubeletCertSecret :: string
  cfgContourNamespace :: string
  cfgContourCertSecret :: string
  cfgEnvoyCertSecret :: string
  cfgRestartFailedEnvoyPods :: bool
  cfgEnvoyPodsNotReadyDuration :: int
  cfgHostTaskImage :: string
  cfgHostTaskNamespace :: string
  cfgInternalLoadBalancerHAProxyImage :: string
  cfgRookCephImage :: string

record controller =
  Config :: ControllerConfig
  Client :: env \<comment> \<open>\<open>Config.Client\<close>, \<open>Config.CephV1\<close> and the other clients\<close>
  SyncExecutor :: "string \<Rightarrow> string \<Rightarrow> string \<Rightarrow> string list \<Rightarrow> exec_result go"

definition NewController :: "ControllerConfig \<Rightarrow> env \<Rightarrow> controller" where
  "NewController config env =
     \<lparr>Config = config, Client = env, SyncExecutor = SyncExec env\<rparr>"

section \<open>Constants: src/pkg/cluster/constants.go\<close>

definition RookCephNS :: string where "RookCephNS = ''rook-ceph''"
definition CephClusterName :: string where "CephClusterName = ''rook-ceph''"
definition RookCephSharedFSMetadataPool :: string where
  "RookCephSharedFSMetadataPool = ''rook-shared-fs-metadata''"
definition RookCephSharedFSDataPool :: string where
  "RookCephSharedFSDataPool = ''rook-shared-fs-data0''"
definition CephDeviceHealthMetricsPool :: string where
  "CephDeviceHealthMetricsPool = ''device_health_metrics''"
definition CephDeviceHealthMetricsPoolQuincy :: string where
  "CephDeviceHealthMetricsPoolQuincy = ''.mgr''"
definition RookCephObjectStoreRootPool :: string where
  "RookCephObjectStoreRootPool = ''.rgw.root''"

definition RookCephObjectStoreMetadataPools :: "string list" where
  "RookCephObjectStoreMetadataPools =
     [''rgw.control'', ''rgw.meta'', ''rgw.log'', ''rgw.buckets.index'', ''rgw.buckets.non-ec'']"

definition RookCephObjectStoreMetadataPoolsQuincy :: "string list" where
  "RookCephObjectStoreMetadataPoolsQuincy =
     [''rgw.control'', ''rgw.meta'', ''rgw.log'', ''rgw.buckets.index'', ''rgw.buckets.non-ec'',
      ''rgw.otp'']"

definition RookCephObjectStoreDataPools :: "string list" where
  "RookCephObjectStoreDataPools = [''rgw.buckets.data'']"

section \<open>The interface of the executor\<close>

text \<open>
  What the controller relies on: running a command sends exactly that one request, and an error
  never comes with a non-zero exit code, so a caller that sees an error knows the command did
  not report a status of its own.
\<close>

locale sync_executor =
  fixes exec :: "string \<Rightarrow> string \<Rightarrow> string \<Rightarrow> string list \<Rightarrow> exec_result go"
  assumes exec_history:
      "history (after (exec ns pod ctr cmd) s) = history s @ [Exec ns pod ctr cmd]"
    and exec_exit:
      "result (exec ns pod ctr cmd) s = (code, stdout, stderr, err) \<Longrightarrow> code \<noteq> 0 \<Longrightarrow> err = None"
begin

lemma exec_emits: "P (Exec ns pod ctr cmd) \<Longrightarrow> emits P (exec ns pod ctr cmd)"
  using exec_history by (simp add: emits_def after_def)

lemma exec_sent: "sent (exec ns pod ctr cmd) s = [Exec ns pod ctr cmd]"
  using exec_history by (simp add: sent_after)

lemma exec_error_means_zero:
  "result (exec ns pod ctr cmd) s = (code, stdout, stderr, Some e) \<Longrightarrow> code = 0"
  using exec_exit by blast

lemma exec_run:
  obtains code stdout stderr err s' where
    "run_state (exec ns pod ctr cmd) s = (((code, stdout, stderr, err)), s')"
    "history s' = history s @ [Exec ns pod ctr cmd]" "code \<noteq> 0 \<longrightarrow> err = None"
proof -
  obtain code stdout stderr err s' where
    r: "run_state (exec ns pod ctr cmd) s = ((code, stdout, stderr, err), s')"
    by (metis prod_cases4 surj_pair)
  then have "history s' = history s @ [Exec ns pod ctr cmd]"
    using exec_history [of ns pod ctr cmd s] by (simp add: after_def)
  moreover have "code \<noteq> 0 \<longrightarrow> err = None"
    using r exec_exit [of ns pod ctr cmd s] by (auto simp: result_def)
  ultimately show thesis using r that by blast
qed

end

lemma run_SyncExec:
  "run_state (SyncExec env ns pod ctr cmd) s =
     ((case respond env (history s) (Exec ns pod ctr cmd) of
         ExecOut stdout stderr end \<Rightarrow>
           (case end of
              ExecCreateErr e \<Rightarrow> (0, stdout, stderr, Some (Wrap ''create exec'' e))
            | ExecExit code \<Rightarrow>
                (code, stdout, stderr,
                 if code \<noteq> 0 then None else Some (Wrap ''stream exec'' (NewErr ''command terminated'')))
            | ExecStreamErr e \<Rightarrow> (0, stdout, stderr, Some (Wrap ''stream exec'' e))
            | ExecOK \<Rightarrow> (0, stdout, stderr, None))
       | _ \<Rightarrow> (0, '''', '''', Some badResponse)),
      s\<lparr>history := history s @ [Exec ns pod ctr cmd]\<rparr>)"
  by (simp add: SyncExec_def ExecContainer_def split: response.split exec_end.split)

interpretation ekco_exec: sync_executor "SyncExec env" for env
  by unfold_locales
    (auto simp: after_def result_def run_SyncExec split: response.splits exec_end.splits if_splits)

text \<open>The controllers whose executor keeps the contract: every one \<open>NewController\<close> makes.\<close>

abbreviation controller_ok :: "controller \<Rightarrow> bool" where
  "controller_ok c \<equiv> sync_executor (SyncExecutor c)"

lemma SyncExec_ok [simp]: "sync_executor (SyncExec env)"
  by (rule ekco_exec.sync_executor_axioms)

lemma NewController_ok: "controller_ok (NewController config env)"
  unfolding NewController_def by (simp add: ekco_exec.sync_executor_axioms)

lemma NewController_fields [simp]:
  "Config (NewController config env) = config"
  "Client (NewController config env) = env"
  "SyncExecutor (NewController config env) = SyncExec env"
  by (simp_all add: NewController_def)

section \<open>A sample controller\<close>

text \<open>
  A concrete environment for the witnesses of the development: a cluster that answers each request
  by a given function, versions compared as usual, and pure functions of the third-party packages
  with fixed results.
\<close>

definition sampleEnv :: "(request list \<Rightarrow> request \<Rightarrow> response) \<Rightarrow> env" where
  "sampleEnv f =
     \<lparr>respond = f,
      semver_LT = (\<lambda>a b. Major a < Major b \<or> Major a = Major b \<and>
        (Minor a < Minor b \<or> Minor a = Minor b \<and> PatchNum a < PatchNum b)),
      semver_Parse = (\<lambda>v. Inr (mk_version 1 9 12)),
      yaml_Unmarshal = (\<lambda>y. Inl (NewErr ''yaml'')),
      yaml_Marshal = (\<lambda>x. Inr ''''),
      APIEndpointFromString = (\<lambda>x. Inr x),
      ParseCertsPEM = (\<lambda>x. Inr []),
      CreateCertificate = (\<lambda>t ca key cakey. Inr t),
      EncodeCertificates = (\<lambda>x. Inr ''certificate''),
      MarshalPrivateKeyToPEM = (\<lambda>x. Inr x),
      RemoveDuplicateAltNames = remdups,
      AppendCertsFromPEM = (\<lambda>x. True),
      X509KeyPair = (\<lambda>x y. Inr ()),
      ParseRFC3339 = (\<lambda>x. Inr (int (length x))),
      FormatRFC3339 = (\<lambda>t. replicate (nat t) (CHR ''t'')),
      DurationString = Itoa,
      CertificateValidityPeriod = 31536000 * Second,
      ControllerManagerKubeConfigFileName = ''controller-manager.conf'',
      SchedulerKubeConfigFileName = ''scheduler.conf'',
      APIServerEtcdClientCertAndKeyBaseName = ''apiserver-etcd-client'',
      APIServerKubeletClientCertAndKeyBaseName = ''apiserver-kubelet-client'',
      FrontProxyClientCertAndKeyBaseName = ''front-proxy-client'',
      ShortHumanDuration = Itoa,
      ParseIP = (\<lambda>x. None),
      yaml_Pod = (\<lambda>x. Inl (NewErr ''yaml'')),
      clientcmd_Load = (\<lambda>x. Inl (NewErr ''yaml'')),
      clientcmd_Write = (\<lambda>x. Inr ''''),
      chartFiles = [''rook-ceph-cluster-v1.9.12.tgz''],
      chartName = (\<lambda>x. Inr ''rook-ceph-cluster''),
      chartValues = Inr [],
      IntOfNonFinite = - (2 ^ 63),
      rangeOrder = (\<lambda>h i ks. ks),
      loopBound = 4\<rparr>"

text \<open>A cluster that answers from a table, and with \<open>Done\<close> whatever is not in it.\<close>

definition answering :: "(request \<times> response) list \<Rightarrow> request list \<Rightarrow> request \<Rightarrow> response" where
  "answering table h r = (case map_of table r of Some x \<Rightarrow> x | None \<Rightarrow> Done)"

definition sampleConfig :: ControllerConfig where
  "sampleConfig =
     \<lparr>cfgCertificatesDir = '''', cfgRookPriorityClass = ''node-critical'',
      cfgRotateCertsImage = '''', cfgRotateCertsNamespace = ''kurl'',
      cfgRotateCertsCheckInterval = 86400, cfgRotateCertsTTL = 2592000,
      cfgRegistryCertNamespace = ''kurl'', cfgRegistryCertSecret = ''registry-pki'',
      cfgKurlProxyCertNamespace = ''default'', cfgKurlProxyCertSecret = ''kotsadm-tls'',
      cfgKotsadmKubeletCertNamespace = ''default'',
      cfgKotsadmKubeletCertSecret = ''kubelet-client-cert'',
      cfgContourNamespace = ''projectcontour'', cfgContourCertSecret = ''contourcert'',
      cfgEnvoyCertSecret = ''envoycert'', cfgRestartFailedEnvoyPods = True,
      cfgEnvoyPodsNotReadyDuration = 300, cfgHostTaskImage = '''', cfgHostTaskNamespace = ''kurl'',
      cfgInternalLoadBalancerHAProxyImage = '''', cfgRookCephImage = ''''\<rparr>"

definition sampleController :: "(request list \<Rightarrow> request \<Rightarrow> response) \<Rightarrow> controller" where
  "sampleController f = NewController sampleConfig (sampleEnv f)"

definition sampleProc :: proc where
  "sampleProc =
     \<lparr>history = [], prometheusPaused = False, minioPaused = False, kotsadmPaused = False,
      minioMutex = False, minioTasks = 0, migrationTasks = 0, migrationStatus = '''', migrationLogs = ''''\<rparr>"

lemma sample_simps [simp]:
  "respond (sampleEnv f) = f"
  "controller_ok (sampleController f)"
  "Client (sampleController f) = sampleEnv f"
  "SyncExecutor (sampleController f) = SyncExec (sampleEnv f)"
  "Config (sampleController f) = sampleConfig"
  "history sampleProc = []"
  by (simp_all add: sampleController_def) (simp_all add: sampleEnv_def sampleProc_def)

definition samplePod :: "string \<Rightarrow> pod" where
  "samplePod name =
     \<lparr>podName = name, podGenerateName = '''', podNamespace = ''default'', podLabels = [],
      podAnnotations = [], podDeletionTimestamp = None, podNodeSelector = [], podTolerations = [],
      podInitContainers = [], podContainers = [], podVolumeClaims = [], podHostPaths = [],
      podRestartPolicy = '''', podPhase = ''Running'', podConditions = [],
      podContainerStatuses = [], podPodIP = '''', podHostIP = ''''\<rparr>"

lemma podName_samplePod [simp]: "podName (samplePod name) = name"
  by (simp add: samplePod_def)

end
