(* ===== verification/CephExec.thy ===== *)
theory CephExec
  imports Controller
begin

text \<open>
  Running Ceph commands in the Rook operator or toolbox pod (\<open>src/pkg/cluster/rook_ceph.go\<close>):
  the choice of the pod, \<open>rookCephExec\<close> and the pool commands built on it, the removal of an OSD,
  the readiness of a filesystem, and the count of storage hosts read from the output of
  \<open>ceph osd status\<close>.
\<close>

definition cephErrENOENT :: go_error where "cephErrENOENT = Sentinel ''Ceph ENOENT''"

text \<open>\<open>%q\<close> of a list of arguments.\<close>

definition quote_args :: "string list \<Rightarrow> string" where
  "quote_args cmd = ''['' @ Join '' '' (map Quote cmd) @ '']''"

definition SelectorFromSet :: "string \<Rightarrow> string \<Rightarrow> string" where
  "SelectorFromSet k v = k @ ''='' @ v"

text \<open>The container and the label selector; with Rook 1.4 the toolbox replaces the operator.\<close>

definition rookCephExecTarget :: "controller \<Rightarrow> semver \<Rightarrow> string \<times> string" where
  "rookCephExecTarget c rookVersion =
     (if semver_LT (Client c) rookVersion Rookv14
      then (''rook-ceph-operator'', SelectorFromSet ''app'' ''rook-ceph-operator'')
      else (''rook-ceph-tools'', SelectorFromSet ''app'' ''rook-ceph-tools''))"

definition rookPods :: "controller \<Rightarrow> string \<Rightarrow> pod list res go" where
  "rookPods c labels = listObjs (Client c) dec_pod Pods RookCephNS labels"

definition rookCephExec :: "controller \<Rightarrow> semver \<Rightarrow> string list \<Rightarrow> unit res go" where
  "rookCephExec c rookVersion cmd =
     (let (ctr, rookLabels) = rookCephExecTarget c rookVersion in
      bindE (wrapE ''list Rook pods'' (rookPods c rookLabels)) (\<lambda>pods.
        case pods of
          [] \<Rightarrow> ret (res_of (wrap_nilable None ''found no Rook pods for executing ceph commands''))
        | p # _ \<Rightarrow> do {
            (exitCode, stdout, stderr, err) \<leftarrow> SyncExecutor c RookCephNS (podName p) ctr cmd;
            case err of
              Some e \<Rightarrow> Fail e
            | None \<Rightarrow>
                (if exitCode = 2 then Fail cephErrENOENT
                 else if exitCode \<noteq> 0
                 then Fail (NewErr (''exec '' @ quote_args cmd @ '': '' @ Itoa exitCode))
                 else Ok ()) }))"

definition cephOSDPoolSetSize ::
  "controller \<Rightarrow> semver \<Rightarrow> semver option \<Rightarrow> string \<Rightarrow> int \<Rightarrow> unit res go" where
  "cephOSDPoolSetSize c rookVersion cephVersion name sz =
     (let args = [''ceph'', ''osd'', ''pool'', ''set'', name, ''size'', Itoa sz];
          args = (if sz = 1 \<and>
                     (case cephVersion of None \<Rightarrow> False | Some v \<Rightarrow> Major CephPacific \<le> Major v)
                  then args @ [''--yes-i-really-mean-it''] else args)
      in rookCephExec c rookVersion args)"

definition cephOSDPoolSetMinSize ::
  "controller \<Rightarrow> semver \<Rightarrow> string \<Rightarrow> int \<Rightarrow> unit res go" where
  "cephOSDPoolSetMinSize c rookVersion name minSize =
     rookCephExec c rookVersion
       [''ceph'', ''osd'', ''pool'', ''set'', name, ''min_size'', Itoa minSize]"

definition cephOSDPoolSetPgNumMin ::
  "controller \<Rightarrow> semver \<Rightarrow> string \<Rightarrow> nat \<Rightarrow> unit res go" where
  "cephOSDPoolSetPgNumMin c rookVersion name pgNumMin =
     rookCephExec c rookVersion
       [''ceph'', ''osd'', ''pool'', ''set'', name, ''pg_num_min'', digits pgNumMin]"

text \<open>The error of \<open>ceph osd down\<close> is ignored: the OSD is probably already down.\<close>

definition execCephOSDPurge ::
  "controller \<Rightarrow> semver \<Rightarrow> string \<Rightarrow> string \<Rightarrow> unit res go" where
  "execCephOSDPurge c rookVersion osdID hostname =
     (let (ctr, rookLabels) = rookCephExecTarget c rookVersion in
      bindE (wrapE ''list Rook tools pods'' (rookPods c rookLabels)) (\<lambda>pods.
        case pods of
          [] \<Rightarrow> ret (res_of (wrap_nilable None ''found no Rook pods for executing ceph commands''))
        | p # _ \<Rightarrow> do {
            _ \<leftarrow> SyncExecutor c RookCephNS (podName p) ctr [''ceph'', ''osd'', ''down'', osdID];
            (exitCode, stdout, stderr, err) \<leftarrow> SyncExecutor c RookCephNS (podName p) ctr
               [''ceph'', ''osd'', ''purge'', osdID, ''--yes-i-really-mean-it''];
            if exitCode \<noteq> 0 then Fail (NewErr (''failed to purge OSD: '' @ stderr))
            else (case err of
                Some e \<Rightarrow> Fail (Wrap ''ceph osd purge'' e)
              | None \<Rightarrow> do {
                  (exitCode, stdout, stderr, err) \<leftarrow> SyncExecutor c RookCephNS (podName p) ctr
                     [''ceph'', ''osd'', ''crush'', ''rm'', hostname];
                  if exitCode \<noteq> 0
                  then Fail (NewErr (''failed to rm '' @ hostname @ '' from crush map: '' @ stderr))
                  else (case err of
                      Some e \<Rightarrow> Fail (Wrap ''ceph osd purge'' e)
                    | None \<Rightarrow> Ok ()) }) }))"

definition CephFilesystemOK :: "controller \<Rightarrow> semver \<Rightarrow> string \<Rightarrow> bool res go" where
  "CephFilesystemOK c rookVersion name =
     (let (ctr, rookLabels) = rookCephExecTarget c rookVersion in
      bindE (wrapE ''list Rook tools pods'' (rookPods c rookLabels)) (\<lambda>pods.
        case pods of
          [p] \<Rightarrow> do {
            (exitCode, stdout, stderr, err) \<leftarrow>
               SyncExecutor c RookCephNS (podName p) ctr [''ceph'', ''mds'', ''metadata''];
            case err of
              Some e \<Rightarrow> Fail (Wrap (''running '' @ [CHR 0x27] @ ''ceph fs ls'' @ [CHR 0x27]) e)
            | None \<Rightarrow>
                (if exitCode \<noteq> 0
                 then Fail (NewErr (''failed to list ceph filesystems: '' @ stderr))
                 else Ok (Contains stdout (name @ ''-a'') \<and> Contains stdout (name @ ''-b''))) }
        | _ \<Rightarrow> ret (case wrap_nilable None
                       (''found '' @ Itoa (int (length pods)) @ '' Rook tools pods'') of
                     Some e \<Rightarrow> Inl e | None \<Rightarrow> Inr False)))"

section \<open>The hosts of ceph osd status\<close>

text \<open>The classes \<open>\s\<close> and \<open>\d\<close> of the expression \<open>^\s*\d\s+(?P<host>\S+)\<close>.\<close>

definition is_space :: "char \<Rightarrow> bool" where
  "is_space x \<longleftrightarrow> x \<in> {CHR 0x09, CHR 0x0A, CHR 0x0C, CHR 0x0D, CHR '' ''}"

definition is_digit :: "char \<Rightarrow> bool" where
  "is_digit x \<longleftrightarrow> x \<in> set ''0123456789''"

text \<open>
  The submatch \<open>host\<close> of \<open>cephOSDStatusRX\<close>. The classes are disjoint where the expression
  moves from one to the next, so the match is found without going back: blanks, one digit, at
  least one blank, then the longest run of other characters.
\<close>

definition hostSubmatch :: "string \<Rightarrow> string option" where
  "hostSubmatch text =
     (case dropWhile is_space text of
        d # x # rest \<Rightarrow>
          (if is_digit d \<and> is_space x
           then (let host = takeWhile (\<lambda>y. \<not> is_space y) (dropWhile is_space rest)
                 in if host = [] then None else Some host)
           else None)
      | _ \<Rightarrow> None)"

text \<open>The lines of \<open>bufio.Scanner\<close>: a final empty line is not a line, a final \<open>\r\<close> is dropped.\<close>

definition dropCR :: "string \<Rightarrow> string" where
  "dropCR l = (if l \<noteq> [] \<and> last l = CHR 0x0D then butlast l else l)"

definition scanLines :: "string \<Rightarrow> string list" where
  "scanLines s = (let ls = Split (CHR 0x0A) s in
     map dropCR (if last ls = [] then butlast ls else ls))"

fun collectHosts :: "string list \<Rightarrow> string list \<Rightarrow> string list" where
  "collectHosts [] hosts = hosts"
| "collectHosts (l # ls) hosts =
     (case hostSubmatch (ReplaceChar (CHR ''|'') '' '' l) of
        None \<Rightarrow> collectHosts ls hosts
      | Some h \<Rightarrow> collectHosts ls (List.insert h hosts))"

definition parseCephOSDStatusHosts :: "string \<Rightarrow> string list" where
  "parseCephOSDStatusHosts s = collectHosts (scanLines s) []"

definition countUniqueHostsWithOSD :: "controller \<Rightarrow> semver \<Rightarrow> int res go" where
  "countUniqueHostsWithOSD c rookVersion =
     (let (ctr, rookLabels) = rookCephExecTarget c rookVersion in
      bindE (wrapE ''list Rook pods'' (rookPods c rookLabels)) (\<lambda>pods.
        case pods of
          [] \<Rightarrow> Fail (NewErr ''found no Rook pods for executing ceph commands'')
        | p # _ \<Rightarrow> do {
            (exitCode, stdout, stderr, err) \<leftarrow>
               SyncExecutor c RookCephNS (podName p) ctr [''ceph'', ''osd'', ''status''];
            case err of
              Some e \<Rightarrow> Fail (Wrap ''exec ceph osd status'' e)
            | None \<Rightarrow>
                (if exitCode \<noteq> 0
                 then Fail (NewErr (''exec `ceph osd status` exit code '' @ Itoa exitCode @
                                    '' stderr: '' @ stderr))
                 else Ok (int (length (parseCephOSDStatusHosts stdout)))) }))"

section \<open>What the commands do\<close>

text \<open>What a command's end means to \<open>rookCephExec\<close>.\<close>

definition execOutcome :: "string list \<Rightarrow> response \<Rightarrow> unit res" where
  "execOutcome cmd r =
     (case r of
        ExecOut stdout stderr end \<Rightarrow>
          (case end of
             ExecOK \<Rightarrow> Inr ()
           | ExecExit code \<Rightarrow>
               (if code = 2 then Inl cephErrENOENT
                else if code \<noteq> 0 then Inl (NewErr (''exec '' @ quote_args cmd @ '': '' @ Itoa code))
                else Inl (Wrap ''stream exec'' (NewErr ''command terminated'')))
           | ExecCreateErr e \<Rightarrow> Inl (Wrap ''create exec'' e)
           | ExecStreamErr e \<Rightarrow> Inl (Wrap ''stream exec'' e))
      | _ \<Rightarrow> Inl badResponse)"

abbreviation listTools :: "controller \<Rightarrow> semver \<Rightarrow> request" where
  "listTools c v \<equiv> ListReq Pods RookCephNS (snd (rookCephExecTarget c v))"

abbreviation execIn :: "controller \<Rightarrow> semver \<Rightarrow> pod \<Rightarrow> string list \<Rightarrow> request" where
  "execIn c v p cmd \<equiv> Exec RookCephNS (podName p) (fst (rookCephExecTarget c v)) cmd"

lemma run_rookCephExec:
  assumes "SyncExecutor c = SyncExec (Client c)"
  shows "run_state (rookCephExec c v cmd) s =
   (case as_objs dec_pod (respond (Client c) (history s) (listTools c v)) of
      Inl e \<Rightarrow> (Inl (Wrap ''list Rook pods'' e), s\<lparr>history := history s @ [listTools c v]\<rparr>)
    | Inr [] \<Rightarrow> (Inr (), s\<lparr>history := history s @ [listTools c v]\<rparr>)
    | Inr (p # ps) \<Rightarrow>
        (execOutcome cmd (respond (Client c) (history s @ [listTools c v]) (execIn c v p cmd)),
         s\<lparr>history := history s @ [listTools c v, execIn c v p cmd]\<rparr>))"
  by (simp add: rookCephExec_def rookPods_def run_SyncExec split_beta Let_def assms execOutcome_def
        split: list.split sum.split response.split exec_end.split)

lemma execOutcome_Inr_iff:
  "execOutcome cmd r = Inr () \<longleftrightarrow> (\<exists>stdout stderr. r = ExecOut stdout stderr ExecOK)"
  by (auto simp: execOutcome_def split: response.splits exec_end.splits if_splits)

lemma as_objs_Nil_iff: "as_objs dec r = Inr [] \<longleftrightarrow> r = Objs []"
  by (auto simp: as_objs_def split: response.splits if_splits)

text \<open>The commands, wherever they run: a listing of pods, then commands in one of them.\<close>

lemma emits_rookPods [emits_intros]: "P (ListReq Pods RookCephNS sel) \<Longrightarrow> emits P (rookPods c sel)"
  unfolding rookPods_def by (intro emits_intros)

lemma emits_rookCephExec:
  assumes "controller_ok c" "P (listTools c v)" "\<And>p. P (execIn c v p cmd)"
  shows "emits P (rookCephExec c v cmd)"
  unfolding rookCephExec_def Let_def split_beta
  using assms by (intro emits_intros sync_executor.exec_emits [OF assms(1)]) auto

text \<open>The removal of an OSD.\<close>

abbreviation osdDown :: "string \<Rightarrow> string list" where
  "osdDown osdID \<equiv> [''ceph'', ''osd'', ''down'', osdID]"
abbreviation osdPurge :: "string \<Rightarrow> string list" where
  "osdPurge osdID \<equiv> [''ceph'', ''osd'', ''purge'', osdID, ''--yes-i-really-mean-it'']"
abbreviation crushRm :: "string \<Rightarrow> string list" where
  "crushRm hostname \<equiv> [''ceph'', ''osd'', ''crush'', ''rm'', hostname]"

definition purgeOutcome :: "response \<Rightarrow> (string \<Rightarrow> string) \<Rightarrow> unit res" where
  "purgeOutcome r msg =
     (case r of
        ExecOut stdout stderr end \<Rightarrow>
          (case end of
             ExecOK \<Rightarrow> Inr ()
           | ExecExit code \<Rightarrow>
               (if code \<noteq> 0 then Inl (NewErr (msg stderr))
                else Inl (Wrap ''ceph osd purge'' (Wrap ''stream exec'' (NewErr ''command terminated''))))
           | ExecCreateErr e \<Rightarrow> Inl (Wrap ''ceph osd purge'' (Wrap ''create exec'' e))
           | ExecStreamErr e \<Rightarrow> Inl (Wrap ''ceph osd purge'' (Wrap ''stream exec'' e)))
      | _ \<Rightarrow> Inl (Wrap ''ceph osd purge'' badResponse))"

lemma purgeOutcome_Inr_iff:
  "purgeOutcome r msg = Inr () \<longleftrightarrow> (\<exists>stdout stderr. r = ExecOut stdout stderr ExecOK)"
  by (auto simp: purgeOutcome_def split: response.splits exec_end.splits if_splits)

lemma run_execCephOSDPurge:
  assumes "SyncExecutor c = SyncExec (Client c)"
    and "as_objs dec_pod (respond (Client c) (history s) (listTools c v)) = Inr (p # ps)"
  shows "run_state (execCephOSDPurge c v osdID hostname) s =
   (let h2 = history s @ [listTools c v, execIn c v p (osdDown osdID)];
        h3 = h2 @ [execIn c v p (osdPurge osdID)];
        h4 = h3 @ [execIn c v p (crushRm hostname)]
    in case purgeOutcome (respond (Client c) h2 (execIn c v p (osdPurge osdID)))
              (\<lambda>e. ''failed to purge OSD: '' @ e) of
         Inl e \<Rightarrow> (Inl e, s\<lparr>history := h3\<rparr>)
       | Inr _ \<Rightarrow> (purgeOutcome (respond (Client c) h3 (execIn c v p (crushRm hostname)))
              (\<lambda>e. ''failed to rm '' @ hostname @ '' from crush map: '' @ e), s\<lparr>history := h4\<rparr>))"
  using assms(2)
  by (simp add: execCephOSDPurge_def rookPods_def run_SyncExec split_beta Let_def assms(1)
        purgeOutcome_def split: response.split exec_end.split)

lemma execCephOSDPurge_complete:
  fixes c v osdID hostname s
  defines "m \<equiv> execCephOSDPurge c v osdID hostname"
  assumes "SyncExecutor c = SyncExec (Client c)"
    and "as_objs dec_pod (respond (Client c) (history s) (listTools c v)) = Inr (p # ps)"
    and "result m s = Inr ()"
  shows "sent m s = [listTools c v, execIn c v p (osdDown osdID), execIn c v p (osdPurge osdID),
                     execIn c v p (crushRm hostname)]"
  using assms(4) unfolding m_def
  by (auto simp: result_def sent_def run_execCephOSDPurge [OF assms(2,3)] Let_def split: sum.splits)

lemma emits_execCephOSDPurge:
  assumes "controller_ok c" "P (listTools c v)" "\<And>p cmd. P (execIn c v p cmd)"
  shows "emits P (execCephOSDPurge c v osdID hostname)"
  unfolding execCephOSDPurge_def Let_def split_beta
  using assms by (intro emits_intros sync_executor.exec_emits [OF assms(1)]) auto

lemma emits_countUniqueHostsWithOSD:
  assumes "controller_ok c" "P (listTools c v)" "\<And>p cmd. P (execIn c v p cmd)"
  shows "emits P (countUniqueHostsWithOSD c v)"
  unfolding countUniqueHostsWithOSD_def Let_def split_beta
  using assms by (intro emits_intros sync_executor.exec_emits [OF assms(1)]) auto


text \<open>
  C40: \<open>rookCephExec\<close> reports success exactly when the command ran in a Rook pod and exited with
  status 0, or when the listing found no pod to run it in: the error for that case wraps the nil
  error of the listing, so it is lost.
\<close>

theorem rookCephExec_success_iff:
  "result (rookCephExec (NewController cfg env) v cmd) s = Inr () \<longleftrightarrow>
   (let c = NewController cfg env; h = history s in
    respond env h (listTools c v) = Objs [] \<or>
    (\<exists>p ps stdout stderr.
       as_objs dec_pod (respond env h (listTools c v)) = Inr (p # ps) \<and>
       respond env (h @ [listTools c v]) (execIn c v p cmd) = ExecOut stdout stderr ExecOK))"
  by (auto simp: result_def run_rookCephExec as_objs_Nil_iff [of dec_pod, symmetric]
    execOutcome_Inr_iff Let_def split: sum.split list.split)

text \<open>
  Setting the size of a pool runs that one command in a Rook pod, and confirms it with
  \<open>--yes-i-really-mean-it\<close> exactly when the size is 1 and Ceph is Pacific or later.
\<close>

lemma cephOSDPoolSetSize_confirms:
  assumes "controller_ok c"
    and "Exec ns pd ctr cmd \<in> set (sent (cephOSDPoolSetSize c v cephVersion name sz) s)"
  shows "ns = RookCephNS \<and> ctr = fst (rookCephExecTarget c v) \<and>
         cmd = [''ceph'', ''osd'', ''pool'', ''set'', name, ''size'', Itoa sz] @
           (if sz = 1 \<and> (\<exists>w. cephVersion = Some w \<and> 16 \<le> Major w)
            then [''--yes-i-really-mean-it''] else [])"
proof -
  define full where "full = [''ceph'', ''osd'', ''pool'', ''set'', name, ''size'', Itoa sz] @
           (if sz = 1 \<and> (\<exists>w. cephVersion = Some w \<and> 16 \<le> Major w)
            then [''--yes-i-really-mean-it''] else [])"
  have run: "cephOSDPoolSetSize c v cephVersion name sz = rookCephExec c v full"
    by (cases cephVersion)
      (auto simp: full_def cephOSDPoolSetSize_def Let_def CephPacific_def mk_version_def)
  have "emits (\<lambda>r. case r of Exec ns pd ctr cmd \<Rightarrow>
          ns = RookCephNS \<and> ctr = fst (rookCephExecTarget c v) \<and> cmd = full | _ \<Rightarrow> True)
        (cephOSDPoolSetSize c v cephVersion name sz)"
    unfolding run by (rule emits_rookCephExec [OF assms(1)]) simp_all
  from emits_sent [OF this assms(2)] show ?thesis by (simp add: full_def)
qed

lemma cephOSDPoolSetSize_confirms_sample:
  "Exec ''rook-ceph'' ''tools'' ''rook-ceph-tools''
     [''ceph'', ''osd'', ''pool'', ''set'', ''replicapool'', ''size'', ''1'',
      ''--yes-i-really-mean-it'']
   \<in> set (sent (cephOSDPoolSetSize
        (sampleController (answering
          [(ListReq Pods ''rook-ceph'' ''app=rook-ceph-tools'', Objs [ObjPod (samplePod ''tools'')])]))
        (mk_version 1 9 12) (Some (mk_version 16 2 6)) ''replicapool'' 1) sampleProc) \<and>
   [''ceph'', ''osd'', ''pool'', ''set'', ''replicapool'', ''size'', ''1'',
    ''--yes-i-really-mean-it''] =
   [''ceph'', ''osd'', ''pool'', ''set'', ''replicapool'', ''size'', Itoa 1] @
     (if (1::int) = 1 \<and> (\<exists>w. Some (mk_version 16 2 6) = Some w \<and> 16 \<le> Major w)
      then [''--yes-i-really-mean-it''] else [])"
proof -
  have sentIt: "Exec ''rook-ceph'' ''tools'' ''rook-ceph-tools''
     [''ceph'', ''osd'', ''pool'', ''set'', ''replicapool'', ''size'', ''1'',
      ''--yes-i-really-mean-it'']
   \<in> set (sent (cephOSDPoolSetSize
        (sampleController (answering
          [(ListReq Pods ''rook-ceph'' ''app=rook-ceph-tools'', Objs [ObjPod (samplePod ''tools'')])]))
        (mk_version 1 9 12) (Some (mk_version 16 2 6)) ''replicapool'' 1) sampleProc)"
    by code_simp
  from cephOSDPoolSetSize_confirms [OF _ this] sentIt show ?thesis by simp
qed

lemma emits_cephOSDPoolSetSize:
  assumes "controller_ok c" "P (listTools c v)"
    and "\<And>p rest. P (execIn c v p (''ceph'' # ''osd'' # ''pool'' # ''set'' # name # rest))"
  shows "emits P (cephOSDPoolSetSize c v cephVersion name sz)"
  unfolding cephOSDPoolSetSize_def Let_def
  using assms by (auto intro!: emits_rookCephExec)

lemma emits_cephOSDPoolSetMinSize:
  assumes "controller_ok c" "P (listTools c v)"
    and "\<And>p rest. P (execIn c v p (''ceph'' # ''osd'' # ''pool'' # ''set'' # name # rest))"
  shows "emits P (cephOSDPoolSetMinSize c v name sz)"
  unfolding cephOSDPoolSetMinSize_def using assms by (auto intro!: emits_rookCephExec)

lemma emits_cephOSDPoolSetPgNumMin:
  assumes "controller_ok c" "P (listTools c v)"
    and "\<And>p rest. P (execIn c v p (''ceph'' # ''osd'' # ''pool'' # ''set'' # name # rest))"
  shows "emits P (cephOSDPoolSetPgNumMin c v name n)"
  unfolding cephOSDPoolSetPgNumMin_def using assms by (auto intro!: emits_rookCephExec)

section \<open>The table of hosts\<close>

lemma digit_is_digit: "n < 10 \<Longrightarrow> is_digit (digit n)"
proof -
  have "\<forall>k\<in>set [0..<10]. is_digit (digit k)" by (simp add: is_digit_def digit_def upt_rec)
  moreover assume "n < 10"
  ultimately show ?thesis by simp
qed

lemma digits_ne [simp]: "digits n \<noteq> []"
  by (subst digits.simps) simp

lemma digits_all: "x \<in> set (digits n) \<Longrightarrow> is_digit x"
proof (induction n rule: digits.induct)
  case (1 n)
  then show ?case by (subst (asm) digits.simps) (auto simp: digit_is_digit split: if_splits)
qed

lemma digits_small: "n < 10 \<Longrightarrow> digits n = [digit n]"
  by (subst digits.simps) simp

lemma digits_large: "10 \<le> n \<Longrightarrow> \<exists>a b r. digits n = a # b # r"
  by (subst digits.simps) (cases "digits (n div 10)"; cases "tl (digits (n div 10))"; auto)

lemma digit_not_space: "is_digit x \<Longrightarrow> \<not> is_space x"
  by (auto simp: is_digit_def is_space_def)

definition gap_chars :: "string \<Rightarrow> bool" where
  "gap_chars s \<longleftrightarrow> set s \<subseteq> {CHR '' '', CHR ''|''}"

definition host_chars :: "string \<Rightarrow> bool" where
  "host_chars h \<longleftrightarrow> h \<noteq> [] \<and> list_all (\<lambda>x. \<not> is_space x \<and> x \<noteq> CHR ''|'') h"

text \<open>
  The rows of the output, in both of its formats: blanks or bars, the id, blanks or bars, the
  host, and anything that does not continue the host's name.
\<close>

record osd_row =
  rowPad :: string
  rowID :: nat
  rowGap :: string
  rowHost :: string
  rowTail :: string

definition osdRow :: "osd_row \<Rightarrow> string" where
  "osdRow r = rowPad r @ digits (rowID r) @ rowGap r @ rowHost r @ rowTail r"

definition osd_row_ok :: "osd_row \<Rightarrow> bool" where
  "osd_row_ok r \<longleftrightarrow>
     gap_chars (rowPad r) \<and> gap_chars (rowGap r) \<and> rowGap r \<noteq> [] \<and> host_chars (rowHost r) \<and>
     (case rowTail r of [] \<Rightarrow> True | x # _ \<Rightarrow> x = CHR '' '' \<or> x = CHR ''|'') \<and>
     CHR 0x0A \<notin> set (rowTail r) \<and> CHR 0x0D \<notin> set (rowTail r)"

abbreviation unbar :: "string \<Rightarrow> string" where
  "unbar \<equiv> ReplaceChar (CHR ''|'') '' ''"

lemma ReplaceChar_simps [simp]:
  "ReplaceChar c r [] = []"
  "ReplaceChar c r (x # xs) = (if x = c then r else [x]) @ ReplaceChar c r xs"
  "ReplaceChar c r (xs @ ys) = ReplaceChar c r xs @ ReplaceChar c r ys"
  by (simp_all add: ReplaceChar_def)

lemma ReplaceChar_id: "c \<notin> set s \<Longrightarrow> ReplaceChar c r s = s"
  by (induction s) auto

lemma unbar_gap: "gap_chars s \<Longrightarrow> unbar s = replicate (length s) (CHR '' '')"
  by (induction s) (auto simp: gap_chars_def)

lemma is_space_blank [simp]: "is_space (CHR '' '')"
  by (simp add: is_space_def)

lemma dropWhile_blanks [simp]:
  "dropWhile is_space (replicate n (CHR '' '') @ s) = dropWhile is_space s"
  by (induction n) auto

lemma unbar_digits: "unbar (digits n) = digits n"
proof (rule ReplaceChar_id)
  show "CHR ''|'' \<notin> set (digits n)" using digits_all [of "CHR ''|''" n] by (auto simp: is_digit_def)
qed

lemma hostSubmatch_row:
  assumes "osd_row_ok r"
  shows "hostSubmatch (unbar (osdRow r)) = (if rowID r < 10 then Some (rowHost r) else None)"
proof -
  let ?g = "replicate (length (rowGap r)) (CHR '' '')"
  have host: "unbar (rowHost r) = rowHost r"
    using assms by (intro ReplaceChar_id) (auto simp: osd_row_ok_def host_chars_def list_all_iff)
  have u: "unbar (osdRow r) =
      replicate (length (rowPad r)) (CHR '' '') @ digits (rowID r) @ ?g @ rowHost r @ unbar (rowTail r)"
    using assms by (simp add: osdRow_def unbar_gap unbar_digits host osd_row_ok_def)
  have dw: "dropWhile is_space (digits n @ t) = digits n @ t" for n t
    using digits_all [of "hd (digits n)" n] digit_not_space by (cases "digits n") auto
  obtain k where k: "length (rowGap r) = Suc k"
    using assms by (cases "rowGap r") (auto simp: osd_row_ok_def)
  have hs: "dropWhile is_space (rowHost r @ t) = rowHost r @ t" for t
    using assms by (cases "rowHost r") (auto simp: osd_row_ok_def host_chars_def)
  have "takeWhile (\<lambda>y. \<not> is_space y) (unbar (rowTail r)) = []"
    using assms by (cases "rowTail r") (auto simp: osd_row_ok_def)
  moreover have "\<And>x. x \<in> set (rowHost r) \<Longrightarrow> \<not> is_space x"
    using assms by (simp add: osd_row_ok_def host_chars_def list_all_iff)
  ultimately have tw: "takeWhile (\<lambda>y. \<not> is_space y) (rowHost r @ unbar (rowTail r)) = rowHost r"
    by (simp add: takeWhile_append2)
  show ?thesis
  proof (cases "rowID r < 10")
    case True
    then show ?thesis using assms
      by (simp add: hostSubmatch_def u dw digits_small digit_is_digit k hs tw Let_def
          osd_row_ok_def host_chars_def digit_not_space)
  next
    case False
    then obtain a b q where d: "digits (rowID r) = a # b # q" using digits_large by force
    have "is_digit b" using digits_all [of b "rowID r"] by (simp add: d)
    then show ?thesis using False dw [of "rowID r"]
      by (simp add: hostSubmatch_def u d digit_not_space)
  qed
qed

lemma set_collectHosts:
  "set (collectHosts ls hs) = set hs \<union> {h. \<exists>l\<in>set ls. hostSubmatch (unbar l) = Some h}"
  by (induction ls arbitrary: hs) (auto split: option.splits)

lemma distinct_collectHosts: "distinct hs \<Longrightarrow> distinct (collectHosts ls hs)"
  by (induction ls arbitrary: hs) (auto split: option.splits)

lemma scanLines_Join:
  assumes "ls \<noteq> []" "\<And>l. l \<in> set ls \<Longrightarrow> CHR 0x0A \<notin> set l \<and> CHR 0x0D \<notin> set l" "last ls \<noteq> []"
  shows "scanLines (Join [CHR 0x0A] ls) = ls"
proof -
  have "dropCR l = l" if "l \<in> set ls" for l
    using assms(2) [OF that] by (auto simp: dropCR_def) (metis last_in_set)
  then show ?thesis using assms Split_Join [of ls "CHR 0x0A"]
    by (simp add: scanLines_def Let_def map_idI)
qed

definition noHost :: "string \<Rightarrow> bool" where
  "noHost l \<longleftrightarrow> CHR 0x0A \<notin> set l \<and> CHR 0x0D \<notin> set l \<and> hostSubmatch (unbar l) = None"

lemma osdRow_chars:
  assumes "osd_row_ok r" shows "CHR 0x0A \<notin> set (osdRow r) \<and> CHR 0x0D \<notin> set (osdRow r)" "osdRow r \<noteq> []"
proof -
  have "\<not> is_digit (CHR 0x0A)" "\<not> is_digit (CHR 0x0D)" by (simp_all add: is_digit_def)
  then have "CHR 0x0A \<notin> set (digits n)" "CHR 0x0D \<notin> set (digits n)" for n
    using digits_all by blast+
  then show "CHR 0x0A \<notin> set (osdRow r) \<and> CHR 0x0D \<notin> set (osdRow r)" using assms
    by (auto simp: osdRow_def osd_row_ok_def gap_chars_def host_chars_def list_all_iff is_space_def)
  show "osdRow r \<noteq> []" by (simp add: osdRow_def)
qed

text \<open>
  C39: The hosts counted from a table of \<open>ceph osd status\<close>, in either of the two formats, with any
  header, are exactly the distinct hosts of the rows whose OSD id is a single digit: a host all
  of whose OSDs have ids of ten and more is not counted.
\<close>

theorem parseCephOSDStatusHosts_table:
  assumes "list_all noHost header" and "list_all osd_row_ok rows" and "rows \<noteq> []"
  shows "set (parseCephOSDStatusHosts (Join [CHR 0x0A] (header @ map osdRow rows))) =
           set (map rowHost (filter (\<lambda>r. rowID r < 10) rows)) \<and>
         distinct (parseCephOSDStatusHosts (Join [CHR 0x0A] (header @ map osdRow rows)))"
proof -
  let ?ls = "header @ map osdRow rows"
  have "scanLines (Join [CHR 0x0A] ?ls) = ?ls"
    using assms by (intro scanLines_Join) (auto simp: list_all_iff noHost_def osdRow_chars last_map)
  moreover have "{h. \<exists>l\<in>set ?ls. hostSubmatch (unbar l) = Some h} =
      set (map rowHost (filter (\<lambda>r. rowID r < 10) rows))"
  proof -
    have "\<And>l. l \<in> set header \<Longrightarrow> hostSubmatch (unbar l) = None"
      using assms(1) by (simp add: list_all_iff noHost_def)
    moreover have "\<And>r. r \<in> set rows \<Longrightarrow>
        hostSubmatch (unbar (osdRow r)) = (if rowID r < 10 then Some (rowHost r) else None)"
      using assms(2) by (simp add: list_all_iff hostSubmatch_row)
    ultimately show ?thesis by (force split: if_splits)
  qed
  ultimately show ?thesis
    by (simp only: parseCephOSDStatusHosts_def set_collectHosts)
      (simp add: distinct_collectHosts)
qed

definition sampleRows :: "osd_row list" where
  "sampleRows =
     [\<lparr>rowPad = '' '', rowID = 0, rowGap = ''  '', rowHost = ''node-a'', rowTail = ''  9.77G   190G''\<rparr>,
      \<lparr>rowPad = ''| '', rowID = 1, rowGap = ''  | '', rowHost = ''node-b'', rowTail = '' | 14.3G |''\<rparr>,
      \<lparr>rowPad = '''', rowID = 10, rowGap = ''  '', rowHost = ''node-c'', rowTail = ''  9.77G''\<rparr>]"

theorem parseCephOSDStatusHosts_table_witness:
  "set (parseCephOSDStatusHosts (Join [CHR 0x0A] ([''ID  HOST    USED''] @ map osdRow sampleRows))) =
     {''node-a'', ''node-b''}"
proof -
  have h: "list_all noHost [''ID  HOST    USED'']" by code_simp
  have r: "list_all osd_row_ok sampleRows" by code_simp
  have n: "sampleRows \<noteq> []" by (simp add: sampleRows_def)
  have "set (map rowHost (filter (\<lambda>r. rowID r < 10) sampleRows)) = {''node-a'', ''node-b''}"
    by (simp add: sampleRows_def)
  then show ?thesis using parseCephOSDStatusHosts_table [OF h r n] by simp
qed

end
