(* ===== verification/CephStorage.thy ===== *)
theory CephStorage
  imports CephExec
begin

text \<open>
  The CephCluster resource (\<open>src/pkg/cluster/rook_ceph.go\<close>, \<open>src/pkg/rook/cephcluster.go\<close>): the
  storage node list that grows with the cluster and shrinks when a node is purged, the OSD
  deployments, the versions of Rook and Ceph, and the priority class of Rook's workloads.
\<close>

definition GetCephCluster :: "controller \<Rightarrow> cephcluster res go" where
  "GetCephCluster c = getObj (Client c) dec_cephcluster CephClusters RookCephNS CephClusterName"

definition JSONPatchCephCluster :: "controller \<Rightarrow> JSONPatchOperation list \<Rightarrow> unit res go" where
  "JSONPatchCephCluster c patches =
     send (Client c) (Patch CephClusters RookCephNS CephClusterName (JSONPatch patches))"

section \<open>The storage node list\<close>

text \<open>
  The second loop of \<open>UseNodesForStorage\<close>: \<open>storage\<close> is the set of the names already listed,
  which the loop does not extend.
\<close>

fun addStorageNodes ::
  "string list \<Rightarrow> string list \<Rightarrow> cephnode list \<Rightarrow> bool \<Rightarrow> cephnode list \<times> bool" where
  "addStorageNodes storage [] next changed = (next, changed)"
| "addStorageNodes storage (name # names) next changed =
     (if name \<notin> set storage
      then addStorageNodes storage names (next @ [\<lparr>cnName = name, cnRest = ''''\<rparr>]) True
      else addStorageNodes storage names next changed)"

definition UseNodesForStorage ::
  "controller \<Rightarrow> semver \<Rightarrow> cephcluster \<Rightarrow> string list \<Rightarrow> bool \<Rightarrow> int res go" where
  "UseNodesForStorage c rookVersion cluster names manageNodes =
     (if \<not> manageNodes
      then (let storageNodes = map cnName (ccStorageNodes cluster);
                (next, changed) = addStorageNodes storageNodes names (ccStorageNodes cluster) False
            in if changed
               then bindE (wrapE ''patch CephCluster with new storage node list''
                      (JSONPatchCephCluster c
                        [replace_op ''/spec/storage/nodes'' (JCephNodes next),
                         replace_op ''/spec/storage/useAllNodes'' (JBool False)]))
                      (\<lambda>_. countUniqueHostsWithOSD c rookVersion)
               else countUniqueHostsWithOSD c rookVersion)
      else countUniqueHostsWithOSD c rookVersion)"

fun dropStorageNode ::
  "string \<Rightarrow> cephnode list \<Rightarrow> cephnode list \<Rightarrow> bool \<Rightarrow> cephnode list \<times> bool" where
  "dropStorageNode name [] next changed = (next, changed)"
| "dropStorageNode name (n # ns) next changed =
     (if cnName n = name then dropStorageNode name ns next True
      else dropStorageNode name ns (next @ [n]) changed)"

definition removeCephClusterStorageNode :: "controller \<Rightarrow> string \<Rightarrow> unit res go" where
  "removeCephClusterStorageNode c name =
     bindE (wrapE ''get CephCluster config'' (GetCephCluster c)) (\<lambda>cluster.
       let (next, changed) = dropStorageNode name (ccStorageNodes cluster) [] False
       in if changed
          then wrapE ''patch CephCluster with new storage node list''
                 (JSONPatchCephCluster c [replace_op ''/spec/storage/nodes'' (JCephNodes next)])
          else Ok ())"

section \<open>OSDs of a purged node\<close>

text \<open>The loop deletes the first deployment whose pods run on the node and stops there.\<close>

fun deleteFirstOSD :: "controller \<Rightarrow> string \<Rightarrow> deployment list \<Rightarrow> string res go" where
  "deleteFirstOSD c name [] = Ok ''''"
| "deleteFirstOSD c name (d # ds) =
     (if index_map (depNodeSelector d) ''kubernetes.io/hostname'' = name
      then bindE (wrapE (''delete deployment '' @ depName d)
                   (send (Client c) (Delete Deployments RookCephNS (depName d))))
             (\<lambda>_. Ok (index_map (depLabels d) ''ceph-osd-id''))
      else deleteFirstOSD c name ds)"

definition deleteK8sDeploymentOSD :: "controller \<Rightarrow> string \<Rightarrow> string res go" where
  "deleteK8sDeploymentOSD c name =
     bindE (wrapE ''list Rook OSD deployments''
              (listObjs (Client c) dec_deployment Deployments RookCephNS
                (SelectorFromSet ''app'' ''rook-ceph-osd'')))
       (\<lambda>deploys. deleteFirstOSD c name deploys)"

text \<open>\<open>purgeCephOsd\<close> of \<open>src/pkg/cluster/purge_node.go\<close>.\<close>

definition purgeCephOsd :: "controller \<Rightarrow> semver \<Rightarrow> string \<Rightarrow> unit res go" where
  "purgeCephOsd c rookVersion name =
     bindE (removeCephClusterStorageNode c name) (\<lambda>_.
     bindE (deleteK8sDeploymentOSD c name) (\<lambda>osdID.
       if osdID \<noteq> '''' then execCephOSDPurge c rookVersion osdID name else Ok ()))"

section \<open>Versions\<close>

text \<open>
  The tag of an image reference: what follows its last colon, without a leading \<open>v\<close>.
\<close>

definition imageVersion :: "string \<Rightarrow> string" where
  "imageVersion img = TrimPrefix (last (Split (CHR '':'') img)) ''v''"

text \<open>The loop looks for the operator's container, and then reads the image of the first one.\<close>

fun rookVersionFrom :: "env \<Rightarrow> container list \<Rightarrow> container list \<Rightarrow> semver res" where
  "rookVersionFrom env all [] =
     Inl (NewErr ''rook-ceph-operator container not found in deployment'')"
| "rookVersionFrom env all (ctr # ctrs) =
     (if ctrName ctr = ''rook-ceph-operator''
      then map_err (Wrap ''parse semver'') (semver_Parse env (imageVersion (ctrImage (all ! 0))))
      else rookVersionFrom env all ctrs)"

definition GetRookVersion :: "controller \<Rightarrow> semver res go" where
  "GetRookVersion c =
     bindE (wrapE ''get rook-ceph namespace''
              (getObj (Client c) dec_namespace Namespaces '''' RookCephNS)) (\<lambda>_.
     bindE (wrapE ''get rook-ceph-operator deployment''
              (getObj (Client c) dec_deployment Deployments RookCephNS ''rook-ceph-operator''))
       (\<lambda>deploy. ret (rookVersionFrom (Client c) (depContainers deploy) (depContainers deploy))))"

text \<open>\<open>GetCephVersion\<close> of \<open>src/pkg/rook/cephcluster.go\<close>.\<close>

definition GetCephVersion :: "env \<Rightarrow> cephcluster \<Rightarrow> semver res" where
  "GetCephVersion env cluster =
     (case ccStatusVersion cluster of
        None \<Rightarrow>
          (case semver_Parse env (imageVersion (ccImage cluster)) of
             Inl e \<Rightarrow> Inl e
           | Inr ver \<Rightarrow> Inr (ver\<lparr>Pre := [PRNum 0]\<rparr>))
      | Some v \<Rightarrow> semver_Parse env v)"

section \<open>Priority classes\<close>

definition prioritizeRookAgent :: "controller \<Rightarrow> unit res go" where
  "prioritizeRookAgent c = do {
     r \<leftarrow> getObj (Client c) dec_daemonset DaemonSets RookCephNS ''rook-ceph-agent'';
     case r of
       Inl err \<Rightarrow> (if IsNotFoundErr err then Ok ()
                  else Fail (Wrap ''get rook-ceph-agent daemonset'' err))
     | Inr agentDS \<Rightarrow>
         (if dsPriorityClassName agentDS \<noteq> '''' then Ok ()
          else wrapE ''update rook-ceph-agent priority''
                 (send (Client c) (Update DaemonSets RookCephNS
                   (ObjDaemonSet (agentDS\<lparr>dsPriorityClassName :=
                      cfgRookPriorityClass (Config c)\<rparr>))))) }"

text \<open>The loop changes the first deployment without a priority class and stops there.\<close>

fun prioritizeFirst :: "controller \<Rightarrow> string \<Rightarrow> deployment list \<Rightarrow> unit res go" where
  "prioritizeFirst c ns [] = Ok ()"
| "prioritizeFirst c ns (d # ds) =
     (if depPriorityClassName d \<noteq> '''' then prioritizeFirst c ns ds
      else wrapE (''update '' @ depName d @ '' priority class'')
             (send (Client c) (Update Deployments ns
               (ObjDeployment (d\<lparr>depPriorityClassName := cfgRookPriorityClass (Config c)\<rparr>)))))"

definition prioritizeRookDeployments :: "controller \<Rightarrow> string \<Rightarrow> string \<Rightarrow> unit res go" where
  "prioritizeRookDeployments c ns selector =
     bindE (wrapE (''list deployments '' @ Quote selector)
              (listObjs (Client c) dec_deployment Deployments ns selector))
       (\<lambda>deployments. prioritizeFirst c ns deployments)"

fun prioritizeSelectors :: "controller \<Rightarrow> string list \<Rightarrow> unit res go" where
  "prioritizeSelectors c [] = Ok ()"
| "prioritizeSelectors c (selector # selectors) =
     bindE (prioritizeRookDeployments c RookCephNS selector)
       (\<lambda>_. prioritizeSelectors c selectors)"

definition PrioritizeRook :: "controller \<Rightarrow> unit res go" where
  "PrioritizeRook c =
     bindE (prioritizeRookAgent c) (\<lambda>_.
       prioritizeSelectors c
         [''app=rook-ceph-osd'', ''app=rook-ceph-mds'', ''app=rook-ceph-mgr'', ''app=rook-ceph-mon''])"

section \<open>What the operations send\<close>

lemma addStorageNodes_eq:
  "addStorageNodes storage names next changed =
     (next @ map (\<lambda>n. \<lparr>cnName = n, cnRest = ''''\<rparr>) (filter (\<lambda>n. n \<notin> set storage) names),
      changed \<or> (\<exists>n\<in>set names. n \<notin> set storage))"
  by (induction names arbitrary: "next" changed) auto

lemma dropStorageNode_eq:
  "dropStorageNode name ns next changed =
     (next @ filter (\<lambda>n. cnName n \<noteq> name) ns, changed \<or> name \<in> cnName ` set ns)"
  by (induction ns arbitrary: "next" changed) auto

lemma obs_CephCluster [simp]:
  "result (GetCephCluster c) s =
     as_obj dec_cephcluster (respond (Client c) (history s) (Get CephClusters RookCephNS CephClusterName))"
  "after (GetCephCluster c) s =
     s\<lparr>history := history s @ [Get CephClusters RookCephNS CephClusterName]\<rparr>"
  "sent (GetCephCluster c) s = [Get CephClusters RookCephNS CephClusterName]"
  "sent (JSONPatchCephCluster c ps) s =
     [Patch CephClusters RookCephNS CephClusterName (JSONPatch ps)]"
  by (simp_all add: GetCephCluster_def JSONPatchCephCluster_def)

lemma emits_JSONPatchCephCluster [emits_intros]:
  "P (Patch CephClusters RookCephNS CephClusterName (JSONPatch ps)) \<Longrightarrow>
   emits P (JSONPatchCephCluster c ps)"
  unfolding JSONPatchCephCluster_def by (intro emits_intros)

lemma emits_GetCephCluster [emits_intros]:
  "P (Get CephClusters RookCephNS CephClusterName) \<Longrightarrow> emits P (GetCephCluster c)"
  unfolding GetCephCluster_def by (intro emits_intros)

abbreviation storageNodesPatch :: "cephnode list \<Rightarrow> JSONPatchOperation" where
  "storageNodesPatch ns \<equiv> replace_op ''/spec/storage/nodes'' (JCephNodes ns)"

definition missingNames :: "cephcluster \<Rightarrow> string list \<Rightarrow> string list" where
  "missingNames cluster names = filter (\<lambda>n. n \<notin> cnName ` set (ccStorageNodes cluster)) names"

text \<open>The request of \<open>UseNodesForStorage\<close> that changes the cluster, when there is one.\<close>

definition storageUpdate :: "cephcluster \<Rightarrow> string list \<Rightarrow> bool \<Rightarrow> request list" where
  "storageUpdate cluster names manageNodes =
     (if \<not> manageNodes \<and> missingNames cluster names \<noteq> []
      then [Patch CephClusters RookCephNS CephClusterName (JSONPatch
             [storageNodesPatch (ccStorageNodes cluster @
                map (\<lambda>n. \<lparr>cnName = n, cnRest = ''''\<rparr>) (missingNames cluster names)),
              replace_op ''/spec/storage/useAllNodes'' (JBool False)])]
      else [])"

abbreviation countsHosts :: "controller \<Rightarrow> semver \<Rightarrow> request \<Rightarrow> bool" where
  "countsHosts c v r \<equiv>
     r = listTools c v \<or> (\<exists>p. r = execIn c v p [''ceph'', ''osd'', ''status''])"

lemma emits_count_hosts:
  assumes "controller_ok c"
  shows "emits (countsHosts c v) (countUniqueHostsWithOSD c v)"
  unfolding countUniqueHostsWithOSD_def Let_def split_beta
  by (intro emits_intros sync_executor.exec_emits [OF assms]) auto

lemma UseNodesForStorage_sent:
  assumes "controller_ok c"
  shows "\<exists>t. sent (UseNodesForStorage c v cluster names manageNodes) s =
           storageUpdate cluster names manageNodes @ t \<and> list_all (countsHosts c v) t"
proof -
  note g = emits_count_hosts [OF assms]
  have ex: "(\<exists>n\<in>set names. n \<notin> cnName ` set (ccStorageNodes cluster)) \<longleftrightarrow>
      missingNames cluster names \<noteq> []"
    by (auto simp: missingNames_def filter_empty_conv)
  have p: "grows (wrapE msg (JSONPatchCephCluster c ps))" for msg ps
    by (intro emits_intros) simp
  show ?thesis
    using emits_sent_all [OF g] ex
    by (auto simp: UseNodesForStorage_def Let_def addStorageNodes_eq storageUpdate_def
        sent_bindE [OF p emits_grows [OF g]] missingNames_def [symmetric] split: sum.split)
qed

text \<open>
  The storage node list only grows: unless the user manages the nodes, the one change
  \<open>UseNodesForStorage\<close> makes to the cluster, made exactly when a given name is not in the list, is
  to replace the list by itself followed by the given names that are not in it, in their order;
  all it does after that is to count the hosts with an OSD.
\<close>

lemma UseNodesForStorage_appends:
  "\<exists>t. sent (UseNodesForStorage (NewController cfg env) v cluster names manageNodes) s =
         storageUpdate cluster names manageNodes @ t \<and>
       list_all (countsHosts (NewController cfg env) v) t"
  by (rule UseNodesForStorage_sent) simp

section \<open>Removing a node\<close>

lemma emits_removeCephClusterStorageNode:
  "(\<And>k ns n. P (Get k ns n)) \<Longrightarrow> (\<And>ps. P (Patch CephClusters RookCephNS CephClusterName ps)) \<Longrightarrow>
   emits P (removeCephClusterStorageNode c name)"
  unfolding removeCephClusterStorageNode_def Let_def split_beta by (intro emits_intros)

lemma emits_deleteFirstOSD:
  "(\<And>n. P (Delete Deployments RookCephNS n)) \<Longrightarrow> emits P (deleteFirstOSD c name ds)"
  by (induction ds) (auto intro!: emits_intros)

lemma emits_deleteK8sDeploymentOSD:
  "(\<And>k ns sel. P (ListReq k ns sel)) \<Longrightarrow> (\<And>n. P (Delete Deployments RookCephNS n)) \<Longrightarrow>
   emits P (deleteK8sDeploymentOSD c name)"
  unfolding deleteK8sDeploymentOSD_def by (intro emits_intros emits_deleteFirstOSD)

text \<open>A removal that succeeds has patched the list, when the name was in it.\<close>

lemma removeCephClusterStorageNode_done:
  assumes "result (removeCephClusterStorageNode c name) s = Inr ()"
  obtains cluster where
    "as_obj dec_cephcluster (respond (Client c) (history s)
       (Get CephClusters RookCephNS CephClusterName)) = Inr cluster"
    "sent (removeCephClusterStorageNode c name) s =
       Get CephClusters RookCephNS CephClusterName #
       (if name \<in> cnName ` set (ccStorageNodes cluster)
        then [Patch CephClusters RookCephNS CephClusterName (JSONPatch
               [storageNodesPatch (filter (\<lambda>n. cnName n \<noteq> name) (ccStorageNodes cluster))])]
        else [])"
proof -
  have g: "grows (wrapE msg (GetCephCluster c))" for msg by (intro emits_intros) simp
  have p: "grows (if name \<in> cnName ` set (ccStorageNodes cl)
          then wrapE ''patch CephCluster with new storage node list''
                 (JSONPatchCephCluster c [storageNodesPatch (filter (\<lambda>n. cnName n \<noteq> name) (ccStorageNodes cl))])
          else Ok ())" for cl
    by (intro emits_intros) simp_all
  from assms obtain cluster where cl: "as_obj dec_cephcluster (respond (Client c) (history s)
       (Get CephClusters RookCephNS CephClusterName)) = Inr cluster"
    by (auto simp: removeCephClusterStorageNode_def result_bindE split: sum.splits)
  show thesis
    by (rule that [OF cl])
      (simp add: removeCephClusterStorageNode_def dropStorageNode_eq sent_bindE [OF g p] cl)
qed

text \<open>The OSD id comes from a deployment on the node, which has been deleted.\<close>

lemma deleteFirstOSD_id:
  assumes "result (deleteFirstOSD c name ds) s = Inr osdID" "osdID \<noteq> ''''"
  shows "\<exists>d\<in>set ds. index_map (depNodeSelector d) ''kubernetes.io/hostname'' = name \<and>
      index_map (depLabels d) ''ceph-osd-id'' = osdID \<and>
      sent (deleteFirstOSD c name ds) s = [Delete Deployments RookCephNS (depName d)]"
  using assms
proof (induction ds)
  case (Cons d ds)
  have g: "grows (wrapE msg (send env r))" for msg env r by (intro emits_intros) simp
  have o: "grows (Ok x :: string res go)" for x by (intro emits_intros)
  show ?case using Cons
    by (auto simp: result_bindE sent_bindE [OF g o] split: if_splits sum.splits)
qed simp

lemma deleteK8sDeploymentOSD_id:
  assumes "result (deleteK8sDeploymentOSD c name) s = Inr osdID" "osdID \<noteq> ''''"
  obtains d :: deployment where "index_map (depNodeSelector d) ''kubernetes.io/hostname'' = name"
    "index_map (depLabels d) ''ceph-osd-id'' = osdID"
    "Delete Deployments RookCephNS (depName d) \<in> set (sent (deleteK8sDeploymentOSD c name) s)"
proof -
  have g: "grows (wrapE msg (listObjs env dec k ns sel))" for msg env dec k ns sel
    by (intro emits_intros) simp
  have f: "grows (deleteFirstOSD c name ds)" for ds by (rule emits_deleteFirstOSD) simp
  from assms obtain ds s' where ds: "result (deleteFirstOSD c name ds) s' = Inr osdID"
    and sub: "set (sent (deleteFirstOSD c name ds) s') \<subseteq> set (sent (deleteK8sDeploymentOSD c name) s)"
    by (auto simp: deleteK8sDeploymentOSD_def result_bindE sent_bindE [OF g f] split: sum.splits)
  from deleteFirstOSD_id [OF ds assms(2)] obtain d :: deployment where
    "index_map (depNodeSelector d) ''kubernetes.io/hostname'' = name"
    "index_map (depLabels d) ''ceph-osd-id'' = osdID"
    "sent (deleteFirstOSD c name ds) s' = [Delete Deployments RookCephNS (depName d)]" by meson
  then show thesis using sub by (intro that [of d]) auto
qed


section \<open>Versions and priority classes\<close>

text \<open>
  Whenever the operator deployment has a container named \<open>rook-ceph-operator\<close>, the Rook version
  is read from the image of its first container, whichever container that is.
\<close>

lemma rookVersionFrom_first_container:
  assumes "\<exists>ctr\<in>set (depContainers d). ctrName ctr = ''rook-ceph-operator''"
  shows "rookVersionFrom env (depContainers d) (depContainers d) =
     map_err (Wrap ''parse semver'')
       (semver_Parse env (imageVersion (ctrImage (hd (depContainers d)))))"
proof -
  have "\<exists>ctr\<in>set ctrs. ctrName ctr = ''rook-ceph-operator'' \<Longrightarrow>
      rookVersionFrom env cs ctrs =
        map_err (Wrap ''parse semver'') (semver_Parse env (imageVersion (ctrImage (cs ! 0))))"
    for cs ctrs
    by (induction ctrs) auto
  from this [OF assms] show ?thesis using assms
    by (cases "depContainers d") (simp_all add: hd_conv_nth)
qed

definition sampleContainer :: "string \<Rightarrow> string \<Rightarrow> container" where
  "sampleContainer name img =
     \<lparr>ctrName = name, ctrImage = img, ctrCommand = [], ctrArgs = [], ctrMounts = [],
      ctrEnvFields = [], ctrWorkingDir = [], ctrImagePullPolicy = [], ctrPrivileged = False\<rparr>"

definition sampleDeployment :: deployment where
  "sampleDeployment =
     \<lparr>depName = ''rook-ceph-operator'', depLabels = [], depNodeSelector = [],
      depPriorityClassName = [],
      depContainers = [sampleContainer ''sidecar'' ''registry:5000/sidecar:v9.9.9'',
                       sampleContainer ''rook-ceph-operator'' ''rook/ceph:v1.10.11''],
      depTemplateAnnotations = [], depReplicas = 1, depReadyReplicas = 1,
      depAvailableReplicas = 1, depUnavailableReplicas = 0, depUpdatedReplicas = 1\<rparr>"

lemma rookVersionFrom_first_container_witness:
  "rookVersionFrom (sampleEnv (answering [])) (depContainers sampleDeployment) (depContainers sampleDeployment) =
     map_err (Wrap ''parse semver'') (semver_Parse (sampleEnv (answering [])) ''9.9.9'')"
proof -
  have "\<exists>ctr\<in>set (depContainers sampleDeployment). ctrName ctr = ''rook-ceph-operator''"
    by (simp add: sampleDeployment_def sampleContainer_def)
  moreover have "imageVersion (ctrImage (hd (depContainers sampleDeployment))) = ''9.9.9''"
    by code_simp
  ultimately show ?thesis
    using rookVersionFrom_first_container [of sampleDeployment "sampleEnv (answering [])"] by (simp only:)
qed

text \<open>The tag is what follows the last colon, so a registry port does not disturb it.\<close>

lemma Split_append: "Split c (u @ c # w) = Split c u @ Split c w"
  by (induction u) (auto split: list.splits)

lemma imageVersion_tag:
  "CHR '':'' \<notin> set tag \<Longrightarrow> imageVersion (repo @ CHR '':'' # ''v'' @ tag) = tag"
  by (simp add: imageVersion_def Split_append Split_no_sep TrimPrefix_def HasPrefix_def)

definition updatesDeployment :: "request \<Rightarrow> bool" where
  "updatesDeployment r = (case r of Update k ns x \<Rightarrow> k = Deployments | _ \<Rightarrow> False)"

lemma updatesDeployment_simps [simp]:
  "updatesDeployment (Update k ns x) = (k = Deployments)"
  "\<not> updatesDeployment (ListReq k ns sel)" "\<not> updatesDeployment (Get k ns sel)"
  by (simp_all add: updatesDeployment_def)

abbreviation setsPriority :: "controller \<Rightarrow> request \<Rightarrow> bool" where
  "setsPriority c r \<equiv> is_read r \<or>
     (\<exists>d :: deployment. depPriorityClassName d = '''' \<and>
        r = Update Deployments RookCephNS
          (ObjDeployment (d\<lparr>depPriorityClassName := cfgRookPriorityClass (Config c)\<rparr>))) \<or>
     (\<exists>a :: daemonset. dsPriorityClassName a = '''' \<and>
        r = Update DaemonSets RookCephNS
          (ObjDaemonSet (a\<lparr>dsPriorityClassName := cfgRookPriorityClass (Config c)\<rparr>)))"

lemma emits_prioritizeFirst: "emits (setsPriority c) (prioritizeFirst c RookCephNS ds)"
  by (induction ds) (auto intro!: emits_intros)

lemma emits_prioritizeRookDeployments:
  "emits (setsPriority c) (prioritizeRookDeployments c RookCephNS sel)"
  unfolding prioritizeRookDeployments_def by (intro emits_intros emits_prioritizeFirst) simp

lemma emits_prioritizeSelectors: "emits (setsPriority c) (prioritizeSelectors c sels)"
  by (induction sels) (auto intro!: emits_intros emits_prioritizeRookDeployments)

lemma emits_prioritizeRookAgent: "emits (setsPriority c) (prioritizeRookAgent c)"
  unfolding prioritizeRookAgent_def by (intro emits_intros) auto

lemma emits_PrioritizeRook: "emits (setsPriority c) (PrioritizeRook c)"
  unfolding PrioritizeRook_def
  by (intro emits_intros emits_prioritizeSelectors emits_prioritizeRookAgent)

lemma prioritizeFirst_one: "counts updatesDeployment (sent (prioritizeFirst c ns ds) s) \<le> 1"
  by (induction ds) auto

lemma prioritizeRookDeployments_one:
  "counts updatesDeployment (sent (prioritizeRookDeployments c RookCephNS sel) s) \<le> 1"
proof -
  have g: "grows (wrapE msg (listObjs env dec k ns sel))" for msg env dec k ns sel
    by (intro emits_intros) simp
  have f: "grows (prioritizeFirst c RookCephNS ds)" for ds
    by (rule emits_grows [OF emits_prioritizeFirst])
  show ?thesis using prioritizeFirst_one [of c RookCephNS]
    by (auto simp: prioritizeRookDeployments_def sent_bindE [OF g f] split: sum.splits)
qed

lemma prioritizeSelectors_count:
  "counts updatesDeployment (sent (prioritizeSelectors c sels) s) \<le> length sels"
proof (induction sels arbitrary: s)
  case (Cons sel sels)
  have f: "grows (prioritizeSelectors c sels)" for x :: unit
    by (rule emits_grows [OF emits_prioritizeSelectors])
  show ?case
    using add_mono [OF prioritizeRookDeployments_one [of c sel s] Cons.IH]
      prioritizeRookDeployments_one [of c sel s]
    by (cases "result (prioritizeRookDeployments c RookCephNS sel) s")
      (simp_all add: sent_bindE [OF emits_grows [OF emits_prioritizeRookDeployments] f])
qed simp

text \<open>
  Setting the priority class changes nothing but the class of workloads that have none, and
  changes at most one deployment for each of its four selectors: up to four in one reconcile, not
  the one that the comment in \<open>prioritizeRookDeployments\<close> promises.
\<close>

lemma PrioritizeRook_bounded:
  "list_all (setsPriority c) (sent (PrioritizeRook c) s) \<and>
   counts updatesDeployment (sent (PrioritizeRook c) s) \<le> 4"
proof
  show "list_all (setsPriority c) (sent (PrioritizeRook c) s)"
    by (rule emits_sent_all [OF emits_PrioritizeRook])
  have a: "emits (\<lambda>r. \<not> updatesDeployment r) (prioritizeRookAgent c)"
    unfolding prioritizeRookAgent_def by (intro emits_intros) simp_all
  define sels where "sels =
    [''app=rook-ceph-osd'', ''app=rook-ceph-mds'', ''app=rook-ceph-mgr'', ''app=rook-ceph-mon'']"
  have f: "grows (prioritizeSelectors c sels)" for x :: unit
    by (rule emits_grows [OF emits_prioritizeSelectors])
  have four: "length sels = 4" by (simp add: sels_def)
  show "counts updatesDeployment (sent (PrioritizeRook c) s) \<le> 4"
    using prioritizeSelectors_count [of c sels]
    by (auto simp: PrioritizeRook_def sels_def [symmetric] four emits_counts_zero [OF a]
        sent_bindE [OF emits_grows [OF a] f] split: sum.splits)
qed

definition sampleCluster :: cephcluster where
  "sampleCluster =
     \<lparr>ccStorageNodes = [\<lparr>cnName = ''node-a'', cnRest = []\<rparr>, \<lparr>cnName = ''node-b'', cnRest = []\<rparr>],
      ccMonCount = 3, ccMgrCount = 2, ccImage = ''ceph/ceph:v17.2.6'',
      ccStatusVersion = Some ''17.2.6-0'', ccPhase = ''Ready'', ccHealth = Some ''HEALTH_OK''\<rparr>"

definition sampleOSD :: deployment where
  "sampleOSD = sampleDeployment\<lparr>depName := ''rook-ceph-osd-1'', depLabels := [(''ceph-osd-id'', ''1'')],
     depNodeSelector := [(''kubernetes.io/hostname'', ''node-b'')]\<rparr>"

definition samplePurgeEnv :: env where
  "samplePurgeEnv = sampleEnv (answering
     [(Get CephClusters ''rook-ceph'' ''rook-ceph'', Obj (ObjCephCluster sampleCluster)),
      (ListReq Deployments ''rook-ceph'' (SelectorFromSet ''app'' ''rook-ceph-osd''),
       Objs [ObjDeployment sampleOSD]),
      (ListReq Pods ''rook-ceph'' (SelectorFromSet ''app'' ''rook-ceph-tools''),
       Objs [ObjPod (samplePod ''tools'')])])"


end
