(* ===== verification/OpConfig.thy ===== *)
theory OpConfig
  imports Controller
begin

text \<open>
  The configuration of the operator and the commands (\<open>src/pkg/ekcoops/config.go\<close>), how a command
  checks it (\<open>initEKCOConfig\<close>) and how it is handed to the controller (\<open>initClusterController\<close>),
  both in \<open>src/cmd/ekco/cli/init.go\<close>, with the logger that a command makes before
  (\<open>src/pkg/logger/logger.go\<close>).
\<close>

record config =
  NodeUnreachableToleration :: int
  MinReadyMasterNodes :: int
  MinReadyWorkerNodes :: int
  PurgeDeadNodes :: bool
  ClearDeadNodes :: bool
  MaintainRookStorageNodes :: bool
  RookStorageNodesLabel :: string
  RookStorageNodes :: string
  CephBlockPool :: string
  CephFilesystem :: string
  CephObjectStore :: string
  MinCephPoolReplication :: int
  MaxCephPoolReplication :: int
  RookPriorityClass :: string
  ReconcileRookMDSPlacement :: bool
  ReconcileCephCSIResources :: bool
  CertificatesDir :: string
  ReconcileInterval :: int
  ReconcileTimeout :: int
  RotateCertsEnabled :: bool \<comment> \<open>\<open>RotateCerts\<close>\<close>
  RotateCertsImage :: string
  RotateCertsNamespace :: string
  RotateCertsCheckInterval :: int
  RotateCertsTTL :: int
  RegistryCertNamespace :: string
  RegistryCertSecret :: string
  KurlProxyCertNamespace :: string
  KurlProxyCertSecret :: string
  KotsadmKubeletCertNamespace :: string
  KotsadmKubeletCertSecret :: string
  ContourNamespace :: string
  ContourCertNamespace :: string
  ContourCertSecret :: string
  EnvoyCertSecret :: string
  RestartFailedEnvoyPodsEnabled :: bool \<comment> \<open>\<open>RestartFailedEnvoyPods\<close>\<close>
  EnvoyPodsNotReadyDuration :: int
  EnableInternalLoadBalancer :: bool
  InternalLoadBalancerHAProxyImage :: string
  InternalLoadBalancerPort :: int
  HostTaskImage :: string
  HostTaskNamespace :: string
  PodImageOverrides :: "string list"
  AutoApproveKubeletCertSigningRequests :: bool
  RookMinimumNodeCount :: int
  RookStorageClass :: string
  RookCephImage :: string
  StorageMigrationAuthToken :: string
  EnableHAMinio :: bool
  MinioNamespace :: string
  MinioUtilImage :: string
  EnableHAKotsadm :: bool

text \<open>
  The settings as \<open>viper\<close> has read them: the configuration it decodes (or its error), which keys
  have been set, and the value of a key as a text or a duration.
\<close>

record viper =
  Unmarshal :: "config res"
  IsSet :: "string \<Rightarrow> bool"
  GetString :: "string \<Rightarrow> string"
  GetDuration :: "string \<Rightarrow> int"

definition initEKCOConfig :: "viper \<Rightarrow> config res" where
  "initEKCOConfig v =
     (case Unmarshal v of
        Inl e \<Rightarrow> Inl (Wrap ''failed to unmarshal config'' e)
      | Inr config \<Rightarrow>
          (if MinReadyMasterNodes config < 1
           then Inl (NewErr ''min_ready_master_nodes must be at least 1'')
           else Inr (if \<not> IsSet v ''contour_namespace'' \<and> IsSet v ''contour_cert_namespace''
                     then config\<lparr>ContourNamespace := ContourCertNamespace config\<rparr>
                     else config)))"

definition controllerConfig :: "config \<Rightarrow> ControllerConfig" where
  "controllerConfig config =
     \<lparr>cfgCertificatesDir = CertificatesDir config,
      cfgRookPriorityClass = RookPriorityClass config,
      cfgRotateCertsImage = RotateCertsImage config,
      cfgRotateCertsNamespace = RotateCertsNamespace config,
      cfgRotateCertsCheckInterval = RotateCertsCheckInterval config,
      cfgRotateCertsTTL = RotateCertsTTL config,
      cfgRegistryCertNamespace = RegistryCertNamespace config,
      cfgRegistryCertSecret = RegistryCertSecret config,
      cfgKurlProxyCertNamespace = KurlProxyCertNamespace config,
      cfgKurlProxyCertSecret = KurlProxyCertSecret config,
      cfgKotsadmKubeletCertNamespace = KotsadmKubeletCertNamespace config,
      cfgKotsadmKubeletCertSecret = KotsadmKubeletCertSecret config,
      cfgContourNamespace = ContourNamespace config,
      cfgContourCertSecret = ContourCertSecret config,
      cfgEnvoyCertSecret = EnvoyCertSecret config,
      cfgRestartFailedEnvoyPods = RestartFailedEnvoyPodsEnabled config,
      cfgEnvoyPodsNotReadyDuration = EnvoyPodsNotReadyDuration config,
      cfgHostTaskImage = HostTaskImage config,
      cfgHostTaskNamespace = HostTaskNamespace config,
      cfgInternalLoadBalancerHAProxyImage = InternalLoadBalancerHAProxyImage config,
      cfgRookCephImage = RookCephImage config\<rparr>"

text \<open>
  What the libraries answer when a command makes its logger and its clients: whether the level of the
  log is one, and the error of each constructor.
\<close>

record startup =
  setLevel :: "string \<Rightarrow> unit res"
  buildLogger :: "unit res"
  InClusterConfig :: "unit res"
  newKubernetesClient :: "unit res"
  newControllerRuntimeClient :: "unit res"
  newCephClient :: "unit res"
  newDynamicClient :: "unit res"

definition FromViper :: "startup \<Rightarrow> viper \<Rightarrow> unit res" where
  "FromViper st v =
     (case setLevel st (GetString v ''log_level'') of
        Inl err \<Rightarrow> Inl err
      | Inr _ \<Rightarrow> (case buildLogger st of Inl err \<Rightarrow> Inl err | Inr _ \<Rightarrow> Inr ()))"

definition initClusterController :: "startup \<Rightarrow> config \<Rightarrow> env \<Rightarrow> controller res" where
  "initClusterController st config env =
     (case InClusterConfig st of Inl err \<Rightarrow> Inl (Wrap ''load kubernetes config'' err) | Inr _ \<Rightarrow>
     (case newKubernetesClient st of Inl err \<Rightarrow> Inl (Wrap ''initialize kubernetes client'' err) | Inr _ \<Rightarrow>
     (case newControllerRuntimeClient st of
        Inl err \<Rightarrow> Inl (Wrap ''initialize controller runtime client'' err) | Inr _ \<Rightarrow>
     (case newCephClient st of Inl err \<Rightarrow> Inl (Wrap ''initialize ceph client'' err) | Inr _ \<Rightarrow>
     (case newDynamicClient st of Inl err \<Rightarrow> Inl (Wrap ''failed creating Kubernetes client.'' err) | Inr _ \<Rightarrow>
        Inr (NewController (controllerConfig config) env))))))"

text \<open>
  How a command that needs the cluster begins: with its configuration, changed by \<open>f\<close>, a logger and
  the controller.
\<close>

definition initCommand ::
  "startup \<Rightarrow> viper \<Rightarrow> env \<Rightarrow> (config \<Rightarrow> config) \<Rightarrow> (config \<times> controller) res" where
  "initCommand st v env f =
     (case initEKCOConfig v of
        Inl err \<Rightarrow> Inl (Wrap ''failed to initialize config'' err)
      | Inr config \<Rightarrow>
     (case FromViper st v of
        Inl err \<Rightarrow> Inl (Wrap ''failed to initialize logger'' err)
      | Inr _ \<Rightarrow>
     (case initClusterController st (f config) env of
        Inl err \<Rightarrow> Inl (Wrap ''failed to initialize cluster controller'' err)
      | Inr clusterController \<Rightarrow> Inr (f config, clusterController))))"

definition withController ::
  "startup \<Rightarrow> viper \<Rightarrow> env \<Rightarrow> (config \<Rightarrow> config) \<Rightarrow> (config \<Rightarrow> controller \<Rightarrow> 'a res go) \<Rightarrow> 'a res go" where
  "withController st v env f run =
     (case initCommand st v env f of
        Inl err \<Rightarrow> Fail err
      | Inr (config, clusterController) \<Rightarrow> run config clusterController)"

lemma initCommand_Inr:
  "initCommand st v env f = Inr (config, c) \<Longrightarrow>
   \<exists>config'. initEKCOConfig v = Inr config' \<and> config = f config' \<and> c = NewController (controllerConfig config) env"
  by (auto simp: initCommand_def initClusterController_def split: sum.splits)

text \<open>A configuration that a command accepts keeps at least one ready master.\<close>

lemma initEKCOConfig_master: "initEKCOConfig v = Inr config \<Longrightarrow> 1 \<le> MinReadyMasterNodes config"
  by (auto simp: initEKCOConfig_def split: sum.splits if_splits)

text \<open>A start at which every library succeeds.\<close>

definition sampleStartup :: startup where
  "sampleStartup = \<lparr>setLevel = (\<lambda>_. Inr ()), buildLogger = Inr (), InClusterConfig = Inr (),
     newKubernetesClient = Inr (), newControllerRuntimeClient = Inr (), newCephClient = Inr (),
     newDynamicClient = Inr ()\<rparr>"

definition sampleOpConfig :: config where
  "sampleOpConfig =
     \<lparr>NodeUnreachableToleration = 60 * Minute, MinReadyMasterNodes = 2, MinReadyWorkerNodes = 0,
      PurgeDeadNodes = True, ClearDeadNodes = True, MaintainRookStorageNodes = True,
      RookStorageNodesLabel = '''', RookStorageNodes = '''', CephBlockPool = ''replicapool'',
      CephFilesystem = ''rook-shared-fs'', CephObjectStore = ''replicated'',
      MinCephPoolReplication = 1, MaxCephPoolReplication = 3,
      RookPriorityClass = ''node-critical'', ReconcileRookMDSPlacement = True,
      ReconcileCephCSIResources = True, CertificatesDir = ''/etc/kubernetes/pki'',
      ReconcileInterval = Minute, ReconcileTimeout = 15 * Minute, RotateCertsEnabled = True,
      RotateCertsImage = '''', RotateCertsNamespace = ''kurl'',
      RotateCertsCheckInterval = 1440 * Minute, RotateCertsTTL = 43200 * Minute,
      RegistryCertNamespace = ''kurl'', RegistryCertSecret = ''registry-pki'',
      KurlProxyCertNamespace = ''default'', KurlProxyCertSecret = ''kotsadm-tls'',
      KotsadmKubeletCertNamespace = ''default'', KotsadmKubeletCertSecret = ''default'',
      ContourNamespace = ''projectcontour'', ContourCertNamespace = '''',
      ContourCertSecret = ''contourcert'', EnvoyCertSecret = ''envoycert'',
      RestartFailedEnvoyPodsEnabled = True, EnvoyPodsNotReadyDuration = 5 * Minute,
      EnableInternalLoadBalancer = False, InternalLoadBalancerHAProxyImage = '''',
      InternalLoadBalancerPort = 0,
      HostTaskImage = '''', HostTaskNamespace = ''kurl'', PodImageOverrides = [],
      AutoApproveKubeletCertSigningRequests = True, RookMinimumNodeCount = 0,
      RookStorageClass = '''', RookCephImage = '''', StorageMigrationAuthToken = '''',
      EnableHAMinio = False, MinioNamespace = ''minio'', MinioUtilImage = '''',
      EnableHAKotsadm = False\<rparr>"

end
