(* ===== verification/PurgeNode.thy ===== *)
theory PurgeNode
  imports CephStorage OpConfig
begin

text \<open>
  Removing a lost node (\<open>src/pkg/cluster/purge_node.go\<close>, \<open>etcd.go\<close>, \<open>clear_node.go\<close>) and the
  command that does it by hand (\<open>src/cmd/ekco/cli/purge_node.go\<close>): the node's OSD, its kubeadm
  endpoint, its etcd member and at last its Node object, in this order.
\<close>

section \<open>etcd: src/pkg/cluster/etcd.go\<close>

definition JoinHostPort :: "string \<Rightarrow> string \<Rightarrow> string" where
  "JoinHostPort host port =
     (if CHR '':'' \<in> set host then ''['' @ host @ '']:'' @ port else host @ '':'' @ port)"

definition EtcdListenClientPort :: int where "EtcdListenClientPort = 2379"
definition EtcdListenPeerPort :: int where "EtcdListenPeerPort = 2380"

definition getEtcdPeerURL :: "string \<Rightarrow> string" where
  "getEtcdPeerURL ip = ''https://'' @ JoinHostPort ip (Itoa EtcdListenPeerPort)"

definition getEtcdClientURL :: "string \<Rightarrow> string" where
  "getEtcdClientURL ip = ''https://'' @ JoinHostPort ip (Itoa EtcdListenClientPort)"

definition readFile :: "env \<Rightarrow> string \<Rightarrow> string res go" where
  "readFile env path = do {
     r \<leftarrow> call env (ReadFile path);
     ret (case r of Bytes b \<Rightarrow> Inr b | Failed e \<Rightarrow> Inl e | _ \<Rightarrow> Inl badResponse) }"

text \<open>\<open>filepath.Join\<close> of a clean directory and a clean relative path.\<close>

definition joinPath :: "string \<Rightarrow> string \<Rightarrow> string" where
  "joinPath dir rel = (if dir = '''' then rel else dir @ ''/'' @ rel)"

definition getEtcdTLS :: "env \<Rightarrow> string \<Rightarrow> unit res go" where
  "getEtcdTLS env pkiDir =
     bindE (readFile env (joinPath pkiDir ''etcd/ca.crt'')) (\<lambda>caCertPEM.
       if \<not> AppendCertsFromPEM env caCertPEM
       then Fail (NewErr ''failed to append CA from pem'')
       else
         bindE (readFile env (joinPath pkiDir ''etcd/healthcheck-client.crt'')) (\<lambda>clientCertPEM.
         bindE (readFile env (joinPath pkiDir ''etcd/healthcheck-client.key'')) (\<lambda>clientKeyPEM.
         ret (X509KeyPair env clientCertPEM clientKeyPEM))))"

text \<open>
  The loop over the members: the last one whose first peer URL is the URL of the removed node;
  a member without peer URLs makes the index expression panic.
\<close>

fun purgedMember :: "string \<Rightarrow> etcd_member list \<Rightarrow> uint \<Rightarrow> uint res" where
  "purgedMember url [] purgedMemberID = Inr purgedMemberID"
| "purgedMember url (m # ms) purgedMemberID =
     (case memberPeerURLs m of
        [] \<Rightarrow> Inl (Panic ''index out of range'')
      | u # _ \<Rightarrow> purgedMember url ms (if u = url then memberID m else purgedMemberID))"

definition memberList :: "env \<Rightarrow> etcd_member list res go" where
  "memberList env = do {
     r \<leftarrow> call env EtcdMemberList;
     ret (case r of Members ms \<Rightarrow> Inr ms | Failed e \<Rightarrow> Inl e | _ \<Rightarrow> Inl badResponse) }"

definition removeEtcdPeer :: "controller \<Rightarrow> string \<Rightarrow> string list \<Rightarrow> unit res go" where
  "removeEtcdPeer c ip remainingIPs =
     bindE (wrapE ''get etcd ca'' (getEtcdTLS (Client c) (cfgCertificatesDir (Config c)))) (\<lambda>_.
     bindE (wrapE ''new etcd client''
       (send (Client c) (EtcdConnect (map getEtcdClientURL remainingIPs)))) (\<lambda>_.
     bindE (wrapE ''list etcd members'' (memberList (Client c))) (\<lambda>members.
     bindE (ret (purgedMember (getEtcdPeerURL ip) members 0)) (\<lambda>purgedMemberID.
       if purgedMemberID \<noteq> 0
       then wrapE (''remove etcd member '' @ digits (unat purgedMemberID))
              (send (Client c) (EtcdMemberRemove purgedMemberID))
       else Ok ()))))"

section \<open>The kubeadm endpoint\<close>

definition NamespaceSystem :: string where "NamespaceSystem = ''kube-system''"
definition KubeadmConfigConfigMap :: string where "KubeadmConfigConfigMap = ''kubeadm-config''"
definition clusterStatusConfigMapKey :: string where
  "clusterStatusConfigMapKey = ''ClusterStatus''"
definition AdvertiseAddressAnnotation :: string where
  "AdvertiseAddressAnnotation =
     ''kubeadm.kubernetes.io/kube-apiserver.advertise-address.endpoint''"

definition unmarshalClusterStatus :: "env \<Rightarrow> string \<Rightarrow> k8s121ClusterStatus res" where
  "unmarshalClusterStatus env x =
     map_err (Wrap ''failed to unmarshal kubeadm-config ClusterStatus'') (yaml_Unmarshal env x)"

definition marshalClusterStatus :: "env \<Rightarrow> k8s121ClusterStatus \<Rightarrow> string res" where
  "marshalClusterStatus env clusterStatus =
     map_err (Wrap ''failed to marshal kubeadm-config ClusterStatus'')
       (yaml_Marshal env (clusterStatusToWrite clusterStatus))"

definition updateKubeadmConfig :: "controller \<Rightarrow> configmap \<Rightarrow> string \<Rightarrow> unit res go" where
  "updateKubeadmConfig c cm yaml =
     send (Client c) (Update ConfigMaps NamespaceSystem
       (ObjConfigMap (cm\<lparr>cmData := store_map (cmData cm) clusterStatusConfigMapKey yaml\<rparr>)))"

definition endpointAddresses :: "endpoints option \<Rightarrow> string list" where
  "endpointAddresses es =
     (case es of None \<Rightarrow> [] | Some m \<Rightarrow> map (\<lambda>(n, e). advertiseAddress e) m)"

definition removeKubeadmEndpoint :: "controller \<Rightarrow> string \<Rightarrow> (string \<times> string list) res go" where
  "removeKubeadmEndpoint c name =
     bindE (wrapE ''get kube-system kubeadm-config ConfigMap''
       (getObj (Client c) dec_configmap ConfigMaps NamespaceSystem KubeadmConfigConfigMap)) (\<lambda>cm.
     case map_of (cmData cm) clusterStatusConfigMapKey of
       None \<Rightarrow> Ok ('''', [])
     | Some raw \<Rightarrow>
         bindE (ret (unmarshalClusterStatus (Client c) raw)) (\<lambda>clusterStatus.
         case map_of (case apiEndpoints clusterStatus of None \<Rightarrow> [] | Some m \<Rightarrow> m) name of
           Some endpoint \<Rightarrow>
             (let clusterStatus' = deleteEndpoint clusterStatus name in
              bindE (ret (marshalClusterStatus (Client c) clusterStatus')) (\<lambda>clusterStatusYaml.
              bindE (wrapE ''update kube-system kubeadm-config ConfigMap''
                (updateKubeadmConfig c cm clusterStatusYaml)) (\<lambda>_.
              Ok (advertiseAddress endpoint, endpointAddresses (apiEndpoints clusterStatus')))))
         | None \<Rightarrow>
             (if isMalformed clusterStatus
              then
                bindE (ret (map_err (Wrap ''failed to marshal ClusterStatus'')
                  (marshalClusterStatus (Client c) clusterStatus))) (\<lambda>validClusterStatusYaml.
                bindE (wrapE ''failed to update kube-system kubeadm-config ConfigMap''
                  (updateKubeadmConfig c cm validClusterStatusYaml)) (\<lambda>_.
                Ok ('''', endpointAddresses (apiEndpoints clusterStatus))))
              else Ok ('''', endpointAddresses (apiEndpoints clusterStatus)))))"

fun endpointsOfPods :: "env \<Rightarrow> pod list \<Rightarrow> string list \<Rightarrow> string list res" where
  "endpointsOfPods env [] endpoints = Inr endpoints"
| "endpointsOfPods env (p # ps) endpoints =
     (case map_of (podAnnotations p) AdvertiseAddressAnnotation of
        None \<Rightarrow> endpointsOfPods env ps endpoints
      | Some rawEndpoint \<Rightarrow>
          (case APIEndpointFromString env rawEndpoint of
             Inl e \<Rightarrow>
               Inl (Wrap ''could not parse api server endpoint from pod annotation'' e)
           | Inr a \<Rightarrow> endpointsOfPods env ps (endpoints @ [a])))"

definition getEndpointIPsFromPods :: "controller \<Rightarrow> string list res go" where
  "getEndpointIPsFromPods c =
     bindE (wrapE ''could not retrieve list of pods to determine api server endpoints''
       (listObjs (Client c) dec_pod Pods NamespaceSystem
         ''component=kube-apiserver,tier=control-plane''))
     (\<lambda>podList. ret (endpointsOfPods (Client c) podList []))"

definition deleteK8sNode :: "controller \<Rightarrow> string \<Rightarrow> unit res go" where
  "deleteK8sNode c name =
     wrapE (''delete Kubernetes Node object '' @ Quote name) (send (Client c) (Delete Nodes '''' name))"

section \<open>PurgeNode\<close>

text \<open>The error of \<open>purgeCephOsd\<close> is logged and dropped.\<close>

definition purgeOsd :: "controller \<Rightarrow> string \<Rightarrow> bool \<Rightarrow> semver option \<Rightarrow> unit go" where
  "purgeOsd c name rook rookVersion =
     (case rookVersion of
        None \<Rightarrow> ret ()
      | Some v \<Rightarrow> (if rook then do { _ \<leftarrow> purgeCephOsd c v name; ret () } else ret ()))"

definition maybeMaster :: "node option \<Rightarrow> bool" where
  "maybeMaster n =
     (case n of
        None \<Rightarrow> True
      | Some n \<Rightarrow>
          (let oldLabel = map_of (nodeLabels n) MasterRoleLabel \<noteq> None;
               newLabel = map_of (nodeLabels n) ControlPlaneRoleLabel \<noteq> None
           in if \<not> oldLabel \<and> \<not> newLabel then False else True))"

definition purgeMaster :: "controller \<Rightarrow> string \<Rightarrow> node option \<Rightarrow> unit res go" where
  "purgeMaster c name n =
     bindE (removeKubeadmEndpoint c name) (\<lambda>(ip, remainingIPs).
     bindE (if remainingIPs = []
            then wrapE ''could not get cluster endpoints from pods'' (getEndpointIPsFromPods c)
            else Ok remainingIPs) (\<lambda>remainingIPs.
     let ip = (if ip = '''' then (case n of None \<Rightarrow> ip | Some n \<Rightarrow> internalIP (nodeAddresses n))
               else ip)
     in if ip \<noteq> '''' then removeEtcdPeer c ip remainingIPs else Ok ()))"

text \<open>The node, or \<open>None\<close> when there is none of that name.\<close>

definition findNode :: "controller \<Rightarrow> string \<Rightarrow> node option res go" where
  "findNode c name = do {
     r \<leftarrow> getObj (Client c) dec_node Nodes '''' name;
     case r of
       Inl err \<Rightarrow> (if FilterOutReasonNotFoundErr err \<noteq> None then Fail (Wrap ''get Node'' err) else Ok None)
     | Inr n \<Rightarrow> Ok (Some n) }"

definition PurgeNode :: "controller \<Rightarrow> string \<Rightarrow> bool \<Rightarrow> semver option \<Rightarrow> unit res go" where
  "PurgeNode c name rook rookVersion =
     bindE (findNode c name) (\<lambda>n. do {
       _ \<leftarrow> purgeOsd c name rook rookVersion;
       bindE (if maybeMaster n then purgeMaster c name n else Ok ()) (\<lambda>_.
         case n of None \<Rightarrow> Ok () | Some _ \<Rightarrow> deleteK8sNode c name) })"

section \<open>ClearNode: src/pkg/cluster/clear_node.go\<close>

fun clearPods :: "controller \<Rightarrow> pod list \<Rightarrow> unit res go" where
  "clearPods c [] = Ok ()"
| "clearPods c (p # ps) =
     (case podDeletionTimestamp p of
        None \<Rightarrow> clearPods c ps
      | Some t \<Rightarrow> do {
          t0 \<leftarrow> now (Client c);
          if t + 30 * Second > t0 then clearPods c ps
          else bindE (wrapE (''delete pod '' @ podNamespace p @ ''/'' @ podName p)
                 (send (Client c) (ForceDelete Pods (podNamespace p) (podName p))))
                 (\<lambda>_. clearPods c ps) })"

definition ClearNode :: "controller \<Rightarrow> string \<Rightarrow> unit res go" where
  "ClearNode c target =
     bindE (wrapE (''list all pods on node '' @ target)
       (listObjs (Client c) dec_pod Pods '''' (''spec.nodeName='' @ target)))
     (\<lambda>pods. clearPods c pods)"

section \<open>The purge-node command: src/cmd/ekco/cli/purge_node.go\<close>

definition purgeListed :: "string \<Rightarrow> config \<Rightarrow> controller \<Rightarrow> node list \<Rightarrow> unit res go" where
  "purgeListed target config c nodes =
     (let (readyMasters, readyWorkers) = NodeReadyCounts nodes in
      if readyMasters \<le> MinReadyMasterNodes config \<and>
         list_ex (\<lambda>n. nodeName n = target \<and> NodeIsMaster n \<and> NodeIsReady n) nodes
      then Fail (NewErr (''cannot purge master: '' @ Itoa readyMasters @ '' ready masters''))
      else if readyWorkers \<le> MinReadyWorkerNodes config \<and>
         list_ex (\<lambda>n. nodeName n = target \<and> \<not> NodeIsMaster n \<and> NodeIsReady n) nodes
      then Fail (NewErr (''cannot purge worker: '' @ Itoa readyWorkers @ '' ready workers''))
      else do {
        r \<leftarrow> (if MaintainRookStorageNodes config
             then do {
               r \<leftarrow> GetRookVersion c;
               ret (case r of
                   Inl err \<Rightarrow> (if \<not> IsNotFoundErr err then Inl (Wrap ''failed to get Rook version'' err)
                              else Inr None)
                 | Inr rv \<Rightarrow> Inr (Some rv)) }
             else Ok None);
        case r of
          Inl err \<Rightarrow> Fail err
        | Inr rookVersion \<Rightarrow> do {
            r \<leftarrow> PurgeNode c target (MaintainRookStorageNodes config) rookVersion;
            ret (res_of (wrap_nilable (err_of r) ''failed to purge node'')) } })"

definition purgeNode :: "string \<Rightarrow> config \<Rightarrow> controller \<Rightarrow> unit res go" where
  "purgeNode target config c =
     bindE (wrapE ''failed to list nodes'' (listObjs (Client c) dec_node Nodes [] []))
       (\<lambda>nodes. purgeListed target config c nodes)"

section \<open>etcd members\<close>

lemma JoinHostPort_inj:
  assumes "CHR '':'' \<notin> set port" "JoinHostPort a port = JoinHostPort b port"
  shows "a = b"
proof (cases "CHR '':'' \<in> set a \<longleftrightarrow> CHR '':'' \<in> set b")
  case True
  then show ?thesis using assms by (auto simp: JoinHostPort_def split: if_splits)
next
  case False
  have "x \<noteq> y" if "''['' @ x @ '']:'' @ port = y @ '':'' @ port" "CHR '':'' \<notin> set y" "CHR '':'' \<in> set x"
    for x y using that by auto
  moreover have False if "''['' @ x @ '']:'' @ port = y @ '':'' @ port" "CHR '':'' \<notin> set y" "CHR '':'' \<in> set x"
    for x y
  proof -
    from that(1) have "''['' @ x @ '']'' = y" by simp
    then show False using that(2,3) by auto
  qed
  ultimately show ?thesis using False assms(2) by (auto simp: JoinHostPort_def split: if_splits)
qed

lemma getEtcdPeerURL_inj: "getEtcdPeerURL a = getEtcdPeerURL b \<Longrightarrow> a = b"
proof -
  have port: "CHR '':'' \<notin> set (Itoa EtcdListenPeerPort)" by code_simp
  assume "getEtcdPeerURL a = getEtcdPeerURL b"
  then have "JoinHostPort a (Itoa EtcdListenPeerPort) = JoinHostPort b (Itoa EtcdListenPeerPort)"
    by (simp add: getEtcdPeerURL_def)
  from JoinHostPort_inj [OF port this] show ?thesis .
qed

lemma purgedMember_found:
  assumes "purgedMember url ms id0 = Inr i" "i \<noteq> id0"
  shows "\<exists>m\<in>set ms. memberID m = i \<and> (\<exists>us. memberPeerURLs m = url # us)"
  using assms
proof (induction ms arbitrary: id0)
  case (Cons m ms)
  obtain u us where u: "memberPeerURLs m = u # us"
    using Cons.prems(1) by (cases "memberPeerURLs m") auto
  show ?case
  proof (cases "u = url \<and> i = memberID m")
    case True
    then show ?thesis using u by auto
  next
    case False
    then have "\<exists>m\<in>set ms. memberID m = i \<and> (\<exists>us. memberPeerURLs m = url # us)"
      using Cons.prems u Cons.IH [of "if u = url then memberID m else id0"]
      by (auto split: if_splits)
    then show ?thesis by auto
  qed
qed simp

lemma emits_readFile [emits_intros]: "P (ReadFile path) \<Longrightarrow> emits P (readFile env path)"
  unfolding readFile_def by (intro emits_intros)

lemma emits_getEtcdTLS [emits_intros]: "(\<And>f. P (ReadFile f)) \<Longrightarrow> emits P (getEtcdTLS env dir)"
  unfolding getEtcdTLS_def by (intro emits_intros)

lemma emits_memberList [emits_intros]: "P EtcdMemberList \<Longrightarrow> emits P (memberList env)"
  unfolding memberList_def by (intro emits_intros)

text \<open>What the removal of a peer may send: reads, and the removal of a listed member at its URL.\<close>

definition removesPeerAt :: "env \<Rightarrow> string \<Rightarrow> request \<Rightarrow> bool" where
  "removesPeerAt env ip r \<longleftrightarrow> is_read r \<or>
     (\<exists>i h ms m us. r = EtcdMemberRemove i \<and> i \<noteq> 0 \<and>
        respond env h EtcdMemberList = Members ms \<and> m \<in> set ms \<and> memberID m = i \<and>
        memberPeerURLs m = (''https://'' @ JoinHostPort ip ''2380'') # us)"

lemma peerURL: "getEtcdPeerURL ip = ''https://'' @ JoinHostPort ip ''2380''"
proof -
  have "Itoa EtcdListenPeerPort = ''2380''" by code_simp
  then show ?thesis by (simp add: getEtcdPeerURL_def)
qed

lemma emits_removeEtcdPeer: "emits (removesPeerAt (Client c) ip) (removeEtcdPeer c ip ips)"
proof -
  have 1: "emits (removesPeerAt (Client c) ip)
      (if i \<noteq> 0 then wrapE msg (send (Client c) (EtcdMemberRemove i)) else Ok ())"
    if "result (wrapE m1 (memberList (Client c))) s = Inr ms"
      "purgedMember (getEtcdPeerURL ip) ms 0 = Inr i" for i ms s msg m1
  proof (cases "i = 0")
    case False
    from purgedMember_found [OF that(2) False] obtain m us where
      m: "m \<in> set ms" "memberID m = i" "memberPeerURLs m = getEtcdPeerURL ip # us" by blast
    have "respond (Client c) (history s) EtcdMemberList = Members ms"
      using that(1) by (simp add: memberList_def result_bind split: response.splits)
    then show ?thesis using m False
      by (intro emits_intros) (auto simp: removesPeerAt_def peerURL)
  qed (simp add: emits_intros)
  show ?thesis
    unfolding removeEtcdPeer_def
    by (intro emits_wrapE emits_bindE emits_getEtcdTLS emits_send emits_bindE_result
        emits_memberList emits_return 1) (auto simp: removesPeerAt_def)
qed

text \<open>
  C25: The etcd member that a purge removes is one that the cluster listed, at the peer URL of the
  purged address: no other member is ever removed, and no member without an id.
\<close>

theorem removeEtcdPeer_target:
  assumes "EtcdMemberRemove i \<in> set (sent (removeEtcdPeer c ip remainingIPs) s)"
  shows "i \<noteq> 0 \<and> (\<exists>h ms m us. respond (Client c) h EtcdMemberList = Members ms \<and> m \<in> set ms \<and>
     memberID m = i \<and> memberPeerURLs m = (''https://'' @ JoinHostPort ip ''2380'') # us)"
  using emits_sent [OF emits_removeEtcdPeer assms] by (auto simp: removesPeerAt_def)

theorem removeEtcdPeer_target_witness:
  "EtcdMemberRemove 7 \<in> set (sent (removeEtcdPeer
       (sampleController (answering
         [(ReadFile ''etcd/ca.crt'', Bytes ''ca''), (ReadFile ''etcd/healthcheck-client.crt'', Bytes ''crt''),
          (ReadFile ''etcd/healthcheck-client.key'', Bytes ''key''),
          (EtcdMemberList, Members [\<lparr>memberID = 5, memberPeerURLs = [''https://10.0.0.1:2380'']\<rparr>,
             \<lparr>memberID = 7, memberPeerURLs = [''https://10.0.0.2:2380'']\<rparr>])]))
       ''10.0.0.2'' [''10.0.0.1'']) sampleProc) \<and> (7 :: uint) \<noteq> 0"
proof -
  have "EtcdMemberRemove 7 \<in> set (sent (removeEtcdPeer
       (sampleController (answering
         [(ReadFile ''etcd/ca.crt'', Bytes ''ca''), (ReadFile ''etcd/healthcheck-client.crt'', Bytes ''crt''),
          (ReadFile ''etcd/healthcheck-client.key'', Bytes ''key''),
          (EtcdMemberList, Members [\<lparr>memberID = 5, memberPeerURLs = [''https://10.0.0.1:2380'']\<rparr>,
             \<lparr>memberID = 7, memberPeerURLs = [''https://10.0.0.2:2380'']\<rparr>])]))
       ''10.0.0.2'' [''10.0.0.1'']) sampleProc)"
    by code_simp
  with removeEtcdPeer_target [OF this] show ?thesis by blast
qed

section \<open>The order of a purge\<close>

abbreviation notNodeDelete :: "request \<Rightarrow> bool" where
  "notNodeDelete r \<equiv> \<not> (\<exists>ns n. r = Delete Nodes ns n)"

lemma emits_purgeCephOsd:
  assumes "controller_ok c" "\<And>r. is_read r \<Longrightarrow> P r" "\<And>ns pd ctr cmd. P (Exec ns pd ctr cmd)"
    "\<And>p. P (Patch CephClusters RookCephNS CephClusterName p)"
    "\<And>n. P (Delete Deployments RookCephNS n)"
  shows "emits P (purgeCephOsd c v name)"
  unfolding purgeCephOsd_def
  by (intro emits_intros emits_removeCephClusterStorageNode emits_deleteK8sDeploymentOSD
      emits_execCephOSDPurge assms) simp_all

lemma emits_purgeOsd:
  assumes "controller_ok c" "\<And>r. is_read r \<Longrightarrow> P r" "\<And>ns pd ctr cmd. P (Exec ns pd ctr cmd)"
    "\<And>p. P (Patch CephClusters RookCephNS CephClusterName p)"
    "\<And>n. P (Delete Deployments RookCephNS n)"
  shows "emits P (purgeOsd c name rook rv)"
  unfolding purgeOsd_def by (intro emits_intros emits_purgeCephOsd assms) simp_all

lemma emits_removeKubeadmEndpoint:
  "P (Get ConfigMaps NamespaceSystem KubeadmConfigConfigMap) \<Longrightarrow>
   (\<And>x. P (Update ConfigMaps NamespaceSystem x)) \<Longrightarrow> emits P (removeKubeadmEndpoint c name)"
  unfolding removeKubeadmEndpoint_def updateKubeadmConfig_def by (intro emits_intros)

lemma emits_getEndpointIPsFromPods:
  "(\<And>ns sel. P (ListReq Pods ns sel)) \<Longrightarrow> emits P (getEndpointIPsFromPods c)"
  unfolding getEndpointIPsFromPods_def by (intro emits_intros)

lemma emits_purgeMaster:
  assumes "\<And>r. is_read r \<Longrightarrow> P r" "\<And>i. P (EtcdMemberRemove i)"
    "\<And>x. P (Update ConfigMaps NamespaceSystem x)"
  shows "emits P (purgeMaster c name n)"
  unfolding purgeMaster_def
proof (intro emits_intros emits_removeKubeadmEndpoint emits_getEndpointIPsFromPods)
  show "emits P (removeEtcdPeer c ip ips)" for ip ips
    by (rule emits_mono [OF emits_removeEtcdPeer]) (auto simp: removesPeerAt_def assms)
qed (simp_all add: assms)

lemma maybeMaster_Some [simp]: "maybeMaster (Some n) = NodeIsMaster n"
  by (simp add: maybeMaster_def NodeIsMaster_def Let_def)

lemma emits_findNode [emits_intros]: "P (Get Nodes '''' name) \<Longrightarrow> emits P (findNode c name)"
  unfolding findNode_def by (intro emits_intros)

lemma sent_findNode [simp]: "sent (findNode c name) s = [Get Nodes '''' name]"
  by (auto simp: findNode_def sent_def split: sum.split)

lemma findNode_Some:
  "result (findNode c name) s = Inr (Some n) \<Longrightarrow>
   as_obj dec_node (respond (Client c) (history s) (Get Nodes '''' name)) = Inr n"
  by (auto simp: findNode_def result_bind split: sum.splits if_splits)

text \<open>
  C2: The Node object of a purged node is the last thing to go: it is deleted by the last request
  of the purge, only if it was found, and for a control-plane node only after the kubeadm
  endpoint and the etcd member have been dealt with successfully, so that a purge that fails
  half-way can be repeated.
\<close>

theorem PurgeNode_deletes_last:
  assumes "sent (PurgeNode (NewController cfg env) name rook rv) s = pre @ Delete Nodes ns n # post"
  shows "ns = '''' \<and> n = name \<and> post = [] \<and>
     (\<exists>nd. as_obj dec_node (respond env (history s) (Get Nodes '''' name)) = Inr nd \<and>
        (NodeIsMaster nd \<longrightarrow>
          (\<exists>s1 t1. history s1 = history s @ t1 \<and>
             result (purgeMaster (NewController cfg env) name (Some nd)) s1 = Inr () \<and>
             pre = t1 @ sent (purgeMaster (NewController cfg env) name (Some nd)) s1)))"
proof -
  let ?c = "NewController cfg env" and ?r = "Delete Nodes ns n"
  let ?find = "findNode ?c name" and ?osd = "purgeOsd ?c name rook rv"
  let ?del = "\<lambda>n' (_ :: unit). case n' of None \<Rightarrow> Ok () | Some _ \<Rightarrow> deleteK8sNode ?c name"
  let ?pm = "\<lambda>n'. if maybeMaster n' then purgeMaster ?c name n' else Ok ()"
  have G: "emits notNodeDelete ?find" by (intro emits_intros) simp
  have O: "emits notNodeDelete ?osd" by (rule emits_purgeOsd) auto
  have M: "emits notNodeDelete (?pm n')" for n' by (intro emits_intros emits_purgeMaster) auto
  have D: "grows (?del n' u)" for n' u unfolding deleteK8sNode_def by (intro emits_intros) simp
  have K: "grows (?osd \<bind> (\<lambda>_. bindE (?pm n') (?del n')))" for n'
    by (intro emits_intros emits_grows [OF O] emits_grows [OF M] D)
  obtain n' mid where n': "result ?find s = Inr n'" "pre = sent ?find s @ mid"
    "sent (?osd \<bind> (\<lambda>_. bindE (?pm n') (?del n'))) (after ?find s) = mid @ ?r # post"
    by (rule bindE_phase [OF G _ K assms [unfolded PurgeNode_def]]) auto
  let ?s2 = "after ?osd (after ?find s)"
  obtain mid2 where m2: "mid = sent ?osd (after ?find s) @ mid2"
    "sent (bindE (?pm n') (?del n')) ?s2 = mid2 @ ?r # post"
    by (rule bind_phase [OF O _ emits_bindE [OF emits_grows [OF M] D] n'(3)]) auto
  obtain x mid3 where m3: "result (?pm n') ?s2 = Inr x" "mid2 = sent (?pm n') ?s2 @ mid3"
    "sent (?del n' x) (after (?pm n') ?s2) = mid3 @ ?r # post"
    by (rule bindE_phase [OF M _ D m2(2)]) auto
  from m3(3) obtain nd where nd: "n' = Some nd" and z: "mid3 = []" "post = []" "?r = Delete Nodes '''' name"
    by (cases n') (auto simp: deleteK8sNode_def append_eq_Cons_conv Cons_eq_append_conv)
  let ?t = "sent ?find s @ sent ?osd (after ?find s)"
  have "history ?s2 = history s @ ?t"
    using grows_history [OF emits_grows [OF G]] grows_history [OF emits_grows [OF O]] by simp
  then have "NodeIsMaster nd \<longrightarrow> (\<exists>s1 t1. history s1 = history s @ t1 \<and>
      result (purgeMaster ?c name (Some nd)) s1 = Inr () \<and>
      pre = t1 @ sent (purgeMaster ?c name (Some nd)) s1)"
    using n'(2) m2(1) m3(1,2) z by (intro impI exI [of _ ?s2] exI [of _ ?t]) (simp add: nd)
  then show ?thesis using findNode_Some n'(1) nd z by fastforce
qed

section \<open>The kubeadm endpoint\<close>

text \<open>
  C26: When the purged node has an endpoint in the ClusterStatus of kubeadm, the operation rewrites
  the configmap once. The document written, read back, is well-formed, has the same kind and
  version, and shows exactly the endpoints of the old one without the node's, whether the old
  document was written with the lower-case keys of earlier releases or not; the operation
  returns the node's address and the other addresses.
  The hypotheses on the YAML functions say that the old document parses and that the new one
  reads back as it was written.
\<close>

theorem removeKubeadmEndpoint_removes:
  fixes cfg env name s cm raw cs ip port y
  defines "m \<equiv> removeKubeadmEndpoint (NewController cfg env) name"
    and "getCM \<equiv> Get ConfigMaps ''kube-system'' ''kubeadm-config''"
    and "new \<equiv> Update ConfigMaps ''kube-system''
           (ObjConfigMap (cm\<lparr>cmData := store_map (cmData cm) ''ClusterStatus'' y\<rparr>))"
  assumes "respond env (history s) getCM = Obj (ObjConfigMap cm)"
    and "map_of (cmData cm) ''ClusterStatus'' = Some raw"
    and "yaml_Unmarshal env raw = Inr cs"
    and "endpointView cs name = Some (ip, port)"
    and "yaml_Marshal env (clusterStatusToWrite (deleteEndpoint cs name)) = Inr y"
    and "yaml_Unmarshal env y = Inr (clusterStatusToWrite (deleteEndpoint cs name))"
    and "respond env (history s @ [getCM]) new = Done"
  shows "sent m s = [getCM, new] \<and>
     result m s = Inr (ip, endpointAddresses (apiEndpoints (deleteEndpoint cs name))) \<and>
     (\<exists>cs'. yaml_Unmarshal env y = Inr cs' \<and> \<not> isMalformed cs' \<and>
        endpointView cs' = (endpointView cs)(name := None) \<and>
        cs_kind cs' = cs_kind cs \<and> apiVersion cs' = apiVersion cs)"
proof -
  from assms(7) obtain e where e: "map_of (case apiEndpoints cs of None \<Rightarrow> [] | Some m \<Rightarrow> m) name = Some e"
    and ip: "ip = advertiseAddress e"
    by (auto simp: endpointView_def)
  have "run_state m s =
      (Inr (ip, endpointAddresses (apiEndpoints (deleteEndpoint cs name))),
       s\<lparr>history := history s @ [getCM, new]\<rparr>)"
    using assms(4-8,10) e
    by (simp add: m_def removeKubeadmEndpoint_def getCM_def new_def NamespaceSystem_def ip Let_def
        KubeadmConfigConfigMap_def clusterStatusConfigMapKey_def unmarshalClusterStatus_def
        marshalClusterStatus_def updateKubeadmConfig_def)
  moreover have "cs_kind (deleteEndpoint cs name) = cs_kind cs"
    "apiVersion (deleteEndpoint cs name) = apiVersion cs"
    by (simp_all add: deleteEndpoint_def cs_kind_def apiVersion_def)
  ultimately show ?thesis
    using assms(9)
    by (simp add: sent_def result_def toWrite_wellformed toWrite_header endpointView_toWrite
        endpointView_delete)
qed

definition sampleStatus :: k8s121ClusterStatus where
  "sampleStatus =
     \<lparr>TypeMetaKind = ''ClusterStatus'', TypeMetaAPIVersion = ''kubeadm.k8s.io/v1beta2'', Kind = '''',
      APIVersion = '''', APIEndpoints = None,
      APIEndpointsLC = Some
        [(''node-a'', \<lparr>AdvertiseAddress = '''', AdvertiseAddressLC = ''10.0.0.1'', BindPort = 0,
            BindPortLC = 6443\<rparr>),
         (''node-b'', \<lparr>AdvertiseAddress = '''', AdvertiseAddressLC = ''10.0.0.2'', BindPort = 0,
            BindPortLC = 6443\<rparr>)]\<rparr>"

definition sampleKubeadmConfig :: configmap where
  "sampleKubeadmConfig =
     \<lparr>cmName = ''kubeadm-config'', cmNamespace = ''kube-system'',
      cmData = [(''ClusterStatus'', ''old'')]\<rparr>"

definition sampleYamlEnv :: env where
  "sampleYamlEnv =
     (sampleEnv (answering [(Get ConfigMaps ''kube-system'' ''kubeadm-config'',
        Obj (ObjConfigMap sampleKubeadmConfig))]))
     \<lparr>yaml_Unmarshal := (\<lambda>y. if y = ''old'' then Inr sampleStatus
         else Inr (clusterStatusToWrite (deleteEndpoint sampleStatus ''node-b''))),
      yaml_Marshal := (\<lambda>x. Inr ''new'')\<rparr>"

theorem removeKubeadmEndpoint_removes_witness:
  "result (removeKubeadmEndpoint (NewController sampleConfig sampleYamlEnv) ''node-b'') sampleProc =
     Inr (''10.0.0.2'', [''10.0.0.1''])"
proof -
  have 1: "respond sampleYamlEnv (history sampleProc) (Get ConfigMaps ''kube-system'' ''kubeadm-config'')
      = Obj (ObjConfigMap sampleKubeadmConfig)"
    by (simp add: sampleYamlEnv_def sampleEnv_def answering_def)
  have 2: "map_of (cmData sampleKubeadmConfig) ''ClusterStatus'' = Some ''old''"
    by (simp add: sampleKubeadmConfig_def)
  have 3: "yaml_Unmarshal sampleYamlEnv ''old'' = Inr sampleStatus"
    by (simp add: sampleYamlEnv_def)
  have 4: "endpointView sampleStatus ''node-b'' = Some (''10.0.0.2'', 6443)"
    by (simp add: endpointView_def sampleStatus_def apiEndpoints_def advertiseAddress_def bindPort_def)
  have 5: "yaml_Marshal sampleYamlEnv (clusterStatusToWrite (deleteEndpoint sampleStatus ''node-b'')) = Inr ''new''"
    by (simp add: sampleYamlEnv_def)
  have 6: "yaml_Unmarshal sampleYamlEnv ''new'' =
      Inr (clusterStatusToWrite (deleteEndpoint sampleStatus ''node-b''))"
    by (simp add: sampleYamlEnv_def)
  have 7: "respond sampleYamlEnv (history sampleProc @ [Get ConfigMaps ''kube-system'' ''kubeadm-config''])
      (Update ConfigMaps ''kube-system'' x) = Done" for x
    by (simp add: sampleYamlEnv_def sampleEnv_def answering_def)
  have "endpointAddresses (apiEndpoints (deleteEndpoint sampleStatus ''node-b'')) = [''10.0.0.1'']"
    by (simp add: endpointAddresses_def sampleStatus_def deleteEndpoint_def apiEndpoints_def
        delete_map_def advertiseAddress_def)
  then show ?thesis using removeKubeadmEndpoint_removes [OF 1 2 3 4 5 6 7, of sampleConfig] by simp
qed

section \<open>Clearing a node\<close>

definition forcesDeadPod :: "env \<Rightarrow> string \<Rightarrow> request \<Rightarrow> bool" where
  "forcesDeadPod env target r \<longleftrightarrow> is_read r \<or>
     (\<exists>(p :: pod) ps t h h'. r = ForceDelete Pods (podNamespace p) (podName p) \<and>
        as_objs dec_pod (respond env h (ListReq Pods '''' (''spec.nodeName='' @ target))) = Inr ps \<and>
        p \<in> set ps \<and> podDeletionTimestamp p = Some t \<and> t + 30 * Second \<le> clock env h')"

lemma emits_clearPods:
  assumes "as_objs dec_pod (respond (Client c) h (ListReq Pods '''' (''spec.nodeName='' @ target))) = Inr all"
    "set ps \<subseteq> set all"
  shows "emits (forcesDeadPod (Client c) target) (clearPods c ps)"
  using assms(2)
proof (induction ps)
  case (Cons p ps)
  then have p: "p \<in> set all" and IH: "emits (forcesDeadPod (Client c) target) (clearPods c ps)"
    by auto
  show ?case
  proof (cases "podDeletionTimestamp p")
    case (Some t)
    have "emits (forcesDeadPod (Client c) target)
        (if t + 30 * Second > clock (Client c) h' then clearPods c ps
         else bindE (wrapE msg (send (Client c) (ForceDelete Pods (podNamespace p) (podName p))))
           (\<lambda>_. clearPods c ps))" for h' msg
      using assms(1) p Some by (intro emits_if IH emits_bindE emits_wrapE emits_send)
        (auto simp: forcesDeadPod_def not_less)
    moreover have "forcesDeadPod (Client c) target Now" by (simp add: forcesDeadPod_def)
    ultimately show ?thesis using Some by (auto intro!: emits_now_bind)
  qed (simp add: IH)
qed (simp add: emits_intros)

text \<open>
  Clearing a dead node force-deletes only pods that the listing of that node showed as
  terminating, and only when the clock was read at least thirty seconds past their deletion
  timestamp; it changes nothing else.
\<close>

lemma ClearNode_only_terminating:
  "list_all (forcesDeadPod (Client c) target) (sent (ClearNode c target) s)"
  unfolding ClearNode_def
proof (rule emits_sent_all, rule emits_list_bindE)
  show "emits (forcesDeadPod (Client c) target) (clearPods c ps)"
    if "as_objs dec_pod (respond (Client c) h (ListReq Pods [] (''spec.nodeName='' @ target))) = Inr ps"
    for h ps
    using that order_refl by (rule emits_clearPods)
qed (simp add: forcesDeadPod_def)

section \<open>The purge-node command\<close>

lemma emits_GetRookVersion: "(\<And>k ns n. P (Get k ns n)) \<Longrightarrow> emits P (GetRookVersion c)"
  unfolding GetRookVersion_def by (intro emits_intros)

text \<open>What a purge may send at all.\<close>

definition purgeRequest :: "request \<Rightarrow> bool" where
  "purgeRequest r \<longleftrightarrow> is_read r \<or>
     (case r of
        Exec _ _ _ _ \<Rightarrow> True
      | Patch k ns _ _ \<Rightarrow> k = CephClusters \<and> ns = RookCephNS
      | Delete k _ _ \<Rightarrow> k = Deployments \<or> k = Nodes
      | Update k ns _ \<Rightarrow> k = ConfigMaps \<and> ns = NamespaceSystem
      | EtcdMemberRemove _ \<Rightarrow> True
      | _ \<Rightarrow> False)"

lemma emits_PurgeNode:
  "controller_ok c \<Longrightarrow> emits purgeRequest (PurgeNode c name rook rv)"
  unfolding PurgeNode_def deleteK8sNode_def
  by (intro emits_intros emits_purgeOsd emits_purgeMaster) (auto simp: purgeRequest_def)

lemma emits_purgeListed:
  "emits purgeRequest (purgeListed target config (NewController cfg env) nodes)"
  unfolding purgeListed_def
  by (intro emits_intros emits_GetRookVersion emits_PurgeNode) (auto simp: purgeRequest_def)

lemma count_without:
  assumes "distinct (map f xs)" "x \<in> set xs" "P x"
  shows "length (filter P xs) = Suc (length (filter P (filter (\<lambda>y. f y \<noteq> f x) xs)))"
  using assms
proof (induction xs)
  case (Cons y ys)
  show ?case
  proof (cases "y = x")
    case True
    have "f x \<notin> f ` set ys" using Cons.prems(1) True by simp
    then have "filter (\<lambda>z. f z \<noteq> f x) ys = ys"
      by (intro filter_True ballI) (metis imageI)
    then show ?thesis using True Cons.prems(3) by simp
  next
    case False
    then have "x \<in> set ys" "f y \<noteq> f x" using Cons.prems by auto
    then show ?thesis using Cons by auto
  qed
qed simp

lemma purgeListed_passed:
  assumes "r \<in> set (sent (purgeListed target config c nodes) s)"
  shows "\<not> (int (length (filter readyMaster nodes)) \<le> MinReadyMasterNodes config \<and>
      list_ex (\<lambda>n. nodeName n = target \<and> NodeIsMaster n \<and> NodeIsReady n) nodes)"
    "\<not> (int (length (filter readyWorker nodes)) \<le> MinReadyWorkerNodes config \<and>
      list_ex (\<lambda>n. nodeName n = target \<and> \<not> NodeIsMaster n \<and> NodeIsReady n) nodes)"
  using assms by (auto simp: purgeListed_def NodeReadyCounts_eq Let_def split: if_splits)

text \<open>Removing one ready node of a kind from a list with more of them than the minimum leaves the minimum.\<close>

lemma minimum_without:
  assumes "distinct (map nodeName nodes)" "n \<in> set nodes" "P n"
    and "\<not> int (length (filter P nodes)) \<le> least"
  shows "least \<le> int (length (filter P (filter (\<lambda>m. nodeName m \<noteq> nodeName n) nodes)))"
  using count_without [where P = P, OF assms(1-3)] assms(4) by simp


definition sampleNode :: "string \<Rightarrow> bool \<Rightarrow> taint list \<Rightarrow> node" where
  "sampleNode name master taints =
     \<lparr>nodeName = name, nodeLabels = (if master then [(ControlPlaneRoleLabel, [])] else []),
      nodeTaints = taints, nodeAddresses = [(''InternalIP'', ''10.0.0.9'')]\<rparr>"

definition sampleNodes :: "node list" where
  "sampleNodes = [sampleNode ''m1'' True [], sampleNode ''w1'' False [], sampleNode ''w2'' False []]"


definition sampleWorkerEnv :: env where
  "sampleWorkerEnv = sampleEnv (answering
     [(Get Nodes [] ''w1'', Obj (ObjNode (sampleNode ''w1'' False [])))])"

theorem PurgeNode_deletes_last_witness:
  "sent (PurgeNode (NewController sampleConfig sampleWorkerEnv) ''w1'' False None) sampleProc =
     [Get Nodes [] ''w1'', Delete Nodes [] ''w1''] \<and>
   as_obj dec_node (respond sampleWorkerEnv (history sampleProc) (Get Nodes [] ''w1'')) =
     Inr (sampleNode ''w1'' False [])"
proof -
  have s: "sent (PurgeNode (NewController sampleConfig sampleWorkerEnv) ''w1'' False None) sampleProc =
     [Get Nodes [] ''w1''] @ Delete Nodes [] ''w1'' # []"
    by code_simp
  from PurgeNode_deletes_last [OF s] obtain nd where
    nd: "as_obj dec_node (respond sampleWorkerEnv (history sampleProc) (Get Nodes [] ''w1'')) = Inr nd"
    by blast
  then have "nd = sampleNode ''w1'' False []" by (simp add: sampleWorkerEnv_def answering_def)
  with nd s show ?thesis by simp
qed

end
