(* ===== verification/CephCSI.thy ===== *)
theory CephCSI
  imports CephExec
begin

text \<open>
  \<open>SetCephCSIResources\<close> of \<open>src/pkg/cluster/rook_ceph.go\<close>: the resources of the Ceph CSI
  containers, which the operator sets in the configmap \<open>rook-ceph-operator-config\<close> once the
  cluster has three nodes. The patch is built as JSON text, so it is read back with a small
  decoder to show what it does.
\<close>

section \<open>Resources of the CSI drivers\<close>

text \<open>
  The six constants are sequences of entries of one shape, each naming a container and its
  resource requests and limits.
\<close>


definition csiEntry :: "string \<Rightarrow> string \<Rightarrow> string \<Rightarrow> string \<Rightarrow> string \<Rightarrow> string" where
  "csiEntry name mem cpu memLimit cpuLimit =
     ''- name : '' @ name @ NL @ ''  resource:'' @ NL @ ''    requests:'' @ NL @
     ''      memory: '' @ mem @ NL @ ''      cpu: '' @ cpu @ NL @ ''    limits:'' @ NL @
     ''      memory: '' @ memLimit @ NL @ ''      cpu: '' @ cpuLimit @ NL"

abbreviation csiSmall :: "string \<Rightarrow> string" where
  "csiSmall name \<equiv> csiEntry name ''128Mi'' ''100m'' ''256Mi'' ''200m''"
abbreviation csiLarge :: "string \<Rightarrow> string" where
  "csiLarge name \<equiv> csiEntry name ''512Mi'' ''250m'' ''1Gi'' ''500m''"
abbreviation csiLight :: "string \<Rightarrow> string" where
  "csiLight name \<equiv> csiEntry name ''128Mi'' ''50m'' ''256Mi'' ''100m''"

definition cephCSIRbdProvisionerResource :: string where
  "cephCSIRbdProvisionerResource =
     csiSmall ''csi-provisioner'' @ csiSmall ''csi-resizer'' @ csiSmall ''csi-attacher'' @
     csiSmall ''csi-snapshotter'' @ csiLarge ''csi-rbdplugin'' @ csiLarge ''csi-omap-generator'' @
     csiLight ''liveness-prometheus''"

definition cephCSIRbdPluginResource :: string where
  "cephCSIRbdPluginResource =
     csiLight ''driver-registrar'' @ csiLarge ''csi-rbdplugin'' @ csiLight ''liveness-prometheus''"

definition cephCSICephfsProvisionerResource :: string where
  "cephCSICephfsProvisionerResource =
     csiSmall ''csi-provisioner'' @ csiSmall ''csi-resizer'' @ csiSmall ''csi-attacher'' @
     csiSmall ''csi-snapshotter'' @ csiLarge ''csi-cephfsplugin'' @
     csiLight ''liveness-prometheus''"

definition cephCSICephfsPluginResource :: string where
  "cephCSICephfsPluginResource =
     csiLight ''driver-registrar'' @ csiLarge ''csi-cephfsplugin'' @
     csiLight ''liveness-prometheus''"

definition cephCSINfsProvisionerResource :: string where
  "cephCSINfsProvisionerResource = csiSmall ''csi-provisioner'' @ csiLarge ''csi-nfsplugin''"

definition cephCSINfsPluginResource :: string where
  "cephCSINfsPluginResource = csiLight ''driver-registrar'' @ csiLarge ''csi-nfsplugin''"

text \<open>\<open>strings.ReplaceAll (s, newline, backslash n)\<close>, and a string between double quotes.\<close>

definition escapeNL :: "string \<Rightarrow> string" where
  "escapeNL s = ReplaceChar (CHR 0x0A) [CHR 0x5C, CHR ''n''] s"

definition cephCSIResourcesPatch :: string where
  "cephCSIResourcesPatch =
     ''{'' @ dquote ''data'' @ '':{'' @
     dquote ''CSI_RBD_PROVISIONER_RESOURCE'' @ '':'' @
       dquote (escapeNL cephCSIRbdProvisionerResource) @ '','' @
     dquote ''CSI_RBD_PLUGIN_RESOURCE'' @ '':'' @
       dquote (escapeNL cephCSIRbdPluginResource) @ '','' @
     dquote ''CSI_CEPHFS_PROVISIONER_RESOURCE'' @ '':'' @
       dquote (escapeNL cephCSICephfsProvisionerResource) @ '','' @
     dquote ''CSI_CEPHFS_PLUGIN_RESOURCE'' @ '':'' @
       dquote (escapeNL cephCSICephfsPluginResource) @ '','' @
     dquote ''CSI_NFS_PROVISIONER_RESOURCE'' @ '':'' @
       dquote (escapeNL cephCSINfsProvisionerResource) @ '','' @
     dquote ''CSI_NFS_PLUGIN_RESOURCE'' @ '':'' @
       dquote (escapeNL cephCSINfsPluginResource) @ ''}}''"

definition cephCSIResourcesNeedsUpdate :: "(string \<times> string) list \<Rightarrow> bool" where
  "cephCSIResourcesNeedsUpdate m \<longleftrightarrow>
     index_map m ''CSI_RBD_PROVISIONER_RESOURCE'' \<noteq> cephCSIRbdProvisionerResource \<or>
     index_map m ''CSI_RBD_PLUGIN_RESOURCE'' \<noteq> cephCSIRbdPluginResource \<or>
     index_map m ''CSI_CEPHFS_PROVISIONER_RESOURCE'' \<noteq> cephCSICephfsProvisionerResource \<or>
     index_map m ''CSI_CEPHFS_PLUGIN_RESOURCE'' \<noteq> cephCSICephfsPluginResource \<or>
     index_map m ''CSI_NFS_PROVISIONER_RESOURCE'' \<noteq> cephCSINfsProvisionerResource \<or>
     index_map m ''CSI_NFS_PLUGIN_RESOURCE'' \<noteq> cephCSINfsPluginResource"

definition SetCephCSIResources :: "controller \<Rightarrow> semver \<Rightarrow> int \<Rightarrow> bool res go" where
  "SetCephCSIResources c rookVersion nodeCount =
     (if semver_LT (Client c) rookVersion Rookv19 then Ok False
      else if nodeCount < 3 then Ok False
      else
        bindE (wrapE ''get rook-ceph-operator-config configmap''
          (getObj (Client c) dec_configmap ConfigMaps RookCephNS ''rook-ceph-operator-config''))
        (\<lambda>configMap.
          if \<not> cephCSIResourcesNeedsUpdate (cmData configMap) then Ok False
          else bindE (wrapE ''patch rook-ceph-operator-config configmap''
                 (send (Client c) (Patch ConfigMaps RookCephNS ''rook-ceph-operator-config''
                   (MergePatch cephCSIResourcesPatch)))) (\<lambda>_. Ok True)))"

text \<open>
  A decoder for objects whose members are strings: a name, a colon and a string each, separated
  by commas, where a string may hold \<open>\n\<close> and no other escape. It is how a server reads the
  merge patch above.
\<close>

fun jsonString :: "string \<Rightarrow> (string \<times> string) option" where
  "jsonString [] = None"
| "jsonString (x # xs) =
     (if x = CHR 0x22 then Some ([], xs)
      else if x = CHR 0x5C then
        (case xs of
           y # ys \<Rightarrow> (if y = CHR ''n'' then map_option (\<lambda>(s, r). (CHR 0x0A # s, r)) (jsonString ys)
                      else None)
         | [] \<Rightarrow> None)
      else map_option (\<lambda>(s, r). (x # s, r)) (jsonString xs))"

definition plainJSON :: "string \<Rightarrow> bool" where
  "plainJSON s \<longleftrightarrow> list_all (\<lambda>x. x \<noteq> CHR 0x22 \<and> x \<noteq> CHR 0x5C) s"

lemma jsonString_escapeNL:
  "plainJSON s \<Longrightarrow> jsonString (escapeNL s @ CHR 0x22 # r) = Some (s, r)"
  by (induction s) (auto simp: escapeNL_def plainJSON_def)

lemma plain_csi:
  "plainJSON cephCSIRbdProvisionerResource" "plainJSON cephCSIRbdPluginResource"
  "plainJSON cephCSICephfsProvisionerResource" "plainJSON cephCSICephfsPluginResource"
  "plainJSON cephCSINfsProvisionerResource" "plainJSON cephCSINfsPluginResource"
  by code_simp+

definition quoted :: "string \<Rightarrow> (string \<times> string) option" where
  "quoted s = (if HasPrefix s [CHR 0x22] then jsonString (tl s) else None)"

fun jsonMembers :: "nat \<Rightarrow> string \<Rightarrow> (string \<times> string) list option" where
  "jsonMembers 0 s = None"
| "jsonMembers (Suc n) s =
     (case quoted s of
        None \<Rightarrow> None
      | Some (k, r) \<Rightarrow>
          (if \<not> HasPrefix r '':'' then None
           else (case quoted (tl r) of
               None \<Rightarrow> None
             | Some (v, r') \<Rightarrow>
                 (if r' = ''}}'' then Some [(k, v)]
                  else if HasPrefix r' '','' then
                    map_option (\<lambda>kvs. (k, v) # kvs) (jsonMembers n (tl r'))
                  else None))))"

definition jsonData :: "string \<Rightarrow> (string \<times> string) list option" where
  "jsonData s =
     (let p = ''{'' @ dquote ''data'' @ '':{'' in
      if HasPrefix s p then jsonMembers 6 (drop (length p) s) else None)"

text \<open>What a merge patch with these members does to the data of a configmap.\<close>

definition mergeData :: "(string \<times> string) list \<Rightarrow> (string \<times> string) list \<Rightarrow> (string \<times> string) list" where
  "mergeData m kvs = foldl (\<lambda>m (k, v). store_map m k v) m kvs"

definition csiRecommended :: "(string \<times> string) list" where
  "csiRecommended =
     [(''CSI_RBD_PROVISIONER_RESOURCE'', cephCSIRbdProvisionerResource),
      (''CSI_RBD_PLUGIN_RESOURCE'', cephCSIRbdPluginResource),
      (''CSI_CEPHFS_PROVISIONER_RESOURCE'', cephCSICephfsProvisionerResource),
      (''CSI_CEPHFS_PLUGIN_RESOURCE'', cephCSICephfsPluginResource),
      (''CSI_NFS_PROVISIONER_RESOURCE'', cephCSINfsProvisionerResource),
      (''CSI_NFS_PLUGIN_RESOURCE'', cephCSINfsPluginResource)]"

declare jsonMembers.simps [simp del]

lemma jsonMembers_step:
  assumes "plainJSON k" "CHR 0x0A \<notin> set k" "plainJSON v"
  shows "jsonMembers (Suc n) (dquote k @ CHR '':'' # dquote (escapeNL v) @ r) =
     (if r = ''}}'' then Some [(k, v)]
      else if HasPrefix r '','' then map_option (\<lambda>kvs. (k, v) # kvs) (jsonMembers n (tl r))
      else None)"
proof -
  have k: "escapeNL k = k" using assms(2) by (simp add: escapeNL_def ReplaceChar_id)
  have q: "quoted (dquote (escapeNL w) @ t) = Some (w, t)" if "plainJSON w" for w t
    using that by (simp add: quoted_def dquote_def HasPrefix_def jsonString_escapeNL)
  show ?thesis
    using q [OF assms(1), of "CHR '':'' # dquote (escapeNL v) @ r"] q [OF assms(3), of r]
    by (simp add: k HasPrefix_def jsonMembers.simps)
qed

lemma plain_csi_names:
  "list_all (\<lambda>k. plainJSON k \<and> CHR 0x0A \<notin> set k) (map fst csiRecommended)"
  by (simp add: csiRecommended_def plainJSON_def)

lemma jsonData_patch: "jsonData cephCSIResourcesPatch = Some csiRecommended"
proof -
  have n: "list_all (\<lambda>k. plainJSON k \<and> CHR 0x0A \<notin> set k)
    [''CSI_RBD_PROVISIONER_RESOURCE'', ''CSI_RBD_PLUGIN_RESOURCE'',
     ''CSI_CEPHFS_PROVISIONER_RESOURCE'', ''CSI_CEPHFS_PLUGIN_RESOURCE'',
     ''CSI_NFS_PROVISIONER_RESOURCE'', ''CSI_NFS_PLUGIN_RESOURCE'']"
    using plain_csi_names by (simp add: csiRecommended_def)
  show ?thesis
    using n
    by (simp add: jsonData_def Let_def cephCSIResourcesPatch_def eval_nat_numeral
        jsonMembers_step plain_csi csiRecommended_def HasPrefix_def)
qed

lemma needsUpdate_iff:
  "cephCSIResourcesNeedsUpdate m \<longleftrightarrow>
     \<not> list_all (\<lambda>(k, v). index_map m k = v) csiRecommended"
  by (auto simp: cephCSIResourcesNeedsUpdate_def csiRecommended_def)

lemma map_of_mergeData: "map_of (mergeData m kvs) = map_of m ++ map_of (rev kvs)"
  unfolding mergeData_def by (induction kvs arbitrary: m) (auto simp: map_add_upd_left map_add_def split: option.splits)

lemma mergeData_converged: "\<not> cephCSIResourcesNeedsUpdate (mergeData m csiRecommended)"
  by (simp add: cephCSIResourcesNeedsUpdate_def index_map_def map_of_mergeData)
    (simp add: csiRecommended_def)



end
