(* ===== verification/Scaling.thy ===== *)
theory Scaling
  imports OpConfig
begin

text \<open>
  Scaling of workloads with the cluster: Prometheus and Alertmanager
  (\<open>src/pkg/util/prometheus.go\<close>, \<open>src/pkg/ekcoops/prometheus.go\<close>) and the database of kotsadm
  (\<open>src/pkg/cluster/kotsadm.go\<close>). The three scalers follow one contract, the locale \<open>scaler\<close>.
\<close>

section \<open>Prometheus and Alertmanager\<close>

text \<open>
  The error of the first call is dropped: a resource that cannot be read is taken for absent. A
  \<open>spec\<close> that is not an object makes the type assertion panic.
\<close>

definition ScalePrometheus :: "env \<Rightarrow> int \<Rightarrow> unit res go" where
  "ScalePrometheus env replicas = do {
     prometheus \<leftarrow> getObj env dec_monitoring Prometheuses ''monitoring'' ''k8s'';
     case prometheus of
       Inl _ \<Rightarrow> Ok ()
     | Inr p \<Rightarrow>
         (case monSpecReplicas p of
            None \<Rightarrow> Fail (Panic ''interface conversion'')
          | Some None \<Rightarrow> Fail (NewErr ''failed to parse prometheus replicas'')
          | Some (Some currentPrometheusReplicas) \<Rightarrow>
              (if currentPrometheusReplicas \<noteq> replicas
               then wrapWE (''failed to patch prometheus to '' @ Itoa replicas @ '' replicas'')
                      (send env (Patch Prometheuses ''monitoring'' ''k8s''
                        (JSONPatch [replace_op ''/spec/replicas'' (JInt replicas)])))
               else Ok ())) }"

definition ScaleAlertManager :: "env \<Rightarrow> int \<Rightarrow> unit res go" where
  "ScaleAlertManager env replicas = do {
     alertManager \<leftarrow>
       getObj env dec_monitoring Alertmanagers ''monitoring'' ''prometheus-alertmanager'';
     case alertManager of
       Inl _ \<Rightarrow> Ok ()
     | Inr a \<Rightarrow>
         (case monSpecReplicas a of
            None \<Rightarrow> Fail (Panic ''interface conversion'')
          | Some None \<Rightarrow> Fail (NewErr ''failed to parse alert manager replicas'')
          | Some (Some currentAlertManagerReplicas) \<Rightarrow>
              (if currentAlertManagerReplicas \<noteq> replicas
               then wrapWE ''failed to patch alertmanager''
                      (send env (Patch Alertmanagers ''monitoring'' ''prometheus-alertmanager''
                        (JSONPatch [replace_op ''/spec/replicas'' (JInt replicas)])))
               else Ok ())) }"

definition go_min :: "int \<Rightarrow> int \<Rightarrow> int" where
  "go_min a b = (if a \<le> b then a else b)"

definition ReconcilePrometheus :: "controller \<Rightarrow> int \<Rightarrow> unit res go" where
  "ReconcilePrometheus c nodeCount = do {
     paused \<leftarrow> PrometheusPaused;
     if paused then Ok ()
     else
       bindE (wrapE ''failed to scale prometheus operator''
         (ScalePrometheus (Client c) (go_min 2 nodeCount))) (\<lambda>_.
       wrapE ''failed to scale alert manager operator''
         (ScaleAlertManager (Client c) (go_min 3 nodeCount))) }"

section \<open>kotsadm: src/pkg/cluster/kotsadm.go\<close>

definition KotsadmRqliteHAReplicaCount :: int where "KotsadmRqliteHAReplicaCount = 3"

text \<open>The loop over the arguments: the first one with the prefix is replaced.\<close>

fun replaceBootstrapArg :: "int \<Rightarrow> string list \<Rightarrow> string list" where
  "replaceBootstrapArg n [] = []"
| "replaceBootstrapArg n (a # as) =
     (if HasPrefix a ''-bootstrap-expect'' then (''-bootstrap-expect='' @ Itoa n) # as
      else a # replaceBootstrapArg n as)"

definition ScaleKotsadmRqlite :: "controller \<Rightarrow> string \<Rightarrow> int \<Rightarrow> unit res go" where
  "ScaleKotsadmRqlite c ns desiredScale = do {
     r \<leftarrow> getObj (Client c) dec_statefulset StatefulSets ns ''kotsadm-rqlite'';
     case r of
       Inl err \<Rightarrow> (if IsNotFoundErr err then Ok ()
                  else Fail (Wrap ''get kotsadm-rqlite statefulset'' err))
     | Inr sts \<Rightarrow>
         (let currentScale = (case stsSpecReplicas sts of None \<Rightarrow> 0 | Some n \<Rightarrow> n) in
          if currentScale = desiredScale then Ok ()
          else
            (case stsContainers sts of
               [] \<Rightarrow> Fail (Panic ''index out of range'')
             | ctr # ctrs \<Rightarrow>
                 wrapE ''update kotsadm-rqlite statefulset''
                   (send (Client c) (Update StatefulSets ns (ObjStatefulSet
                     (sts\<lparr>stsSpecReplicas := Some desiredScale,
                          stsContainers :=
                            ctr\<lparr>ctrArgs := replaceBootstrapArg desiredScale (ctrArgs ctr)\<rparr> # ctrs\<rparr>)))))) }"

definition EnableHAKotsadm :: "controller \<Rightarrow> string \<Rightarrow> unit res go" where
  "EnableHAKotsadm c ns =
     wrapE ''failed to scale up kotsadm-rqlite''
       (ScaleKotsadmRqlite c ns KotsadmRqliteHAReplicaCount)"

section \<open>The contract of a scaler\<close>

text \<open>
  \<open>replicas\<close> reads the number of replicas of the resource. A scaler reads its resource once,
  leaves it alone when it has the number asked for or does not exist, and otherwise writes that
  one resource once, so that it shows the number (\<open>writes\<close>).
\<close>

locale scaler =
  fixes env :: env and k :: kind and ns :: string and name :: string
    and scale :: "int \<Rightarrow> unit res go" and replicas :: "obj \<Rightarrow> int option"
    and writes :: "int \<Rightarrow> obj \<Rightarrow> request"
  assumes at_scale: "respond env (history s) (Get k ns name) = Obj x \<Longrightarrow> replicas x = Some n \<Longrightarrow>
        run_state (scale n) s = (Inr (), s\<lparr>history := history s @ [Get k ns name]\<rparr>)"
    and absent: "respond env (history s) (Get k ns name) = Failed (ApiErr NotFound msg) \<Longrightarrow>
        run_state (scale n) s = (Inr (), s\<lparr>history := history s @ [Get k ns name]\<rparr>)"
    and off_scale: "respond env (history s) (Get k ns name) = Obj x \<Longrightarrow> replicas x = Some m \<Longrightarrow>
        m \<noteq> n \<Longrightarrow> sent (scale n) s = [Get k ns name, writes n x]"
    and footprint: "emits (\<lambda>r. r = Get k ns name \<or> (\<exists>x. r = writes n x)) (scale n)"
begin

lemma quiet_at_scale:
  assumes "respond env (history s) (Get k ns name) = Obj x" "replicas x = Some n"
  shows "result (scale n) s = Inr () \<and> list_all is_read (sent (scale n) s)"
  using at_scale [OF assms] by (simp add: result_def sent_def)

lemma one_write:
  assumes "respond env (history s) (Get k ns name) = Obj x" "replicas x = Some m"
    "\<not> is_read (writes n x)"
  shows "counts (\<lambda>r. \<not> is_read r) (sent (scale n) s) = (if m = n then 0 else 1)"
  using at_scale [OF assms(1), of n] off_scale [OF assms(1,2), of n] assms
  by (auto simp: sent_def)

lemma grows_scale: "grows (scale n)"
  by (rule emits_grows [OF footprint])

end

definition monitoringReplicas :: "obj \<Rightarrow> int option" where
  "monitoringReplicas x = (case dec_monitoring x of Some m \<Rightarrow>
     (case monSpecReplicas m of Some r \<Rightarrow> r | None \<Rightarrow> None) | None \<Rightarrow> None)"

definition rqliteReplicas :: "obj \<Rightarrow> int option" where
  "rqliteReplicas x = (case dec_statefulset x of Some sts \<Rightarrow>
     (if stsContainers sts = [] then None
      else Some (case stsSpecReplicas sts of None \<Rightarrow> 0 | Some n \<Rightarrow> n)) | None \<Rightarrow> None)"

abbreviation replicasPatch :: "kind \<Rightarrow> string \<Rightarrow> int \<Rightarrow> obj \<Rightarrow> request" where
  "replicasPatch k name n x \<equiv>
     Patch k ''monitoring'' name (JSONPatch [replace_op ''/spec/replicas'' (JInt n)])"

text \<open>The statefulset as \<open>ScaleKotsadmRqlite\<close> writes it.\<close>

definition rqliteUpdate :: "string \<Rightarrow> int \<Rightarrow> obj \<Rightarrow> request" where
  "rqliteUpdate ns n x =
     (case x of
        ObjStatefulSet sts \<Rightarrow> Update StatefulSets ns (ObjStatefulSet
          (sts\<lparr>stsSpecReplicas := Some n,
               stsContainers := (case stsContainers sts of [] \<Rightarrow> []
                 | ctr # ctrs \<Rightarrow> ctr\<lparr>ctrArgs := replaceBootstrapArg n (ctrArgs ctr)\<rparr> # ctrs)\<rparr>))
      | _ \<Rightarrow> Get StatefulSets ns ''kotsadm-rqlite'')"

interpretation prometheus_scaler: scaler env Prometheuses "''monitoring''" "''k8s''"
  "ScalePrometheus env" monitoringReplicas "replicasPatch Prometheuses ''k8s''" for env
proof (unfold_locales, goal_cases)
  case (4 n)
  show ?case unfolding ScalePrometheus_def by (intro emits_intros) auto
qed (auto simp: ScalePrometheus_def monitoringReplicas_def sent_def split: option.splits)

interpretation alertmanager_scaler: scaler env Alertmanagers "''monitoring''"
  "''prometheus-alertmanager''" "ScaleAlertManager env" monitoringReplicas
  "replicasPatch Alertmanagers ''prometheus-alertmanager''" for env
proof (unfold_locales, goal_cases)
  case (4 n)
  show ?case unfolding ScaleAlertManager_def by (intro emits_intros) auto
qed (auto simp: ScaleAlertManager_def monitoringReplicas_def sent_def split: option.splits)

lemma dec_statefulset_Some [simp]: "dec_statefulset x = Some y \<longleftrightarrow> x = ObjStatefulSet y"
  by (cases x) auto

interpretation rqlite_scaler: scaler "Client c" StatefulSets ns "''kotsadm-rqlite''"
  "ScaleKotsadmRqlite c ns" rqliteReplicas "rqliteUpdate ns" for c ns
proof (unfold_locales, goal_cases)
  case (4 n)
  have "\<exists>x. Update StatefulSets ns (ObjStatefulSet
          (sts\<lparr>stsSpecReplicas := Some n,
               stsContainers := ctr\<lparr>ctrArgs := replaceBootstrapArg n (ctrArgs ctr)\<rparr> # ctrs\<rparr>)) =
        rqliteUpdate ns n x" if "stsContainers sts = ctr # ctrs" for sts ctr ctrs
    using that by (intro exI [of _ "ObjStatefulSet sts"]) (simp add: rqliteUpdate_def)
  then show ?case unfolding ScaleKotsadmRqlite_def by (intro emits_intros) auto
qed (auto simp: ScaleKotsadmRqlite_def rqliteReplicas_def rqliteUpdate_def sent_def Let_def
      split: option.splits list.splits if_splits)

section \<open>Properties\<close>

text \<open>
  While Prometheus is paused its reconcile sends nothing at all; otherwise the only changes it
  can make are to set the replicas of Prometheus to the number of nodes but at most two, and
  those of Alertmanager to the number of nodes but at most three.
\<close>

lemma ReconcilePrometheus_changes:
  "list_all (\<lambda>r. \<not> prometheusPaused s \<and> (is_read r \<or>
       r = Patch Prometheuses ''monitoring'' ''k8s''
             (JSONPatch [replace_op ''/spec/replicas'' (JInt (min 2 n))]) \<or>
       r = Patch Alertmanagers ''monitoring'' ''prometheus-alertmanager''
             (JSONPatch [replace_op ''/spec/replicas'' (JInt (min 3 n))])))
     (sent (ReconcilePrometheus c n) s)"
proof (cases "prometheusPaused s")
  case True
  have "sent (ReconcilePrometheus c n) s = []"
    using True by (simp add: ReconcilePrometheus_def sent_after after_bind PrometheusPaused_def)
  then show ?thesis by simp
next
  case False
  have m: "go_min a n = min a n" for a by (simp add: go_min_def min_def)
  have "emits (\<lambda>r. is_read r \<or>
       r = replicasPatch Prometheuses ''k8s'' (min 2 n) (ObjNamespace []) \<or>
       r = replicasPatch Alertmanagers ''prometheus-alertmanager'' (min 3 n) (ObjNamespace []))
     (ReconcilePrometheus c n)"
    unfolding ReconcilePrometheus_def PrometheusPaused_def m
    by (intro emits_intros emits_mono [OF prometheus_scaler.footprint]
        emits_mono [OF alertmanager_scaler.footprint]) auto
  from emits_sent_all [OF this, of s] False show ?thesis by (simp add: list_all_iff)
qed

text \<open>The arguments of the database: what is before and after the replaced one stays.\<close>

lemma replaceBootstrapArg_split:
  "replaceBootstrapArg n as =
     (let p = (\<lambda>a. \<not> HasPrefix a ''-bootstrap-expect'') in
      takeWhile p as @
      (case dropWhile p as of [] \<Rightarrow> [] | _ # rest \<Rightarrow> (''-bootstrap-expect='' @ Itoa n) # rest))"
  by (induction as) (auto simp: Let_def)

lemma replaceBootstrapArg_idem: "replaceBootstrapArg n (replaceBootstrapArg n as) = replaceBootstrapArg n as"
  by (induction as) (auto simp: HasPrefix_def)

text \<open>
  Scaling the database of kotsadm to three replicas is done once: when the cluster shows a
  statefulset with another number of replicas, one update is sent, which asks for three replicas
  and tells the first container to expect three; when the cluster then shows what was written,
  nothing is sent any more.
\<close>

lemma EnableHAKotsadm_once:
  assumes "stsContainers sts = ctr # ctrs" and "stsSpecReplicas sts = Some m" and "m \<noteq> 3"
    and "respond env (history s) (Get StatefulSets ns ''kotsadm-rqlite'') = Obj (ObjStatefulSet sts)"
    and "new = sts\<lparr>stsSpecReplicas := Some 3,
           stsContainers := ctr\<lparr>ctrArgs := replaceBootstrapArg 3 (ctrArgs ctr)\<rparr> # ctrs\<rparr>"
    and "respond env (history s') (Get StatefulSets ns ''kotsadm-rqlite'') = Obj (ObjStatefulSet new)"
  shows "sent (EnableHAKotsadm (NewController cfg env) ns) s =
           [Get StatefulSets ns ''kotsadm-rqlite'', Update StatefulSets ns (ObjStatefulSet new)] \<and>
         result (EnableHAKotsadm (NewController cfg env) ns) s' = Inr () \<and>
         list_all is_read (sent (EnableHAKotsadm (NewController cfg env) ns) s')"
proof -
  let ?c = "NewController cfg env"
  have old: "rqliteReplicas (ObjStatefulSet sts) = Some m"
    using assms(1,2) by (simp add: rqliteReplicas_def)
  have shown: "rqliteReplicas (ObjStatefulSet new) = Some 3"
    by (simp add: rqliteReplicas_def assms(5))
  have upd: "rqliteUpdate ns 3 (ObjStatefulSet sts) = Update StatefulSets ns (ObjStatefulSet new)"
    by (simp add: rqliteUpdate_def assms(1,5))
  show ?thesis
    using rqlite_scaler.off_scale [of ?c s ns "ObjStatefulSet sts" m 3]
      rqlite_scaler.quiet_at_scale [of ?c s' ns "ObjStatefulSet new" 3] assms(3,4,6) old shown upd
    by (simp add: EnableHAKotsadm_def KotsadmRqliteHAReplicaCount_def)
qed

definition sampleStatefulSet :: statefulset where
  "sampleStatefulSet =
     \<lparr>stsName = ''kotsadm-rqlite'', stsAnnotations = [], stsSpecReplicas = Some 1,
      stsContainers = [\<lparr>ctrName = ''rqlite'', ctrImage = [], ctrCommand = [],
        ctrArgs = [''-disco-mode=dns'', ''-bootstrap-expect=1''], ctrMounts = [], ctrEnvFields = [],
        ctrWorkingDir = [], ctrImagePullPolicy = [], ctrPrivileged = False\<rparr>],
      stsTemplateAnnotations = [], stsReplicas = 1, stsReadyReplicas = 1, stsAvailableReplicas = 1,
      stsUpdatedReplicas = 1\<rparr>"

definition scaledStatefulSet :: statefulset where
  "scaledStatefulSet = sampleStatefulSet\<lparr>stsSpecReplicas := Some 3,
     stsContainers := [(hd (stsContainers sampleStatefulSet))
       \<lparr>ctrArgs := [''-disco-mode=dns'', ''-bootstrap-expect=3'']\<rparr>]\<rparr>"

text \<open>A cluster that shows a statefulset until it has been updated, and then the update.\<close>

definition storingStatefulSet :: "request list \<Rightarrow> request \<Rightarrow> response" where
  "storingStatefulSet h r =
     (case r of Get k ns n \<Rightarrow>
        (if h = [] then Obj (ObjStatefulSet sampleStatefulSet)
         else Obj (ObjStatefulSet scaledStatefulSet)) | _ \<Rightarrow> Done)"

lemma EnableHAKotsadm_once_witness:
  "sent (EnableHAKotsadm (sampleController storingStatefulSet) ''default'') sampleProc =
     [Get StatefulSets ''default'' ''kotsadm-rqlite'',
      Update StatefulSets ''default'' (ObjStatefulSet scaledStatefulSet)] \<and>
   list_all is_read (sent (EnableHAKotsadm (sampleController storingStatefulSet) ''default'')
     (sampleProc\<lparr>history := [Now]\<rparr>))"
proof -
  let ?ctr = "hd (stsContainers sampleStatefulSet)"
  have 1: "stsContainers sampleStatefulSet = [?ctr]" by (simp add: sampleStatefulSet_def)
  have 2: "stsSpecReplicas sampleStatefulSet = Some 1" by (simp add: sampleStatefulSet_def)
  have 3: "(1 :: int) \<noteq> 3" by simp
  have 4: "respond (sampleEnv storingStatefulSet) (history sampleProc)
      (Get StatefulSets ''default'' ''kotsadm-rqlite'') = Obj (ObjStatefulSet sampleStatefulSet)"
    by (simp add: storingStatefulSet_def)
  have "replaceBootstrapArg 3 (ctrArgs ?ctr) = [''-disco-mode=dns'', ''-bootstrap-expect=3'']"
    by code_simp
  then have 5: "scaledStatefulSet = sampleStatefulSet\<lparr>stsSpecReplicas := Some 3,
     stsContainers := [?ctr\<lparr>ctrArgs := replaceBootstrapArg 3 (ctrArgs ?ctr)\<rparr>]\<rparr>"
    by (simp add: scaledStatefulSet_def)
  have 6: "respond (sampleEnv storingStatefulSet) (history (sampleProc\<lparr>history := [Now]\<rparr>))
      (Get StatefulSets ''default'' ''kotsadm-rqlite'') = Obj (ObjStatefulSet scaledStatefulSet)"
    by (simp add: storingStatefulSet_def)
  from EnableHAKotsadm_once [OF 1 2 3 4 5 6, of sampleConfig] show ?thesis
    by (simp add: sampleController_def)
qed

end
