(* ===== verification/Contour.thy ===== *)
theory Contour
  imports OpConfig
begin

text \<open>
  \<open>src/pkg/cluster/contour.go\<close>: envoy pods whose envoy container has been failing its readiness
  checks for long enough are force-deleted.
\<close>

text \<open>The loop over the container statuses: the last status of a name decides.\<close>

fun readyFlags :: "int \<Rightarrow> container_status list \<Rightarrow> bool \<Rightarrow> bool \<Rightarrow> bool \<times> bool" where
  "readyFlags before [] shutdownManagerReady envoyReady = (shutdownManagerReady, envoyReady)"
| "readyFlags before (st # sts) shutdownManagerReady envoyReady =
     (case csRunningStartedAt st of
        None \<Rightarrow> readyFlags before sts shutdownManagerReady envoyReady
      | Some startedAt \<Rightarrow>
          (if startedAt > before then readyFlags before sts shutdownManagerReady envoyReady
           else if csName st = ''shutdown-manager''
           then readyFlags before sts (csReady st) envoyReady
           else if csName st = ''envoy'' then readyFlags before sts shutdownManagerReady (csReady st)
           else readyFlags before sts shutdownManagerReady envoyReady))"

fun notReadySince :: "int \<Rightarrow> condition list \<Rightarrow> bool" where
  "notReadySince before [] = False"
| "notReadySince before (cd # cds) =
     (if condType cd = ''ContainersReady'' \<and> condReason cd = ''ContainersNotReady'' \<and>
         condStatus cd = ''False''
      then condLastTransitionTime cd < before
      else notReadySince before cds)"

definition shouldRestartEnvoyPod :: "env \<Rightarrow> pod \<Rightarrow> int \<Rightarrow> bool go" where
  "shouldRestartEnvoyPod env p notReadyDuration =
     (if podPhase p \<noteq> ''Running'' then ret False
      else do {
        t \<leftarrow> now env;
        let before = t - notReadyDuration;
        let (shutdownManagerReady, envoyReady) =
          readyFlags before (podContainerStatuses p) False False;
        ret (if shutdownManagerReady \<and> \<not> envoyReady then notReadySince before (podConditions p)
             else False) })"

fun restartEnvoyPods :: "controller \<Rightarrow> pod list \<Rightarrow> go_error list \<Rightarrow> go_error list go" where
  "restartEnvoyPods c [] multiErr = ret multiErr"
| "restartEnvoyPods c (p # ps) multiErr = do {
     restart \<leftarrow> shouldRestartEnvoyPod (Client c) p (cfgEnvoyPodsNotReadyDuration (Config c));
     if restart
     then do {
       r \<leftarrow> send (Client c) (ForceDelete Pods (cfgContourNamespace (Config c)) (podName p));
       restartEnvoyPods c ps
         (append_err multiErr (Wrap (''forcefully deleting pod '' @ podName p)) r) }
     else restartEnvoyPods c ps multiErr }"

definition RestartFailedEnvoyPods :: "controller \<Rightarrow> unit res go" where
  "RestartFailedEnvoyPods c =
     (if \<not> cfgRestartFailedEnvoyPods (Config c) then Ok ()
      else if cfgContourNamespace (Config c) = '''' then Ok ()
      else
        bindE (wrapE ''list envoy pods''
          (listObjs (Client c) dec_pod Pods (cfgContourNamespace (Config c)) ''app=envoy''))
          (\<lambda>pods. do {
             multiErr \<leftarrow> restartEnvoyPods c pods [];
             ret (multi_res multiErr) }))"

section \<open>Which pods are restarted\<close>

lemma readyFlags_absent:
  assumes "\<And>st. st \<in> set sts \<Longrightarrow> csName st \<noteq> ''shutdown-manager''"
  shows "fst (readyFlags before sts a b) = a"
  using assms by (induction sts arbitrary: a b) (auto split: option.split)

lemma readyFlags_absent_envoy:
  assumes "\<And>st. st \<in> set sts \<Longrightarrow> csName st \<noteq> ''envoy''"
  shows "snd (readyFlags before sts a b) = b"
  using assms by (induction sts arbitrary: a b) (auto split: option.split)

definition readyBefore :: "int \<Rightarrow> string \<Rightarrow> container_status list \<Rightarrow> bool" where
  "readyBefore before name sts \<longleftrightarrow>
     (\<exists>st\<in>set sts. csName st = name \<and> csReady st \<and>
        (\<exists>t. csRunningStartedAt st = Some t \<and> t \<le> before))"

lemma readyFlags_iff:
  assumes "distinct (map csName sts)"
  shows "readyFlags before sts False False =
    (readyBefore before ''shutdown-manager'' sts, readyBefore before ''envoy'' sts)"
proof -
  have 1: "fst (readyFlags before sts False b) = readyBefore before ''shutdown-manager'' sts" for b
    using assms
  proof (induction sts arbitrary: b)
    case (Cons st sts)
    show ?case
    proof (cases "csName st = ''shutdown-manager''")
      case True
      then have "\<And>x. x \<in> set sts \<Longrightarrow> csName x \<noteq> ''shutdown-manager''"
        using Cons.prems by (metis distinct.simps(2) image_eqI list.simps(9) list.set_map)
      then show ?thesis using True
        by (auto simp: readyBefore_def readyFlags_absent split: option.split)
    next
      case False
      then show ?thesis using Cons by (auto simp: readyBefore_def split: option.split)
    qed
  qed (simp add: readyBefore_def)
  have 2: "snd (readyFlags before sts a False) = readyBefore before ''envoy'' sts" for a
    using assms
  proof (induction sts arbitrary: a)
    case (Cons st sts)
    show ?case
    proof (cases "csName st = ''envoy''")
      case True
      then have "\<And>x. x \<in> set sts \<Longrightarrow> csName x \<noteq> ''envoy''"
        using Cons.prems by (metis distinct.simps(2) image_eqI list.simps(9) list.set_map)
      then show ?thesis using True
        by (auto simp: readyBefore_def readyFlags_absent_envoy split: option.split)
    next
      case False
      then show ?thesis using Cons by (auto simp: readyBefore_def split: option.split)
    qed
  qed (simp add: readyBefore_def)
  show ?thesis using 1 [of False] 2 [of False] by (simp add: prod_eq_iff)
qed

lemma notReadySince_condition:
  "notReadySince before cds \<Longrightarrow>
   \<exists>cd\<in>set cds. condType cd = ''ContainersReady'' \<and> condReason cd = ''ContainersNotReady'' \<and>
     condStatus cd = ''False'' \<and> condLastTransitionTime cd < before"
  by (induction cds) (auto split: if_splits)

definition stuckEnvoy :: "int \<Rightarrow> pod \<Rightarrow> bool" where
  "stuckEnvoy before p \<longleftrightarrow>
     podPhase p = ''Running'' \<and>
     fst (readyFlags before (podContainerStatuses p) False False) \<and>
     \<not> snd (readyFlags before (podContainerStatuses p) False False) \<and>
     notReadySince before (podConditions p)"

lemma result_shouldRestart:
  "result (shouldRestartEnvoyPod env p d) s \<longleftrightarrow> stuckEnvoy (clock env (history s) - d) p"
  by (auto simp: shouldRestartEnvoyPod_def stuckEnvoy_def result_bind clock_def split_beta Let_def)

lemma emits_shouldRestart [emits_intros]: "P Now \<Longrightarrow> emits P (shouldRestartEnvoyPod env p d)"
  unfolding shouldRestartEnvoyPod_def Let_def by (intro emits_intros)

definition restartsStuck :: "controller \<Rightarrow> request \<Rightarrow> bool" where
  "restartsStuck c r \<longleftrightarrow> is_read r \<or>
     (\<exists>(p :: pod) ps h h'. r = ForceDelete Pods (cfgContourNamespace (Config c)) (podName p) \<and>
        as_objs dec_pod (respond (Client c) h
          (ListReq Pods (cfgContourNamespace (Config c)) ''app=envoy'')) = Inr ps \<and>
        p \<in> set ps \<and>
        stuckEnvoy (clock (Client c) h' - cfgEnvoyPodsNotReadyDuration (Config c)) p)"

lemma emits_restartEnvoyPods:
  assumes "as_objs dec_pod (respond (Client c) h
      (ListReq Pods (cfgContourNamespace (Config c)) ''app=envoy'')) = Inr all" "set ps \<subseteq> set all"
  shows "emits (restartsStuck c) (restartEnvoyPods c ps multiErr)"
  using assms(2)
proof (induction ps arbitrary: multiErr)
  case (Cons p ps)
  have IH: "emits (restartsStuck c) (restartEnvoyPods c ps es)" for es using Cons by simp
  have w: "restartsStuck c (ForceDelete Pods (cfgContourNamespace (Config c)) (podName p))"
    if "stuckEnvoy (clock (Client c) h' - cfgEnvoyPodsNotReadyDuration (Config c)) p" for h'
    using that assms(1) Cons.prems by (auto simp: restartsStuck_def)
  show ?case
    unfolding restartEnvoyPods.simps
    by (rule emits_bind_result, intro emits_shouldRestart)
      (auto simp: restartsStuck_def [of c Now] result_shouldRestart intro!: emits_intros IH w)
qed (simp add: emits_intros)

lemma emits_RestartFailedEnvoyPods: "emits (restartsStuck c) (RestartFailedEnvoyPods c)"
proof -
  have "emits (restartsStuck c) (do { multiErr \<leftarrow> restartEnvoyPods c ps []; ret (multi_res multiErr) })"
    if "as_objs dec_pod (respond (Client c) h
      (ListReq Pods (cfgContourNamespace (Config c)) ''app=envoy'')) = Inr ps" for ps h
    by (intro emits_intros emits_restartEnvoyPods [OF that order_refl])
  then show ?thesis
    unfolding RestartFailedEnvoyPods_def
    by (intro emits_if emits_return emits_list_bindE) (auto simp: restartsStuck_def)
qed

text \<open>
  C37: Only an envoy pod of the listing is restarted, and only when it is running, its shutdown
  manager has been ready since before the cut-off, its envoy container has not, and its
  containers have been reported not ready since before the cut-off; the cut-off lies the
  configured duration before a reading of the clock. The statuses of a pod have distinct names.
\<close>

theorem RestartFailedEnvoyPods_only_stuck:
  assumes "ForceDelete k ns n \<in> set (sent (RestartFailedEnvoyPods c) s)"
  shows "k = Pods \<and> ns = cfgContourNamespace (Config c) \<and> cfgRestartFailedEnvoyPods (Config c) \<and>
     (\<exists>(p :: pod) ps h h'. n = podName p \<and>
        as_objs dec_pod (respond (Client c) h (ListReq Pods ns ''app=envoy'')) = Inr ps \<and> p \<in> set ps \<and>
        (let before = clock (Client c) h' - cfgEnvoyPodsNotReadyDuration (Config c) in
         podPhase p = ''Running'' \<and>
         (distinct (map csName (podContainerStatuses p)) \<longrightarrow>
            readyBefore before ''shutdown-manager'' (podContainerStatuses p) \<and>
            \<not> readyBefore before ''envoy'' (podContainerStatuses p)) \<and>
         (\<exists>cd\<in>set (podConditions p). condType cd = ''ContainersReady'' \<and>
            condStatus cd = ''False'' \<and> condLastTransitionTime cd < before)))"
proof -
  have on: "cfgRestartFailedEnvoyPods (Config c)"
    using assms by (rule_tac ccontr) (simp add: RestartFailedEnvoyPods_def)
  from emits_sent [OF emits_RestartFailedEnvoyPods assms] obtain p :: pod and ps h h' where
    p: "k = Pods" "ns = cfgContourNamespace (Config c)" "n = podName p"
    "as_objs dec_pod (respond (Client c) h (ListReq Pods ns ''app=envoy'')) = Inr ps" "p \<in> set ps"
    and st: "stuckEnvoy (clock (Client c) h' - cfgEnvoyPodsNotReadyDuration (Config c)) p"
    by (auto simp: restartsStuck_def)
  let ?b = "clock (Client c) h' - cfgEnvoyPodsNotReadyDuration (Config c)"
  have "podPhase p = ''Running''" using st by (simp add: stuckEnvoy_def)
  moreover have "distinct (map csName (podContainerStatuses p)) \<longrightarrow>
      readyBefore ?b ''shutdown-manager'' (podContainerStatuses p) \<and>
      \<not> readyBefore ?b ''envoy'' (podContainerStatuses p)"
    using st by (auto simp: stuckEnvoy_def readyFlags_iff)
  moreover have "\<exists>cd\<in>set (podConditions p). condType cd = ''ContainersReady'' \<and>
      condStatus cd = ''False'' \<and> condLastTransitionTime cd < ?b"
    using st notReadySince_condition [of ?b "podConditions p"] by (auto simp: stuckEnvoy_def)
  ultimately show ?thesis using p on
    by (intro conjI exI [of _ p] exI [of _ ps] exI [of _ h] exI [of _ h']) (simp_all add: Let_def)
qed

definition stuckPod :: pod where
  "stuckPod = (samplePod ''envoy-x'')
     \<lparr>podContainerStatuses :=
        [\<lparr>csName = ''shutdown-manager'', csReady = True, csRunningStartedAt = Some 0\<rparr>,
         \<lparr>csName = ''envoy'', csReady = False, csRunningStartedAt = Some 0\<rparr>],
      podConditions :=
        [\<lparr>condType = ''ContainersReady'', condStatus = ''False'', condReason = ''ContainersNotReady'',
          condMessage = [], condLastTransitionTime = 0\<rparr>]\<rparr>"

theorem RestartFailedEnvoyPods_only_stuck_witness:
  "ForceDelete Pods ''projectcontour'' ''envoy-x'' \<in> set (sent (RestartFailedEnvoyPods
      (sampleController (answering [(ListReq Pods ''projectcontour'' ''app=envoy'', Objs [ObjPod stuckPod]),
         (Now, Time 1000)]))) sampleProc) \<and>
   cfgRestartFailedEnvoyPods sampleConfig"
proof -
  have s: "ForceDelete Pods ''projectcontour'' ''envoy-x'' \<in> set (sent (RestartFailedEnvoyPods
      (sampleController (answering [(ListReq Pods ''projectcontour'' ''app=envoy'', Objs [ObjPod stuckPod]),
         (Now, Time 1000)]))) sampleProc)"
    by code_simp
  from RestartFailedEnvoyPods_only_stuck [OF s] s show ?thesis by simp
qed

end
