(* ===== verification/Exchange.thy ===== *)
theory Exchange
  imports Program
begin

text \<open>
  Exchanges: during a run of a program the request \<open>r\<close> was sent and answered with \<open>x\<close>. The rules
  locate an exchange of a composition in one of its parts, and a run that succeeded through its
  parts has their exchanges.
\<close>

definition exchange :: "env \<Rightarrow> 'a go \<Rightarrow> proc \<Rightarrow> request \<Rightarrow> response \<Rightarrow> bool" where
  "exchange env m s r x \<longleftrightarrow>
     (\<exists>pre post. sent m s = pre @ r # post \<and> respond env (history s @ pre) r = x)"

lemma exchange_sent: "exchange env m s r x \<Longrightarrow> r \<in> set (sent m s)"
  by (auto simp: exchange_def)

lemma exchange_call: "exchange env (call env r) s r (respond env (history s) r)"
  by (auto simp: exchange_def Cons_eq_append_conv)

lemma exchange_typed:
  "exchange env (send env r) s r (respond env (history s) r)"
  "exchange env (getObj env dec k ns name) s (Get k ns name) (respond env (history s) (Get k ns name))"
  "exchange env (listObjs env dec k ns sel) s (ListReq k ns sel)
     (respond env (history s) (ListReq k ns sel))"
  by (auto simp: exchange_def Cons_eq_append_conv)

lemma exchange_wrap [simp]:
  "exchange env (wrapE msg m) s r x = exchange env m s r x"
  "exchange env (wrapWE msg m) s r x = exchange env m s r x"
  "exchange env (flatE msg m) s r x = exchange env m s r x"
  by (simp_all add: exchange_def)

lemma exchange_left:
  assumes "exchange env m s r x" "sent n s = sent m s @ t"
  shows "exchange env n s r x"
proof -
  from assms(1) obtain pre post where "sent m s = pre @ r # post" "respond env (history s @ pre) r = x"
    by (auto simp: exchange_def)
  then show ?thesis unfolding exchange_def using assms(2)
    by (intro exI [of _ pre] exI [of _ "post @ t"]) simp
qed

lemma exchange_right:
  assumes "exchange env m s' r x" "history s' = history s @ t" "sent n s = t @ sent m s'"
  shows "exchange env n s r x"
proof -
  from assms(1) obtain pre post where "sent m s' = pre @ r # post" "respond env (history s' @ pre) r = x"
    by (auto simp: exchange_def)
  then show ?thesis unfolding exchange_def using assms(2,3)
    by (intro exI [of _ "t @ pre"] exI [of _ post]) simp
qed

lemma exchange_bind_left:
  "grows m \<Longrightarrow> (\<And>y. grows (f y)) \<Longrightarrow> exchange env m s r x \<Longrightarrow> exchange env (m \<bind> f) s r x"
  by (erule exchange_left) (rule sent_bind)

lemma exchange_bind_right:
  "grows m \<Longrightarrow> (\<And>y. grows (f y)) \<Longrightarrow> exchange env (f (result m s)) (after m s) r x \<Longrightarrow>
   exchange env (m \<bind> f) s r x"
  by (erule exchange_right [OF _ grows_history]) (simp_all add: sent_bind)

lemma exchange_bindE_left:
  "grows m \<Longrightarrow> (\<And>y. grows (f y)) \<Longrightarrow> exchange env m s r x \<Longrightarrow> exchange env (bindE m f) s r x"
  by (erule exchange_left) (rule sent_bindE)

lemma exchange_bindE_right:
  "grows m \<Longrightarrow> (\<And>y. grows (f y)) \<Longrightarrow> result m s = Inr y \<Longrightarrow>
   exchange env (f y) (after m s) r x \<Longrightarrow> exchange env (bindE m f) s r x"
  by (erule exchange_right [OF _ grows_history]) (simp_all add: sent_bindE)

lemma exchange_bindE_cases:
  assumes "grows m" "\<And>y. grows (f y)" "exchange env (bindE m f) s r x"
  obtains "exchange env m s r x"
  | y where "result m s = Inr y" "exchange env (f y) (after m s) r x"
proof -
  obtain pre post where p: "sent (bindE m f) s = pre @ r # post" "respond env (history s @ pre) r = x"
    using assms(3) by (auto simp: exchange_def)
  have eq: "sent m s @ (case result m s of Inl e \<Rightarrow> [] | Inr y \<Rightarrow> sent (f y) (after m s)) = pre @ r # post"
    using p(1) by (simp add: sent_bindE [OF assms(1,2)])
  from append_eq_append_conv2 [THEN iffD1, OF eq] obtain us where us:
    "sent m s @ us = pre \<and> (case result m s of Inl e \<Rightarrow> [] | Inr y \<Rightarrow> sent (f y) (after m s)) = us @ r # post \<or>
     sent m s = pre @ us \<and> us @ (case result m s of Inl e \<Rightarrow> [] | Inr y \<Rightarrow> sent (f y) (after m s)) = r # post"
    by metis
  show thesis
  proof (cases "us = [] \<or> sent m s @ us = pre")
    case True
    with us have u: "pre = sent m s @ us"
      "(case result m s of Inl e \<Rightarrow> [] | Inr y \<Rightarrow> sent (f y) (after m s)) = us @ r # post" by auto
    then obtain y where y: "result m s = Inr y" by (auto split: sum.splits)
    have "exchange env (f y) (after m s) r x"
      unfolding exchange_def using u y p(2) grows_history [OF assms(1), of s]
      by (intro exI [of _ us] exI [of _ post]) simp
    with y show thesis by (rule that(2))
  next
    case False
    with us obtain vs where "sent m s = pre @ r # vs" by (cases us) auto
    then have "exchange env m s r x" unfolding exchange_def using p(2) by blast
    then show thesis by (rule that(1))
  qed
qed

text \<open>A successful sequence succeeded in both parts.\<close>

lemma bindE_Inr:
  assumes "result (bindE m f) s = Inr y"
  obtains x where "result m s = Inr x" "result (f x) (after m s) = Inr y"
  using assms by (auto simp: result_bindE split: sum.splits)

lemma exchange_answer: "exchange env m s r x \<Longrightarrow> \<exists>h. x = respond env h r"
  by (auto simp: exchange_def)

lemma emits_case_bool [emits_intros]:
  "(b \<Longrightarrow> emits P f) \<Longrightarrow> (\<not> b \<Longrightarrow> emits P g) \<Longrightarrow> emits P (case b of True \<Rightarrow> f | False \<Rightarrow> g)"
  by (cases b) simp_all

text \<open>A request in a sequence that the first part cannot send comes from the second part.\<close>

lemma sent_bindE_in:
  assumes "r \<in> set (sent (bindE m f) s)" "emits P m" "\<not> P r" "\<And>x. grows (f x)"
  obtains x where "result m s = Inr x" "r \<in> set (sent (f x) (after m s))"
proof -
  from assms(1) obtain pre post where "sent (bindE m f) s = pre @ r # post"
    by (meson split_list)
  from bindE_phase [OF assms(2,3,4) this] that show thesis by (metis in_set_conv_decomp)
qed

lemma sent_bind_in:
  assumes "r \<in> set (sent (m \<bind> f) s)" "emits P m" "\<not> P r" "\<And>x. grows (f x)"
  shows "r \<in> set (sent (f (result m s)) (after m s))"
proof -
  from assms(1) obtain pre post where "sent (m \<bind> f) s = pre @ r # post"
    by (meson split_list)
  from bind_phase [OF assms(2,3,4) this] show ?thesis by (metis in_set_conv_decomp)
qed

section \<open>Parts of a run\<close>

text \<open>The run of \<open>m'\<close> from \<open>s'\<close> is a part of the run of \<open>m\<close> from \<open>s\<close>.\<close>

definition sub_run :: "'a go \<Rightarrow> proc \<Rightarrow> 'b go \<Rightarrow> proc \<Rightarrow> bool" where
  "sub_run m s m' s' \<longleftrightarrow> (\<exists>t u. history s' = history s @ t \<and> sent m s = t @ sent m' s' @ u)"

lemma sub_run_trans: "sub_run m s m' s' \<Longrightarrow> sub_run m' s' m'' s'' \<Longrightarrow> sub_run m s m'' s''"
  unfolding sub_run_def by (metis append.assoc)

lemma sub_run_bindE_left: "grows m \<Longrightarrow> (\<And>y. grows (f y)) \<Longrightarrow> sub_run (bindE m f) s m s"
  unfolding sub_run_def by (rule exI [of _ "[]"]) (simp add: sent_bindE)

lemma sub_run_bindE_right:
  "grows m \<Longrightarrow> (\<And>y. grows (f y)) \<Longrightarrow> result m s = Inr x \<Longrightarrow> sub_run (bindE m f) s (f x) (after m s)"
  unfolding sub_run_def
  by (intro exI [of _ "sent m s"] exI [of _ "[]"]) (simp add: sent_bindE grows_history)

lemma sub_run_bind_left: "grows m \<Longrightarrow> (\<And>y. grows (f y)) \<Longrightarrow> sub_run (m \<bind> f) s m s"
  unfolding sub_run_def by (rule exI [of _ "[]"]) (simp add: sent_bind)

lemma sub_run_bind_right:
  "grows m \<Longrightarrow> (\<And>y. grows (f y)) \<Longrightarrow> sub_run (m \<bind> f) s (f (result m s)) (after m s)"
  unfolding sub_run_def
  by (intro exI [of _ "sent m s"] exI [of _ "[]"]) (simp add: sent_bind grows_history)

lemma exchange_sub_run: "sub_run m s m' s' \<Longrightarrow> exchange env m' s' r x \<Longrightarrow> exchange env m s r x"
proof -
  assume "sub_run m s m' s'" "exchange env m' s' r x"
  then obtain t u pre post where h: "history s' = history s @ t" "sent m s = t @ sent m' s' @ u"
    "sent m' s' = pre @ r # post" "respond env (history s' @ pre) r = x"
    by (auto simp: sub_run_def exchange_def)
  then show ?thesis unfolding exchange_def by (intro exI [of _ "t @ pre"] exI [of _ "post @ u"]) simp
qed

text \<open>\<open>bindE_phase\<close>, with the part of the run in which the request is.\<close>

lemma bindE_phase_sub:
  assumes "emits P m" "\<not> P r" "\<And>x. grows (f x)" "sent (bindE m f) s = pre @ r # post"
  obtains x mid where "result m s = Inr x" "pre = sent m s @ mid" "sent (f x) (after m s) = mid @ r # post"
    "sub_run (bindE m f) s (f x) (after m s)"
proof -
  obtain x mid where x: "result m s = Inr x" "pre = sent m s @ mid" "sent (f x) (after m s) = mid @ r # post"
    by (rule bindE_phase [OF assms])
  show thesis by (rule that [OF x sub_run_bindE_right [where x = x, OF emits_grows [OF assms(1)] assms(3) x(1)]])
qed

end
