(* ===== verification/ObjectStore.thy ===== *)
theory ObjectStore
  imports Controller Exchange
begin

text \<open>
  Restarting workloads (\<open>src/pkg/util/restart.go\<close>, \<open>src/pkg/util/await_health.go\<close>) and moving
  the object store (\<open>src/pkg/objectstore\<close>): copying every bucket from one store to another,
  pointing the registry, Velero and kotsadm at the new store, and deciding whether MinIO is in
  use. The logger the code passes along is an argument, because one caller keeps what is logged
  in its state. The theorems show that a copy that reports success has written every object the
  source listed, under its own key and with the content the source returned.
\<close>

section \<open>Waiting for a workload: src/pkg/util/await_health.go\<close>

text \<open>The \<open>select\<close> at the end of each round: the context ends or a second has passed.\<close>

definition nextRound :: "env \<Rightarrow> unit res option go" where
  "nextRound env = do {
     r \<leftarrow> call env PollTick;
     ret (case r of CtxDone e \<Rightarrow> Some (Inl e) | _ \<Rightarrow> None) }"

definition deploymentReady :: "deployment \<Rightarrow> bool" where
  "deploymentReady dep \<longleftrightarrow>
     depReadyReplicas dep = depReplicas dep \<and> depAvailableReplicas dep = depReplicas dep \<and>
     depUnavailableReplicas dep = 0 \<and> depUpdatedReplicas dep = depReplicas dep"

definition AwaitDeploymentReady :: "env \<Rightarrow> string \<Rightarrow> string \<Rightarrow> unit res go" where
  "AwaitDeploymentReady env ns name = poll_loop (loopBound env) (do {
     r \<leftarrow> getObj env dec_deployment Deployments ns name;
     case r of
       Inl err \<Rightarrow> ret (Some (Inl (Flat (''failed to get Deployment '' @ name @ '' in '' @ ns) err)))
     | Inr dep \<Rightarrow> (if deploymentReady dep then ret (Some (Inr ())) else nextRound env) })"

definition statefulSetReady :: "statefulset \<Rightarrow> bool" where
  "statefulSetReady sts \<longleftrightarrow>
     stsReadyReplicas sts = stsReplicas sts \<and> stsAvailableReplicas sts = stsReplicas sts \<and>
     stsUpdatedReplicas sts = stsReplicas sts"

definition AwaitStatefulSetReady :: "env \<Rightarrow> string \<Rightarrow> string \<Rightarrow> unit res go" where
  "AwaitStatefulSetReady env ns name = poll_loop (loopBound env) (do {
     r \<leftarrow> getObj env dec_statefulset StatefulSets ns name;
     case r of
       Inl err \<Rightarrow> ret (Some (Inl (Flat (''failed to get StatefulSet '' @ name @ '' in '' @ ns) err)))
     | Inr sts \<Rightarrow> (if statefulSetReady sts then ret (Some (Inr ())) else nextRound env) })"

definition AwaitDaemonSetReady :: "env \<Rightarrow> string \<Rightarrow> string \<Rightarrow> unit res go" where
  "AwaitDaemonSetReady env ns name = poll_loop (loopBound env) (do {
     r \<leftarrow> getObj env dec_daemonset DaemonSets ns name;
     case r of
       Inl err \<Rightarrow> ret (Some (Inl (Flat (''failed to get DaemonSet '' @ name @ '' in '' @ ns) err)))
     | Inr ds \<Rightarrow> (if dsNumberUnavailable ds = 0 then ret (Some (Inr ())) else nextRound env) })"

section \<open>Restarting a workload: src/pkg/util/restart.go\<close>

text \<open>The value of the annotation: the time, with the colons replaced.\<close>

definition restartedAt :: "env \<Rightarrow> int \<Rightarrow> string" where
  "restartedAt env t = ReplaceChar (CHR '':'') ''-'' (FormatRFC3339 env t)"

definition RestartDeployment :: "env \<Rightarrow> string \<Rightarrow> string \<Rightarrow> unit res go" where
  "RestartDeployment env ns name = do {
     r \<leftarrow> getObj env dec_deployment Deployments ns name;
     case r of
       Inl err \<Rightarrow>
         (if IsNotFoundErr err then Ok ()
          else Fail (Flat (''failed to get Deployment '' @ name @ '' in '' @ ns) err))
     | Inr dep \<Rightarrow> do {
         t \<leftarrow> now env;
         let dep = dep\<lparr>depTemplateAnnotations :=
           store_map (depTemplateAnnotations dep) ''ekco.kurl.sh/restartedAt'' (restartedAt env t)\<rparr>;
         bindE (flatE (''failed to set restart label on Deployment '' @ name @ '' in '' @ ns)
                  (send env (Update Deployments ns (ObjDeployment dep)))) (\<lambda>_.
         flatE (''failed to wait for Deployment '' @ name @ '' in '' @ ns @ '' to be ready'')
           (AwaitDeploymentReady env ns name)) } }"

definition RestartStatefulSet :: "env \<Rightarrow> string \<Rightarrow> string \<Rightarrow> unit res go" where
  "RestartStatefulSet env ns name = do {
     r \<leftarrow> getObj env dec_statefulset StatefulSets ns name;
     case r of
       Inl err \<Rightarrow>
         (if IsNotFoundErr err then Ok ()
          else Fail (Flat (''failed to get StatefulSet '' @ name @ '' in '' @ ns) err))
     | Inr sts \<Rightarrow> do {
         t \<leftarrow> now env;
         let sts = sts\<lparr>stsTemplateAnnotations :=
           store_map (stsTemplateAnnotations sts) ''ekco.kurl.sh/restartedAt'' (restartedAt env t)\<rparr>;
         bindE (flatE (''failed to set restart label on StatefulSet '' @ name @ '' in '' @ ns)
                  (send env (Update StatefulSets ns (ObjStatefulSet sts)))) (\<lambda>_.
         flatE (''failed to wait for StatefulSet '' @ name @ '' in '' @ ns @ '' to be ready'')
           (AwaitStatefulSetReady env ns name)) } }"

definition RestartDaemonSet :: "env \<Rightarrow> string \<Rightarrow> string \<Rightarrow> unit res go" where
  "RestartDaemonSet env ns name = do {
     r \<leftarrow> getObj env dec_daemonset DaemonSets ns name;
     case r of
       Inl err \<Rightarrow>
         (if IsNotFoundErr err then Ok ()
          else Fail (Flat (''failed to get DaemonSet '' @ name @ '' in '' @ ns) err))
     | Inr dset \<Rightarrow> do {
         t \<leftarrow> now env;
         let dset = dset\<lparr>dsTemplateAnnotations :=
           store_map (dsTemplateAnnotations dset) ''ekco.kurl.sh/restartedAt'' (restartedAt env t)\<rparr>;
         bindE (flatE (''failed to set restart label on DaemonSet '' @ name @ '' in '' @ ns)
                  (send env (Update DaemonSets ns (ObjDaemonSet dset)))) (\<lambda>_.
         flatE (''failed to wait for DaemonSet '' @ name @ '' in '' @ ns @ '' to be ready'')
           (AwaitDaemonSetReady env ns name)) } }"

section \<open>Copying the buckets: src/pkg/objectstore/migrate.go\<close>

type_synonym logger = "string \<Rightarrow> unit go"

definition noLogs :: logger where "noLogs s = ret ()"

text \<open>
  A client is known by its endpoint. A failed listing reaches the program as one entry without a
  key; \<open>GetObject\<close> answers with a reader, here what it reads.
\<close>

definition as_strings :: "response \<Rightarrow> string list res" where
  "as_strings r = (case r of Failed e \<Rightarrow> Inl e | Strings xs \<Rightarrow> Inr xs | _ \<Rightarrow> Inl badResponse)"

definition as_bool :: "response \<Rightarrow> bool res" where
  "as_bool r = (case r of Failed e \<Rightarrow> Inl e | Bool b \<Rightarrow> Inr b | _ \<Rightarrow> Inl badResponse)"

definition as_bytes :: "response \<Rightarrow> string res" where
  "as_bytes r = (case r of Failed e \<Rightarrow> Inl e | Bytes b \<Rightarrow> Inr b | _ \<Rightarrow> Inl badResponse)"

definition as_infos :: "response \<Rightarrow> object_info list" where
  "as_infos r = (case r of
       ObjectInfos xs \<Rightarrow> xs
     | Failed e \<Rightarrow> [\<lparr>oiKey = [], oiSize = 0, oiContentType = [], oiContentEncoding = []\<rparr>]
     | _ \<Rightarrow> [])"

definition storeCall :: "env \<Rightarrow> string \<Rightarrow> store_op \<Rightarrow> string list \<Rightarrow> (response \<Rightarrow> 'a) \<Rightarrow> 'a go" where
  "storeCall env client op args dec = do {
     r \<leftarrow> call env (ObjectStoreCall client op args);
     ret (dec r) }"

definition putRequest :: "string \<Rightarrow> string \<Rightarrow> object_info \<Rightarrow> string \<Rightarrow> request" where
  "putRequest dst bucket info content = ObjectStoreCall dst PutObject
     [bucket, oiKey info, content, Itoa (oiSize info), oiContentType info, oiContentEncoding info]"

fun copyObjects ::
  "env \<Rightarrow> string \<Rightarrow> string \<Rightarrow> string \<Rightarrow> logger \<Rightarrow> int \<Rightarrow> object_info list \<Rightarrow> int res go" where
  "copyObjects env src dst bucket logs count [] = Ok count"
| "copyObjects env src dst bucket logs count (info # infos) =
     bindE (flatE (''get '' @ oiKey info @ '' from source'')
              (storeCall env src GetObject [bucket, oiKey info] as_bytes)) (\<lambda>content. do {
     logs (''  - '' @ oiKey info);
     bindE (flatE (''failed to copy object '' @ oiKey info @ '' to destination'')
              (send env (putRequest dst bucket info content)))
       (\<lambda>_. copyObjects env src dst bucket logs (count + 1) infos) })"

definition syncBucket ::
  "env \<Rightarrow> string \<Rightarrow> string \<Rightarrow> string \<Rightarrow> logger \<Rightarrow> int res go" where
  "syncBucket env src dst bucket logs =
     bindE (flatE (''failed to check if bucket '' @ Quote bucket @ '' exists in destination'')
              (storeCall env dst BucketExists [bucket] as_bool)) (\<lambda>exists.
     bindE (if exists then Ok ()
            else flatE (''failed to make bucket '' @ Quote bucket @ '' in destination'')
              (send env (ObjectStoreCall dst MakeBucket [bucket]))) (\<lambda>_. do {
     infos \<leftarrow> storeCall env src ListObjects [bucket] as_infos;
     copyObjects env src dst bucket logs 0 infos }))"

fun syncBuckets :: "env \<Rightarrow> string \<Rightarrow> string \<Rightarrow> logger \<Rightarrow> string list \<Rightarrow> unit res go" where
  "syncBuckets env src dst logs [] = Ok ()"
| "syncBuckets env src dst logs (bucket # buckets) = do {
     logs (''Syncing objects in '' @ bucket);
     startTime \<leftarrow> now env;
     bindE (flatE (''failed to sync bucket '' @ bucket) (syncBucket env src dst bucket logs))
       (\<lambda>numObjects. do {
          t \<leftarrow> now env;
          logs (''Copied '' @ Itoa numObjects @ '' objects in '' @ bucket @ '' over '' @
                DurationString env (t - startTime));
          syncBuckets env src dst logs buckets }) }"

definition SyncAllBuckets ::
  "env \<Rightarrow> string \<Rightarrow> string \<Rightarrow> string \<Rightarrow> string \<Rightarrow> string \<Rightarrow> string \<Rightarrow> logger \<Rightarrow> unit res go" where
  "SyncAllBuckets env sourceEndpoint sourceAccessKey sourceSecretKey
       destEndpoint destAccessKey destSecretKey logs =
     bindE (flatE ''failed to initialize minio client''
              (send env (ObjectStoreCall sourceEndpoint StoreNew [sourceAccessKey, sourceSecretKey]))) (\<lambda>_.
     bindE (flatE ''failed to initialize rook client''
              (send env (ObjectStoreCall destEndpoint StoreNew [destAccessKey, destSecretKey]))) (\<lambda>_. do {
     logs ''Initialized clients'';
     bindE (flatE ''failed to list minio buckets''
              (storeCall env sourceEndpoint ListBuckets [] as_strings)) (\<lambda>buckets. do {
     logs (''Found '' @ Itoa (int (length buckets)) @ '' buckets to sync'');
     syncBuckets env sourceEndpoint destEndpoint logs buckets }) }))"

section \<open>Pointing the consumers at the new store\<close>

text \<open>
  \<open>regexp.MustCompile(p + ".*").ReplaceAllString(s, t)\<close> for a literal \<open>p\<close>: in every line, what
  follows from the first \<open>p\<close> on is replaced by the expansion of the template \<open>t\<close>. In a template
  \<open>$$\<close> is a dollar sign, \<open>$0\<close> and \<open>${0}\<close> the match, any other group empty, and a dollar sign
  that names no group stands for itself.
\<close>

definition isWord :: "char \<Rightarrow> bool" where
  "isWord c \<longleftrightarrow> (CHR ''a'' \<le> c \<and> c \<le> CHR ''z'') \<or> (CHR ''A'' \<le> c \<and> c \<le> CHR ''Z'') \<or>
     (CHR ''0'' \<le> c \<and> c \<le> CHR ''9'') \<or> c = CHR ''_''"

definition extractName :: "string \<Rightarrow> (string \<times> string) option" where
  "extractName r =
     (let brace = (case r of x # _ \<Rightarrow> x = CHR ''{'' | [] \<Rightarrow> False);
          r' = (if brace then tl r else r);
          name = takeWhile isWord r'; rest = dropWhile isWord r'
      in if name = [] then None
         else if brace
         then (case rest of x # rest' \<Rightarrow> (if x = CHR ''}'' then Some (name, rest') else None)
               | [] \<Rightarrow> None)
         else Some (name, rest))"

lemma extractName_shorter:
  "extractName r = Some (name, rest) \<Longrightarrow> length rest < length r"
proof -
  assume a: "extractName r = Some (name, rest)"
  have d: "takeWhile isWord u \<noteq> [] \<Longrightarrow> length (dropWhile isWord u) < length u" for u
    by (cases u) (auto simp: less_Suc_eq_le length_dropWhile_le split: if_splits)
  show ?thesis
  proof (cases r)
    case Nil
    with a show ?thesis by (simp add: extractName_def)
  next
    case (Cons x u)
    show ?thesis
    proof (cases "x = CHR ''{''")
      case True
      then show ?thesis using a Cons length_dropWhile_le [of isWord u]
        by (auto simp: extractName_def Let_def split: if_splits list.splits)
    next
      case False
      then show ?thesis using a Cons d [of r]
        by (auto simp: extractName_def Let_def split: if_splits)
    qed
  qed
qed

function expandTemplate :: "string \<Rightarrow> string \<Rightarrow> string" where
  "expandTemplate m [] = []"
| "expandTemplate m (x # r) =
     (if x \<noteq> CHR ''$'' then x # expandTemplate m r
      else if HasPrefix r ''$'' then CHR ''$'' # expandTemplate m (tl r)
      else (case extractName r of
              None \<Rightarrow> CHR ''$'' # expandTemplate m r
            | Some (name, rest) \<Rightarrow> (if name = ''0'' then m else []) @ expandTemplate m rest))"
  by pat_completeness auto

termination expandTemplate
  by (relation "measure (\<lambda>(_, r). length r)") (auto dest: extractName_shorter)

fun replaceLine :: "string \<Rightarrow> string \<Rightarrow> string \<Rightarrow> string" where
  "replaceLine p t [] = []"
| "replaceLine p t (x # xs) =
     (if HasPrefix (x # xs) p then expandTemplate (x # xs) t else x # replaceLine p t xs)"

definition replaceRest :: "string \<Rightarrow> string \<Rightarrow> string \<Rightarrow> string" where
  "replaceRest p t s = Join NL (map (replaceLine p t) (Split (CHR 0x0A) s))"

text \<open>\<open>updateRegistryObjectStore\<close>; a missing object and one without data are alike.\<close>

definition dataOrNone :: "string \<Rightarrow> 'a res \<Rightarrow> 'a option res" where
  "dataOrNone msg r = (case r of
       Inl err \<Rightarrow> (if IsNotFoundErr err then Inr None else Inl (Flat msg err))
     | Inr x \<Rightarrow> Inr (Some x))"

definition registryNewConfig :: "string \<Rightarrow> string \<Rightarrow> string" where
  "registryNewConfig endpoint existing =
     replaceRest ''regionendpoint: http'' (''regionendpoint: http://'' @ endpoint @ ''/'') existing"

definition updateRegistryObjectStore ::
  "env \<Rightarrow> logger \<Rightarrow> string \<Rightarrow> string \<Rightarrow> string \<Rightarrow> string \<Rightarrow> unit res go" where
  "updateRegistryObjectStore env logs accessKey secretKey hostname endpoint = do {
     r \<leftarrow> getObj env dec_configmap ConfigMaps ''kurl'' ''registry-config'';
     case dataOrNone ''get registry-config configmap in kurl namespace'' r of
       Inl e \<Rightarrow> Fail e
     | Inr registryConfig \<Rightarrow> do {
     r \<leftarrow> getObj env dec_secret Secrets ''kurl'' ''registry-s3-secret'';
     case dataOrNone ''get registry-s3-secret secret in kurl namespace'' r of
       Inl e \<Rightarrow> Fail e
     | Inr registrySecret \<Rightarrow>
     (case (registryConfig, registrySecret) of
        (Some cm, Some sec) \<Rightarrow>
          (if cmData cm = [] \<or> secData sec = [] then Ok ()
           else do {
             logs ''Updating Registry to use new object store'';
             let cm = cm\<lparr>cmData := store_map (cmData cm) ''config.yml''
                           (registryNewConfig endpoint (index_map (cmData cm) ''config.yml''))\<rparr>;
             bindE (flatE ''update registry-config configmap in kurl namespace''
                      (send env (Update ConfigMaps ''kurl'' (ObjConfigMap cm)))) (\<lambda>_.
             let sec = sec\<lparr>secData := store_map (store_map (store_map (store_map (secData sec)
                             ''access-key-id'' accessKey) ''secret-access-key'' secretKey)
                             ''object-store-cluster-ip'' endpoint) ''object-store-hostname'' hostname\<rparr> in
             bindE (flatE ''update registry-s3-secret secret in kurl namespace''
                      (send env (Update Secrets ''kurl'' (ObjSecret sec)))) (\<lambda>_. do {
             logs ''Restarting Registry'';
             bindE (flatE ''restart registry deployment after migrating object store''
                      (RestartDeployment env ''kurl'' ''registry'')) (\<lambda>_. do {
             logs ''Registry restarted'';
             Ok () }) })) })
      | _ \<Rightarrow> Ok ()) } }"

text \<open>\<open>updateVeleroObjectStore\<close>, in its three parts.\<close>

fun updateBackupRepos :: "env \<Rightarrow> logger \<Rightarrow> string \<Rightarrow> string \<Rightarrow> backup_repository list \<Rightarrow> unit res go" where
  "updateBackupRepos env logs originalHostname hostname [] = Ok ()"
| "updateBackupRepos env logs originalHostname hostname (repo # repos) = do {
     logs (''Updating Velero backup repository '' @ Quote (brName repo) @ '' to use new object store'');
     let repo = repo\<lparr>brResticIdentifier := ReplaceAll (brResticIdentifier repo) originalHostname hostname\<rparr>;
     bindE (flatE (''update velero backuprepository '' @ brName repo @ '' in velero namespace'')
              (send env (Update BackupRepositories ''velero'' (ObjBackupRepository repo))))
       (\<lambda>_. updateBackupRepos env logs originalHostname hostname repos) }"

definition updateBackupLocation :: "env \<Rightarrow> logger \<Rightarrow> string \<Rightarrow> string \<Rightarrow> string \<Rightarrow> bool res go" where
  "updateBackupLocation env logs hostname endpoint originalHostname = do {
     r \<leftarrow> getObj env dec_bsl BackupStorageLocations ''velero'' ''default'';
     case dataOrNone ''get velero backupstoragelocation in velero namespace'' r of
       Inl e \<Rightarrow> Fail e
     | Inr None \<Rightarrow> Ok False
     | Inr (Some bsl) \<Rightarrow>
         (case map_of (bslConfig bsl) ''s3Url'' of
            None \<Rightarrow> Ok False
          | Some veleroS3URL \<Rightarrow>
              (if \<not> Contains veleroS3URL originalHostname then Ok False
               else do {
                 logs ''Updating Velero backup locations to use new object store'';
                 let bsl = bsl\<lparr>bslConfig := store_map (store_map (bslConfig bsl) ''s3Url'' hostname)
                                 ''publicUrl'' (''http://'' @ endpoint @ ''/'')\<rparr>;
                 bindE (flatE ''update velero backupstoragelocation in velero namespace''
                          (send env (Update BackupStorageLocations ''velero'' (ObjBackupStorageLocation bsl)))) (\<lambda>_.
                 bindE (flatE ''list velero backuprepositories in velero namespace''
                          (listObjs env dec_backuprepo BackupRepositories ''velero''
                            ''velero.io/storage-location=default'')) (\<lambda>repos.
                 bindE (updateBackupRepos env logs originalHostname hostname repos) (\<lambda>_.
                 Ok True))) })) }"

definition newCredentials :: "string \<Rightarrow> string \<Rightarrow> string \<Rightarrow> string" where
  "newCredentials accessKey secretKey cloud =
     replaceRest ''aws_secret_access_key='' (''aws_secret_access_key='' @ secretKey)
       (replaceRest ''aws_access_key_id='' (''aws_access_key_id='' @ accessKey) cloud)"

definition updateCloudCredentials ::
  "env \<Rightarrow> logger \<Rightarrow> string \<Rightarrow> string \<Rightarrow> string \<Rightarrow> bool res go" where
  "updateCloudCredentials env logs accessKey secretKey originalSecretKey = do {
     r \<leftarrow> getObj env dec_secret Secrets ''velero'' ''cloud-credentials'';
     case dataOrNone ''get cloud-credentials secret in velero namespace'' r of
       Inl e \<Rightarrow> Fail e
     | Inr None \<Rightarrow> Ok False
     | Inr (Some sec) \<Rightarrow>
         (case map_of (secData sec) ''cloud'' of
            None \<Rightarrow> Ok False
          | Some cloud \<Rightarrow>
              (if \<not> Contains cloud originalSecretKey then Ok False
               else do {
                 logs ''Updating Velero cloud credentials to use new object store'';
                 let sec = sec\<lparr>secData := store_map (secData sec) ''cloud''
                                 (newCredentials accessKey secretKey cloud)\<rparr>;
                 bindE (flatE ''update cloud-credentials secret in velero namespace''
                          (send env (Update Secrets ''velero'' (ObjSecret sec)))) (\<lambda>_.
                 Ok True) })) }"

definition updateVeleroObjectStore ::
  "env \<Rightarrow> logger \<Rightarrow> string \<Rightarrow> string \<Rightarrow> string \<Rightarrow> string \<Rightarrow> string \<Rightarrow> string \<Rightarrow> unit res go" where
  "updateVeleroObjectStore env logs accessKey secretKey hostname endpoint originalSecretKey originalHostname =
     bindE (updateBackupLocation env logs hostname endpoint originalHostname) (\<lambda>changedLocation.
     bindE (updateCloudCredentials env logs accessKey secretKey originalSecretKey) (\<lambda>changedCredentials.
     if changedLocation \<or> changedCredentials
     then do {
       logs ''Restarting Velero's restic daemonset'';
       bindE (flatE ''restart velero restic daemonset after migrating object store''
                (RestartDaemonSet env ''velero'' ''restic'')) (\<lambda>_. do {
       logs ''Restic daemonset restarted'';
       logs ''Restarting Velero'';
       bindE (flatE ''restart velero deployment after migrating object store''
                (RestartDeployment env ''velero'' ''velero'')) (\<lambda>_. do {
       logs ''Velero restarted'';
       Ok () }) }) }
     else Ok ()))"

text \<open>\<open>updateKotsadmObjectStore\<close>: writing to the data of a secret without any is a panic.\<close>

definition updateKotsadmObjectStore ::
  "env \<Rightarrow> logger \<Rightarrow> string \<Rightarrow> string \<Rightarrow> string \<Rightarrow> string \<Rightarrow> unit res go" where
  "updateKotsadmObjectStore env logs accessKey secretKey hostname endpoint = do {
     r \<leftarrow> getObj env dec_secret Secrets ''default'' ''kotsadm-s3'';
     case dataOrNone ''get kotsadm-s3 secret in default namespace'' r of
       Inl e \<Rightarrow> Fail e
     | Inr None \<Rightarrow> Ok ()
     | Inr (Some sec) \<Rightarrow>
         (if secData sec = [] then Fail (Panic ''assignment to entry in nil map'')
          else do {
            let sec = sec\<lparr>secData := store_map (store_map (store_map (store_map (secData sec)
                            ''access-key-id'' accessKey) ''secret-access-key'' secretKey)
                            ''endpoint'' hostname) ''object-store-cluster-ip'' endpoint\<rparr>;
            logs ''Updating kotsadm-s3 secret to use new object store'';
            bindE (flatE ''update kotsadm-s3 secret in default namespace''
                     (send env (Update Secrets ''default'' (ObjSecret sec)))) (\<lambda>_. do {
            logs ''Restarting kotsadm'';
            bindE (flatE ''restart kotsadm deployment after migrating object store''
                     (RestartDeployment env ''default'' ''kotsadm'')) (\<lambda>_.
            bindE (flatE ''restart kotsadm statefulset after migrating object store''
                     (RestartStatefulSet env ''default'' ''kotsadm'')) (\<lambda>_. do {
            logs ''Kotsadm restarted'';
            Ok () })) }) }) }"

definition UpdateConsumers ::
  "env \<Rightarrow> logger \<Rightarrow> string \<Rightarrow> string \<Rightarrow> string \<Rightarrow> string \<Rightarrow> string \<Rightarrow> string \<Rightarrow> unit res go" where
  "UpdateConsumers env logs endpoint hostname accessKey secretKey originalHostname originalSecretKey =
     bindE (updateRegistryObjectStore env logs accessKey secretKey hostname endpoint) (\<lambda>_.
     bindE (updateVeleroObjectStore env logs accessKey secretKey hostname endpoint
              originalSecretKey originalHostname) (\<lambda>_.
     updateKotsadmObjectStore env logs accessKey secretKey hostname endpoint))"

section \<open>Is MinIO in use: src/pkg/objectstore/minio.go\<close>

text \<open>The result of a \<open>Get\<close> read only for whether the object exists.\<close>

definition existsRes :: "string \<Rightarrow> response \<Rightarrow> bool res" where
  "existsRes msg r = (case r of
       Failed err \<Rightarrow> (if IsNotFoundErr err then Inr False else Inl (Flat msg err))
     | _ \<Rightarrow> Inr True)"

definition IsMinioInUse :: "env \<Rightarrow> string \<Rightarrow> bool res go" where
  "IsMinioInUse env namespace =
     (if namespace = [] then Ok False
      else do {
        r \<leftarrow> call env (Get Namespaces [] namespace);
        case existsRes (''get minio namespace '' @ namespace) r of
          Inl e \<Rightarrow> Fail e
        | Inr False \<Rightarrow> Ok False
        | Inr True \<Rightarrow> do {
        r \<leftarrow> call env (Get Deployments namespace ''minio'');
        case existsRes (''get minio deployment in '' @ namespace) r of
          Inl e \<Rightarrow> Fail e
        | Inr True \<Rightarrow> Ok True
        | Inr False \<Rightarrow> do {
        r \<leftarrow> call env (Get StatefulSets namespace ''ha-minio'');
        ret (existsRes (''get minio statefulset in '' @ namespace) r) } } })"

section \<open>A copy that succeeds is complete\<close>

lemma obs_storeCall [simp]:
  "result (storeCall env client op args dec) s = dec (respond env (history s) (ObjectStoreCall client op args))"
  "after (storeCall env client op args dec) s = s\<lparr>history := history s @ [ObjectStoreCall client op args]\<rparr>"
  "sent (storeCall env client op args dec) s = [ObjectStoreCall client op args]"
  by (simp_all add: storeCall_def result_def after_def sent_def)

lemma emits_storeCall [emits_intros]:
  "P (ObjectStoreCall client op args) \<Longrightarrow> emits P (storeCall env client op args dec)"
  unfolding storeCall_def by (intro emits_intros)

lemma exchange_storeCall:
  "exchange env (storeCall env client op args dec) s (ObjectStoreCall client op args)
     (respond env (history s) (ObjectStoreCall client op args))"
  unfolding exchange_def by (intro exI [of _ "[]"]) simp

lemma as_bytes_Inr: "as_bytes r = Inr b \<Longrightarrow> r = Bytes b"
  by (cases r) (auto simp: as_bytes_def)

lemma as_strings_Inr: "as_strings r = Inr b \<Longrightarrow> r = Strings b"
  by (cases r) (auto simp: as_strings_def)

lemma emits_copyObjects:
  assumes "\<And>x. emits P (logs x)" "\<And>k. P (ObjectStoreCall src GetObject [bucket, k])"
    "\<And>i content. P (putRequest dst bucket i content)"
  shows "emits P (copyObjects env src dst bucket logs n infos)"
  by (induction infos arbitrary: n) (auto intro!: emits_intros assms)

lemma emits_syncBucket:
  assumes "\<And>x. emits P (logs x)" "\<And>op args. P (ObjectStoreCall src op args)"
    "\<And>op args. P (ObjectStoreCall dst op args)"
  shows "emits P (syncBucket env src dst bucket logs)"
  unfolding syncBucket_def
  by (intro emits_intros emits_copyObjects assms) (simp add: putRequest_def assms)

lemma emits_syncBuckets:
  assumes "\<And>x. emits P (logs x)" "\<And>op args. P (ObjectStoreCall src op args)"
    "\<And>op args. P (ObjectStoreCall dst op args)" "P Now"
  shows "emits P (syncBuckets env src dst logs buckets)"
  by (induction buckets) (auto intro!: emits_intros emits_syncBucket assms)

lemma emits_SyncAllBuckets:
  assumes "\<And>x. emits P (logs x)" "\<And>op args. P (ObjectStoreCall src op args)"
    "\<And>op args. P (ObjectStoreCall dst op args)" "P Now"
  shows "emits P (SyncAllBuckets env src sak ssk dst dak dsk logs)"
  unfolding SyncAllBuckets_def by (intro emits_intros emits_syncBuckets assms)

text \<open>What it means that a run copied an object: it read a content and the destination took it.\<close>

definition copied :: "env \<Rightarrow> 'a go \<Rightarrow> proc \<Rightarrow> string \<Rightarrow> string \<Rightarrow> string \<Rightarrow> object_info \<Rightarrow> bool" where
  "copied env m s src dst bucket i \<longleftrightarrow>
     (\<exists>content x. exchange env m s (ObjectStoreCall src GetObject [bucket, oiKey i]) (Bytes content) \<and>
        exchange env m s (putRequest dst bucket i content) x \<and> as_done x = Inr ())"

lemma copied_left:
  "copied env m s src dst bucket i \<Longrightarrow> sent n s = sent m s @ t \<Longrightarrow> copied env n s src dst bucket i"
  unfolding copied_def by (meson exchange_left)

lemma copied_right:
  "copied env m s' src dst bucket i \<Longrightarrow> history s' = history s @ t \<Longrightarrow> sent n s = t @ sent m s' \<Longrightarrow>
   copied env n s src dst bucket i"
  unfolding copied_def by (meson exchange_right)

lemma copied_wrap [simp]:
  "copied env (flatE msg m) s src dst bucket i = copied env m s src dst bucket i"
  "copied env (wrapWE msg m) s src dst bucket i = copied env m s src dst bucket i"
  by (simp_all add: copied_def)

lemma copyObjects_complete:
  assumes logs: "\<And>x. grows (logs x)"
    and res: "result (copyObjects env src dst bucket logs n infos) s = Inr k"
  shows "k = n + int (length infos) \<and>
    (\<forall>i\<in>set infos. copied env (copyObjects env src dst bucket logs n infos) s src dst bucket i)"
  using res
proof (induction infos arbitrary: n s)
  case (Cons info infos)
  let ?get = "storeCall env src GetObject [bucket, oiKey info] as_bytes"
  let ?log = "logs (''  - '' @ oiKey info)"
  let ?put = "\<lambda>content. send env (putRequest dst bucket info content)"
  let ?rest = "copyObjects env src dst bucket logs (n + 1) infos"
  let ?msg = "''failed to copy object '' @ oiKey info @ '' to destination''"
  let ?all = "copyObjects env src dst bucket logs n (info # infos)"
  have R: "grows ?rest" by (rule emits_copyObjects) (simp_all add: logs)
  have P: "grows (bindE (flatE ?msg (?put c)) (\<lambda>_. ?rest))" for c by (intro emits_intros R) simp
  have L: "grows (?log \<bind> (\<lambda>_. bindE (flatE ?msg (?put c)) (\<lambda>_. ?rest)))" for c
    by (intro emits_bind P logs)
  have G: "grows (flatE m ?get)" for m by (intro emits_intros) simp
  have M: "grows (flatE ?msg (?put c))" for c by (intro emits_intros) simp
  let ?s1 = "after ?get s"
  let ?s2 = "after ?log ?s1"
  obtain content where c: "result ?get s = Inr content"
    and put: "result (?put content) ?s2 = Inr ()"
    and rest: "result ?rest (after (?put content) ?s2) = Inr k"
    using Cons.prems by (fastforce elim!: bindE_Inr simp: result_bind)
  let ?s3 = "after (?put content) ?s2"
  let ?req = "putRequest dst bucket info content"
  have h2: "history ?s2 = history s @ sent ?get s @ sent ?log ?s1"
    using grows_history [OF logs, of _ ?s1] by simp
  have all: "sent ?all s = sent ?get s @ sent ?log ?s1 @ [?req] @ sent ?rest ?s3"
    unfolding copyObjects.simps sent_bindE [OF G L] sent_bind [OF logs P] sent_bindE [OF M R] obs_wrap
    using c put by (simp del: obs_storeCall obs_typed) simp
  have get: "exchange env ?all s (ObjectStoreCall src GetObject [bucket, oiKey info]) (Bytes content)"
    unfolding exchange_def all using c
    by (intro exI [of _ "[]"] exI [of _ "sent ?log ?s1 @ [?req] @ sent ?rest ?s3"]) (simp add: as_bytes_Inr)
  have "exchange env ?all s ?req (respond env (history ?s2) ?req)"
    unfolding exchange_def all h2
    by (intro exI [of _ "sent ?get s @ sent ?log ?s1"] exI [of _ "sent ?rest ?s3"]) simp
  with get have now: "copied env ?all s src dst bucket info"
    using put unfolding copied_def by auto
  have h3: "history ?s3 = history s @ (sent ?get s @ sent ?log ?s1 @ [?req])" using h2 by simp
  have "copied env ?all s src dst bucket i" if "i \<in> set infos" for i
  proof (rule copied_right [OF _ h3])
    show "copied env ?rest ?s3 src dst bucket i" using Cons.IH [OF rest] that by blast
    show "sent ?all s = (sent ?get s @ sent ?log ?s1 @ [?req]) @ sent ?rest ?s3"
      unfolding all by (simp only: append_assoc)
  qed
  moreover have "k = n + int (length (info # infos))" using Cons.IH [OF rest] by simp
  ultimately show ?case using now unfolding list.set by blast
qed simp

text \<open>A bucket is copied when every object of a listing of it is.\<close>

definition bucketCopied :: "env \<Rightarrow> 'a go \<Rightarrow> proc \<Rightarrow> string \<Rightarrow> string \<Rightarrow> string \<Rightarrow> bool" where
  "bucketCopied env m s src dst bucket \<longleftrightarrow>
     (\<exists>x. exchange env m s (ObjectStoreCall src ListObjects [bucket]) x \<and>
        (\<forall>i\<in>set (as_infos x). copied env m s src dst bucket i))"

lemma bucketCopied_left:
  "bucketCopied env m s src dst b \<Longrightarrow> sent n s = sent m s @ t \<Longrightarrow> bucketCopied env n s src dst b"
  unfolding bucketCopied_def by (meson exchange_left copied_left)

lemma bucketCopied_right:
  "bucketCopied env m s' src dst b \<Longrightarrow> history s' = history s @ t \<Longrightarrow> sent n s = t @ sent m s' \<Longrightarrow>
   bucketCopied env n s src dst b"
  unfolding bucketCopied_def by (meson exchange_right copied_right)

lemma bucketCopied_bind_right:
  "grows m \<Longrightarrow> (\<And>y. grows (f y)) \<Longrightarrow> bucketCopied env (f (result m s)) (after m s) src dst b \<Longrightarrow>
   bucketCopied env (m \<bind> f) s src dst b"
  by (erule bucketCopied_right [OF _ grows_history]) (simp_all add: sent_bind)

lemma bucketCopied_bindE_right:
  "grows m \<Longrightarrow> (\<And>y. grows (f y)) \<Longrightarrow> result m s = Inr y \<Longrightarrow>
   bucketCopied env (f y) (after m s) src dst b \<Longrightarrow> bucketCopied env (bindE m f) s src dst b"
  by (erule bucketCopied_right [OF _ grows_history]) (simp_all add: sent_bindE)

lemma bucketCopied_bindE_left:
  "grows m \<Longrightarrow> (\<And>y. grows (f y)) \<Longrightarrow> bucketCopied env m s src dst b \<Longrightarrow>
   bucketCopied env (bindE m f) s src dst b"
  by (erule bucketCopied_left) (rule sent_bindE)

lemma bucketCopied_flat [simp]:
  "bucketCopied env (flatE msg m) s src dst b = bucketCopied env m s src dst b"
  by (simp add: bucketCopied_def)

lemma syncBucket_complete:
  assumes logs: "\<And>x. grows (logs x)"
    and res: "result (syncBucket env src dst bucket logs) s = Inr k"
  shows "bucketCopied env (syncBucket env src dst bucket logs) s src dst bucket"
proof -
  let ?list = "storeCall env src ListObjects [bucket] as_infos"
  let ?copy = "copyObjects env src dst bucket logs 0"
  have C: "grows (?copy xs)" for xs by (rule emits_copyObjects) (simp_all add: logs)
  have L: "grows (?list \<bind> ?copy)" by (intro emits_bind C emits_intros) simp
  have M: "grows (if b then Ok () else flatE m (send env q))" for b m q
    by (intro emits_intros) simp
  have B: "grows (flatE m (storeCall env dst BucketExists [bucket] as_bool))" for m
    by (intro emits_intros) simp
  have list: "bucketCopied env (?list \<bind> ?copy) s' src dst bucket"
    if "result (?list \<bind> ?copy) s' = Inr k" for s'
  proof -
    let ?x = "respond env (history s') (ObjectStoreCall src ListObjects [bucket])"
    have "exchange env (?list \<bind> ?copy) s' (ObjectStoreCall src ListObjects [bucket]) ?x"
      by (intro exchange_bind_left C emits_intros exchange_storeCall) simp
    moreover have "copied env (?list \<bind> ?copy) s' src dst bucket i" if "i \<in> set (as_infos ?x)" for i
    proof (rule copied_right)
      show "copied env (?copy (as_infos ?x)) (after ?list s') src dst bucket i"
        using copyObjects_complete [OF logs, where n = 0 and infos = "as_infos ?x" and s = "after ?list s'" and k = k] that
          \<open>result (?list \<bind> ?copy) s' = Inr k\<close> by (simp add: result_bind)
      show "history (after ?list s') = history s' @ sent ?list s'" by simp
      show "sent (?list \<bind> ?copy) s' = sent ?list s' @ sent (?copy (as_infos ?x)) (after ?list s')"
        using sent_bind [of ?list ?copy s'] C by (simp add: emits_storeCall)
    qed
    ultimately show ?thesis unfolding bucketCopied_def by blast
  qed
  from res show ?thesis unfolding syncBucket_def
    by (elim bindE_Inr) (rule bucketCopied_bindE_right [OF B], intro emits_bindE M L, assumption,
      rule bucketCopied_bindE_right [OF M L], assumption, rule list)
qed

lemma syncBuckets_complete:
  assumes logs: "\<And>x. grows (logs x)"
    and res: "result (syncBuckets env src dst logs buckets) s = Inr ()" and "b \<in> set buckets"
  shows "bucketCopied env (syncBuckets env src dst logs buckets) s src dst b"
  using res assms(3)
proof (induction buckets arbitrary: s)
  case (Cons bucket buckets)
  have R: "grows (syncBuckets env src dst logs buckets)"
    by (rule emits_syncBuckets) (simp_all add: logs)
  have N: "grows (now env)" by (intro emits_intros) simp
  have S: "grows (flatE m (syncBucket env src dst bucket logs))" for m
    by (intro emits_flatE emits_syncBucket) (simp_all add: logs)
  have K: "grows (now env \<bind> (\<lambda>t. logs (f n t) \<bind> (\<lambda>_. syncBuckets env src dst logs buckets)))"
    for f :: "int \<Rightarrow> int \<Rightarrow> string" and n
    by (intro emits_bind N logs R)
  have K': "grows (bindE (flatE m (syncBucket env src dst bucket logs)) (\<lambda>n. now env \<bind>
      (\<lambda>t. logs (f n t) \<bind> (\<lambda>_. syncBuckets env src dst logs buckets))))"
    for f :: "int \<Rightarrow> int \<Rightarrow> string" and m
    by (intro emits_bindE S K)
  obtain n s1 s2 where
    here: "result (syncBucket env src dst bucket logs) s1 = Inr n"
    and there: "result (syncBuckets env src dst logs buckets) s2 = Inr ()"
    and s1: "s1 = after (now env) (after (logs (''Syncing objects in '' @ bucket)) s)"
    and s2: "s2 = after (logs (''Copied '' @ Itoa n @ '' objects in '' @ bucket @ '' over '' @
        DurationString env (result (now env) (after (syncBucket env src dst bucket logs) s1) -
          result (now env) (after (logs (''Syncing objects in '' @ bucket)) s))))
        (after (now env) (after (syncBucket env src dst bucket logs) s1))"
    using Cons.prems(1) by (fastforce elim!: bindE_Inr simp: result_bind)
  show ?case
    unfolding syncBuckets.simps
  proof (intro bucketCopied_bind_right logs N K' emits_bind)
    show "bucketCopied env (bindE (flatE (''failed to sync bucket '' @ bucket)
        (syncBucket env src dst bucket logs)) (\<lambda>numObjects. now env \<bind> (\<lambda>t.
        logs (''Copied '' @ Itoa numObjects @ '' objects in '' @ bucket @ '' over '' @
          DurationString env (t - result (now env) (after (logs (''Syncing objects in '' @ bucket)) s))) \<bind>
        (\<lambda>_. syncBuckets env src dst logs buckets))))
        (after (now env) (after (logs (''Syncing objects in '' @ bucket)) s)) src dst b"
    proof (cases "b = bucket")
      case True
      then show ?thesis using syncBucket_complete [OF logs here]
        by (intro bucketCopied_bindE_left S K) (simp add: s1)
    next
      case False
      then have "bucketCopied env (syncBuckets env src dst logs buckets) s2 src dst b"
        using Cons.IH [OF there] Cons.prems(2) by simp
      then show ?thesis
        by (intro bucketCopied_bindE_right [where y = n] bucketCopied_bind_right S K N logs R emits_bind)
          (use here in \<open>simp_all only: s1 s2 obs_wrap map_err_simps\<close>)
    qed
  qed
qed simp

text \<open>The run copied every object of every bucket that the source listed.\<close>

definition storeCopied :: "env \<Rightarrow> 'a go \<Rightarrow> proc \<Rightarrow> string \<Rightarrow> string \<Rightarrow> bool" where
  "storeCopied env m s src dst \<longleftrightarrow>
     (\<exists>buckets. exchange env m s (ObjectStoreCall src ListBuckets []) (Strings buckets) \<and>
        (\<forall>b\<in>set buckets. bucketCopied env m s src dst b))"

lemma storeCopied_left:
  "storeCopied env m s src dst \<Longrightarrow> sent n s = sent m s @ t \<Longrightarrow> storeCopied env n s src dst"
  unfolding storeCopied_def by (meson exchange_left bucketCopied_left)

lemma storeCopied_right:
  "storeCopied env m s' src dst \<Longrightarrow> history s' = history s @ t \<Longrightarrow> sent n s = t @ sent m s' \<Longrightarrow>
   storeCopied env n s src dst"
  unfolding storeCopied_def by (meson exchange_right bucketCopied_right)

lemma storeCopied_bindE_left:
  "grows m \<Longrightarrow> (\<And>y. grows (f y)) \<Longrightarrow> storeCopied env m s src dst \<Longrightarrow>
   storeCopied env (bindE m f) s src dst"
  by (erule storeCopied_left) (rule sent_bindE)

lemma storeCopied_bindE_right:
  "result m s = Inr y \<Longrightarrow> grows m \<Longrightarrow> (\<And>y. grows (f y)) \<Longrightarrow>
   storeCopied env (f y) (after m s) src dst \<Longrightarrow> storeCopied env (bindE m f) s src dst"
  by (erule storeCopied_right [OF _ grows_history]) (simp_all add: sent_bindE)

lemma storeCopied_wrap [simp]:
  "storeCopied env (wrapWE msg m) s src dst = storeCopied env m s src dst"
  by (simp add: storeCopied_def bucketCopied_def)

lemma SyncAllBuckets_storeCopied:
  assumes "\<And>x. grows (logs x)"
    and "result (SyncAllBuckets env src sourceKey sourceSecret dst destKey destSecret logs) s = Inr ()"
  shows "storeCopied env (SyncAllBuckets env src sourceKey sourceSecret dst destKey destSecret logs) s src dst"
proof -
  let ?i = "\<lambda>e k. flatE k (send env e)"
  let ?list = "storeCall env src ListBuckets [] as_strings"
  let ?l1 = "logs ''Initialized clients''"
  let ?l2 = "\<lambda>bs. logs (''Found '' @ Itoa (int (length bs)) @ '' buckets to sync'')"
  let ?sync = "\<lambda>bs. syncBuckets env src dst logs bs"
  have I: "grows (?i e k)" for e k by (intro emits_intros) simp
  have S: "grows (?sync bs)" for bs by (rule emits_syncBuckets) (simp_all add: assms(1))
  have LS: "grows (?l2 bs \<bind> (\<lambda>_. ?sync bs))" for bs by (intro emits_bind S assms(1))
  have L: "grows (flatE k ?list)" for k by (intro emits_intros) simp
  have R: "grows (?l1 \<bind> (\<lambda>_. bindE (flatE k ?list) (\<lambda>bs. ?l2 bs \<bind> (\<lambda>_. ?sync bs))))" for k
    by (intro emits_bind emits_bindE L LS assms(1))
  obtain bs s1 s2 s3 where
    s1: "s1 = after ?l1 s3"
    and bs: "result ?list s1 = Inr bs"
    and s2: "s2 = after (?l2 bs) (after ?list s1)" and sync: "result (?sync bs) s2 = Inr ()"
    and s3: "s3 = after (send env (ObjectStoreCall dst StoreNew [destKey, destSecret]))
        (after (send env (ObjectStoreCall src StoreNew [sourceKey, sourceSecret])) s)"
    and i1: "result (send env (ObjectStoreCall src StoreNew [sourceKey, sourceSecret])) s = Inr ()"
    and i2: "result (send env (ObjectStoreCall dst StoreNew [destKey, destSecret]))
      (after (send env (ObjectStoreCall src StoreNew [sourceKey, sourceSecret])) s) = Inr ()"
    using assms(2) by (fastforce elim!: bindE_Inr simp: SyncAllBuckets_def result_bind)
  have x: "respond env (history s1) (ObjectStoreCall src ListBuckets []) = Strings bs"
    using bs as_strings_Inr by simp
  have "exchange env ?list s1 (ObjectStoreCall src ListBuckets []) (Strings bs)"
    using exchange_storeCall [of env src ListBuckets "[]" as_strings s1] x by simp
  then have 1: "exchange env (SyncAllBuckets env src sourceKey sourceSecret dst destKey destSecret logs) s
       (ObjectStoreCall src ListBuckets []) (Strings bs)"
    unfolding SyncAllBuckets_def
    by (intro exchange_bindE_right exchange_bind_right exchange_bindE_left I L LS R emits_bindE emits_bind assms(1))
      (use i1 i2 in \<open>simp_all only: s1 s3 obs_wrap map_err_simps exchange_wrap\<close>)
  have "bucketCopied env (SyncAllBuckets env src sourceKey sourceSecret dst destKey destSecret logs) s src dst b"
    if "b \<in> set bs" for b
  proof -
    have "bucketCopied env (?sync bs) s2 src dst b"
      using syncBuckets_complete [OF assms(1) sync that] .
    then show ?thesis unfolding SyncAllBuckets_def
      by (intro bucketCopied_bindE_right bucketCopied_bind_right I L LS R S emits_bindE emits_bind assms(1))
        (use i1 i2 bs in \<open>simp_all only: s1 s2 s3 obs_wrap map_err_simps\<close>)
  qed
  with 1 show ?thesis unfolding storeCopied_def by blast
qed

text \<open>
  C14: When a copy of the object store reports success, every object of every bucket the source
  listed was read from the source and accepted by the destination: under the same bucket and
  key, with the content that was read, and with the size and type of the listing.
\<close>

theorem SyncAllBuckets_complete:
  assumes "\<And>x. grows (logs x)"
    and "result (SyncAllBuckets env src sourceKey sourceSecret dst destKey destSecret logs) s = Inr ()"
  shows "\<exists>buckets. exchange env
       (SyncAllBuckets env src sourceKey sourceSecret dst destKey destSecret logs) s
       (ObjectStoreCall src ListBuckets []) (Strings buckets) \<and>
     (\<forall>b\<in>set buckets. bucketCopied env
       (SyncAllBuckets env src sourceKey sourceSecret dst destKey destSecret logs) s src dst b)"
  using SyncAllBuckets_storeCopied [OF assms] unfolding storeCopied_def .

definition sampleInfo :: object_info where
  "sampleInfo = \<lparr>oiKey = ''a/b'', oiSize = 5, oiContentType = ''text/plain'', oiContentEncoding = []\<rparr>"

definition sampleStoreEnv :: env where
  "sampleStoreEnv = sampleEnv (answering
     [(ObjectStoreCall ''src'' ListBuckets [], Strings [''b1'']),
      (ObjectStoreCall ''dst'' BucketExists [''b1''], Bool False),
      (ObjectStoreCall ''src'' ListObjects [''b1''], ObjectInfos [sampleInfo]),
      (ObjectStoreCall ''src'' GetObject [''b1'', ''a/b''], Bytes ''hello'')])"

theorem SyncAllBuckets_complete_witness:
  "result (SyncAllBuckets sampleStoreEnv ''src'' ''k'' ''s'' ''dst'' ''k2'' ''s2'' noLogs) sampleProc = Inr () \<and>
   putRequest ''dst'' ''b1'' sampleInfo ''hello'' \<in> set (sent
     (SyncAllBuckets sampleStoreEnv ''src'' ''k'' ''s'' ''dst'' ''k2'' ''s2'' noLogs) sampleProc)"
proof -
  let ?m = "SyncAllBuckets sampleStoreEnv ''src'' ''k'' ''s'' ''dst'' ''k2'' ''s2'' noLogs"
  have g: "grows (noLogs x)" for x unfolding noLogs_def by (intro emits_intros)
  have r: "result ?m sampleProc = Inr ()" by code_simp
  have a: "respond sampleStoreEnv h (ObjectStoreCall ''src'' ListBuckets []) = Strings [''b1'']"
    "respond sampleStoreEnv h (ObjectStoreCall ''src'' ListObjects [''b1'']) = ObjectInfos [sampleInfo]"
    "respond sampleStoreEnv h (ObjectStoreCall ''src'' GetObject [''b1'', ''a/b'']) = Bytes ''hello''" for h
    by (simp_all add: sampleStoreEnv_def answering_def)
  from SyncAllBuckets_complete [OF g r] obtain buckets where
    l: "exchange sampleStoreEnv ?m sampleProc (ObjectStoreCall ''src'' ListBuckets []) (Strings buckets)"
    and c: "\<forall>b\<in>set buckets. bucketCopied sampleStoreEnv ?m sampleProc ''src'' ''dst'' b" by blast
  from exchange_answer [OF l] a(1) have "buckets = [''b1'']" by auto
  with c obtain x where
    x: "exchange sampleStoreEnv ?m sampleProc (ObjectStoreCall ''src'' ListObjects [''b1'']) x"
    and i: "\<forall>i\<in>set (as_infos x). copied sampleStoreEnv ?m sampleProc ''src'' ''dst'' ''b1'' i"
    unfolding bucketCopied_def by auto
  from exchange_answer [OF x] a(2) have "x = ObjectInfos [sampleInfo]" by auto
  then have "as_infos x = [sampleInfo]" by (simp add: as_infos_def)
  with i obtain content where
    gt: "exchange sampleStoreEnv ?m sampleProc (ObjectStoreCall ''src'' GetObject [''b1'', oiKey sampleInfo]) (Bytes content)"
    and p: "\<exists>x. exchange sampleStoreEnv ?m sampleProc (putRequest ''dst'' ''b1'' sampleInfo content) x"
    unfolding copied_def by auto
  have "oiKey sampleInfo = ''a/b''" by (simp add: sampleInfo_def)
  with exchange_answer [OF gt] a(3) have "content = ''hello''" by auto
  with p r show ?thesis using exchange_sent by blast
qed

section \<open>Rewriting the configuration of the registry\<close>

lemma expandTemplate_plain: "CHR ''$'' \<notin> set t \<Longrightarrow> expandTemplate m t = t"
  by (induction t) auto

lemma Contains_append: "Contains (u @ p @ v) p"
proof (induction u)
  case Nil
  show ?case
  proof (cases "p @ v")
    case (Cons a list)
    then have "HasPrefix (a # list) p" using HasPrefix_append [of p v] by metis
    then show ?thesis using Cons by simp
  qed simp
qed auto

lemma replaceLine_cases:
  assumes "CHR ''$'' \<notin> set t" "p \<noteq> []"
  shows "(\<not> Contains l p \<and> replaceLine p t l = l) \<or>
    (\<exists>u v. l = u @ p @ v \<and> replaceLine p t l = u @ t)"
proof (induction l)
  case (Cons x xs)
  show ?case
  proof (cases "HasPrefix (x # xs) p")
    case True
    then obtain v where "x # xs = p @ v" by (auto simp: HasPrefix_iff)
    moreover have "replaceLine p t (x # xs) = t" using True by (simp add: expandTemplate_plain assms)
    ultimately show ?thesis by (metis append_Nil)
  next
    case False
    then have "replaceLine p t (x # xs) = x # replaceLine p t xs" by simp
    with Cons False show ?thesis by (metis Contains.simps(2) append_Cons)
  qed
qed (simp add: assms)

lemma replaceLine_twice:
  assumes "CHR ''$'' \<notin> set r1" "CHR ''$'' \<notin> set p" "p \<noteq> []"
  shows "replaceLine p t2 (replaceLine p (p @ r1) l) = replaceLine p t2 l \<or> CHR ''$'' \<in> set t2"
proof (cases "CHR ''$'' \<in> set t2")
  case False
  have "replaceLine p t2 (replaceLine p (p @ r1) l) = replaceLine p t2 l"
  proof (induction l)
    case (Cons x xs)
    have plain: "CHR ''$'' \<notin> set (p @ r1)" using assms by simp
    show ?case
    proof (cases "HasPrefix (x # xs) p")
      case True
      have "replaceLine p (p @ r1) (x # xs) = p @ r1" using True expandTemplate_plain [OF plain] by simp
      moreover have "replaceLine p t2 (p @ r1) = t2"
        using assms(3) expandTemplate_plain [OF False] HasPrefix_append [of p r1] by (cases p) simp_all
      ultimately show ?thesis using True expandTemplate_plain [OF False] by simp
    next
      case no: False
      have "\<not> HasPrefix (x # replaceLine p (p @ r1) xs) p"
        using replaceLine_cases [OF plain assms(3), of xs]
      proof (elim disjE exE conjE)
        fix u v assume "xs = u @ p @ v" and eq: "replaceLine p (p @ r1) xs = u @ p @ r1"
        moreover have "take (length p) (x # u @ p @ v) = take (length p) (x # u @ p)"
          using take_append [of "length p" "x # u @ p" v] by simp
        ultimately have "take (length p) (x # u @ p) \<noteq> p" using no by (simp add: HasPrefix_def)
        moreover have "take (length p) (x # u @ p @ r1) = take (length p) (x # u @ p)"
          using take_append [of "length p" "x # u @ p" r1] by simp
        ultimately show ?thesis by (simp add: HasPrefix_def eq)
      qed (use no in simp)
      then show ?thesis using no Cons by simp
    qed
  qed simp
  then show ?thesis ..
qed simp

lemma replaceLine_NL:
  assumes "CHR ''$'' \<notin> set t" "p \<noteq> []" "CHR 0x0A \<notin> set t" "CHR 0x0A \<notin> set l"
  shows "CHR 0x0A \<notin> set (replaceLine p t l)"
  using replaceLine_cases [OF assms(1,2), of l] assms(3,4) by auto

lemma Split_replaceRest:
  assumes "CHR ''$'' \<notin> set t" "p \<noteq> []" "CHR 0x0A \<notin> set t"
  shows "Split (CHR 0x0A) (replaceRest p t s) = map (replaceLine p t) (Split (CHR 0x0A) s)"
  unfolding replaceRest_def NL_def
  by (rule Split_Join) (auto dest: replaceLine_NL [OF assms] Split_fields_no_sep)

definition repointed :: "string \<Rightarrow> string \<Rightarrow> string \<Rightarrow> bool" where
  "repointed endpoint l l' \<longleftrightarrow>
     (\<not> Contains l ''regionendpoint: http'' \<and> l' = l) \<or>
     (\<exists>u v. l = u @ ''regionendpoint: http'' @ v \<and>
        l' = u @ ''regionendpoint: http://'' @ endpoint @ ''/'')"

text \<open>
  C38: The new configuration of the registry has the lines of the old one, except that every line
  that names a region endpoint now names the new one, and moving the store a second time
  overrides the first.
\<close>

theorem registryNewConfig_repoints:
  assumes "CHR ''$'' \<notin> set endpoint" "CHR 0x0A \<notin> set endpoint"
    and "CHR ''$'' \<notin> set endpoint'"
  shows "list_all2 (repointed endpoint) (Split (CHR 0x0A) s)
      (Split (CHR 0x0A) (registryNewConfig endpoint s)) \<and>
    registryNewConfig endpoint' (registryNewConfig endpoint s) = registryNewConfig endpoint' s"
proof -
  let ?p = "''regionendpoint: http''"
  let ?t = "\<lambda>e. ?p @ ''://'' @ e @ ''/''"
  have def: "registryNewConfig e x = replaceRest ?p (?t e) x" for e x
    by (simp add: registryNewConfig_def)
  have p: "CHR ''$'' \<notin> set (?t endpoint)" "CHR 0x0A \<notin> set (?t endpoint)" "?p \<noteq> []"
    "CHR ''$'' \<notin> set (''://'' @ endpoint @ ''/'')" "CHR ''$'' \<notin> set ?p"
    "CHR ''$'' \<notin> set (?t endpoint')"
    using assms by simp_all
  have "repointed endpoint l (replaceLine ?p (?t endpoint) l)" for l
    using replaceLine_cases [OF p(1,3), of l] unfolding repointed_def by auto
  then have 1: "list_all2 (repointed endpoint) ls (map (replaceLine ?p (?t endpoint)) ls)" for ls
    by (simp add: list_all2_conv_all_nth)
  have 2: "map (replaceLine ?p (?t endpoint')) (map (replaceLine ?p (?t endpoint)) ls) =
      map (replaceLine ?p (?t endpoint')) ls" for ls
    unfolding map_map comp_def by (rule map_cong [OF refl]) (use replaceLine_twice [OF p(4,5,3)] p(6) in blast)
  show ?thesis
    unfolding def Split_replaceRest [OF p(1,3,2)] using 1
    unfolding replaceRest_def [of ?p "?t endpoint'"] Split_replaceRest [OF p(1,3,2)] 2 by blast
qed

theorem registryNewConfig_repoints_witness:
  "registryNewConfig ''10.96.0.9'' (registryNewConfig ''10.96.0.5''
      (''s3:'' @ NL @ ''  regionendpoint: http://old/'' @ NL @ ''  bucket: r'')) =
   ''s3:'' @ NL @ ''  regionendpoint: http://10.96.0.9/'' @ NL @ ''  bucket: r''"
proof -
  have "registryNewConfig ''10.96.0.9'' (registryNewConfig ''10.96.0.5''
      (''s3:'' @ NL @ ''  regionendpoint: http://old/'' @ NL @ ''  bucket: r'')) =
    registryNewConfig ''10.96.0.9'' (''s3:'' @ NL @ ''  regionendpoint: http://old/'' @ NL @ ''  bucket: r'')"
    by (rule registryNewConfig_repoints [THEN conjunct2]) simp_all
  also have "\<dots> = ''s3:'' @ NL @ ''  regionendpoint: http://10.96.0.9/'' @ NL @ ''  bucket: r''"
    by code_simp
  finally show ?thesis .
qed

section \<open>What pointing the consumers at the new store sends\<close>

lemma emits_nextRound [emits_intros]: "P PollTick \<Longrightarrow> emits P (nextRound env)"
  unfolding nextRound_def by (intro emits_intros)

lemma emits_RestartDeployment:
  assumes "\<And>r. is_read r \<Longrightarrow> P r" "\<And>x. P (Update Deployments ns x)"
  shows "emits P (RestartDeployment env ns name)"
  unfolding RestartDeployment_def AwaitDeploymentReady_def
  by (intro emits_intros assms) (simp_all add: assms)

lemma emits_RestartStatefulSet:
  assumes "\<And>r. is_read r \<Longrightarrow> P r" "\<And>x. P (Update StatefulSets ns x)"
  shows "emits P (RestartStatefulSet env ns name)"
  unfolding RestartStatefulSet_def AwaitStatefulSetReady_def
  by (intro emits_intros assms) (simp_all add: assms)

lemma emits_RestartDaemonSet:
  assumes "\<And>r. is_read r \<Longrightarrow> P r" "\<And>x. P (Update DaemonSets ns x)"
  shows "emits P (RestartDaemonSet env ns name)"
  unfolding RestartDaemonSet_def AwaitDaemonSetReady_def
  by (intro emits_intros assms) (simp_all add: assms)

lemma emits_updateBackupRepos:
  assumes "\<And>x. emits P (logs x)" "\<And>x. P (Update BackupRepositories ''velero'' x)"
  shows "emits P (updateBackupRepos env logs old new repos)"
  by (induction repos) (auto simp: Let_def intro!: emits_intros assms)

lemma emits_UpdateConsumers:
  assumes "\<And>x. emits P (logs x)" "\<And>r. is_read r \<Longrightarrow> P r" "\<And>k ns x. P (Update k ns x)"
  shows "emits P (UpdateConsumers env logs endpoint hostname ak sk oh osk)"
  unfolding UpdateConsumers_def updateRegistryObjectStore_def updateVeleroObjectStore_def
    updateKotsadmObjectStore_def updateBackupLocation_def updateCloudCredentials_def
  by (intro emits_intros emits_RestartDeployment emits_RestartStatefulSet emits_RestartDaemonSet
      emits_updateBackupRepos assms(1,3)) (simp_all add: assms)

lemma emits_IsMinioInUse:
  "(\<And>k ns n. P (Get k ns n)) \<Longrightarrow> emits P (IsMinioInUse env ns)"
  unfolding IsMinioInUse_def by (intro emits_intros)

end
