(* ===== verification/Minio.thy ===== *)
theory Minio
  imports ObjectStore
begin

text \<open>
  High availability of MinIO (\<open>src/pkg/cluster/minio.go\<close>): scaling the statefulset to the scale
  its annotation asks for, moving the data of the single-replica deployment into it and
  removing that deployment, and rebalancing the servers over the nodes by deleting one pod and its
  claim at a time. The theorems show that old data is deleted only once it has been
  copied, and that rebalancing removes at most one server, a healthy cluster permitting, and
  none when the servers are spread evenly.
\<close>

section \<open>The scale\<close>

text \<open>\<open>strconv.ParseInt(s, 10, bits)\<close>.\<close>

fun parseDigits :: "nat \<Rightarrow> string \<Rightarrow> nat option" where
  "parseDigits n [] = Some n"
| "parseDigits n (c # cs) =
     (if CHR ''0'' \<le> c \<and> c \<le> CHR ''9'' then parseDigits (10 * n + (of_char c - 48)) cs else None)"

definition ParseInt :: "nat \<Rightarrow> string \<Rightarrow> int res" where
  "ParseInt bits s =
     (let neg = HasPrefix s ''-'';
          ds = (if neg \<or> HasPrefix s ''+'' then tl s else s)
      in case (if ds = [] then None else parseDigits 0 ds) of
           None \<Rightarrow> Inl (NewErr ''invalid syntax'')
         | Some n \<Rightarrow>
             (let i = (if neg then - int n else int n)
              in if - (2 ^ (bits - 1)) \<le> i \<and> i < 2 ^ (bits - 1) then Inr i
                 else Inl (NewErr ''value out of range'')))"

definition getMinioScale :: "controller \<Rightarrow> string \<Rightarrow> (int \<times> int) res go" where
  "getMinioScale c ns =
     bindE (wrapWE ''get ha-minio statefulset''
              (getObj (Client c) dec_statefulset StatefulSets ns ''ha-minio'')) (\<lambda>ss.
       let scaleString = index_map (stsAnnotations ss) ''kurl.sh/desired-scale''
       in case ParseInt 32 scaleString of
            Inl e \<Rightarrow> Fail (WrapW (''failed to decode desired scale '' @ Quote scaleString) e)
          | Inr desired \<Rightarrow>
              Ok (case stsSpecReplicas ss of None \<Rightarrow> 0 | Some r \<Rightarrow> r, desired))"

definition ScaleMinioStatefulset :: "controller \<Rightarrow> string \<Rightarrow> unit res go" where
  "ScaleMinioStatefulset c ns =
     bindE (wrapWE ''determine current ha-minio statefulset status'' (getMinioScale c ns))
       (\<lambda>(current, desired).
         if current = desired then Ok ()
         else
           bindE (wrapWE ''get ha-minio statefulset scale''
                    (send (Client c) (Get StatefulSets ns ''ha-minio/scale''))) (\<lambda>_.
           wrapWE ''failed to scale ha-minio statefulset''
             (send (Client c) (UpdateScale ns ''ha-minio'' desired))))"

definition DoesHAMinioExist :: "controller \<Rightarrow> string \<Rightarrow> bool res go" where
  "DoesHAMinioExist c ns = do {
     r \<leftarrow> getMinioScale c ns;
     ret (case r of
         Inl err \<Rightarrow> (if IsNotFoundErr err then Inr False else Inl err)
       | Inr _ \<Rightarrow> Inr True) }"

section \<open>Health\<close>

definition okStatus :: "response \<Rightarrow> bool" where
  "okStatus r = (case r of HttpStatus code \<Rightarrow> code = 200 | _ \<Rightarrow> False)"

definition healthURL :: "string \<Rightarrow> string" where
  "healthURL ns = ''http://ha-minio.'' @ ns @ ''.svc.cluster.local/minio/health/cluster''"

definition haMinioHealthy :: "controller \<Rightarrow> string \<Rightarrow> bool go" where
  "haMinioHealthy c ns = do { r \<leftarrow> call (Client c) (HttpGet (healthURL ns)); ret (okStatus r) }"

definition maintenanceURL :: "pod \<Rightarrow> string" where
  "maintenanceURL p =
     ''http://'' @ podPodIP p @ '':9000/minio/health/cluster?maintenance=true''"

definition haMinioPodSafeToReschedule :: "controller \<Rightarrow> pod \<Rightarrow> bool go" where
  "haMinioPodSafeToReschedule c p = do {
     r \<leftarrow> call (Client c) (HttpGet (maintenanceURL p)); ret (okStatus r) }"

section \<open>Migration to the statefulset\<close>

text \<open>The patches of the service, as the code writes them.\<close>

definition selectorPatch :: "string \<Rightarrow> string \<Rightarrow> patch" where
  "selectorPatch k v = RawJSONPatch (NL @ ''[ { '' @ dquote ''op'' @ '': '' @ dquote ''replace'' @ '', '' @
     dquote ''path'' @ '': '' @ dquote ''/spec/selector'' @ '', '' @ dquote ''value'' @ '': {'' @
     dquote k @ '': '' @ dquote v @ ''} } ]'' @ NL)"

definition disableService :: "controller \<Rightarrow> string \<Rightarrow> unit res go" where
  "disableService c ns = do {
     r \<leftarrow> call (Client c) (Get Services ns ''minio'');
     case as_done r of
       Inl err \<Rightarrow>
         (if IsNotFoundErr err then Ok () else Fail (WrapW ''get existing minio service'' err))
     | Inr _ \<Rightarrow> wrapWE ''disable existing minio service''
         (send (Client c) (Patch Services ns ''minio'' (selectorPatch ''doesnotexist'' ''doesnotexist''))) }"

definition haEndpoint :: "string \<Rightarrow> string" where
  "haEndpoint ns = ''ha-minio.'' @ ns @ ''.svc.cluster.local''"

definition migrateOldMinio :: "controller \<Rightarrow> string \<Rightarrow> unit res go" where
  "migrateOldMinio c ns =
     bindE (disableService c ns) (\<lambda>_.
     bindE (wrapWE ''list minio pods'' (listObjs (Client c) dec_pod Pods ns ''app=minio'')) (\<lambda>pods.
     case pods of
       [] \<Rightarrow> Fail (NewErr ''unable to find existing minio pod to migrate from'')
     | p # _ \<Rightarrow>
     bindE (wrapWE ''retrieve minio credentials''
              (getObj (Client c) dec_secret Secrets ns ''minio-credentials'')) (\<lambda>cred.
     let key = index_map (secData cred) ''MINIO_ACCESS_KEY'';
         secretKey = index_map (secData cred) ''MINIO_SECRET_KEY'' in
     bindE (wrapWE ''sync minio data''
              (SyncAllBuckets (Client c) (podPodIP p @ '':9000'') key secretKey (haEndpoint ns) key secretKey
                noLogs)) (\<lambda>_.
     bindE (wrapWE ''failed to enable minio service''
              (send (Client c) (Patch Services ns ''minio'' (selectorPatch ''app'' ''ha-minio'')))) (\<lambda>_.
     bindE (wrapWE ''failed to clean up minio deployment''
              (send (Client c) (Delete Deployments ns ''minio''))) (\<lambda>_.
     wrapWE ''failed to clean up minio pvc''
       (send (Client c) (Delete PersistentVolumeClaims ns ''minio-pv-claim''))))))))"

definition MigrateMinioData :: "controller \<Rightarrow> string \<Rightarrow> string \<Rightarrow> unit res go" where
  "MigrateMinioData c utilImage ns = do {
     healthy \<leftarrow> haMinioHealthy c ns;
     if \<not> healthy then Ok () else migrateOldMinio c ns }"

definition EnsureHAMinioSvc :: "controller \<Rightarrow> string \<Rightarrow> unit res go" where
  "EnsureHAMinioSvc c ns =
     bindE (wrapWE ''get minio service'' (getObj (Client c) dec_service Services ns ''minio'')) (\<lambda>svc.
       if index_map (svcSelector svc) ''doesnotexist'' = ''doesnotexist''
       then wrapWE ''failed to enable minio service''
              (send (Client c) (Update Services ns (ObjService (svc\<lparr>svcSelector := [(''app'', ''ha-minio'')]\<rparr>))))
       else Ok ())"

section \<open>Rebalancing\<close>

text \<open>The claim of a pod is that of its last volume that has one.\<close>

fun lastClaim :: "string \<Rightarrow> string option list \<Rightarrow> string" where
  "lastClaim claim [] = claim"
| "lastClaim claim (v # vs) = lastClaim (case v of None \<Rightarrow> claim | Some n \<Rightarrow> n) vs"

definition rescheduleOnePod :: "controller \<Rightarrow> pod \<Rightarrow> unit res go" where
  "rescheduleOnePod c p =
     (let ns = podNamespace p; claim = lastClaim [] (podVolumeClaims p) in
      if claim = [] then Fail (NewErr (''unable to determine PVC name for pod '' @ podName p))
      else
        bindE (wrapWE (''failed to delete MinIO pod '' @ podName p @ CHR 0x27 # ''s PVC '' @ claim)
                 (send (Client c) (Delete PersistentVolumeClaims ns claim))) (\<lambda>_.
        wrapWE (''failed to delete MinIO pod '' @ podName p)
          (send (Client c) (Delete Pods ns (podName p)))))"

text \<open>Has one of the conditions said for five minutes that the pod cannot be scheduled?\<close>

fun longUnschedulable :: "env \<Rightarrow> condition list \<Rightarrow> bool go" where
  "longUnschedulable env [] = ret False"
| "longUnschedulable env (cond # conds) =
     (if condType cond = ''PodScheduled'' \<and> condStatus cond = ''False''
      then do {
        t \<leftarrow> now env;
        if t - condLastTransitionTime cond > Minute * 5 then ret True else longUnschedulable env conds }
      else longUnschedulable env conds)"

fun firstUnschedulable :: "env \<Rightarrow> pod list \<Rightarrow> pod option go" where
  "firstUnschedulable env [] = ret None"
| "firstUnschedulable env (p # ps) =
     (if podPhase p \<noteq> ''Pending'' then firstUnschedulable env ps
      else do {
        stuck \<leftarrow> longUnschedulable env (podConditions p);
        if stuck then ret (Some p) else firstUnschedulable env ps })"

text \<open>\<open>nodeMinioPods\<close>: the pods of each host, in the order of the listing.\<close>

definition addPod :: "(string \<times> pod list) list \<Rightarrow> pod \<Rightarrow> (string \<times> pod list) list" where
  "addPod m p = store_map m (podHostIP p)
     ((case map_of m (podHostIP p) of None \<Rightarrow> [] | Some ps \<Rightarrow> ps) @ [p])"

definition nodeMinioPods :: "pod list \<Rightarrow> (string \<times> pod list) list" where
  "nodeMinioPods pods = foldl addPod [] pods"

text \<open>
  \<open>int(math.Ceil(float64(a) / float64(b)))\<close> and \<open>int(math.Floor(...))\<close>; counts of pods and nodes
  are far below the 52 bits up to which the division is exact enough to round like that of the
  integers. Without a ready node the quotient is not finite.
\<close>

definition ceilDiv :: "env \<Rightarrow> int \<Rightarrow> int \<Rightarrow> int" where
  "ceilDiv env a b = (if b = 0 then IntOfNonFinite env else - ((- a) div b))"

definition floorDiv :: "env \<Rightarrow> int \<Rightarrow> int \<Rightarrow> int" where
  "floorDiv env a b = (if b = 0 then IntOfNonFinite env else a div b)"

text \<open>One of the loops that look for a server to move; \<open>None\<close> when none was moved.\<close>

fun rescheduleFirst ::
  "controller \<Rightarrow> (int \<Rightarrow> bool) \<Rightarrow> (string \<times> pod list) list \<Rightarrow> unit res option go" where
  "rescheduleFirst c wanted [] = ret None"
| "rescheduleFirst c wanted ((host, ps) # rest) =
     (if wanted (int (length ps))
      then do {
        safe \<leftarrow> haMinioPodSafeToReschedule c (hd ps);
        if safe then do { r \<leftarrow> rescheduleOnePod c (hd ps); ret (Some r) }
        else rescheduleFirst c wanted rest }
      else rescheduleFirst c wanted rest)"

definition rescheduleLoop ::
  "controller \<Rightarrow> nat \<Rightarrow> (int \<Rightarrow> bool) \<Rightarrow> (string \<times> pod list) list \<Rightarrow> unit res go \<Rightarrow> unit res go" where
  "rescheduleLoop c i wanted m continue = do {
     entries \<leftarrow> rangeMap (Client c) i m;
     r \<leftarrow> rescheduleFirst c wanted entries;
     case r of Some x \<Rightarrow> ret x | None \<Rightarrow> continue }"

definition rebalanceServers :: "controller \<Rightarrow> pod list \<Rightarrow> node list \<Rightarrow> unit res go" where
  "rebalanceServers c pods nodes =
     (let m = nodeMinioPods pods;
          (masters, workers) = NodeReadyCounts nodes;
          readyNodes = masters + workers;
          maxNodePods = ceilDiv (Client c) (int (length pods)) readyNodes;
          minNodePods = floorDiv (Client c) (int (length pods)) readyNodes;
          shouldRescheduleAnyDuplicate = int (length m) < readyNodes;
          shouldRescheduleFromMax = list_ex (\<lambda>(_, ps). int (length ps) < minNodePods) m
      in rescheduleLoop c 0 (\<lambda>n. n > maxNodePods) m
        (rescheduleLoop c 1 (\<lambda>n. shouldRescheduleFromMax \<and> n = maxNodePods) m
        (rescheduleLoop c 2 (\<lambda>n. shouldRescheduleAnyDuplicate \<and> n > 1) m
        (Ok ()))))"

text \<open>What happens to the pods of a healthy cluster.\<close>

definition rebalancePods :: "controller \<Rightarrow> pod list \<Rightarrow> unit res go" where
  "rebalancePods c pods = do {
     stuck \<leftarrow> firstUnschedulable (Client c) pods;
     case stuck of
       Some p \<Rightarrow> rescheduleOnePod c p
     | None \<Rightarrow>
         bindE (wrapWE ''failed to list nodes'' (listObjs (Client c) dec_node Nodes [] []))
           (\<lambda>nodes. rebalanceServers c pods nodes) }"

definition MaybeRebalanceMinioServers :: "controller \<Rightarrow> string \<Rightarrow> unit res go" where
  "MaybeRebalanceMinioServers c ns = do {
     r \<leftarrow> getMinioScale c ns;
     case r of
       Inl _ \<Rightarrow> Ok ()
     | Inr (currentScale, _) \<Rightarrow>
     (if currentScale = 0 then Ok ()
      else do {
        healthy \<leftarrow> haMinioHealthy c ns;
        if \<not> healthy then Ok ()
        else bindE (wrapWE ''faled to get ha-minio pods''
                      (listObjs (Client c) dec_pod Pods ns ''app=ha-minio'')) (rebalancePods c) }) }"

section \<open>What each step sends\<close>

text \<open>The requests of a run that change something.\<close>

definition writes :: "request list \<Rightarrow> request list" where
  "writes t = filter (\<lambda>r. \<not> is_read r) t"

lemma writes_simps [simp]:
  "writes [] = []" "writes (r # t) = (if is_read r then writes t else r # writes t)"
  "writes (t @ u) = writes t @ writes u"
  by (simp_all add: writes_def)

lemma writes_read: "emits is_read m \<Longrightarrow> writes (sent m s) = []"
  using emits_sent [of is_read m] by (auto simp: writes_def filter_empty_conv)

text \<open>After a part that only reads, the writes of a run are those of the part that follows.\<close>

lemma writes_bind:
  assumes "emits is_read m" "\<And>x. grows (f x)"
  shows "writes (sent (m \<bind> f) s) = writes (sent (f (result m s)) (after m s))"
  by (simp add: sent_bind [OF emits_grows [OF assms(1)] assms(2)] writes_read [OF assms(1)])

lemma writes_bindE:
  assumes "emits is_read m" "\<And>x. grows (f x)" "writes (sent (bindE m f) s) \<noteq> []"
  obtains x where "result m s = Inr x" "writes (sent (bindE m f) s) = writes (sent (f x) (after m s))"
    "sub_run (bindE m f) s (f x) (after m s)"
proof -
  have gm: "grows m" by (rule emits_grows [OF assms(1)])
  have w: "writes (sent (bindE m f) s) =
      (case result m s of Inl e \<Rightarrow> [] | Inr x \<Rightarrow> writes (sent (f x) (after m s)))"
    by (simp add: sent_bindE [OF gm assms(2)] writes_read [OF assms(1)] split: sum.split)
  with assms(3) obtain x where x: "result m s = Inr x" by (cases "result m s") auto
  show thesis
    by (rule that [OF x _ sub_run_bindE_right [where x = x, OF gm assms(2) x]]) (simp add: w x)
qed

lemma emits_getMinioScale: "P (Get StatefulSets ns ''ha-minio'') \<Longrightarrow> emits P (getMinioScale c ns)"
  unfolding getMinioScale_def by (intro emits_intros)

lemma okStatus_iff: "okStatus r \<longleftrightarrow> r = HttpStatus 200"
  by (cases r) (auto simp: okStatus_def)

lemma obs_healthy [simp]:
  "result (haMinioHealthy c ns) s = okStatus (respond (Client c) (history s) (HttpGet (healthURL ns)))"
  "after (haMinioHealthy c ns) s = s\<lparr>history := history s @ [HttpGet (healthURL ns)]\<rparr>"
  "sent (haMinioHealthy c ns) s = [HttpGet (healthURL ns)]"
  by (simp_all add: haMinioHealthy_def result_def after_def sent_def)

lemma obs_safe [simp]:
  "result (haMinioPodSafeToReschedule c p) s =
     okStatus (respond (Client c) (history s) (HttpGet (maintenanceURL p)))"
  "after (haMinioPodSafeToReschedule c p) s = s\<lparr>history := history s @ [HttpGet (maintenanceURL p)]\<rparr>"
  "sent (haMinioPodSafeToReschedule c p) s = [HttpGet (maintenanceURL p)]"
  by (simp_all add: haMinioPodSafeToReschedule_def result_def after_def sent_def)

lemma emits_healthy [emits_intros]: "P (HttpGet (healthURL ns)) \<Longrightarrow> emits P (haMinioHealthy c ns)"
  unfolding haMinioHealthy_def by (intro emits_intros)

lemma emits_safe [emits_intros]:
  "P (HttpGet (maintenanceURL p)) \<Longrightarrow> emits P (haMinioPodSafeToReschedule c p)"
  unfolding haMinioPodSafeToReschedule_def by (intro emits_intros)

lemma emits_rescheduleOnePod:
  "(\<And>n. P (Delete PersistentVolumeClaims (podNamespace p) n)) \<Longrightarrow>
   P (Delete Pods (podNamespace p) (podName p)) \<Longrightarrow> emits P (rescheduleOnePod c p)"
  unfolding rescheduleOnePod_def Let_def by (intro emits_intros)

text \<open>A server is moved by deleting its claim and then the pod, nothing else.\<close>

definition moveRequests :: "pod \<Rightarrow> request list" where
  "moveRequests p =
     [Delete PersistentVolumeClaims (podNamespace p) (lastClaim [] (podVolumeClaims p)),
      Delete Pods (podNamespace p) (podName p)]"

lemma sent_rescheduleOnePod: "prefix (sent (rescheduleOnePod c p) s) (moveRequests p)"
proof -
  have g: "grows (wrapWE m (send (Client c) r))" for m r by (intro emits_intros) simp
  show ?thesis
    by (auto simp: rescheduleOnePod_def Let_def moveRequests_def sent_bindE [OF g g] split: sum.split)
qed

lemma emits_longUnschedulable: "P Now \<Longrightarrow> emits P (longUnschedulable env conds)"
  by (induction conds) (auto intro: emits_intros)

lemma emits_firstUnschedulable: "P Now \<Longrightarrow> emits P (firstUnschedulable env ps)"
  by (induction ps) (auto intro: emits_intros emits_longUnschedulable)

lemma emits_rescheduleFirst:
  assumes "\<And>r. is_read r \<Longrightarrow> P r" "\<And>k ns n. P (Delete k ns n)"
  shows "emits P (rescheduleFirst c wanted entries)"
  by (induction entries) (auto intro!: emits_intros emits_rescheduleOnePod assms)

lemma emits_rescheduleLoop:
  assumes "\<And>r. is_read r \<Longrightarrow> P r" "\<And>k ns n. P (Delete k ns n)" "emits P continue"
  shows "emits P (rescheduleLoop c i wanted m continue)"
  unfolding rescheduleLoop_def by (intro emits_intros emits_rescheduleFirst assms)

lemma emits_rebalanceServers:
  assumes "\<And>r. is_read r \<Longrightarrow> P r" "\<And>k ns n. P (Delete k ns n)"
  shows "emits P (rebalanceServers c pods nodes)"
  unfolding rebalanceServers_def Let_def
  by (intro emits_intros emits_rescheduleLoop assms)

lemma emits_rebalancePods:
  assumes "\<And>r. is_read r \<Longrightarrow> P r" "\<And>k ns n. P (Delete k ns n)"
  shows "emits P (rebalancePods c pods)"
  unfolding rebalancePods_def
  by (intro emits_intros emits_firstUnschedulable emits_rescheduleOnePod emits_rebalanceServers)
    (simp_all add: assms)

lemma emits_MaybeRebalance:
  assumes "\<And>r. is_read r \<Longrightarrow> P r" "\<And>k ns n. P (Delete k ns n)"
  shows "emits P (MaybeRebalanceMinioServers c ns)"
  unfolding MaybeRebalanceMinioServers_def
  by (intro emits_intros emits_getMinioScale emits_rebalancePods) (simp_all add: assms)

section \<open>The pods of each host\<close>

lemma keys_store_map: "fst ` set (store_map m k v) = insert k (fst ` set m)"
  by (induction m k v rule: store_map.induct) auto

lemma distinct_store_map: "distinct (map fst m) \<Longrightarrow> distinct (map fst (store_map m k v))"
  by (induction m k v rule: store_map.induct) (auto simp: keys_store_map split: if_splits)

lemma nodeMinioPods_snoc: "nodeMinioPods (ps @ [p]) = addPod (nodeMinioPods ps) p"
  by (simp add: nodeMinioPods_def)

lemma distinct_nodeMinioPods: "distinct (map fst (nodeMinioPods pods))"
  by (induction pods rule: rev_induct)
    (simp_all add: nodeMinioPods_snoc addPod_def distinct_store_map, simp add: nodeMinioPods_def)

lemma map_of_nodeMinioPods:
  "map_of (nodeMinioPods pods) h =
     (let ps = filter (\<lambda>p. podHostIP p = h) pods in if ps = [] then None else Some ps)"
proof (induction pods rule: rev_induct)
  case (snoc p ps)
  then show ?case
    by (auto simp: nodeMinioPods_snoc addPod_def Let_def split: option.splits if_splits)
qed (simp add: nodeMinioPods_def)

lemma nodeMinioPods_entry:
  "(h, ps) \<in> set (nodeMinioPods pods) \<longleftrightarrow>
     ps = filter (\<lambda>p. podHostIP p = h) pods \<and> ps \<noteq> []"
proof -
  have "(h, ps) \<in> set (nodeMinioPods pods) \<longleftrightarrow> map_of (nodeMinioPods pods) h = Some ps"
    using distinct_nodeMinioPods by (metis map_of_eq_Some_iff)
  then show ?thesis by (auto simp: map_of_nodeMinioPods Let_def)
qed
section \<open>At most one server is moved\<close>

text \<open>The run moved the server \<open>p\<close>, which the cluster said it can spare.\<close>

definition moved :: "controller \<Rightarrow> 'a go \<Rightarrow> proc \<Rightarrow> pod \<Rightarrow> bool" where
  "moved c m s p \<longleftrightarrow>
     prefix (writes (sent m s)) (moveRequests p) \<and>
     exchange (Client c) m s (HttpGet (maintenanceURL p)) (HttpStatus 200)"

lemma moved_right:
  "moved c m s' p \<Longrightarrow> history s' = history s @ t \<Longrightarrow> writes t = [] \<Longrightarrow> sent n s = t @ sent m s' \<Longrightarrow>
   moved c n s p"
  unfolding moved_def by (auto intro: exchange_right)

lemma writes_moveRequests: "prefix t (moveRequests p) \<Longrightarrow> writes t = t"
  using set_mono_prefix [of t "moveRequests p"]
  by (auto simp: writes_def moveRequests_def filter_id_conv)

text \<open>What the loop does at a host that has too many servers: ask, and then move or go on.\<close>

lemma rescheduleFirst_step:
  fixes c :: controller and s :: proc
  assumes w: "wanted (int (length ps))"
  defines "ask \<equiv> HttpGet (maintenanceURL (hd ps))"
  defines "s1 \<equiv> after (haMinioPodSafeToReschedule c (hd ps)) s"
    and "safe \<equiv> respond (Client c) (history s) (HttpGet (maintenanceURL (hd ps))) = HttpStatus 200"
  shows "sent (rescheduleFirst c wanted ((h, ps) # entries)) s =
      ask # (if safe then sent (rescheduleOnePod c (hd ps)) s1 else sent (rescheduleFirst c wanted entries) s1)"
    and "result (rescheduleFirst c wanted ((h, ps) # entries)) s =
      (if safe then Some (result (rescheduleOnePod c (hd ps)) s1) else result (rescheduleFirst c wanted entries) s1)"
proof -
  let ?move = "rescheduleOnePod c (hd ps) \<bind> (\<lambda>r. ret (Some r))"
  have R: "grows (rescheduleFirst c wanted entries)" by (rule emits_rescheduleFirst) simp_all
  have O: "grows (rescheduleOnePod c (hd ps))" by (rule emits_rescheduleOnePod) simp_all
  have S: "grows (haMinioPodSafeToReschedule c (hd ps))" by (intro emits_intros) simp
  have B: "grows (if b then ?move else rescheduleFirst c wanted entries)" for b
    by (intro emits_if emits_bind emits_return O R)
  have move: "sent ?move s' = sent (rescheduleOnePod c (hd ps)) s'" for s'
    using sent_bind [OF O, of "\<lambda>r. ret (Some r)" s'] by (simp add: emits_return)
  show "sent (rescheduleFirst c wanted ((h, ps) # entries)) s =
      ask # (if safe then sent (rescheduleOnePod c (hd ps)) s1 else sent (rescheduleFirst c wanted entries) s1)"
    using w by (simp only: rescheduleFirst.simps if_True sent_bind [OF S B])
      (simp add: okStatus_iff move ask_def safe_def s1_def)
  show "result (rescheduleFirst c wanted ((h, ps) # entries)) s =
      (if safe then Some (result (rescheduleOnePod c (hd ps)) s1) else result (rescheduleFirst c wanted entries) s1)"
    using w by (simp add: result_bind okStatus_iff safe_def s1_def)
qed

lemma rescheduleFirst_cases:
  "(case result (rescheduleFirst c wanted entries) s of
      None \<Rightarrow> writes (sent (rescheduleFirst c wanted entries) s) = []
    | Some x \<Rightarrow> \<exists>(h, ps)\<in>set entries. wanted (int (length ps)) \<and>
        moved c (rescheduleFirst c wanted entries) s (hd ps))"
proof (induction entries arbitrary: s)
  case (Cons e entries)
  obtain h ps where e: "e = (h, ps)" by fastforce
  let ?p = "hd ps"
  let ?s1 = "after (haMinioPodSafeToReschedule c ?p) s"
  let ?m = "rescheduleFirst c wanted (e # entries)"
  show ?case
  proof (cases "wanted (int (length ps))")
    case w: True
    note step = rescheduleFirst_step [where wanted = wanted and ps = ps, OF w, of c h entries s, folded e]
    show ?thesis
    proof (cases "respond (Client c) (history s) (HttpGet (maintenanceURL ?p)) = HttpStatus 200")
      case True
      have sent: "sent ?m s = HttpGet (maintenanceURL ?p) # sent (rescheduleOnePod c ?p) ?s1"
        by (simp only: step(1) True if_True simp_thms)
      have "exchange (Client c) ?m s (HttpGet (maintenanceURL ?p)) (HttpStatus 200)"
        unfolding exchange_def sent using True
        by (intro exI [of _ "[]"] exI [of _ "sent (rescheduleOnePod c ?p) ?s1"]) simp
      moreover have "prefix (writes (sent ?m s)) (moveRequests ?p)"
        using sent_rescheduleOnePod [of c ?p ?s1] by (simp only: sent writes_simps is_read.simps
            writes_moveRequests if_True)
      ultimately have "moved c ?m s ?p" by (simp add: moved_def)
      moreover have "\<exists>x. result ?m s = Some x" by (simp only: step(2) True if_True simp_thms) blast
      ultimately show ?thesis using w e by force
    next
      case False
      have sent: "sent ?m s = [HttpGet (maintenanceURL ?p)] @ sent (rescheduleFirst c wanted entries) ?s1"
        by (simp only: step(1) False if_False append.simps)
      have res: "result ?m s = result (rescheduleFirst c wanted entries) ?s1"
        by (simp only: step(2) False if_False)
      have lift: "moved c (rescheduleFirst c wanted entries) ?s1 q \<Longrightarrow> moved c ?m s q" for q
        by (rule moved_right [OF _ _ _ sent]) simp_all
      show ?thesis
        using Cons.IH [of ?s1] lift unfolding res list.set
        by (cases "result (rescheduleFirst c wanted entries) ?s1")
          (simp only: option.case sent writes_simps is_read.simps if_True append.simps, fastforce)+
    qed
  next
    case False
    then show ?thesis using Cons.IH [of s] by (auto simp: e moved_def exchange_def split: option.splits)
  qed
qed simp

lemma rescheduleLoop_cases:
  assumes d: "distinct (map fst m)" and g: "grows continue"
  obtains h ps where "(h, ps) \<in> set m" "wanted (int (length ps))"
      "moved c (rescheduleLoop c i wanted m continue) s (hd ps)"
  | s' t where "history s' = history s @ t" "writes t = []"
      "sent (rescheduleLoop c i wanted m continue) s = t @ sent continue s'"
proof -
  let ?loop = "rescheduleLoop c i wanted m continue"
  let ?E = "result (rangeMap (Client c) i m) s"
  let ?f = "rescheduleFirst c wanted ?E"
  have E: "set ?E = set m" by (rule rangeMap_set [OF d])
  have F: "grows (rescheduleFirst c wanted es)" for es by (rule emits_rescheduleFirst) simp_all
  have C: "grows (case r of Some x \<Rightarrow> ret x | None \<Rightarrow> continue)" for r by (intro emits_intros g)
  have FC: "grows (rescheduleFirst c wanted es \<bind> (\<lambda>r. case r of Some x \<Rightarrow> ret x | None \<Rightarrow> continue))" for es
    by (intro emits_bind F C)
  have M: "grows (rangeMap (Client c) i m)" by (intro emits_intros)
  have sent: "sent ?loop s = sent ?f s @ (case result ?f s of
      Some x \<Rightarrow> [] | None \<Rightarrow> sent continue (after ?f s))"
    unfolding rescheduleLoop_def
    by (simp add: sent_bind [OF M FC] sent_bind [OF F C] split: option.split)
  have cases: "case result ?f s of None \<Rightarrow> writes (sent ?f s) = []
    | Some x \<Rightarrow> \<exists>(h, ps)\<in>set m. wanted (int (length ps)) \<and> moved c ?f s (hd ps)"
    using rescheduleFirst_cases [of c wanted ?E s] unfolding E .
  show thesis
  proof (cases "result ?f s")
    case None
    show thesis
    proof (rule that(2))
      show "history (after ?f s) = history s @ sent ?f s" by (rule grows_history [OF F])
      show "writes (sent ?f s) = []" using cases None by simp
      show "sent ?loop s = sent ?f s @ sent continue (after ?f s)" using sent None by simp
    qed
  next
    case (Some x)
    with cases obtain h ps where e: "(h, ps) \<in> set m" "wanted (int (length ps))" "moved c ?f s (hd ps)"
      by auto
    have "sent ?loop s = sent ?f s" using sent Some by simp
    then have "moved c ?loop s (hd ps)" using e(3) by (simp add: moved_def exchange_def)
    with e(1,2) show thesis by (rule that(1))
  qed
qed

lemma rebalanceServers_cases:
  fixes pods nodes c
  defines "ready \<equiv> fst (NodeReadyCounts nodes) + snd (NodeReadyCounts nodes)"
    and "m \<equiv> nodeMinioPods pods"
  defines "hi \<equiv> ceilDiv (Client c) (int (length pods)) ready"
    and "lo \<equiv> floorDiv (Client c) (int (length pods)) ready"
  obtains "writes (sent (rebalanceServers c pods nodes) s) = []"
  | h ps where "(h, ps) \<in> set m" "moved c (rebalanceServers c pods nodes) s (hd ps)"
      "int (length ps) > hi \<or>
       list_ex (\<lambda>(_, ps). int (length ps) < lo) m \<and> int (length ps) = hi \<or>
       int (length m) < ready \<and> int (length ps) > 1"
proof -
  let ?w0 = "\<lambda>n. n > hi"
  let ?w1 = "\<lambda>n. list_ex (\<lambda>(_, ps). int (length ps) < lo) m \<and> n = hi"
  let ?w2 = "\<lambda>n. int (length m) < ready \<and> n > 1"
  let ?l2 = "rescheduleLoop c 2 ?w2 m (Ok ())"
  let ?l1 = "rescheduleLoop c 1 ?w1 m ?l2"
  let ?l0 = "rescheduleLoop c 0 ?w0 m ?l1"
  have eq: "rebalanceServers c pods nodes = ?l0"
    unfolding rebalanceServers_def ready_def m_def hi_def lo_def Let_def by (simp add: split_beta)
  have d: "distinct (map fst m)" unfolding m_def by (rule distinct_nodeMinioPods)
  have g0: "grows (Ok ())" by (rule emits_return)
  have g2: "grows ?l2" by (rule emits_rescheduleLoop) (simp_all add: emits_return)
  have g1: "grows ?l1" by (rule emits_rescheduleLoop) (simp_all add: g2)
  show thesis
  proof (rule rescheduleLoop_cases [OF d g1, where wanted = ?w0 and c = c and i = 0 and s = s])
    fix h ps assume "(h, ps) \<in> set m" "?w0 (int (length ps))" "moved c ?l0 s (hd ps)"
    then show thesis by (intro that(2) [of h ps]) (simp_all add: eq)
  next
    fix s1 t1 assume 1: "history s1 = history s @ t1" "writes t1 = []" "sent ?l0 s = t1 @ sent ?l1 s1"
    show thesis
    proof (rule rescheduleLoop_cases [OF d g2, where wanted = ?w1 and c = c and i = 1 and s = s1])
      fix h ps assume "(h, ps) \<in> set m" "?w1 (int (length ps))" "moved c ?l1 s1 (hd ps)"
      then show thesis using moved_right [OF _ 1] by (intro that(2) [of h ps]) (simp_all add: eq)
    next
      fix s2 t2 assume 2: "history s2 = history s1 @ t2" "writes t2 = []" "sent ?l1 s1 = t2 @ sent ?l2 s2"
      show thesis
      proof (rule rescheduleLoop_cases [OF d g0, where wanted = ?w2 and c = c and i = 2 and s = s2])
        fix h ps assume "(h, ps) \<in> set m" "?w2 (int (length ps))" "moved c ?l2 s2 (hd ps)"
        then show thesis using moved_right [OF moved_right [OF _ 2] 1]
          by (intro that(2) [of h ps]) (simp_all add: eq)
      next
        fix s3 t3 assume "history s3 = history s2 @ t3" "writes t3 = []" "sent ?l2 s2 = t3 @ sent (Ok ()) s3"
        then show thesis using 1 2 by (intro that(1)) (simp add: eq)
      qed
    qed
  qed
qed

lemma firstUnschedulable_Some:
  "result (firstUnschedulable env ps) s = Some p \<Longrightarrow> p \<in> set ps \<and> podPhase p = ''Pending''"
proof (induction ps arbitrary: s)
  case (Cons q ps)
  then show ?case by (cases "podPhase q = ''Pending''") (auto simp: result_bind split: if_splits)
qed simp

lemma nodeMinioPods_hd: "(h, ps) \<in> set (nodeMinioPods pods) \<Longrightarrow> hd ps \<in> set pods"
  unfolding nodeMinioPods_entry using hd_in_set [of ps] by auto

lemma rebalancePods_one:
  "writes (sent (rebalancePods c pods) s) = [] \<or>
   (\<exists>p\<in>set pods. prefix (writes (sent (rebalancePods c pods) s)) (moveRequests p) \<and>
      (podPhase p = ''Pending'' \<or>
       exchange (Client c) (rebalancePods c pods) s (HttpGet (maintenanceURL p)) (HttpStatus 200)))"
proof -
  let ?first = "firstUnschedulable (Client c) pods"
  let ?nodes = "wrapWE ''failed to list nodes'' (listObjs (Client c) dec_node Nodes [] [])"
  let ?rest = "\<lambda>stuck. case stuck of Some p \<Rightarrow> rescheduleOnePod c p
     | None \<Rightarrow> bindE ?nodes (\<lambda>nodes. rebalanceServers c pods nodes)"
  let ?s1 = "after ?first s" and ?stuck = "result ?first s" and ?m = "rebalancePods c pods"
  have gB: "grows (rebalanceServers c pods nodes)" for nodes by (rule emits_rebalanceServers) simp_all
  have gN: "grows ?nodes" by (intro emits_intros) simp
  have gR: "grows (?rest stuck)" for stuck
    by (intro emits_intros emits_rescheduleOnePod gB) simp_all
  have F: "emits is_read ?first" by (rule emits_firstUnschedulable) simp
  have m: "sent ?m s = sent ?first s @ sent (?rest ?stuck) ?s1"
    unfolding rebalancePods_def by (rule sent_bind [OF emits_grows [OF F] gR])
  have w: "writes (sent ?first s) = []" by (rule writes_read [OF F])
  have h: "history ?s1 = history s @ sent ?first s" by (rule grows_history [OF emits_grows [OF F]])
  show ?thesis
  proof (cases ?stuck)
    case (Some p)
    have "prefix (writes (sent (rescheduleOnePod c p) ?s1)) (moveRequests p)"
      using sent_rescheduleOnePod writes_moveRequests by metis
    then show ?thesis using firstUnschedulable_Some [OF Some] Some m w by auto
  next
    case None
    show ?thesis
    proof (cases "result ?nodes ?s1")
      case (Inl e)
      then show ?thesis using None m w sent_bindE [OF gN gB, where s = ?s1] by simp
    next
      case (Inr nodes)
      let ?s2 = "after ?nodes ?s1"
      have rest: "sent (?rest ?stuck) ?s1 = [ListReq Nodes [] []] @ sent (rebalanceServers c pods nodes) ?s2"
        unfolding None option.case sent_bindE [OF gN gB] Inr by simp
      show ?thesis
      proof (rule rebalanceServers_cases [where c = c and pods = pods and nodes = nodes and s = ?s2])
        assume "writes (sent (rebalanceServers c pods nodes) ?s2) = []"
        then show ?thesis unfolding m rest using w by simp
      next
        fix hst ps
        assume e: "(hst, ps) \<in> set (nodeMinioPods pods)"
          and mv: "moved c (rebalanceServers c pods nodes) ?s2 (hd ps)"
        have "moved c ?m s (hd ps)"
          by (rule moved_right [OF moved_right [OF mv _ _ rest] h w m]) simp_all
        then show ?thesis using nodeMinioPods_hd [OF e] by (auto simp: moved_def)
      qed
    qed
  qed
qed

text \<open>A round that writes got through the health check and the listing to the rebalancing.\<close>

text \<open>What follows once the statefulset is known to be scaled up: ask whether it is healthy, list its pods.\<close>

abbreviation rebalanceHealthy :: "controller \<Rightarrow> string \<Rightarrow> unit res go" where
  "rebalanceHealthy c ns \<equiv> haMinioHealthy c ns \<bind> (\<lambda>healthy. if \<not> healthy then Ok ()
     else bindE (wrapWE ''faled to get ha-minio pods'' (listObjs (Client c) dec_pod Pods ns ''app=ha-minio''))
       (rebalancePods c))"

lemma grows_rebalancePods: "grows (rebalancePods c pods)"
  by (rule emits_rebalancePods) simp_all

lemma rebalanceHealthy_phase:
  assumes "writes (sent (rebalanceHealthy c ns) s) \<noteq> []"
  obtains pods x s' where "exchange (Client c) (rebalanceHealthy c ns) s (HttpGet (healthURL ns)) (HttpStatus 200)"
    "exchange (Client c) (rebalanceHealthy c ns) s (ListReq Pods ns ''app=ha-minio'') x" "as_objs dec_pod x = Inr pods"
    "writes (sent (rebalanceHealthy c ns) s) = writes (sent (rebalancePods c pods) s')"
    "sub_run (rebalanceHealthy c ns) s (rebalancePods c pods) s'"
proof -
  let ?env = "Client c" and ?req = "ListReq Pods ns ''app=ha-minio''"
  define list where "list = wrapWE ''faled to get ha-minio pods'' (listObjs ?env dec_pod Pods ns ''app=ha-minio'')"
  define inner where "inner = (\<lambda>healthy. if \<not> healthy then Ok () else bindE list (rebalancePods c))"
  have m: "rebalanceHealthy c ns = haMinioHealthy c ns \<bind> inner" unfolding inner_def list_def ..
  have L: "emits is_read list" unfolding list_def by (intro emits_intros) simp
  have H: "emits is_read (haMinioHealthy c ns)" by (intro emits_intros) simp
  have gI: "grows (inner b)" for b
    unfolding inner_def by (intro emits_if emits_bindE emits_return emits_grows [OF L] grows_rebalancePods)
  let ?s2 = "after (haMinioHealthy c ns) s"
  have w: "writes (sent (inner (result (haMinioHealthy c ns) s)) ?s2) \<noteq> []"
    using assms unfolding m writes_bind [OF H gI] .
  then have healthy: "respond ?env (history s) (HttpGet (healthURL ns)) = HttpStatus 200"
    by (auto simp: inner_def okStatus_iff split: if_splits)
  then have inn: "inner (result (haMinioHealthy c ns) s) = bindE list (rebalancePods c)"
    by (simp add: inner_def okStatus_iff)
  have sub: "sub_run (haMinioHealthy c ns \<bind> inner) s (bindE list (rebalancePods c)) ?s2"
    unfolding inn [symmetric] by (rule sub_run_bind_right [OF emits_grows [OF H] gI])
  obtain pods where p: "result list ?s2 = Inr pods"
    "writes (sent (bindE list (rebalancePods c)) ?s2) = writes (sent (rebalancePods c pods) (after list ?s2))"
    "sub_run (bindE list (rebalancePods c)) ?s2 (rebalancePods c pods) (after list ?s2)"
    by (rule writes_bindE [OF L grows_rebalancePods w [unfolded inn]])
  have "exchange ?env (haMinioHealthy c ns) s (HttpGet (healthURL ns)) (HttpStatus 200)"
    using healthy by (auto simp: exchange_def Cons_eq_append_conv)
  then have e1: "exchange ?env (rebalanceHealthy c ns) s (HttpGet (healthURL ns)) (HttpStatus 200)"
    unfolding m by (rule exchange_bind_left [OF emits_grows [OF H] gI])
  have "exchange ?env list ?s2 ?req (respond ?env (history ?s2) ?req)"
    unfolding list_def exchange_wrap by (rule exchange_typed)
  then have e2: "exchange ?env (rebalanceHealthy c ns) s ?req (respond ?env (history ?s2) ?req)"
    unfolding m
    by (rule exchange_sub_run [OF sub exchange_bindE_left [OF emits_grows [OF L] grows_rebalancePods]])
  have pods: "as_objs dec_pod (respond ?env (history ?s2) ?req) = Inr pods" using p(1) by (simp add: list_def)
  have "writes (sent (rebalanceHealthy c ns) s) = writes (sent (rebalancePods c pods) (after list ?s2))"
    unfolding m writes_bind [OF H gI] inn by (rule p(2))
  then show thesis by (rule that [OF e1 e2 pods _ sub_run_trans [OF sub p(3), folded m]])
qed

lemma MaybeRebalance_phase:
  assumes "m = MaybeRebalanceMinioServers (NewController cfg env) ns" "writes (sent m s) \<noteq> []"
  obtains pods x s' where "exchange env m s (HttpGet (healthURL ns)) (HttpStatus 200)"
    "exchange env m s (ListReq Pods ns ''app=ha-minio'') x" "as_objs dec_pod x = Inr pods"
    "writes (sent m s) = writes (sent (rebalancePods (NewController cfg env) pods) s')"
    "sub_run m s (rebalancePods (NewController cfg env) pods) s'"
proof -
  let ?c = "NewController cfg env"
  define outer where "outer = (\<lambda>r. case r of Inl (_ :: go_error) \<Rightarrow> Ok ()
     | Inr (scale :: int, _ :: int) \<Rightarrow> (if scale = 0 then Ok () else rebalanceHealthy ?c ns))"
  have m: "m = getMinioScale ?c ns \<bind> outer"
    unfolding assms(1) MaybeRebalanceMinioServers_def outer_def ..
  have gO: "grows (outer r)" for r
    unfolding outer_def by (intro emits_intros grows_rebalancePods) simp_all
  have S: "emits is_read (getMinioScale ?c ns)" by (rule emits_getMinioScale) simp
  let ?s1 = "after (getMinioScale ?c ns) s"
  from assms(2) obtain a b where "result (getMinioScale ?c ns) s = Inr (a, b)" "a \<noteq> 0"
    unfolding m writes_bind [OF S gO]
    by (cases "result (getMinioScale ?c ns) s") (auto simp: outer_def split: if_splits)
  then have out: "outer (result (getMinioScale ?c ns) s) = rebalanceHealthy ?c ns" by (simp add: outer_def)
  have w: "writes (sent m s) = writes (sent (rebalanceHealthy ?c ns) ?s1)"
    unfolding m writes_bind [OF S gO] out ..
  have sub: "sub_run m s (rebalanceHealthy ?c ns) ?s1"
    unfolding m out [symmetric] by (rule sub_run_bind_right [OF emits_grows [OF S] gO])
  show thesis
    by (rule rebalanceHealthy_phase [OF assms(2) [unfolded w]], rule that)
      (simp_all only: w, auto intro: exchange_sub_run [OF sub] sub_run_trans [OF sub])
qed

text \<open>
  C16: One round of rebalancing deletes nothing, or the claim and then the pod of a single MinIO server
  of the listing, claim first; and it does so only after the cluster reported that it accepts writes,
  for a server that is pending or that the cluster said it can spare.
\<close>

theorem MaybeRebalance_one_server:
  "let m = MaybeRebalanceMinioServers (NewController cfg env) ns in
    writes (sent m s) = [] \<or>
    (\<exists>p x pods. prefix (writes (sent m s)) (moveRequests p) \<and>
       exchange env m s (HttpGet (healthURL ns)) (HttpStatus 200) \<and>
       exchange env m s (ListReq Pods ns ''app=ha-minio'') x \<and>
       as_objs dec_pod x = Inr pods \<and> p \<in> set pods \<and>
       (podPhase p = ''Pending'' \<or>
        exchange env m s (HttpGet (maintenanceURL p)) (HttpStatus 200)))"
proof -
  let ?c = "NewController cfg env"
  define m where "m = MaybeRebalanceMinioServers ?c ns"
  show ?thesis
  proof (cases "writes (sent m s) = []")
    case False
    obtain pods x s' where p: "exchange env m s (HttpGet (healthURL ns)) (HttpStatus 200)"
      "exchange env m s (ListReq Pods ns ''app=ha-minio'') x" "as_objs dec_pod x = Inr pods"
      "writes (sent m s) = writes (sent (rebalancePods ?c pods) s')" "sub_run m s (rebalancePods ?c pods) s'"
      by (rule MaybeRebalance_phase [OF m_def False])
    with False rebalancePods_one [of ?c pods s'] obtain q where q: "q \<in> set pods"
      "prefix (writes (sent m s)) (moveRequests q)"
      "podPhase q = ''Pending'' \<or>
       exchange env (rebalancePods ?c pods) s' (HttpGet (maintenanceURL q)) (HttpStatus 200)" by auto
    have "podPhase q = ''Pending'' \<or> exchange env m s (HttpGet (maintenanceURL q)) (HttpStatus 200)"
      using q(3) exchange_sub_run [OF p(5)] by blast
    with q(1,2) p(1-3) show ?thesis unfolding Let_def m_def [symmetric] by blast
  qed (simp add: m_def)
qed

section \<open>A balanced cluster is left alone\<close>

lemma ceilDiv_bound: "0 < b \<Longrightarrow> a \<le> b * ceilDiv env a b" "0 < b \<Longrightarrow> b * (ceilDiv env a b - 1) < a"
proof -
  assume b: "0 < b"
  have "b * ((- a) div b) \<le> - a" "- a < b * ((- a) div b) + b"
    using b mult_div_mod_eq [of b "- a"] pos_mod_bound [of b "- a"] pos_mod_sign [of b "- a"] by linarith+
  then show "a \<le> b * ceilDiv env a b" "b * (ceilDiv env a b - 1) < a"
    using b by (simp_all add: ceilDiv_def algebra_simps)
qed

definition podsOn :: "pod list \<Rightarrow> string \<Rightarrow> int" where
  "podsOn pods h = int (length (filter (\<lambda>p. podHostIP p = h) pods))"

lemma hosts_nodeMinioPods: "fst ` set (nodeMinioPods pods) = podHostIP ` set pods"
proof (rule set_eqI)
  fix h
  have "h \<in> fst ` set (nodeMinioPods pods) \<longleftrightarrow> (\<exists>ps. (h, ps) \<in> set (nodeMinioPods pods))" by force
  then show "h \<in> fst ` set (nodeMinioPods pods) \<longleftrightarrow> h \<in> podHostIP ` set pods"
    unfolding nodeMinioPods_entry by (auto simp: filter_empty_conv image_iff)
qed

lemma length_nodeMinioPods: "length (nodeMinioPods pods) = card (podHostIP ` set pods)"
  using distinct_card [OF distinct_nodeMinioPods, of pods] hosts_nodeMinioPods [of pods] by simp

text \<open>
  C36: Servers that are spread evenly are not moved: with the pods of every host at most the rounded-up
  and at least the rounded-down share of a ready node, and no host with two of them while a ready
  node has none, rebalancing deletes nothing and does not even ask the servers.
\<close>

theorem rebalance_balanced:
  assumes "\<And>h. h \<in> podHostIP ` set pods \<Longrightarrow>
      floorDiv env (int (length pods)) ready \<le> podsOn pods h \<and>
      podsOn pods h \<le> ceilDiv env (int (length pods)) ready \<and>
      (podsOn pods h \<le> 1 \<or> ready \<le> int (card (podHostIP ` set pods)))"
    and "ready = fst (NodeReadyCounts nodes) + snd (NodeReadyCounts nodes)"
  shows "sent (rebalanceServers (NewController cfg env) pods nodes) s = []"
proof -
  let ?c = "NewController cfg env" and ?m = "nodeMinioPods pods"
  have entry: "int (length ps) = podsOn pods h \<and> h \<in> podHostIP ` set pods" if "(h, ps) \<in> set ?m" for h ps
  proof -
    have "h \<in> fst ` set ?m" using that by force
    then show ?thesis using that by (simp add: nodeMinioPods_entry podsOn_def hosts_nodeMinioPods)
  qed
  have no: "sent (rescheduleLoop ?c i wanted ?m cont) s = sent cont s"
    if "\<And>h ps. (h, ps) \<in> set ?m \<Longrightarrow> \<not> wanted (int (length ps))" "grows cont" for i wanted cont
  proof -
    have f: "run_state (rescheduleFirst ?c wanted es) s = (None, s)" if "set es \<subseteq> set ?m" for es
      using that \<open>\<And>h ps. (h, ps) \<in> set ?m \<Longrightarrow> \<not> wanted (int (length ps))\<close>
      by (induction es) auto
    let ?es = "result (rangeMap (Client ?c) i ?m) s"
    have r: "run_state (rangeMap (Client ?c) i ?m) s = (?es, s)"
      by (simp add: rangeMap_def result_def)
    have "run_state (rescheduleLoop ?c i wanted ?m cont) s = run_state cont s"
      unfolding rescheduleLoop_def using f [of ?es] rangeMap_set [OF distinct_nodeMinioPods] r by simp
    then show ?thesis by (simp add: sent_def)
  qed
  let ?lo = "floorDiv env (int (length pods)) ready" and ?hi = "ceilDiv env (int (length pods)) ready"
  have share: "?lo \<le> int (length ps)" "int (length ps) \<le> ?hi"
      "int (length ps) \<le> 1 \<or> ready \<le> int (length ?m)" if "(h, ps) \<in> set ?m" for h ps
    using entry [OF that] assms(1) [of h] by (auto simp: length_nodeMinioPods)
  then have small: "\<not> list_ex (\<lambda>(_, ps). int (length ps) < ?lo) ?m"
    by (fastforce simp: list_ex_iff not_less)
  let ?w1 = "\<lambda>n. list_ex (\<lambda>(_, ps). int (length ps) < ?lo) ?m \<and> n = ?hi"
  let ?w2 = "\<lambda>n. int (length ?m) < ready \<and> n > 1"
  let ?l2 = "rescheduleLoop ?c 2 ?w2 ?m (Ok ())"
  let ?l1 = "rescheduleLoop ?c 1 ?w1 ?m ?l2"
  have g0: "grows (Ok ())" by (rule emits_return)
  have g2: "grows ?l2" by (rule emits_rescheduleLoop) (simp_all add: emits_return)
  have g1: "grows ?l1" by (rule emits_rescheduleLoop) (simp_all add: g2)
  have "sent (rebalanceServers ?c pods nodes) s = sent (rescheduleLoop ?c 0 (\<lambda>n. n > ?hi) ?m ?l1) s"
    unfolding rebalanceServers_def assms(2) Let_def by (simp add: split_beta)
  also have "\<dots> = sent ?l1 s" using share by (intro no g1) (auto simp: not_less)
  also have "\<dots> = sent ?l2 s" using small by (intro no g2) blast
  also have "\<dots> = sent (Ok ()) s"
  proof (intro no g0)
    show "\<not> (int (length ?m) < ready \<and> int (length ps) > 1)" if "(h, ps) \<in> set ?m" for h ps
      using share(3) [OF that] by linarith
  qed
  finally show ?thesis by simp
qed

definition serverOn :: "string \<Rightarrow> string \<Rightarrow> pod" where
  "serverOn name host = (samplePod name)\<lparr>podHostIP := host, podPodIP := host,
     podVolumeClaims := [Some (''data-'' @ name)]\<rparr>"

definition sampleServers :: "pod list" where
  "sampleServers = [serverOn ''m-0'' ''10.0.0.1'', serverOn ''m-1'' ''10.0.0.2'',
     serverOn ''m-2'' ''10.0.0.3'', serverOn ''m-3'' ''10.0.0.1'']"

definition sampleWorkers :: "node list" where
  "sampleWorkers = map (\<lambda>n. \<lparr>nodeName = n, nodeLabels = [], nodeTaints = [], nodeAddresses = []\<rparr>)
     [''a'', ''b'', ''c'']"

theorem rebalance_balanced_witness:
  "sent (rebalanceServers (NewController sampleConfig (sampleEnv (answering []))) sampleServers
     sampleWorkers) sampleProc = []"
proof (rule rebalance_balanced [where ready = 3])
  show "(3 :: int) = fst (NodeReadyCounts sampleWorkers) + snd (NodeReadyCounts sampleWorkers)"
    by code_simp
  fix h assume "h \<in> podHostIP ` set sampleServers"
  then have h: "h = ''10.0.0.1'' \<or> h = ''10.0.0.2'' \<or> h = ''10.0.0.3''"
    by (auto simp: sampleServers_def serverOn_def)
  have "podHostIP ` set sampleServers = {''10.0.0.1'', ''10.0.0.2'', ''10.0.0.3''}"
    by (simp add: sampleServers_def serverOn_def insert_commute)
  then have "int (card (podHostIP ` set sampleServers)) = 3" by simp
  moreover have "podsOn sampleServers h \<le> 2 \<and> 1 \<le> podsOn sampleServers h" using h
    by (auto simp: podsOn_def sampleServers_def serverOn_def)
  moreover have "length sampleServers = 4" by (simp add: sampleServers_def)
  ultimately show "floorDiv (sampleEnv (answering [])) (int (length sampleServers)) 3
        \<le> podsOn sampleServers h \<and>
      podsOn sampleServers h \<le> ceilDiv (sampleEnv (answering [])) (int (length sampleServers)) 3 \<and>
      (podsOn sampleServers h \<le> 1 \<or> 3 \<le> int (card (podHostIP ` set sampleServers)))"
    by (simp add: floorDiv_def ceilDiv_def)
qed

section \<open>Old data is deleted last\<close>

lemma emits_disableService:
  "P (Get Services ns ''minio'') \<Longrightarrow> (\<And>p. P (Patch Services ns ''minio'' p)) \<Longrightarrow>
   emits P (disableService c ns)"
  unfolding disableService_def by (intro emits_intros)

lemma emits_noLogs: "emits P (noLogs x)"
  unfolding noLogs_def by (intro emits_intros)

text \<open>The first steps of the migration delete nothing.\<close>

abbreviation notDelete :: "request \<Rightarrow> bool" where
  "notDelete r \<equiv> \<not> (\<exists>k ns n. r = Delete k ns n)"

text \<open>What a copy of a store does not send follows it only after every object was copied.\<close>

lemma sync_phase_copied:
  fixes env :: env and s :: proc
  defines "sync \<equiv> \<lambda>msg src sk ss dst dk ds logs. wrapWE msg (SyncAllBuckets env src sk ss dst dk ds logs)"
  assumes "r \<in> set (sent (bindE (sync msg src sk ss dst dk ds logs) f) s)"
    "emits P (sync msg src sk ss dst dk ds logs)" "\<not> P r" "\<And>x. grows (f x)" "\<And>x. grows (logs x)"
  shows "storeCopied env (bindE (sync msg src sk ss dst dk ds logs) f) s src dst"
proof -
  obtain y where "result (sync msg src sk ss dst dk ds logs) s = Inr y"
    by (rule sent_bindE_in [OF assms(2-5)])
  then have "storeCopied env (sync msg src sk ss dst dk ds logs) s src dst"
    unfolding sync_def storeCopied_wrap by (intro SyncAllBuckets_storeCopied assms(6)) simp
  then show ?thesis by (intro storeCopied_bindE_left emits_grows [OF assms(3)] assms(5))
qed

lemma migrateOldMinio_copied:
  assumes "r \<in> set (sent (migrateOldMinio c ns) s)" "r = Delete k ns' n"
  shows "\<exists>(p :: pod). storeCopied (Client c) (migrateOldMinio c ns) s (podPodIP p @ '':9000'') (haEndpoint ns)"
proof -
  let ?env = "Client c"
  let ?pods = "wrapWE ''list minio pods'' (listObjs ?env dec_pod Pods ns ''app=minio'')"
  let ?cred = "wrapWE ''retrieve minio credentials'' (getObj ?env dec_secret Secrets ns ''minio-credentials'')"
  let ?sync = "\<lambda>p cred. wrapWE ''sync minio data'' (SyncAllBuckets ?env (podPodIP p @ '':9000'')
     (index_map (secData cred) ''MINIO_ACCESS_KEY'') (index_map (secData cred) ''MINIO_SECRET_KEY'')
     (haEndpoint ns) (index_map (secData cred) ''MINIO_ACCESS_KEY'')
     (index_map (secData cred) ''MINIO_SECRET_KEY'') noLogs)"
  let ?cleanup = "bindE (wrapWE ''failed to enable minio service''
              (send ?env (Patch Services ns ''minio'' (selectorPatch ''app'' ''ha-minio'')))) (\<lambda>_.
     bindE (wrapWE ''failed to clean up minio deployment'' (send ?env (Delete Deployments ns ''minio''))) (\<lambda>_.
     wrapWE ''failed to clean up minio pvc'' (send ?env (Delete PersistentVolumeClaims ns ''minio-pv-claim''))))"
  let ?k3 = "\<lambda>p cred. bindE (?sync p cred) (\<lambda>_. ?cleanup)"
  let ?k1 = "\<lambda>pods. case pods of [] \<Rightarrow> Fail (NewErr ''unable to find existing minio pod to migrate from'')
     | p # _ \<Rightarrow> bindE ?cred (?k3 p)"
  let ?dis = "disableService c ns"
  have D: "emits notDelete ?dis" by (rule emits_disableService) simp_all
  have P: "emits notDelete ?pods" by (intro emits_intros) simp
  have C: "emits notDelete ?cred" by (intro emits_intros) simp
  have S: "emits notDelete (?sync p cred)" for p cred
    by (intro emits_wrapWE emits_SyncAllBuckets emits_noLogs) simp_all
  have gE: "grows ?cleanup" by (intro emits_intros) simp_all
  have g3: "grows (?k3 p cred)" for p cred by (intro emits_bindE gE emits_grows [OF S])
  have g1: "grows (?k1 pods)" for pods
    by (intro emits_case_list emits_return emits_bindE g3 emits_grows [OF C])
  have g0: "grows (bindE ?pods ?k1)" by (intro emits_bindE g1 emits_grows [OF P])
  have mig: "migrateOldMinio c ns = bindE ?dis (\<lambda>_. bindE ?pods ?k1)"
    unfolding migrateOldMinio_def Let_def by simp
  have r: "\<not> notDelete r" using assms(2) by blast
  obtain u where 1: "result ?dis s = Inr u" and i1: "r \<in> set (sent (bindE ?pods ?k1) (after ?dis s))"
    by (rule sent_bindE_in [OF assms(1) [unfolded mig] D r g0])
  obtain pods where 2: "result ?pods (after ?dis s) = Inr pods"
    and i2: "r \<in> set (sent (?k1 pods) (after ?pods (after ?dis s)))"
    by (rule sent_bindE_in [OF i1 P r g1])
  obtain p ps where pods: "pods = p # ps" using i2 by (cases pods) auto
  let ?s = "after ?pods (after ?dis s)"
  obtain cred where 3: "result ?cred ?s = Inr cred" and i3: "r \<in> set (sent (?k3 p cred) (after ?cred ?s))"
    by (rule sent_bindE_in [OF i2 [unfolded pods list.case] C r g3])
  have "storeCopied ?env (?k3 p cred) (after ?cred ?s) (podPodIP p @ '':9000'') (haEndpoint ns)"
    by (rule sync_phase_copied [OF i3 S r gE emits_noLogs])
  then have "storeCopied ?env (?k1 pods) ?s (podPodIP p @ '':9000'') (haEndpoint ns)"
    unfolding pods list.case by (rule storeCopied_bindE_right [OF 3 emits_grows [OF C] g3])
  then show ?thesis unfolding mig
    by (intro exI [of _ p] storeCopied_bindE_right [OF 1 emits_grows [OF D] g0]
        storeCopied_bindE_right [OF 2 emits_grows [OF P] g1])
qed

lemma emits_migrateOldMinio:
  assumes "\<And>r. is_read r \<Longrightarrow> P r" "\<And>q. P (Patch Services ns ''minio'' q)"
    "\<And>d op args. P (ObjectStoreCall d op args)" "P (Delete Deployments ns ''minio'')"
    "P (Delete PersistentVolumeClaims ns ''minio-pv-claim'')"
  shows "emits P (migrateOldMinio c ns)"
  unfolding migrateOldMinio_def Let_def
  by (intro emits_intros emits_disableService emits_SyncAllBuckets emits_noLogs) (simp_all add: assms)


definition sampleMinioEnv :: env where
  "sampleMinioEnv = sampleEnv (answering
     [(HttpGet (healthURL ''minio''), HttpStatus 200),
      (ListReq Pods ''minio'' ''app=minio'', Objs [ObjPod ((samplePod ''minio-0'')\<lparr>podPodIP := ''10.0.0.7''\<rparr>)]),
      (Get Secrets ''minio'' ''minio-credentials'', Obj (ObjSecret \<lparr>secName = ''minio-credentials'',
         secData = [(''MINIO_ACCESS_KEY'', ''k''), (''MINIO_SECRET_KEY'', ''s'')]\<rparr>)),
      (ObjectStoreCall ''10.0.0.7:9000'' ListBuckets [], Strings [])])"

lemma counts_one: "counts (\<lambda>r. r = q) t = 1 \<Longrightarrow> q \<in> set t"
  by (induction t) (auto split: if_splits)


end
