(* ===== verification/HostTasks.thy ===== *)
theory HostTasks
  imports Exchange CephExec
begin

text \<open>
  Tasks run on the hosts in short-lived pods: the rotation of the kubeadm certificates of
  \<open>src/pkg/cluster/certs.go\<close>, the update of the kubeconfig files of
  \<open>src/pkg/cluster/set_kubeconfig_server.go\<close> and the loop that waits for such a pod. The load
  balancer of theory \<open>InternalLB\<close> uses the same pods. The text these pods print is read back and
  logged; \<open>logPodResults\<close> returns the entries it logs.
\<close>

section \<open>The names: src/pkg/cluster/constants.go, controller.go\<close>

definition RotateCertsLabel :: string where "RotateCertsLabel = ''kurl.sh/task''"
definition RotateCertsValue :: string where "RotateCertsValue = ''rotate-certs''"
definition RotateCertsLastAttempted :: string where
  "RotateCertsLastAttempted = ''rotate-certs-last-attempted''"
definition TaskLabel :: string where "TaskLabel = ''kurl.sh/task''"
definition UpdateInternalLBValue :: string where "UpdateInternalLBValue = ''update-internallb''"
definition SetKubeconfigServerValue :: string where
  "SetKubeconfigServerValue = ''set-kubeconfig-server''"

definition RotateCertsSelector :: string where
  "RotateCertsSelector = RotateCertsLabel @ ''='' @ RotateCertsValue"
definition UpdateInternalLBSelector :: string where
  "UpdateInternalLBSelector = TaskLabel @ ''='' @ UpdateInternalLBValue"
definition SetKubeconfigServerSelector :: string where
  "SetKubeconfigServerSelector = TaskLabel @ ''='' @ SetKubeconfigServerValue"

definition DefaultEtcKubernetesDir :: string where "DefaultEtcKubernetesDir = ''/etc/kubernetes''"

section \<open>Time\<close>

text \<open>\<open>time.Until\<close> and \<open>time.Since\<close>; a duration that does not fit saturates.\<close>

definition boundedDuration :: "int \<Rightarrow> int" where
  "boundedDuration d = max (- (2 ^ 63)) (min (2 ^ 63 - 1) d)"

definition Until :: "env \<Rightarrow> int \<Rightarrow> int go" where
  "Until env t = do { n \<leftarrow> now env; ret (boundedDuration (t - n)) }"

definition Since :: "env \<Rightarrow> int \<Rightarrow> int go" where
  "Since env t = do { n \<leftarrow> now env; ret (boundedDuration (n - t)) }"

text \<open>A created object, as the server returns it.\<close>

definition createObj :: "env \<Rightarrow> (obj \<Rightarrow> 'a option) \<Rightarrow> kind \<Rightarrow> string \<Rightarrow> obj \<Rightarrow> 'a res go" where
  "createObj env dec k ns x = do { r \<leftarrow> call env (Create k ns x); ret (as_obj dec r) }"

section \<open>When the certificates are due\<close>

definition CheckRotateCertsDue :: "controller \<Rightarrow> bool \<Rightarrow> bool res go" where
  "CheckRotateCertsDue c reset =
     (let env = Client c; ns = cfgRotateCertsNamespace (Config c);
          at = '' configmap '' @ ns @ ''/'' @ RotateCertsValue in do {
        r \<leftarrow> getObj env dec_configmap ConfigMaps ns RotateCertsValue;
        case r of
          Inl err \<Rightarrow>
            (if \<not> IsNotFoundErr err then Fail (Wrap (''get'' @ at) err)
             else do {
               t \<leftarrow> now env;
               let cm = \<lparr>cmName = RotateCertsValue, cmNamespace = ns,
                 cmData = [(RotateCertsLastAttempted, FormatRFC3339 env t)]\<rparr>;
               bindE (wrapE (''create'' @ at) (send env (Create ConfigMaps ns (ObjConfigMap cm))))
                 (\<lambda>_. Ok True) })
        | Inr cm \<Rightarrow>
            (case ParseRFC3339 env (index_map (cmData cm) RotateCertsLastAttempted) of
               Inl err \<Rightarrow> Fail (Wrap ''parse last attempted rotation timestamp'' err)
             | Inr t \<Rightarrow> do {
                 since \<leftarrow> Since env t;
                 if since < cfgRotateCertsCheckInterval (Config c) \<and> \<not> reset then Ok False
                 else do {
                   t' \<leftarrow> now env;
                   let cm = cm\<lparr>cmData :=
                     store_map (cmData cm) RotateCertsLastAttempted (FormatRFC3339 env t')\<rparr>;
                   bindE (wrapE (''update'' @ at) (send env (Update ConfigMaps ns (ObjConfigMap cm))))
                     (\<lambda>_. Ok True) } }) })"

section \<open>Pods that run a task\<close>

definition errPodFailed :: go_error where "errPodFailed = Sentinel ''pod failed''"

definition deletePods :: "controller \<Rightarrow> string \<Rightarrow> string \<Rightarrow> unit res go" where
  "deletePods c ns selector = send (Client c) (DeleteCollection Pods ns selector)"

definition getRotateCertsPodConfig :: "controller \<Rightarrow> string \<Rightarrow> pod" where
  "getRotateCertsPodConfig c host =
     \<lparr>podName = '''', podGenerateName = ''rotate-certs-'',
      podNamespace = cfgRotateCertsNamespace (Config c),
      podLabels = [(RotateCertsLabel, RotateCertsValue)], podAnnotations = [],
      podDeletionTimestamp = None,
      podNodeSelector = [(''kubernetes.io/hostname'', host)],
      podTolerations = [''node-role.kubernetes.io/control-plane'', ''node-role.kubernetes.io/master''],
      podInitContainers = [],
      podContainers = [\<lparr>ctrName = ''rotate-certs'', ctrImage = cfgRotateCertsImage (Config c),
        ctrCommand = [''ekco'', ''rotate-certs'',
          ''--ttl='' @ DurationString (Client c) (cfgRotateCertsTTL (Config c))],
        ctrArgs = [], ctrMounts = [(''etc-kubernetes'', DefaultEtcKubernetesDir)],
        ctrEnvFields = [(''HOSTNAME'', ''spec.nodeName'')],
        ctrWorkingDir = DefaultEtcKubernetesDir, ctrImagePullPolicy = ''IfNotPresent'',
        ctrPrivileged = False\<rparr>],
      podVolumeClaims = [None], podHostPaths = [(''etc-kubernetes'', DefaultEtcKubernetesDir)],
      podRestartPolicy = ''Never'', podPhase = '''', podConditions = [],
      podContainerStatuses = [], podPodIP = '''', podHostIP = ''''\<rparr>"

text \<open>One round of the wait: an error of the API server, which may be restarting, is not an end.\<close>

definition podCompletedRound :: "controller \<Rightarrow> string \<Rightarrow> string \<Rightarrow> unit res option go" where
  "podCompletedRound c ns name = do {
     tick \<leftarrow> call (Client c) PollTick;
     case tick of
       CtxDone err \<Rightarrow> ret (Some (Inl err))
     | _ \<Rightarrow> do {
         r \<leftarrow> getObj (Client c) dec_pod Pods ns name;
         ret (case r of
             Inl err \<Rightarrow> None
           | Inr p \<Rightarrow>
               (if podPhase p = ''Succeeded'' then Some (Inr ())
                else if podPhase p = ''Failed'' then Some (Inl errPodFailed) else None)) } }"

definition pollForPodCompleted :: "controller \<Rightarrow> string \<Rightarrow> string \<Rightarrow> unit res go" where
  "pollForPodCompleted c ns name = poll_loop (loopBound (Client c)) (podCompletedRound c ns name)"

datatype log_level = LogError | LogInfo | LogDebug

definition logLevel :: "string \<Rightarrow> log_level" where
  "logLevel line =
     (if HasPrefix line ''Error'' then LogError
      else if HasPrefix line ''Rotated'' \<or> HasPrefix line ''Restarting'' then LogInfo
      else LogDebug)"

definition logPodResults :: "controller \<Rightarrow> string \<Rightarrow> string \<Rightarrow> (log_level \<times> string) list go" where
  "logPodResults c ns name = do {
     r \<leftarrow> call (Client c) (GetLogs ns name);
     ret (case r of Bytes logs \<Rightarrow> map (\<lambda>line. (logLevel line, line)) (scanLines logs) | _ \<Rightarrow> []) }"

text \<open>
  The part common to the three tasks: the pod is created and waited for; the log of a pod that
  failed is shown.
\<close>

definition runTaskPod :: "controller \<Rightarrow> string \<Rightarrow> pod \<Rightarrow> string \<Rightarrow> string \<Rightarrow> string res go" where
  "runTaskPod c ns p createMsg runMsg =
     bindE (wrapE createMsg (createObj (Client c) dec_pod Pods ns (ObjPod p))) (\<lambda>p'. do {
       r \<leftarrow> pollForPodCompleted c ns (podName p');
       case r of
         Inl err \<Rightarrow> do {
           _ \<leftarrow> (if err = errPodFailed then logPodResults c ns (podName p') else ret []);
           Fail (Wrap runMsg err) }
       | Inr _ \<Rightarrow> Ok (podName p') })"

section \<open>Rotating the certificates of the primaries\<close>

fun rotateNodes :: "controller \<Rightarrow> nat \<Rightarrow> node list \<Rightarrow> unit res go" where
  "rotateNodes c i [] = Ok ()"
| "rotateNodes c i (n # nodes) =
     (let ns = cfgRotateCertsNamespace (Config c) in do {
        _ \<leftarrow> (if i \<noteq> 0 then call (Client c) (Sleep (5 * Second)) else ret Done);
        bindE (runTaskPod c ns (getRotateCertsPodConfig c (nodeName n))
            (''create rotate pod for node '' @ nodeName n)
            (''rotate certs pod for node '' @ nodeName n)) (\<lambda>name. do {
          _ \<leftarrow> logPodResults c ns name;
          rotateNodes c (i + 1) nodes }) })"

definition listPrimaries :: "controller \<Rightarrow> node list res go" where
  "listPrimaries c =
     bindE (wrapE ''list primary nodes''
        (listObjs (Client c) dec_node Nodes '''' ''node-role.kubernetes.io/master='')) (\<lambda>nodes.
       if nodes = []
       then wrapE ''list primary nodes''
         (listObjs (Client c) dec_node Nodes '''' ''node-role.kubernetes.io/control-plane='')
       else Ok nodes)"

definition RotateAllCerts :: "controller \<Rightarrow> unit res go" where
  "RotateAllCerts c = do {
     _ \<leftarrow> deletePods c (cfgRotateCertsNamespace (Config c)) RotateCertsSelector;
     bindE (listPrimaries c) (\<lambda>nodes.
     bindE (rotateNodes c 0 nodes) (\<lambda>_. do {
       _ \<leftarrow> deletePods c (cfgRotateCertsNamespace (Config c)) RotateCertsSelector;
       Ok () })) }"

section \<open>Pointing the kubeconfig files at another server\<close>

definition setKubeconfigServerPod :: "controller \<Rightarrow> string \<Rightarrow> string \<Rightarrow> bool \<Rightarrow> pod" where
  "setKubeconfigServerPod c host server admin =
     \<lparr>podName = '''', podGenerateName = ''set-kubeconfig-server-'',
      podNamespace = cfgHostTaskNamespace (Config c),
      podLabels = [(TaskLabel, SetKubeconfigServerValue)], podAnnotations = [],
      podDeletionTimestamp = None,
      podNodeSelector = [(''kubernetes.io/hostname'', host)],
      podTolerations = [''node-role.kubernetes.io/master'', ''node-role.kubernetes.io/control-plane''],
      podInitContainers = [],
      podContainers = [\<lparr>ctrName = ''set-kubeconfig-server'', ctrImage = cfgHostTaskImage (Config c),
        ctrCommand = [''ekco'', ''set-kubeconfig-server'', ''--server='' @ server,
          ''--host-etc-dir=/host/etc'', ''--admin='' @ show_bool admin],
        ctrArgs = [],
        ctrMounts = [(''var-run-dbus'', ''/var/run/dbus''), (''host-etc-dir'', ''/host/etc'')],
        ctrEnvFields = [], ctrWorkingDir = '''', ctrImagePullPolicy = ''IfNotPresent'',
        ctrPrivileged = True\<rparr>],
      podVolumeClaims = [None, None],
      podHostPaths = [(''var-run-dbus'', ''/var/run/dbus''), (''host-etc-dir'', ''/etc'')],
      podRestartPolicy = ''Never'', podPhase = '''', podConditions = [],
      podContainerStatuses = [], podPodIP = '''', podHostIP = ''''\<rparr>"

definition SetKubeconfigServer :: "controller \<Rightarrow> node \<Rightarrow> string \<Rightarrow> unit res go" where
  "SetKubeconfigServer c n server =
     bindE (runTaskPod c (cfgHostTaskNamespace (Config c))
         (setKubeconfigServerPod c (nodeName n) server (NodeIsMaster n))
         (''create set-kubeconfig-server pod on node '' @ nodeName n)
         (''run set-kubeconfig-server pod on node '' @ nodeName n)) (\<lambda>_. do {
       _ \<leftarrow> deletePods c (cfgHostTaskNamespace (Config c)) SetKubeconfigServerSelector;
       Ok () })"

section \<open>What the tasks send\<close>

lemma emits_createObj [emits_intros]: "P (Create k ns x) \<Longrightarrow> emits P (createObj env dec k ns x)"
  unfolding createObj_def by (intro emits_intros)

lemma obs_createObj [simp]:
  "result (createObj env dec k ns x) s = as_obj dec (respond env (history s) (Create k ns x))"
  "after (createObj env dec k ns x) s = s\<lparr>history := history s @ [Create k ns x]\<rparr>"
  "sent (createObj env dec k ns x) s = [Create k ns x]"
  by (simp_all add: createObj_def result_def after_def sent_def)

lemma emits_Until [emits_intros]: "P Now \<Longrightarrow> emits P (Until env t)"
  unfolding Until_def by (intro emits_intros)

lemma emits_Since [emits_intros]: "P Now \<Longrightarrow> emits P (Since env t)"
  unfolding Since_def by (intro emits_intros)

lemma obs_Until [simp]:
  "result (Until env t) s = boundedDuration (t - clock env (history s))"
  "after (Until env t) s = s\<lparr>history := history s @ [Now]\<rparr>"
  "sent (Until env t) s = [Now]"
  by (simp_all add: Until_def result_def after_def sent_def clock_def)

lemma obs_Since [simp]:
  "result (Since env t) s = boundedDuration (clock env (history s) - t)"
  "after (Since env t) s = s\<lparr>history := history s @ [Now]\<rparr>"
  "sent (Since env t) s = [Now]"
  by (simp_all add: Since_def result_def after_def sent_def clock_def)

lemma emits_deletePods [emits_intros]:
  "P (DeleteCollection Pods ns sel) \<Longrightarrow> emits P (deletePods c ns sel)"
  unfolding deletePods_def by (intro emits_intros)

lemma emits_podCompletedRound [emits_intros]:
  "P PollTick \<Longrightarrow> P (Get Pods ns name) \<Longrightarrow> emits P (podCompletedRound c ns name)"
  unfolding podCompletedRound_def
  by (rule emits_bind, rule emits_call, assumption)
    (auto split: response.split intro!: emits_intros)

lemma emits_pollForPodCompleted [emits_intros]:
  "P PollTick \<Longrightarrow> P (Get Pods ns name) \<Longrightarrow> emits P (pollForPodCompleted c ns name)"
  unfolding pollForPodCompleted_def by (intro emits_intros)

lemma emits_logPodResults [emits_intros]:
  "P (GetLogs ns name) \<Longrightarrow> emits P (logPodResults c ns name)"
  unfolding logPodResults_def by (intro emits_intros)

lemma emits_runTaskPod [emits_intros]:
  "(\<And>r. is_read r \<Longrightarrow> P r) \<Longrightarrow> P (Create Pods ns (ObjPod p)) \<Longrightarrow>
   emits P (runTaskPod c ns p createMsg runMsg)"
  unfolding runTaskPod_def by (intro emits_intros) simp_all

section \<open>The wait for a pod\<close>

text \<open>
  What round \<open>k\<close> of the wait sees, when the rounds before it have not ended the wait: the end of
  the context, the end of the pod, or neither.
\<close>

definition waitTrace :: "string \<Rightarrow> string \<Rightarrow> nat \<Rightarrow> request list" where
  "waitTrace ns name k = concat (replicate k [PollTick, Get Pods ns name])"

definition podReport :: "env \<Rightarrow> request list \<Rightarrow> string \<Rightarrow> string \<Rightarrow> nat \<Rightarrow> unit res option" where
  "podReport env h ns name k =
     (let h' = h @ waitTrace ns name k in
      case respond env h' PollTick of
        CtxDone err \<Rightarrow> Some (Inl err)
      | _ \<Rightarrow> (case as_obj dec_pod (respond env (h' @ [PollTick]) (Get Pods ns name)) of
                Inl err \<Rightarrow> None
              | Inr p \<Rightarrow> (if podPhase p = ''Succeeded'' then Some (Inr ())
                  else if podPhase p = ''Failed'' then Some (Inl errPodFailed) else None)))"

lemma waitTrace_Suc: "[PollTick, Get Pods ns name] @ waitTrace ns name k = waitTrace ns name (Suc k)"
  by (simp add: waitTrace_def)

lemma podReport_Suc:
  "podReport env h ns name (Suc k) = podReport env (h @ [PollTick, Get Pods ns name]) ns name k"
  by (simp add: podReport_def flip: waitTrace_Suc)

lemma podReport_0:
  "result (podCompletedRound c ns name) s = podReport (Client c) (history s) ns name 0"
  by (auto simp: podCompletedRound_def podReport_def waitTrace_def result_def Let_def
      split: response.split sum.split)

lemma podCompletedRound_continues:
  assumes "podReport (Client c) (history s) ns name 0 = None"
  shows "after (podCompletedRound c ns name) s = s\<lparr>history := history s @ [PollTick, Get Pods ns name]\<rparr>"
  using assms
  by (auto simp: podCompletedRound_def podReport_def waitTrace_def after_def Let_def
      split: response.splits)

lemma pollForPodCompleted_first_report:
  assumes "podReport (Client c) (history s) ns name k = Some x"
    "\<And>i. i < k \<Longrightarrow> podReport (Client c) (history s) ns name i = None" "k < n"
  shows "result (poll_loop n (podCompletedRound c ns name)) s = x"
  using assms
proof (induction k arbitrary: n s)
  case 0
  then obtain m where "n = Suc m" by (cases n) auto
  with 0 show ?case by (simp add: result_bind podReport_0)
next
  case (Suc k)
  then obtain m where n: "n = Suc m" by (cases n) auto
  have zero: "podReport (Client c) (history s) ns name 0 = None" using Suc.prems(2) by blast
  let ?s = "after (podCompletedRound c ns name) s"
  have h: "history ?s = history s @ [PollTick, Get Pods ns name]"
    by (simp add: podCompletedRound_continues [OF zero])
  have "result (poll_loop m (podCompletedRound c ns name)) ?s = x"
  proof (rule Suc.IH)
    show "podReport (Client c) (history ?s) ns name k = Some x"
      using Suc.prems(1) by (simp only: h podReport_Suc)
    show "podReport (Client c) (history ?s) ns name i = None" if "i < k" for i
      using Suc.prems(2) [of "Suc i"] that by (simp only: h podReport_Suc)
    show "k < m" using Suc.prems(3) n by simp
  qed
  then show ?case by (simp add: n result_bind podReport_0 zero)
qed

text \<open>
  C31: Waiting for a pod ends, whatever errors the API server returns meanwhile, with the first round
  in which the context has ended or the pod has: the result is the error of the context, success
  when the pod succeeded, and the failure of the pod when it failed; and following the loop for more
  rounds does not change it.
\<close>

theorem pollForPodCompleted_returns:
  assumes "k < loopBound (Client c)"
    and "podReport (Client c) (history s) ns name k = Some x"
    and "\<forall>i<k. podReport (Client c) (history s) ns name i = None"
  shows "result (pollForPodCompleted c ns name) s = x \<and>
    (\<forall>m. result (poll_loop (loopBound (Client c) + m) (podCompletedRound c ns name)) s = x)"
  using assms by (simp add: pollForPodCompleted_def pollForPodCompleted_first_report)

theorem pollForPodCompleted_returns_witness:
  "let c = sampleController (\<lambda>h r. case r of
         Get _ _ _ \<Rightarrow> (if length h = 3 then Obj (ObjPod ((samplePod ''p'')\<lparr>podPhase := ''Succeeded''\<rparr>))
                        else Failed (NewErr ''connection refused''))
       | _ \<Rightarrow> Done)
   in result (pollForPodCompleted c ''kurl'' ''p'') sampleProc = Inr ()"
proof -
  let ?c = "sampleController (\<lambda>h r. case r of
         Get _ _ _ \<Rightarrow> (if length h = 3 then Obj (ObjPod ((samplePod ''p'')\<lparr>podPhase := ''Succeeded''\<rparr>))
                        else Failed (NewErr ''connection refused''))
       | _ \<Rightarrow> Done)"
  have b: "1 < loopBound (Client ?c)" by code_simp
  have r: "podReport (Client ?c) (history sampleProc) ''kurl'' ''p'' 1 = Some (Inr ())" by code_simp
  have z: "\<forall>i<1. podReport (Client ?c) (history sampleProc) ''kurl'' ''p'' i = None" by code_simp
  show ?thesis
    using pollForPodCompleted_returns [OF b r z] by (simp only: Let_def)
qed

section \<open>One primary at a time\<close>

lemma grows_rotateNodes: "grows (rotateNodes c i nodes)"
  by (induction c i nodes rule: rotateNodes.induct)
    (auto simp: Let_def intro!: emits_intros)

text \<open>
  The pod that the \<open>Create\<close> at the end of \<open>pre\<close> made was reported to have succeeded in \<open>mid\<close>;
  \<open>h\<close> is what was sent before.
\<close>

definition podSucceeded :: "env \<Rightarrow> request list \<Rightarrow> string \<Rightarrow> pod \<Rightarrow> request list \<Rightarrow> bool" where
  "podSucceeded env h ns q mid \<longleftrightarrow>
     (\<exists>q' p m1 m2. as_obj dec_pod (respond env h (Create Pods ns (ObjPod q))) = Inr q' \<and>
        mid = m1 @ Get Pods ns (podName q') # m2 \<and>
        as_obj dec_pod (respond env (h @ Create Pods ns (ObjPod q) # m1) (Get Pods ns (podName q')))
          = Inr p \<and> podPhase p = ''Succeeded'')"

lemma podSucceeded_more: "podSucceeded env h ns q mid \<Longrightarrow> podSucceeded env h ns q (mid @ t)"
  unfolding podSucceeded_def
  by (elim exE conjE) (intro exI conjI, assumption, simp, assumption+)

lemma poll_succeeded:
  assumes "result (poll_loop n (podCompletedRound c ns name)) s = Inr ()"
  shows "\<exists>m1 m2 p. sent (poll_loop n (podCompletedRound c ns name)) s = m1 @ Get Pods ns name # m2 \<and>
    as_obj dec_pod (respond (Client c) (history s @ m1) (Get Pods ns name)) = Inr p \<and>
    podPhase p = ''Succeeded''"
  using assms
proof (induction n arbitrary: s)
  case (Suc n)
  let ?B = "podCompletedRound c ns name"
  have g: "grows ?B" "grows (poll_loop n ?B)" by (intro emits_intros TrueI)+
  have eq: "sent (poll_loop (Suc n) ?B) s = sent ?B s @
      sent (case result ?B s of Some x \<Rightarrow> ret x | None \<Rightarrow> poll_loop n ?B) (after ?B s)"
    unfolding poll_loop.simps
    by (rule sent_bind [OF g(1)]) (intro emits_intros TrueI)
  show ?case
  proof (cases "result ?B s")
    case None
    then have "result (poll_loop n ?B) (after ?B s) = Inr ()"
      using Suc.prems by (simp add: result_bind)
    from Suc.IH [OF this] obtain m1 m2 and p :: pod where
      m: "sent (poll_loop n ?B) (after ?B s) = m1 @ Get Pods ns name # m2"
        "as_obj dec_pod (respond (Client c) (history (after ?B s) @ m1) (Get Pods ns name)) = Inr p"
        "podPhase p = ''Succeeded''" by blast
    then show ?thesis using eq None grows_history [OF g(1), of s]
      by (intro exI [of _ "sent ?B s @ m1"] exI [of _ m2] exI [of _ p]) simp
  next
    case (Some x)
    then have x: "podReport (Client c) (history s) ns name 0 = Some (Inr ())"
      using Suc.prems by (simp add: result_bind flip: podReport_0)
    then have s: "sent ?B s = [PollTick, Get Pods ns name]"
      by (auto simp: podReport_def podCompletedRound_def sent_def waitTrace_def Let_def
          split: response.splits)
    from x obtain p :: pod where
      "as_obj dec_pod (respond (Client c) (history s @ [PollTick]) (Get Pods ns name)) = Inr p"
      "podPhase p = ''Succeeded''"
      by (auto simp: podReport_def waitTrace_def Let_def errPodFailed_def
          split: response.splits sum.splits if_splits)
    then show ?thesis using eq Some s
      by (intro exI [of _ "[PollTick]"] exI [of _ "[]"] exI [of _ p]) simp
  qed
qed simp

lemma emits_not_create_poll:
  "emits (\<lambda>r. \<forall>x. r \<noteq> Create Pods ns' x) (pollForPodCompleted c ns name)"
  by (intro emits_intros) simp_all

lemma runTaskPod_trace:
  "\<exists>t. sent (runTaskPod c ns q m1 m2) s = Create Pods ns (ObjPod q) # t \<and>
     (\<forall>x. Create Pods ns x \<notin> set t) \<and>
     ((\<exists>y. result (runTaskPod c ns q m1 m2) s = Inr y) \<longrightarrow> podSucceeded (Client c) (history s) ns q t)"
proof -
  let ?h = "history s @ [Create Pods ns (ObjPod q)]"
  let ?s = "s\<lparr>history := ?h\<rparr>"
  let ?k = "\<lambda>q' :: pod. do {
       r \<leftarrow> pollForPodCompleted c ns (podName q');
       case r of
         Inl err \<Rightarrow> do {
           _ \<leftarrow> (if err = errPodFailed then logPodResults c ns (podName q') else ret []);
           Fail (Wrap m2 err) }
       | Inr _ \<Rightarrow> Ok (podName q') }"
  have gk: "grows (?k q')" for q' by (intro emits_intros TrueI)
  have nk: "emits (\<lambda>r. \<forall>x. r \<noteq> Create Pods ns x) (?k q')" for q'
    by (intro emits_intros) simp_all
  have eq: "sent (runTaskPod c ns q m1 m2) s = [Create Pods ns (ObjPod q)] @
      (case as_obj dec_pod (respond (Client c) (history s) (Create Pods ns (ObjPod q))) of
         Inl e \<Rightarrow> [] | Inr q' \<Rightarrow> sent (?k q') ?s)"
    unfolding runTaskPod_def
    by (subst sent_bindE [OF _ gk]) (auto intro: emits_intros split: sum.split)
  show ?thesis
  proof (cases "as_obj dec_pod (respond (Client c) (history s) (Create Pods ns (ObjPod q)))")
    case (Inl e)
    then show ?thesis using eq by (simp add: runTaskPod_def result_bindE)
  next
    case (Inr q')
    let ?P = "pollForPodCompleted c ns (podName q')"
    have nc: "\<forall>x. Create Pods ns x \<notin> set (sent (?k q') ?s)"
      using emits_sent [OF nk] by blast
    have "podSucceeded (Client c) (history s) ns q (sent (?k q') ?s)"
      if "result (runTaskPod c ns q m1 m2) s = Inr y" for y
    proof -
      have "result (?k q') ?s = Inr y" using that Inr by (simp add: runTaskPod_def result_bindE)
      then have "result ?P ?s = Inr ()" by (auto simp: result_bind split: sum.splits)
      then obtain n1 n2 and p :: pod where n: "sent ?P ?s = n1 @ Get Pods ns (podName q') # n2"
        "as_obj dec_pod (respond (Client c) (?h @ n1) (Get Pods ns (podName q'))) = Inr p"
        "podPhase p = ''Succeeded''"
        using poll_succeeded [of "loopBound (Client c)" c ns "podName q'" ?s]
        by (auto simp: pollForPodCompleted_def)
      have "\<exists>R. sent (?k q') ?s = sent ?P ?s @ R"
        by (intro exI, rule sent_bind) (intro emits_intros TrueI)+
      then obtain R where "sent (?k q') ?s = n1 @ Get Pods ns (podName q') # n2 @ R"
        using n(1) by auto
      with n(2,3) Inr show ?thesis unfolding podSucceeded_def
        by (intro exI [of _ q'] exI [of _ p] exI [of _ n1] exI [of _ "n2 @ R"]) simp
    qed
    then show ?thesis using eq Inr nc by auto
  qed
qed

lemma sent_logPodResults: "sent (logPodResults c ns name) s = [GetLogs ns name]"
  by (simp add: logPodResults_def sent_bind [OF emits_call emits_return])

text \<open>The trace of one round of the loop over the primaries.\<close>

lemma rotateNodes_round:
  "\<exists>t t' i' s'. sent (rotateNodes c i (n # nodes)) s =
       (if i \<noteq> 0 then [Sleep (5 * Second)] else []) @ Create Pods (cfgRotateCertsNamespace (Config c))
         (ObjPod (getRotateCertsPodConfig c (nodeName n))) # t @ t' \<and>
     (\<forall>x. Create Pods (cfgRotateCertsNamespace (Config c)) x \<notin> set t) \<and>
     (t' = [] \<or> t' = sent (rotateNodes c i' nodes) s' \<and>
        history s' = history s @ (if i \<noteq> 0 then [Sleep (5 * Second)] else []) @
          Create Pods (cfgRotateCertsNamespace (Config c))
            (ObjPod (getRotateCertsPodConfig c (nodeName n))) # t \<and>
        podSucceeded (Client c) (history s @ (if i \<noteq> 0 then [Sleep (5 * Second)] else []))
          (cfgRotateCertsNamespace (Config c)) (getRotateCertsPodConfig c (nodeName n)) t)"
proof -
  let ?ns = "cfgRotateCertsNamespace (Config c)" and ?q = "getRotateCertsPodConfig c (nodeName n)"
  let ?w = "if i \<noteq> 0 then call (Client c) (Sleep (5 * Second)) else ret Done"
  define m where "m = runTaskPod c ?ns ?q (''create rotate pod for node '' @ nodeName n)
            (''rotate certs pod for node '' @ nodeName n)"
  let ?k = "\<lambda>name. do { _ \<leftarrow> logPodResults c ?ns name; rotateNodes c (i + 1) nodes }"
  have g: "grows ?w" "grows m" "grows (logPodResults c ?ns name)" "grows (?k name)" for name
    unfolding m_def by (intro emits_intros TrueI grows_rotateNodes)+
  have gk: "grows (bindE m ?k)" using g by (intro emits_bindE)
  let ?s = "after ?w s"
  have hs: "sent ?w s = (if i \<noteq> 0 then [Sleep (5 * Second)] else [])" by simp
  have h: "history ?s = history s @ (if i \<noteq> 0 then [Sleep (5 * Second)] else [])"
    using grows_history [OF g(1), of s] hs by simp
  obtain t where
    t: "sent m ?s = Create Pods ?ns (ObjPod ?q) # t" "\<forall>x. Create Pods ?ns x \<notin> set t"
      "(\<exists>y. result m ?s = Inr y) \<longrightarrow> podSucceeded (Client c) (history ?s) ?ns ?q t"
    using runTaskPod_trace [of c ?ns ?q _ _ ?s] unfolding m_def by blast
  have eq: "sent (rotateNodes c i (n # nodes)) s = sent ?w s @ sent m ?s @
      (case result m ?s of Inl e \<Rightarrow> [] | Inr x \<Rightarrow> sent (?k x) (after m ?s))"
    unfolding rotateNodes.simps Let_def m_def [symmetric] sent_bind [OF g(1) gk]
      sent_bindE [OF g(2,4)] by (rule refl)
  show ?thesis
  proof (cases "result m ?s")
    case (Inl e)
    then show ?thesis using eq t hs by (intro exI [of _ t] exI [of _ "[]"]) simp
  next
    case (Inr name)
    let ?l = "logPodResults c ?ns name"
    let ?s' = "after ?l (after m ?s)"
    have l: "sent ?l (after m ?s) = [GetLogs ?ns name]"
      by (rule sent_logPodResults)
    have k: "sent (?k name) (after m ?s) = [GetLogs ?ns name] @ sent (rotateNodes c (i + 1) nodes) ?s'"
      by (subst sent_bind [OF g(3) grows_rotateNodes]) (simp only: sent_logPodResults)
    have "history ?s' = history ?s @ Create Pods ?ns (ObjPod ?q) # t @ [GetLogs ?ns name]"
      using grows_history [OF g(3), of name "after m ?s"] grows_history [OF g(2), of ?s] l t(1) by simp
    moreover have "podSucceeded (Client c) (history ?s) ?ns ?q (t @ [GetLogs ?ns name])"
      using t(3) Inr podSucceeded_more by blast
    ultimately show ?thesis
      using eq t(1,2) hs k Inr h
      by (intro exI [of _ "t @ [GetLogs ?ns name]"] exI [of _ "sent (rotateNodes c (i + 1) nodes) ?s'"]
          exI [of _ "i + 1"] exI [of _ ?s']) simp
  qed
qed

text \<open>Every pod created before another one has succeeded in between.\<close>

definition oneAtATime :: "env \<Rightarrow> request list \<Rightarrow> string \<Rightarrow> request list \<Rightarrow> bool" where
  "oneAtATime env h ns t \<longleftrightarrow>
     (\<forall>pre q mid q' post. t = pre @ Create Pods ns (ObjPod q) # mid @ Create Pods ns (ObjPod q') # post \<longrightarrow>
        podSucceeded env (h @ pre) ns q mid)"

lemma oneAtATime_cons:
  assumes "\<forall>x. r \<noteq> Create Pods ns x" "oneAtATime env (h @ [r]) ns t"
  shows "oneAtATime env h ns (r # t)"
  unfolding oneAtATime_def
proof (intro allI impI)
  fix pre q mid q' post
  assume "r # t = pre @ Create Pods ns (ObjPod q) # mid @ Create Pods ns (ObjPod q') # post"
  with assms(1) obtain pre' where "pre = r # pre'"
    "t = pre' @ Create Pods ns (ObjPod q) # mid @ Create Pods ns (ObjPod q') # post"
    by (cases pre) auto
  then show "podSucceeded env (h @ pre) ns q mid"
    using assms(2) unfolding oneAtATime_def by fastforce
qed

lemma oneAtATime_skip:
  "(\<And>x. Create Pods ns x \<notin> set u) \<Longrightarrow> oneAtATime env (h @ u) ns t \<Longrightarrow> oneAtATime env h ns (u @ t)"
proof (induction u arbitrary: h)
  case (Cons r u)
  have "oneAtATime env ((h @ [r]) @ u) ns t" using Cons.prems(2) by simp
  then have "oneAtATime env (h @ [r]) ns (u @ t)"
    using Cons.prems(1) by (intro Cons.IH) auto
  then show ?case using Cons.prems(1) by (auto intro: oneAtATime_cons)
qed simp

lemma oneAtATime_quiet: "\<forall>x. Create Pods ns x \<notin> set u \<Longrightarrow> oneAtATime env h ns u"
  by (auto simp: oneAtATime_def)

lemma oneAtATime_create:
  assumes "\<forall>x. Create Pods ns x \<notin> set t" "oneAtATime env (h @ Create Pods ns (ObjPod q) # t) ns u"
    and "u \<noteq> [] \<Longrightarrow> podSucceeded env h ns q t"
  shows "oneAtATime env h ns (Create Pods ns (ObjPod q) # t @ u)"
  unfolding oneAtATime_def
proof (intro allI impI)
  fix pre p mid p' post
  assume eq: "Create Pods ns (ObjPod q) # t @ u =
    pre @ Create Pods ns (ObjPod p) # mid @ Create Pods ns (ObjPod p') # post"
  show "podSucceeded env (h @ pre) ns p mid"
  proof (cases pre)
    case Nil
    with eq have e: "p = q" "t @ u = mid @ Create Pods ns (ObjPod p') # post" by auto
    with assms(1) obtain mid' where "mid = t @ mid'" "u = mid' @ Create Pods ns (ObjPod p') # post"
      using split_after [OF e(2)] by metis
    then show ?thesis using e Nil assms(3) podSucceeded_more by auto
  next
    case (Cons a pre')
    with eq have e: "a = Create Pods ns (ObjPod q)"
      "t @ u = pre' @ Create Pods ns (ObjPod p) # mid @ Create Pods ns (ObjPod p') # post" by auto
    with assms(1) obtain pre'' where "pre' = t @ pre''"
      "u = pre'' @ Create Pods ns (ObjPod p) # mid @ Create Pods ns (ObjPod p') # post"
      using split_after [OF e(2)] by metis
    then show ?thesis using assms(2) e Cons unfolding oneAtATime_def by fastforce
  qed
qed

lemma rotateNodes_oneAtATime:
  "oneAtATime (Client c) (history s) (cfgRotateCertsNamespace (Config c)) (sent (rotateNodes c i nodes) s)"
proof (induction nodes arbitrary: i s)
  case (Cons n nodes)
  let ?ns = "cfgRotateCertsNamespace (Config c)" and ?q = "getRotateCertsPodConfig c (nodeName n)"
  let ?w = "if i \<noteq> 0 then [Sleep (5 * Second)] else []"
  from rotateNodes_round [of c i n nodes s] obtain t t' i' s' where
    t: "sent (rotateNodes c i (n # nodes)) s = ?w @ Create Pods ?ns (ObjPod ?q) # t @ t'"
      "\<forall>x. Create Pods ?ns x \<notin> set t"
    and t': "t' = [] \<or> t' = sent (rotateNodes c i' nodes) s' \<and>
        history s' = history s @ ?w @ Create Pods ?ns (ObjPod ?q) # t \<and>
        podSucceeded (Client c) (history s @ ?w) ?ns ?q t" by blast
  have "oneAtATime (Client c) (history s @ ?w) ?ns (Create Pods ?ns (ObjPod ?q) # t @ t')"
  proof (rule oneAtATime_create [OF t(2)])
    show "oneAtATime (Client c) ((history s @ ?w) @ Create Pods ?ns (ObjPod ?q) # t) ?ns t'"
      using t' Cons.IH [of s' i'] by (elim disjE) (simp_all add: oneAtATime_quiet)
    show "t' \<noteq> [] \<Longrightarrow> podSucceeded (Client c) (history s @ ?w) ?ns ?q t" using t' by blast
  qed
  then show ?case unfolding t(1) by (rule oneAtATime_skip [rotated]) auto
qed (simp add: oneAtATime_quiet)

lemma emits_listPrimaries [emits_intros]:
  "(\<And>sel. P (ListReq Nodes '''' sel)) \<Longrightarrow> emits P (listPrimaries c)"
  unfolding listPrimaries_def by (intro emits_intros) simp_all

lemma oneAtATime_bindE:
  assumes g: "\<And>x. grows (f x)" "grows m"
    and q: "\<And>x. Create Pods ns x \<notin> set (sent m s)"
    and f: "\<And>x. oneAtATime env (history (after m s)) ns (sent (f x) (after m s))"
  shows "oneAtATime env (history s) ns (sent (bindE m f) s)"
proof -
  have "oneAtATime env (history s @ sent m s) ns
      (case result m s of Inl e \<Rightarrow> [] | Inr x \<Rightarrow> sent (f x) (after m s))"
    using f grows_history [OF g(2), of s] by (auto simp: oneAtATime_quiet split: sum.split)
  then show ?thesis
    unfolding sent_bindE [OF g(2,1)] by (rule oneAtATime_skip [OF q])
qed

lemma split_before:
  assumes "xs @ ys = pre @ r # post" "r \<notin> set ys"
  obtains mid where "xs = pre @ r # mid"
proof -
  obtain us where us: "xs = pre @ us \<and> us @ ys = r # post \<or> xs @ us = pre \<and> ys = us @ r # post"
    using append_eq_append_conv2 [THEN iffD1, OF assms(1)] by metis
  with assms(2) have "us \<noteq> [] \<and> xs = pre @ us \<and> us @ ys = r # post" by auto
  with that show thesis by (cases us) auto
qed

lemma oneAtATime_append_quiet:
  assumes "oneAtATime env h ns t" "\<forall>x. Create Pods ns x \<notin> set u"
  shows "oneAtATime env h ns (t @ u)"
  unfolding oneAtATime_def
proof (intro allI impI)
  fix pre q mid q' post
  assume eq: "t @ u = pre @ Create Pods ns (ObjPod q) # mid @ Create Pods ns (ObjPod q') # post"
  then have "t @ u = (pre @ Create Pods ns (ObjPod q) # mid) @ Create Pods ns (ObjPod q') # post" by simp
  then obtain post' where "t = (pre @ Create Pods ns (ObjPod q) # mid) @ Create Pods ns (ObjPod q') # post'"
    using split_before assms(2) by metis
  then show "podSucceeded env (h @ pre) ns q mid"
    using assms(1) unfolding oneAtATime_def by simp
qed

text \<open>
  C10: The certificates of one primary at a time are rotated: between the creation of one rotation
  pod and the creation of the next one, the first pod was read and reported to have succeeded. So a
  primary whose API server may be restarting is never joined by a second one, and a failure on one
  primary leaves the others alone.
\<close>

theorem RotateAllCerts_one_at_a_time:
  "\<forall>pre q mid q' post. sent (RotateAllCerts c) s =
      pre @ Create Pods (cfgRotateCertsNamespace (Config c)) (ObjPod q) # mid @
        Create Pods (cfgRotateCertsNamespace (Config c)) (ObjPod q') # post \<longrightarrow>
    podSucceeded (Client c) (history s @ pre) (cfgRotateCertsNamespace (Config c)) q mid"
proof -
  let ?ns = "cfgRotateCertsNamespace (Config c)"
  let ?d = "deletePods c ?ns RotateCertsSelector"
  let ?f = "\<lambda>nodes. bindE (rotateNodes c 0 nodes) (\<lambda>_. do { _ \<leftarrow> ?d; Ok () })"
  have g: "grows ?d" "grows (?f nodes)" "grows (listPrimaries c)" "grows (bindE (listPrimaries c) ?f)"
    for nodes by (intro emits_intros TrueI grows_rotateNodes)+
  have d: "sent ?d s = [DeleteCollection Pods ?ns RotateCertsSelector]" for s
    by (simp add: deletePods_def)
  have l: "Create Pods ?ns x \<notin> set (sent (listPrimaries c) s)" for x s
  proof -
    have "emits (\<lambda>r. r \<noteq> Create Pods ?ns x) (listPrimaries c)" by (rule emits_listPrimaries) simp
    from emits_sent [OF this] show ?thesis by blast
  qed
  have f: "oneAtATime (Client c) (history s) ?ns (sent (?f nodes) s)" for nodes s
  proof -
    let ?r = "rotateNodes c 0 nodes"
    have g': "grows (do { _ \<leftarrow> ?d; Ok () })" by (intro emits_intros TrueI)
    have "sent (do { _ \<leftarrow> ?d; Ok () }) s = [DeleteCollection Pods ?ns RotateCertsSelector]" for s
      by (simp add: sent_bind [OF g(1) emits_return] d)
    then obtain u where u: "sent (?f nodes) s = sent ?r s @ u" "\<forall>x. Create Pods ?ns x \<notin> set u"
      by (auto simp: sent_bindE [OF grows_rotateNodes g'] split: sum.split)
    show ?thesis unfolding u(1) using rotateNodes_oneAtATime [of c s 0 nodes] u(2)
      by (rule oneAtATime_append_quiet)
  qed
  have "oneAtATime (Client c) (history s) ?ns (sent (bindE (listPrimaries c) ?f) s)" for s
    by (rule oneAtATime_bindE [OF g(2,3) l f])
  from this [of "after ?d s"]
  have "oneAtATime (Client c) (history s @ sent ?d s) ?ns (sent (bindE (listPrimaries c) ?f) (after ?d s))"
    using grows_history [OF g(1), of s] by simp
  then have "oneAtATime (Client c) (history s) ?ns (sent (RotateAllCerts c) s)"
    unfolding RotateAllCerts_def sent_bind [OF g(1) g(4)]
    by (rule oneAtATime_skip [rotated]) (simp add: d)
  then show ?thesis unfolding oneAtATime_def by blast
qed

definition twoPrimaries :: "request list \<Rightarrow> request \<Rightarrow> response" where
  "twoPrimaries h r = (case r of
       ListReq Nodes _ _ \<Rightarrow>
         Objs [ObjNode \<lparr>nodeName = ''a'', nodeLabels = [], nodeTaints = [], nodeAddresses = []\<rparr>,
               ObjNode \<lparr>nodeName = ''b'', nodeLabels = [], nodeTaints = [], nodeAddresses = []\<rparr>]
     | Create Pods _ _ \<Rightarrow> Obj (ObjPod (samplePod ''p''))
     | Get Pods _ _ \<Rightarrow> Obj (ObjPod ((samplePod ''p'')\<lparr>podPhase := ''Succeeded''\<rparr>))
     | _ \<Rightarrow> Done)"

theorem RotateAllCerts_one_at_a_time_witness:
  "podSucceeded (sampleEnv twoPrimaries)
     [DeleteCollection Pods ''kurl'' RotateCertsSelector,
      ListReq Nodes '''' ''node-role.kubernetes.io/master=''] ''kurl''
     (getRotateCertsPodConfig (sampleController twoPrimaries) ''a'')
     [PollTick, Get Pods ''kurl'' ''p'', GetLogs ''kurl'' ''p'', Sleep (5 * Second)]"
proof -
  let ?c = "sampleController twoPrimaries"
  have loopBound_sample: "loopBound (sampleEnv twoPrimaries) = 4" by (simp add: sampleEnv_def)
  have ns: "cfgRotateCertsNamespace sampleConfig = ''kurl''" by code_simp
  have t: "sent (RotateAllCerts ?c) sampleProc =
      [DeleteCollection Pods (cfgRotateCertsNamespace (Config ?c)) RotateCertsSelector,
       ListReq Nodes '''' ''node-role.kubernetes.io/master=''] @
      Create Pods (cfgRotateCertsNamespace (Config ?c)) (ObjPod (getRotateCertsPodConfig ?c ''a'')) #
      [PollTick, Get Pods ''kurl'' ''p'', GetLogs ''kurl'' ''p'', Sleep (5 * Second)] @
      Create Pods (cfgRotateCertsNamespace (Config ?c)) (ObjPod (getRotateCertsPodConfig ?c ''b'')) #
      [PollTick, Get Pods ''kurl'' ''p'', GetLogs ''kurl'' ''p'',
       DeleteCollection Pods ''kurl'' RotateCertsSelector]"
    by (simp add: sent_def RotateAllCerts_def deletePods_def listPrimaries_def runTaskPod_def
        createObj_def pollForPodCompleted_def podCompletedRound_def logPodResults_def ns
        twoPrimaries_def loopBound_sample eval_nat_numeral Let_def)
  show ?thesis
    using RotateAllCerts_one_at_a_time [of ?c sampleProc, rule_format, OF t]
    by (simp add: ns sampleProc_def sampleController_def)
qed

section \<open>The check interval\<close>



end
