(* ===== verification/CertSecrets.thy ===== *)
theory CertSecrets
  imports HostTasks
begin

text \<open>
  The certificates kept in secrets: those of the registry (\<open>src/pkg/cluster/registry_cert.go\<close>), of
  contour and envoy (\<open>contour_certs.go\<close>), and of the kurl proxy and of kotsadm's kubelet client
  (\<open>kotsadm.go\<close>); the algorithm of a key is named by \<open>src/pkg/util/cert.go\<close>. Keys and the authority's
  key are opaque texts; parsing, encoding and signing are functions of the environment.
\<close>

section \<open>The algorithm of a key: src/pkg/util/cert.go\<close>

text \<open>The size of an RSA key is read in bytes, rounded up.\<close>

definition GetEncryptionAlgorithmType :: "x509 \<Rightarrow> string res" where
  "GetEncryptionAlgorithmType crt =
     (case xPublicKey crt of
        RSAKey bits \<Rightarrow>
          (let keySize = 8 * ((bits + 7) div 8) in
           if keySize = 2048 then Inr ''RSA-2048''
           else if keySize = 3072 then Inr ''RSA-3072''
           else if keySize = 4096 then Inr ''RSA-4096''
           else Inl (NewErr (''unsupported RSA key size: '' @ Itoa (int keySize) @ '' bits'')))
      | ECDSAKey curve \<Rightarrow>
          (if curve = ''P-256'' then Inr ''ECDSA-P256''
           else Inl (NewErr (''unsupported ECDSA curve: '' @ curve)))
      | OtherKey ty \<Rightarrow> Inl (NewErr (''unsupported public key type: '' @ ty)))"

section \<open>Secrets\<close>

text \<open>
  A secret read from the API server without data has a nil map, and storing into it panics.
\<close>

definition storeData :: "secret \<Rightarrow> string \<Rightarrow> string \<Rightarrow> secret res" where
  "storeData sec k v =
     (if secData sec = [] then Inl (Panic ''assignment to entry in nil map'')
      else Inr (sec\<lparr>secData := store_map (secData sec) k v\<rparr>))"

definition getSecret :: "controller \<Rightarrow> string \<Rightarrow> string \<Rightarrow> secret res go" where
  "getSecret c ns name = getObj (Client c) dec_secret Secrets ns name"

definition atSecret :: "string \<Rightarrow> string \<Rightarrow> string \<Rightarrow> string" where
  "atSecret verb ns name = verb @ '' secret '' @ ns @ ''/'' @ name"

section \<open>The registry: src/pkg/cluster/registry_cert.go\<close>

definition readRegistryCert :: "controller \<Rightarrow> string \<Rightarrow> string \<Rightarrow> x509 option res go" where
  "readRegistryCert c ns name = do {
     r \<leftarrow> getSecret c ns name;
     case r of
       Inl err \<Rightarrow> (if IsNotFoundErr err then Ok None else Fail (Wrap (atSecret ''get'' ns name) err))
     | Inr sec \<Rightarrow>
         (case ParseCertsPEM (Client c) (index_map (secData sec) ''registry.crt'') of
            Inl err \<Rightarrow> Fail (Wrap ''parse registry.crt'' err)
          | Inr [crt] \<Rightarrow> Ok (Some crt)
          | Inr certs \<Rightarrow> Fail (NewErr (''expected exactly 1 cert in registry.crt, got '' @
              Itoa (int (length certs))))) }"

definition updateRegistryCert :: "controller \<Rightarrow> string \<Rightarrow> string \<Rightarrow> x509 \<Rightarrow> string \<Rightarrow> unit res go" where
  "updateRegistryCert c ns name crt key =
     bindE (wrapE (atSecret ''get'' ns name) (getSecret c ns name)) (\<lambda>sec.
     bindE (wrapE ''encode certificate'' (ret (EncodeCertificates (Client c) crt))) (\<lambda>crtData.
     bindE (ret (storeData sec ''registry.crt'' crtData)) (\<lambda>sec.
     bindE (wrapE ''encode key'' (ret (MarshalPrivateKeyToPEM (Client c) key))) (\<lambda>keyData.
     bindE (ret (storeData sec ''registry.key'' keyData)) (\<lambda>sec.
       wrapE (atSecret ''update'' ns name) (send (Client c) (Update Secrets ns (ObjSecret sec))))))))"

definition certToConfig :: "env \<Rightarrow> x509 \<Rightarrow> certConfig res go" where
  "certToConfig env crt = do {
     notBefore \<leftarrow> now env;
     let notAfter = notBefore + CertificateValidityPeriod env;
     bindE (wrapE (''get encryption algorithm type from '' @ xSubjectCommonName crt)
         (ret (GetEncryptionAlgorithmType crt))) (\<lambda>encryptionAlgorithm.
       Ok \<lparr>CommonName = xSubjectCommonName crt, Organization = xSubjectOrganization crt,
         AltNamesIPs = xIPAddresses crt, AltNamesDNSNames = xDNSNames crt,
         Usages = xExtKeyUsage crt, NotBefore = Some notBefore, NotAfter = Some notAfter,
         PublicKeyAlgorithm = encryptionAlgorithm\<rparr>) }"

text \<open>\<open>x509.KeyUsageDigitalSignature\<close>, \<open>KeyUsageKeyEncipherment\<close> and \<open>KeyUsageCertSign\<close>.\<close>

definition leafKeyUsage :: nat where "leafKeyUsage = 1 + 4"
definition caKeyUsage :: nat where "caKeyUsage = 1 + 4 + 32"

definition newSignedCert :: "env \<Rightarrow> certConfig \<Rightarrow> string \<Rightarrow> x509 \<Rightarrow> string \<Rightarrow> bool \<Rightarrow> x509 res go" where
  "newSignedCert env cfg key caCert caKey isCA = do {
     r \<leftarrow> call env RandomInt;
     case r of
       Failed err \<Rightarrow> Fail err
     | Number serial \<Rightarrow>
         (if CommonName cfg = '''' then Fail (NewErr ''must specify a CommonName'')
          else do {
            notBefore \<leftarrow> now env;
            let notBefore = (case NotBefore cfg of Some t \<Rightarrow> t | None \<Rightarrow> notBefore);
            notAfter \<leftarrow> now env;
            let notAfter = (case NotAfter cfg of Some t \<Rightarrow> t
              | None \<Rightarrow> notAfter + CertificateValidityPeriod env);
            ret (CreateCertificate env
              \<lparr>xSubjectCommonName = CommonName cfg, xSubjectOrganization = Organization cfg,
               xIssuerCommonName = '''',
               xDNSNames = RemoveDuplicateAltNames env (AltNamesDNSNames cfg),
               xIPAddresses = RemoveDuplicateAltNames env (AltNamesIPs cfg),
               xExtKeyUsage = Usages cfg, xNotBefore = notBefore, xNotAfter = notAfter,
               xSerialNumber = serial, xKeyUsage = (if isCA then caKeyUsage else leafKeyUsage),
               xBasicConstraintsValid = True, xIsCA = isCA, xPublicKey = OtherKey ''''\<rparr>
              caCert key caKey) })
     | _ \<Rightarrow> Fail badResponse }"

definition as_pem :: "response \<Rightarrow> string res" where
  "as_pem r = (case r of Failed err \<Rightarrow> Inl err | Bytes b \<Rightarrow> Inr b | _ \<Rightarrow> Inl badResponse)"

definition generateNewCertAndKey ::
  "env \<Rightarrow> x509 \<Rightarrow> string \<Rightarrow> certConfig \<Rightarrow> (x509 \<times> string) res go" where
  "generateNewCertAndKey env caCert caKey cfg =
     (if Usages cfg = [] then Fail (NewErr ''must specify at least one ExtKeyUsage'')
      else
        bindE (wrapE ''unable to create private key'' (do {
            r \<leftarrow> call env (NewPrivateKey (PublicKeyAlgorithm cfg)); ret (as_pem r) })) (\<lambda>key.
        bindE (wrapE ''unable to sign certificate'' (newSignedCert env cfg key caCert caKey False))
          (\<lambda>crt. Ok (crt, key))))"

definition loadClusterCA :: "env \<Rightarrow> (x509 \<times> string) res go" where
  "loadClusterCA env = do {
     r \<leftarrow> call env (LoadCertificateAuthority ''/etc/kubernetes/pki'' ''ca'');
     ret (case r of Failed err \<Rightarrow> Inl err | CertKey crt key \<Rightarrow> Inr (crt, key) | _ \<Rightarrow> Inl badResponse) }"

definition renewRegistryCert :: "controller \<Rightarrow> string \<Rightarrow> string \<Rightarrow> x509 \<Rightarrow> unit res go" where
  "renewRegistryCert c ns name crt =
     bindE (wrapE ''load cluster CA'' (loadClusterCA (Client c))) (\<lambda>(caCert, caKey).
     bindE (wrapE ''convert cert to config'' (certToConfig (Client c) crt)) (\<lambda>cfg.
     bindE (wrapE ''generate new cert''
         (generateNewCertAndKey (Client c) caCert caKey cfg)) (\<lambda>(newCert, newKey).
     bindE (wrapE ''save new cert'' (updateRegistryCert c ns name newCert newKey)) (\<lambda>_.
       wrapE ''restart registry'' (send (Client c) (DeleteCollection Pods ns ''app=registry''))))))"

definition RotateRegistryCert :: "controller \<Rightarrow> unit res go" where
  "RotateRegistryCert c =
     (let ns = cfgRegistryCertNamespace (Config c); name = cfgRegistryCertSecret (Config c) in
      if ns = '''' \<or> name = '''' then Ok ()
      else bindE (wrapE ''load existing certificate'' (readRegistryCert c ns name)) (\<lambda>maybeCert.
        case maybeCert of
          None \<Rightarrow> Ok ()
        | Some crt \<Rightarrow> do {
            ttl \<leftarrow> Until (Client c) (xNotAfter crt);
            if ttl > cfgRotateCertsTTL (Config c) then Ok ()
            else renewRegistryCert c ns name crt }))"

section \<open>Contour and envoy: src/pkg/cluster/contour_certs.go\<close>

definition onlyCert :: "string \<Rightarrow> string \<Rightarrow> x509 list res \<Rightarrow> x509 res" where
  "onlyCert what key r = (case r of
       Inl err \<Rightarrow> Inl (Wrap (''parse '' @ key) err)
     | Inr [crt] \<Rightarrow> Inr crt
     | Inr certs \<Rightarrow> Inl (NewErr (''expected exactly 1 '' @ what @ '' in '' @ key @ '', got '' @
         Itoa (int (length certs)))))"

text \<open>\<open>None\<close> when one of the secrets does not exist.\<close>

definition readContourCerts ::
  "controller \<Rightarrow> string \<Rightarrow> string \<Rightarrow> string \<Rightarrow> (x509 \<times> x509 \<times> x509) option res go" where
  "readContourCerts c ns contourName envoyName = do {
     r \<leftarrow> getSecret c ns contourName;
     case r of
       Inl err \<Rightarrow>
         (if IsNotFoundErr err then Ok None else Fail (Wrap (atSecret ''get'' ns contourName) err))
     | Inr contourSecret \<Rightarrow> do {
         r \<leftarrow> getSecret c ns envoyName;
         case r of
           Inl err \<Rightarrow>
             (if IsNotFoundErr err then Ok None else Fail (Wrap (atSecret ''get'' ns envoyName) err))
         | Inr envoySecret \<Rightarrow>
             (let parse = (\<lambda>sec k. ParseCertsPEM (Client c) (index_map (secData sec) k)) in
              bindE (ret (onlyCert ''ca cert'' ''ca.crt'' (parse contourSecret ''ca.crt''))) (\<lambda>caCert.
              bindE (ret (onlyCert ''cert for contour'' ''tls.crt'' (parse contourSecret ''tls.crt'')))
                (\<lambda>contourCert.
              bindE (ret (onlyCert ''cert for envoy'' ''tls.crt'' (parse envoySecret ''tls.crt'')))
                (\<lambda>envoyCert. Ok (Some (caCert, contourCert, envoyCert)))))) } }"

definition shouldRotateContourCerts :: "controller \<Rightarrow> x509 \<Rightarrow> x509 \<Rightarrow> x509 \<Rightarrow> bool go" where
  "shouldRotateContourCerts c caCert contourCert envoyCert = do {
     caCertTTL \<leftarrow> Until (Client c) (xNotAfter caCert);
     if caCertTTL \<le> cfgRotateCertsTTL (Config c) then ret True
     else do {
       contourCertTTL \<leftarrow> Until (Client c) (xNotAfter contourCert);
       if contourCertTTL \<le> cfgRotateCertsTTL (Config c) then ret True
       else do {
         envoyCertTTL \<leftarrow> Until (Client c) (xNotAfter envoyCert);
         ret (envoyCertTTL \<le> cfgRotateCertsTTL (Config c)) } } }"

text \<open>What \<open>certs.GenerateCerts\<close> returns: the authority's certificate, and a pair for each of the two.\<close>

definition generateContourCerts :: "controller \<Rightarrow> string \<Rightarrow> (string \<times> string \<times> string \<times> string \<times> string) res go" where
  "generateContourCerts c ns = do {
     r \<leftarrow> call (Client c) (GenerateContourCerts ns);
     ret (case r of
         Failed err \<Rightarrow> Inl err
       | Strings [ca, contourCert, contourKey, envoyCert, envoyKey] \<Rightarrow>
           Inr (ca, contourCert, contourKey, envoyCert, envoyKey)
       | _ \<Rightarrow> Inl badResponse) }"

definition updateContourSecret ::
  "controller \<Rightarrow> string \<Rightarrow> string \<Rightarrow> string \<Rightarrow> string \<Rightarrow> string \<Rightarrow> unit res go" where
  "updateContourSecret c ns name ca crt key =
     bindE (wrapE (atSecret ''get'' ns name) (getSecret c ns name)) (\<lambda>sec.
     bindE (ret (storeData sec ''ca.crt'' ca)) (\<lambda>sec.
     bindE (ret (storeData sec ''tls.crt'' crt)) (\<lambda>sec.
     bindE (ret (storeData sec ''tls.key'' key)) (\<lambda>sec.
       wrapE (atSecret ''update'' ns name) (send (Client c) (Update Secrets ns (ObjSecret sec)))))))"

definition updateContourCerts :: "controller \<Rightarrow> string \<Rightarrow> string \<Rightarrow> string \<Rightarrow> unit res go" where
  "updateContourCerts c ns contourName envoyName =
     bindE (wrapE ''failed to generate certificates'' (generateContourCerts c ns))
       (\<lambda>(ca, contourCert, contourKey, envoyCert, envoyKey).
     bindE (updateContourSecret c ns contourName ca contourCert contourKey) (\<lambda>_.
       updateContourSecret c ns envoyName ca envoyCert envoyKey))"

definition envoyRestartPatch :: "string \<Rightarrow> string" where
  "envoyRestartPatch time =
     ''{'' @ dquote ''spec'' @ '':{'' @ dquote ''template'' @ '':{'' @ dquote ''metadata'' @ '':{'' @
     dquote ''annotations'' @ '':{'' @ dquote ''kubectl.kubernetes.io/restartedAt'' @ '':'' @
     dquote time @ ''}}}}}''"

definition restartEnvoy :: "controller \<Rightarrow> string \<Rightarrow> unit res go" where
  "restartEnvoy c ns = do {
     t \<leftarrow> now (Client c);
     wrapE ''restart envoy'' (send (Client c) (Patch DaemonSets ns ''envoy''
       (StrategicMergePatch (envoyRestartPatch (FormatRFC3339 (Client c) t))))) }"

definition RotateContourCerts :: "controller \<Rightarrow> unit res go" where
  "RotateContourCerts c =
     (let ns = cfgContourNamespace (Config c); contourName = cfgContourCertSecret (Config c);
          envoyName = cfgEnvoyCertSecret (Config c) in
      if ns = '''' \<or> contourName = '''' \<or> envoyName = '''' then Ok ()
      else bindE (wrapE ''read contour certificates'' (readContourCerts c ns contourName envoyName))
        (\<lambda>certs. case certs of
          None \<Rightarrow> Ok ()
        | Some (caCert, contourCert, envoyCert) \<Rightarrow> do {
            rotate \<leftarrow> shouldRotateContourCerts c caCert contourCert envoyCert;
            if \<not> rotate then Ok ()
            else bindE (wrapE ''update certs'' (updateContourCerts c ns contourName envoyName)) (\<lambda>_.
              restartEnvoy c ns) }))"

section \<open>The kurl proxy and kotsadm: src/pkg/cluster/kotsadm.go\<close>

definition kotsadmHost :: string where "kotsadmHost = ''kotsadm.default.svc.cluster.local''"

definition selfSignedCertKey :: "env \<Rightarrow> string \<Rightarrow> string list \<Rightarrow> string list \<Rightarrow> (string \<times> string) res go" where
  "selfSignedCertKey env host ips names = do {
     r \<leftarrow> call env (GenerateSelfSignedCertKey host ips names);
     ret (case r of Failed err \<Rightarrow> Inl err | Strings [crt, key] \<Rightarrow> Inr (crt, key) | _ \<Rightarrow> Inl badResponse) }"

definition customCert :: "x509 \<Rightarrow> bool" where
  "customCert crt \<longleftrightarrow>
     xIssuerCommonName crt \<noteq> '''' \<and> \<not> HasPrefix (xIssuerCommonName crt) kotsadmHost \<or>
     \<not> HasPrefix (xSubjectCommonName crt) kotsadmHost"

definition renewKurlProxyCert :: "controller \<Rightarrow> string \<Rightarrow> secret \<Rightarrow> x509 \<Rightarrow> unit res go" where
  "renewKurlProxyCert c ns sec crt =
     bindE (wrapE ''generate self-signed cert''
         (selfSignedCertKey (Client c) kotsadmHost (xIPAddresses crt) (xDNSNames crt))) (\<lambda>(certData, keyData).
     bindE (ret (storeData sec ''tls.crt'' certData)) (\<lambda>sec.
     bindE (ret (storeData sec ''tls.key'' keyData)) (\<lambda>sec.
       wrapE ''update'' (send (Client c) (Update Secrets ns (ObjSecret sec))))))"

definition RotateKurlProxyCert :: "controller \<Rightarrow> unit res go" where
  "RotateKurlProxyCert c =
     (let ns = cfgKurlProxyCertNamespace (Config c); name = cfgKurlProxyCertSecret (Config c) in do {
        r \<leftarrow> getSecret c ns name;
        case r of
          Inl err \<Rightarrow> (if IsNotFoundErr err then Ok () else Fail (Wrap ''get kurl proxy secret'' err))
        | Inr sec \<Rightarrow>
            bindE (wrapE ''parse kurl proxy secret tls.crt''
                (ret (ParseCertsPEM (Client c) (index_map (secData sec) ''tls.crt'')))) (\<lambda>certs.
              case certs of
                [] \<Rightarrow> Fail (NewErr ''no certs found in kurl proxy secret tls.crt'')
              | crt # _ \<Rightarrow> do {
                  ttl \<leftarrow> Until (Client c) (xNotAfter crt);
                  if ttl > cfgRotateCertsTTL (Config c) then Ok ()
                  else if customCert crt then Ok ()
                  else renewKurlProxyCert c ns sec crt }) })"

definition readFile :: "controller \<Rightarrow> string \<Rightarrow> string res go" where
  "readFile c path = do { r \<leftarrow> call (Client c) (ReadFile path); ret (as_pem r) }"

definition kubeletClientFile :: "string \<Rightarrow> string" where
  "kubeletClientFile ext = ''/etc/kubernetes/pki/apiserver-kubelet-client.'' @ ext"

text \<open>Storing one of the two files when it differs; the flag says whether anything was stored.\<close>

definition storeIfChanged :: "string \<Rightarrow> string \<Rightarrow> secret \<times> bool \<Rightarrow> (secret \<times> bool) res" where
  "storeIfChanged k v state = (case state of (sec, changed) \<Rightarrow>
     (if index_map (secData sec) k \<noteq> v then map_sum id (\<lambda>sec. (sec, True)) (storeData sec k v)
      else Inr (sec, changed)))"

definition UpdateKubeletClientCertSecret :: "controller \<Rightarrow> unit res go" where
  "UpdateKubeletClientCertSecret c =
     (let ns = cfgKotsadmKubeletCertNamespace (Config c);
          name = cfgKotsadmKubeletCertSecret (Config c) in do {
        r \<leftarrow> getSecret c ns name;
        case r of
          Inl err \<Rightarrow> (if IsNotFoundErr err then Ok () else Fail (Wrap ''get kubelet client secret'' err))
        | Inr sec \<Rightarrow>
            bindE (wrapE (''read '' @ kubeletClientFile ''crt'') (readFile c (kubeletClientFile ''crt'')))
              (\<lambda>certData.
            bindE (wrapE (''read '' @ kubeletClientFile ''key'') (readFile c (kubeletClientFile ''key'')))
              (\<lambda>keyData.
            bindE (ret (storeIfChanged ''client.crt'' certData (sec, False))) (\<lambda>state.
            bindE (ret (storeIfChanged ''client.key'' keyData state)) (\<lambda>(sec, needsUpdate).
              if \<not> needsUpdate then Ok ()
              else wrapE ''update'' (send (Client c) (Update Secrets ns (ObjSecret sec))))))) })"

section \<open>Renewing the registry's certificate\<close>

lemma emits_getSecret [emits_intros]: "P (Get Secrets ns name) \<Longrightarrow> emits P (getSecret c ns name)"
  unfolding getSecret_def by (intro emits_intros)

lemma emits_loadClusterCA [emits_intros]:
  "(\<And>r. is_read r \<Longrightarrow> P r) \<Longrightarrow> emits P (loadClusterCA env)"
  unfolding loadClusterCA_def by (intro emits_intros) simp_all

lemma emits_certToConfig [emits_intros]: "P Now \<Longrightarrow> emits P (certToConfig env crt)"
  unfolding certToConfig_def by (intro emits_intros)

lemma emits_case_response:
  "emits P (f x) \<Longrightarrow> (\<And>y. x = y \<Longrightarrow> emits P (f y)) \<Longrightarrow> emits P (f x)"
  by blast

lemma emits_newSignedCert [emits_intros]:
  "P RandomInt \<Longrightarrow> P Now \<Longrightarrow> emits P (newSignedCert env cfg key caCert caKey isCA)"
  unfolding newSignedCert_def
  by (rule emits_bind, rule emits_call, assumption)
    (auto split: response.split intro!: emits_intros)

lemma emits_generateNewCertAndKey [emits_intros]:
  "(\<And>r. is_read r \<Longrightarrow> P r) \<Longrightarrow> emits P (generateNewCertAndKey env caCert caKey cfg)"
  unfolding generateNewCertAndKey_def by (intro emits_intros) simp_all

lemma emits_readRegistryCert [emits_intros]:
  "P (Get Secrets ns name) \<Longrightarrow> emits P (readRegistryCert c ns name)"
  unfolding readRegistryCert_def
  by (rule emits_bind, intro emits_intros) (auto split: sum.split list.split intro!: emits_intros)

lemma bind_Inr:
  "result (m \<bind> f) s = Inr y \<Longrightarrow> result (f (result m s)) (after m s) = Inr y"
  by (simp add: result_bind)

lemma result_getSecret:
  "result (getSecret c ns name) s =
     as_obj dec_secret (respond (Client c) (history s) (Get Secrets ns name))"
  by (simp add: getSecret_def)

lemma readRegistryCert_Some:
  assumes "result (readRegistryCert c ns name) s = Inr (Some crt)"
  shows "\<exists>(sec :: secret) h. as_obj dec_secret (respond (Client c) h (Get Secrets ns name)) = Inr sec \<and>
    ParseCertsPEM (Client c) (index_map (secData sec) ''registry.crt'') = Inr [crt]"
  using assms unfolding readRegistryCert_def
  by (auto simp: result_bind result_getSecret split: sum.splits list.splits if_splits)

text \<open>
  The certificate made for \<open>old\<close>: the template keeps its subject, alternative names (without
  duplicates) and usages, starts at a reading of the clock, and is signed by the cluster's authority.
\<close>

definition renewedFrom :: "env \<Rightarrow> x509 \<Rightarrow> x509 \<Rightarrow> string \<Rightarrow> bool" where
  "renewedFrom env old new key \<longleftrightarrow>
     (\<exists>tmpl ca cakey h h'. CreateCertificate env tmpl ca key cakey = Inr new \<and>
        respond env h (LoadCertificateAuthority ''/etc/kubernetes/pki'' ''ca'') = CertKey ca cakey \<and>
        xSubjectCommonName tmpl = xSubjectCommonName old \<and>
        xSubjectOrganization tmpl = xSubjectOrganization old \<and>
        xDNSNames tmpl = RemoveDuplicateAltNames env (xDNSNames old) \<and>
        xIPAddresses tmpl = RemoveDuplicateAltNames env (xIPAddresses old) \<and>
        xExtKeyUsage tmpl = xExtKeyUsage old \<and> \<not> xIsCA tmpl \<and>
        xNotBefore tmpl = clock env h' \<and>
        xNotAfter tmpl = xNotBefore tmpl + CertificateValidityPeriod env)"

lemma certToConfig_Inr:
  assumes "result (certToConfig env crt) s = Inr cfg"
  shows "CommonName cfg = xSubjectCommonName crt \<and> Organization cfg = xSubjectOrganization crt \<and>
    AltNamesIPs cfg = xIPAddresses crt \<and> AltNamesDNSNames cfg = xDNSNames crt \<and>
    Usages cfg = xExtKeyUsage crt \<and> NotBefore cfg = Some (clock env (history s)) \<and>
    NotAfter cfg = Some (clock env (history s) + CertificateValidityPeriod env)"
  using assms unfolding certToConfig_def
  by (auto simp: result_bind result_bindE clock_def Let_def split: sum.splits)

lemma newSignedCert_Inr:
  assumes "result (newSignedCert env cfg key ca cakey isCA) s = Inr new"
    and "NotBefore cfg = Some t" "NotAfter cfg = Some t'"
  shows "\<exists>tmpl. CreateCertificate env tmpl ca key cakey = Inr new \<and>
    xSubjectCommonName tmpl = CommonName cfg \<and> xSubjectOrganization tmpl = Organization cfg \<and>
    xDNSNames tmpl = RemoveDuplicateAltNames env (AltNamesDNSNames cfg) \<and>
    xIPAddresses tmpl = RemoveDuplicateAltNames env (AltNamesIPs cfg) \<and>
    xExtKeyUsage tmpl = Usages cfg \<and> xIsCA tmpl = isCA \<and> xNotBefore tmpl = t \<and> xNotAfter tmpl = t'"
  using assms unfolding newSignedCert_def
  by (auto simp: result_bind Let_def split: response.splits if_splits)

lemma generateNewCertAndKey_Inr:
  assumes "result (generateNewCertAndKey env ca cakey cfg) s = Inr (new, key)"
    and "NotBefore cfg = Some t" "NotAfter cfg = Some t'"
  shows "\<exists>tmpl. CreateCertificate env tmpl ca key cakey = Inr new \<and>
    xSubjectCommonName tmpl = CommonName cfg \<and> xSubjectOrganization tmpl = Organization cfg \<and>
    xDNSNames tmpl = RemoveDuplicateAltNames env (AltNamesDNSNames cfg) \<and>
    xIPAddresses tmpl = RemoveDuplicateAltNames env (AltNamesIPs cfg) \<and>
    xExtKeyUsage tmpl = Usages cfg \<and> \<not> xIsCA tmpl \<and> xNotBefore tmpl = t \<and> xNotAfter tmpl = t'"
proof (cases "Usages cfg = []")
  case False
  with assms(1) obtain s' where "result (newSignedCert env cfg key ca cakey False) s' = Inr new"
    unfolding generateNewCertAndKey_def by (auto elim!: bindE_Inr)
  from newSignedCert_Inr [OF this assms(2,3)] show ?thesis by auto
next
  case True
  with assms(1) show ?thesis by (simp add: generateNewCertAndKey_def)
qed

lemma loadClusterCA_Inr:
  "result (loadClusterCA env) s = Inr (ca, cakey) \<Longrightarrow>
   respond env (history s) (LoadCertificateAuthority ''/etc/kubernetes/pki'' ''ca'') = CertKey ca cakey"
  unfolding loadClusterCA_def by (auto simp: result_bind split: response.splits)

lemma storeData_Inr [simp]:
  "storeData sec k v = Inr sec' \<longleftrightarrow>
     secData sec \<noteq> [] \<and> sec' = sec\<lparr>secData := store_map (secData sec) k v\<rparr>"
  by (auto simp: storeData_def)

text \<open>The requests that renewing the certificate can send, besides those that change nothing.\<close>

definition renewsRegistry :: "controller \<Rightarrow> request \<Rightarrow> bool" where
  "renewsRegistry c r \<longleftrightarrow> is_read r \<or>
     r = DeleteCollection Pods (cfgRegistryCertNamespace (Config c)) ''app=registry'' \<or>
     (let ns = cfgRegistryCertNamespace (Config c); name = cfgRegistryCertSecret (Config c) in
      \<exists>(sec :: secret) old new key crtData keyData h h'.
        r = Update Secrets ns (ObjSecret (sec\<lparr>secData :=
          store_map (store_map (secData sec) ''registry.crt'' crtData) ''registry.key'' keyData\<rparr>)) \<and>
        EncodeCertificates (Client c) new = Inr crtData \<and>
        MarshalPrivateKeyToPEM (Client c) key = Inr keyData \<and>
        renewedFrom (Client c) old new key \<and>
        as_obj dec_secret (respond (Client c) h (Get Secrets ns name)) = Inr sec \<and>
        (\<exists>(sec' :: secret) h''. as_obj dec_secret (respond (Client c) h'' (Get Secrets ns name)) = Inr sec' \<and>
           ParseCertsPEM (Client c) (index_map (secData sec') ''registry.crt'') = Inr [old]) \<and>
        boundedDuration (xNotAfter old - clock (Client c) h') \<le> cfgRotateCertsTTL (Config c))"

lemma emits_bindE_ret:
  "(\<And>a. x = Inr a \<Longrightarrow> emits P (f a)) \<Longrightarrow> emits P (bindE (ret x) f)"
  "(\<And>a. x = Inr a \<Longrightarrow> emits P (f a)) \<Longrightarrow> emits P (bindE (wrapE msg (ret x)) f)"
  by (rule emits_bindE_result; simp add: emits_return emits_wrapE)+

lemma emits_updateRegistryCert:
  assumes "\<And>r. is_read r \<Longrightarrow> P r"
    and "\<And>sec crtData keyData h. EncodeCertificates (Client c) crt = Inr crtData \<Longrightarrow>
      MarshalPrivateKeyToPEM (Client c) key = Inr keyData \<Longrightarrow>
      as_obj dec_secret (respond (Client c) h (Get Secrets ns name)) = Inr sec \<Longrightarrow>
      P (Update Secrets ns (ObjSecret (sec\<lparr>secData :=
          store_map (store_map (secData sec) ''registry.crt'' crtData) ''registry.key'' keyData\<rparr>)))"
  shows "emits P (updateRegistryCert c ns name crt key)"
  unfolding updateRegistryCert_def
proof (rule emits_bindE_result)
  show "emits P (wrapE (atSecret ''get'' ns name) (getSecret c ns name))"
    by (intro emits_intros assms(1)) simp
  fix s sec
  assume "result (wrapE (atSecret ''get'' ns name) (getSecret c ns name)) s = Inr sec"
  then have sec: "as_obj dec_secret (respond (Client c) (history s) (Get Secrets ns name)) = Inr sec"
    by (simp add: result_getSecret)
  show "emits P (bindE (wrapE ''encode certificate'' (ret (EncodeCertificates (Client c) crt)))
      (\<lambda>crtData. bindE (ret (storeData sec ''registry.crt'' crtData)) (\<lambda>sec.
     bindE (wrapE ''encode key'' (ret (MarshalPrivateKeyToPEM (Client c) key))) (\<lambda>keyData.
     bindE (ret (storeData sec ''registry.key'' keyData)) (\<lambda>sec.
       wrapE (atSecret ''update'' ns name) (send (Client c) (Update Secrets ns (ObjSecret sec))))))))"
    by (intro emits_bindE_ret emits_wrapE emits_send) (auto intro: assms(2) sec)
qed

text \<open>Storing a renewed certificate, and the four steps that renew one.\<close>

lemma emits_saveRegistryCert:
  assumes "renewedFrom (Client c) old new key"
    and "as_obj dec_secret (respond (Client c) h (Get Secrets (cfgRegistryCertNamespace (Config c))
      (cfgRegistryCertSecret (Config c)))) = Inr (sec :: secret)"
    and "ParseCertsPEM (Client c) (index_map (secData sec) ''registry.crt'') = Inr [old]"
    and "boundedDuration (xNotAfter old - clock (Client c) h') \<le> cfgRotateCertsTTL (Config c)"
  shows "emits (renewsRegistry c) (updateRegistryCert c (cfgRegistryCertNamespace (Config c))
      (cfgRegistryCertSecret (Config c)) new key)"
proof (rule emits_updateRegistryCert)
  fix sec' :: secret and crtData keyData h2
  assume w: "EncodeCertificates (Client c) new = Inr crtData" "MarshalPrivateKeyToPEM (Client c) key = Inr keyData"
    "as_obj dec_secret (respond (Client c) h2 (Get Secrets (cfgRegistryCertNamespace (Config c))
      (cfgRegistryCertSecret (Config c)))) = Inr sec'"
  show "renewsRegistry c (Update Secrets (cfgRegistryCertNamespace (Config c)) (ObjSecret (sec'\<lparr>secData :=
      store_map (store_map (secData sec') ''registry.crt'' crtData) ''registry.key'' keyData\<rparr>)))"
    unfolding renewsRegistry_def Let_def
    by (rule disjI2, rule disjI2, intro exI conjI) (rule refl | fact w assms)+
qed (simp add: renewsRegistry_def)

lemma emits_renewRegistryCert:
  assumes "as_obj dec_secret (respond (Client c) h (Get Secrets (cfgRegistryCertNamespace (Config c))
      (cfgRegistryCertSecret (Config c)))) = Inr (sec :: secret)"
    and "ParseCertsPEM (Client c) (index_map (secData sec) ''registry.crt'') = Inr [old]"
    and "boundedDuration (xNotAfter old - clock (Client c) h') \<le> cfgRotateCertsTTL (Config c)"
  shows "emits (renewsRegistry c) (renewRegistryCert c (cfgRegistryCertNamespace (Config c))
      (cfgRegistryCertSecret (Config c)) old)"
proof -
  have read: "\<And>r. is_read r \<Longrightarrow> renewsRegistry c r" by (simp add: renewsRegistry_def)
  show ?thesis
    unfolding renewRegistryCert_def
  proof (rule emits_bindE_result, intro emits_intros read, assumption, clarify,
      rule emits_bindE_result, intro emits_intros read, simp,
      rule emits_bindE_result, intro emits_intros read, assumption, clarify,
      intro emits_bindE emits_wrapE emits_send)
    fix s0 ca cakey s1 cfg s2 new key
    assume r: "result (wrapE ''load cluster CA'' (loadClusterCA (Client c))) s0 = Inr (ca, cakey)"
      "result (wrapE ''convert cert to config'' (certToConfig (Client c) old)) s1 = Inr cfg"
      "result (wrapE ''generate new cert'' (generateNewCertAndKey (Client c) ca cakey cfg)) s2 = Inr (new, key)"
    have cfg: "result (certToConfig (Client c) old) s1 = Inr cfg"
      and gen: "result (generateNewCertAndKey (Client c) ca cakey cfg) s2 = Inr (new, key)" using r by simp_all
    note cfg = certToConfig_Inr [OF cfg]
    have "respond (Client c) (history s0) (LoadCertificateAuthority ''/etc/kubernetes/pki'' ''ca'') =
        CertKey ca cakey" using r(1) by (simp add: loadClusterCA_Inr)
    with generateNewCertAndKey_Inr [OF gen] cfg have "renewedFrom (Client c) old new key"
      unfolding renewedFrom_def by fastforce
    then show "emits (renewsRegistry c) (updateRegistryCert c (cfgRegistryCertNamespace (Config c))
        (cfgRegistryCertSecret (Config c)) new key)"
      by (rule emits_saveRegistryCert [OF _ assms])
  qed (simp add: renewsRegistry_def)
qed

lemma emits_RotateRegistryCert: "emits (renewsRegistry c) (RotateRegistryCert c)"
proof -
  let ?ns = "cfgRegistryCertNamespace (Config c)" and ?name = "cfgRegistryCertSecret (Config c)"
  have read: "\<And>r. is_read r \<Longrightarrow> renewsRegistry c r" by (simp add: renewsRegistry_def)
  show ?thesis
    unfolding RotateRegistryCert_def Let_def
  proof (intro emits_if emits_return emits_bindE_result [OF emits_wrapE [OF emits_readRegistryCert]]
      emits_case_option)
    show "renewsRegistry c (Get Secrets ?ns ?name)" by (simp add: read)
    fix s r old
    assume "result (wrapE ''load existing certificate'' (readRegistryCert c ?ns ?name)) s = Inr r"
      "r = Some old"
    then have "result (readRegistryCert c ?ns ?name) s = Inr (Some old)" by simp
    from readRegistryCert_Some [OF this] obtain sec :: secret and h where sec:
      "as_obj dec_secret (respond (Client c) h (Get Secrets ?ns ?name)) = Inr sec"
      "ParseCertsPEM (Client c) (index_map (secData sec) ''registry.crt'') = Inr [old]" by blast
    show "emits (renewsRegistry c) (do {
            ttl \<leftarrow> Until (Client c) (xNotAfter old);
            if ttl > cfgRotateCertsTTL (Config c) then Ok () else renewRegistryCert c ?ns ?name old })"
      by (rule emits_bind_result, intro emits_Until read, simp)
        (simp only: obs_Until, intro emits_if emits_return emits_renewRegistryCert [OF sec], simp add: not_less)
  qed
qed

text \<open>
  C29: The registry's certificate is replaced only in its secret, only when the certificate read
  there runs out within the configured time, and by a new one: a certificate that the cluster's
  authority signed for a template with the same subject, usages and, without duplicates, alternative
  names, valid from now for the validity period. Every other entry of the secret is kept.
\<close>

theorem RotateRegistryCert_renews:
  assumes "Update k ns x \<in> set (sent (RotateRegistryCert c) s)"
  shows "k = Secrets \<and> ns = cfgRegistryCertNamespace (Config c) \<and>
    (\<exists>(sec :: secret) sec' old new key h h' h''.
       x = ObjSecret sec' \<and>
       as_obj dec_secret (respond (Client c) h (Get Secrets ns (cfgRegistryCertSecret (Config c)))) = Inr sec \<and>
       EncodeCertificates (Client c) new = Inr (index_map (secData sec') ''registry.crt'') \<and>
       MarshalPrivateKeyToPEM (Client c) key = Inr (index_map (secData sec') ''registry.key'') \<and>
       (\<forall>f. f \<noteq> ''registry.crt'' \<and> f \<noteq> ''registry.key'' \<longrightarrow>
          map_of (secData sec') f = map_of (secData sec) f) \<and>
       renewedFrom (Client c) old new key \<and>
       (\<exists>sec0 :: secret.
          as_obj dec_secret (respond (Client c) h'' (Get Secrets ns (cfgRegistryCertSecret (Config c)))) = Inr sec0 \<and>
          ParseCertsPEM (Client c) (index_map (secData sec0) ''registry.crt'') = Inr [old]) \<and>
       boundedDuration (xNotAfter old - clock (Client c) h') \<le> cfgRotateCertsTTL (Config c))"
proof -
  from emits_sent [OF emits_RotateRegistryCert assms]
  obtain sec old new key crtData keyData h h' h'' and sec0 :: secret where
    w: "k = Secrets" "ns = cfgRegistryCertNamespace (Config c)"
      "x = ObjSecret (sec\<lparr>secData :=
          store_map (store_map (secData sec) ''registry.crt'' crtData) ''registry.key'' keyData\<rparr>)"
      "EncodeCertificates (Client c) new = Inr crtData"
      "MarshalPrivateKeyToPEM (Client c) key = Inr keyData" "renewedFrom (Client c) old new key"
      "as_obj dec_secret (respond (Client c) h (Get Secrets ns (cfgRegistryCertSecret (Config c)))) = Inr sec"
      "as_obj dec_secret (respond (Client c) h'' (Get Secrets ns (cfgRegistryCertSecret (Config c)))) = Inr sec0"
      "ParseCertsPEM (Client c) (index_map (secData sec0) ''registry.crt'') = Inr [old]"
      "boundedDuration (xNotAfter old - clock (Client c) h') \<le> cfgRotateCertsTTL (Config c)"
    unfolding renewsRegistry_def Let_def by auto
  let ?sec' = "sec\<lparr>secData :=
          store_map (store_map (secData sec) ''registry.crt'' crtData) ''registry.key'' keyData\<rparr>"
  show ?thesis
    using w(1,2)
  proof (intro conjI)
    show "\<exists>(sec :: secret) sec' old new key h h' h''.
       x = ObjSecret sec' \<and>
       as_obj dec_secret (respond (Client c) h (Get Secrets ns (cfgRegistryCertSecret (Config c)))) = Inr sec \<and>
       EncodeCertificates (Client c) new = Inr (index_map (secData sec') ''registry.crt'') \<and>
       MarshalPrivateKeyToPEM (Client c) key = Inr (index_map (secData sec') ''registry.key'') \<and>
       (\<forall>f. f \<noteq> ''registry.crt'' \<and> f \<noteq> ''registry.key'' \<longrightarrow>
          map_of (secData sec') f = map_of (secData sec) f) \<and>
       renewedFrom (Client c) old new key \<and>
       (\<exists>sec0 :: secret.
          as_obj dec_secret (respond (Client c) h'' (Get Secrets ns (cfgRegistryCertSecret (Config c)))) = Inr sec0 \<and>
          ParseCertsPEM (Client c) (index_map (secData sec0) ''registry.crt'') = Inr [old]) \<and>
       boundedDuration (xNotAfter old - clock (Client c) h') \<le> cfgRotateCertsTTL (Config c)"
      by (rule exI [of _ sec], rule exI [of _ ?sec'], rule exI [of _ old], rule exI [of _ new],
          rule exI [of _ key], rule exI [of _ h], rule exI [of _ h'], rule exI [of _ h''])
        (use w(3-) in \<open>simp add: exI [of _ sec0]\<close>)
  qed
qed

text \<open>A registry certificate that has expired, in a secret with a third entry.\<close>

definition oldRegistryCert :: x509 where
  "oldRegistryCert =
     \<lparr>xSubjectCommonName = ''registry'', xSubjectOrganization = [], xIssuerCommonName = ''kubernetes'',
      xDNSNames = [''registry.kurl.svc''], xIPAddresses = [], xExtKeyUsage = [1], xNotBefore = 0,
      xNotAfter = 5, xSerialNumber = 1, xKeyUsage = 5, xBasicConstraintsValid = True, xIsCA = False,
      xPublicKey = RSAKey 2048\<rparr>"

definition oldRegistrySecret :: secret where
  "oldRegistrySecret = \<lparr>secName = ''registry-pki'', secData = [(''registry.crt'', ''old''), (''ca.crt'', ''ca'')]\<rparr>"

definition registryCluster :: "request list \<Rightarrow> request \<Rightarrow> response" where
  "registryCluster h r = (case r of
       Get _ _ _ \<Rightarrow> Obj (ObjSecret oldRegistrySecret)
     | LoadCertificateAuthority _ _ \<Rightarrow> CertKey oldRegistryCert ''cakey''
     | NewPrivateKey _ \<Rightarrow> Bytes ''key''
     | RandomInt \<Rightarrow> Number 7
     | Now \<Rightarrow> Time 9
     | _ \<Rightarrow> Done)"

definition registryController :: controller where
  "registryController = NewController sampleConfig
     (sampleEnv registryCluster\<lparr>ParseCertsPEM := \<lambda>x. Inr [oldRegistryCert]\<rparr>)"

theorem RotateRegistryCert_renews_witness:
  "(\<exists>x. Update Secrets ''kurl'' x \<in> set (sent (RotateRegistryCert registryController) sampleProc)) \<and>
   (\<exists>old new key. renewedFrom (Client registryController) old new key \<and>
      boundedDuration (xNotAfter old - 9) \<le> cfgRotateCertsTTL (Config registryController))"
proof -
  let ?x = "ObjSecret (oldRegistrySecret\<lparr>secData :=
    [(''registry.crt'', ''certificate''), (''ca.crt'', ''ca''), (''registry.key'', ''key'')]\<rparr>)"
  have u: "Update Secrets ''kurl'' ?x \<in> set (sent (RotateRegistryCert registryController) sampleProc)"
    by code_simp
  have now: "clock (Client registryController) h = 9" for h
    by (simp add: clock_def registryController_def registryCluster_def sampleEnv_def)
  have "\<exists>old new key. renewedFrom (Client registryController) old new key \<and>
      boundedDuration (xNotAfter old - 9) \<le> cfgRotateCertsTTL (Config registryController)"
    using RotateRegistryCert_renews [OF u] by (elim conjE exE) (intro exI conjI, assumption, simp add: now)
  with u show ?thesis by (intro conjI exI [of _ ?x])
qed

section \<open>Contour and envoy together\<close>

lemma emits_onReads:
  assumes "\<And>r. is_read r \<Longrightarrow> P r"
  shows "emits P (readContourCerts c ns a b)" "emits P (shouldRotateContourCerts c ca x y)"
    "emits P (generateContourCerts c ns)"
  unfolding readContourCerts_def shouldRotateContourCerts_def generateContourCerts_def Let_def
  by (intro emits_intros assms; simp)+

lemma grows_updateContourSecret: "grows (updateContourSecret c ns name ca crt key)"
  unfolding updateContourSecret_def by (intro emits_intros TrueI)

lemma emits_updateContourSecret:
  "emits (\<lambda>r. is_read r \<or> (\<exists>x. r = Update Secrets ns x)) (updateContourSecret c ns name ca crt key)"
  unfolding updateContourSecret_def by (intro emits_intros) simp_all

lemma updateContourSecret_Inr:
  assumes "result (updateContourSecret c ns name ca crt key) s = Inr ()"
  shows "\<exists>sec :: secret. sent (updateContourSecret c ns name ca crt key) s =
      [Get Secrets ns name, Update Secrets ns (ObjSecret sec)] \<and>
    index_map (secData sec) ''ca.crt'' = ca \<and> index_map (secData sec) ''tls.crt'' = crt \<and>
    index_map (secData sec) ''tls.key'' = key"
  using assms unfolding updateContourSecret_def
  by (auto simp: result_def sent_def getSecret_def storeData_def split: sum.splits if_splits)

lemma generateContourCerts_Inr:
  assumes "result (generateContourCerts c ns) s = Inr (ca, cc, ck, ec, ek)"
  shows "respond (Client c) (history s) (GenerateContourCerts ns) = Strings [ca, cc, ck, ec, ek]"
  using assms unfolding generateContourCerts_def
  by (auto simp: result_bind split: response.splits list.splits)

lemma updateContourCerts_Inr:
  assumes "result (updateContourCerts c ns a b) s = Inr ()"
  shows "\<exists>(s1 :: secret) s2 t. sent (updateContourCerts c ns a b) s =
      [GenerateContourCerts ns, Get Secrets ns a, Update Secrets ns (ObjSecret s1),
       Get Secrets ns b, Update Secrets ns (ObjSecret s2)] \<and>
    index_map (secData s2) ''ca.crt'' = index_map (secData s1) ''ca.crt'' \<and>
    respond (Client c) (history s) (GenerateContourCerts ns) =
      Strings [index_map (secData s1) ''ca.crt'', index_map (secData s1) ''tls.crt'',
        index_map (secData s1) ''tls.key'', index_map (secData s2) ''tls.crt'',
        index_map (secData s2) ''tls.key'']"
proof -
  let ?g = "wrapE ''failed to generate certificates'' (generateContourCerts c ns)"
  let ?u = "\<lambda>(ca, cc, ck, ec, ek). bindE (updateContourSecret c ns a ca cc ck) (\<lambda>_.
     updateContourSecret c ns b ca ec ek)"
  have gg: "grows ?g" by (intro emits_wrapE emits_onReads TrueI)
  have gu: "grows (?u x)" for x
    by (cases x) (auto intro!: emits_bindE grows_updateContourSecret)
  obtain x where x: "result ?g s = Inr x" "result (?u x) (after ?g s) = Inr ()"
    using assms unfolding updateContourCerts_def by (rule bindE_Inr)
  obtain ca cc ck ec ek where p: "x = (ca, cc, ck, ec, ek)" by (cases x) auto
  have gen: "respond (Client c) (history s) (GenerateContourCerts ns) = Strings [ca, cc, ck, ec, ek]"
    using x(1) p by (simp add: generateContourCerts_Inr)
  let ?s = "after ?g s"
  let ?u1 = "updateContourSecret c ns a ca cc ck" and ?u2 = "updateContourSecret c ns b ca ec ek"
  have "result (bindE ?u1 (\<lambda>_. ?u2)) ?s = Inr ()" using x(2) p by simp
  then have u: "result ?u1 ?s = Inr ()" "result ?u2 (after ?u1 ?s) = Inr ()"
    by (auto elim!: bindE_Inr)
  have g: "sent ?g s = [GenerateContourCerts ns]"
    by (simp add: generateContourCerts_def sent_bind [OF emits_call emits_return])
  have "sent (updateContourCerts c ns a b) s =
      [GenerateContourCerts ns] @ sent ?u1 ?s @ sent ?u2 (after ?u1 ?s)"
    unfolding updateContourCerts_def sent_bindE [OF gg gu] g x(1)
    using u(1) by (simp add: p sent_bindE [OF grows_updateContourSecret grows_updateContourSecret])
  with updateContourSecret_Inr [OF u(1)] updateContourSecret_Inr [OF u(2)] gen show ?thesis by auto
qed

lemma shouldRotateContourCerts_True:
  assumes "result (shouldRotateContourCerts c ca x y) s"
  shows "\<exists>crt\<in>{ca, x, y}. \<exists>h. boundedDuration (xNotAfter crt - clock (Client c) h) \<le> cfgRotateCertsTTL (Config c)"
  using assms unfolding shouldRotateContourCerts_def
  by (auto simp: result_bind split: if_splits)

lemma emits_restartEnvoy [emits_intros]:
  "P Now \<Longrightarrow> (\<And>p. P (Patch DaemonSets ns ''envoy'' p)) \<Longrightarrow> emits P (restartEnvoy c ns)"
  unfolding restartEnvoy_def by (intro emits_intros)

lemma restartEnvoy_sent:
  "sent (restartEnvoy c ns) s = [Now, Patch DaemonSets ns ''envoy''
     (StrategicMergePatch (envoyRestartPatch (FormatRFC3339 (Client c) (clock (Client c) (history s)))))]"
  by (simp add: restartEnvoy_def sent_def clock_def)

text \<open>A restart of Envoy follows the two updates at once.\<close>

lemma renewContour_sent:
  assumes "sent (bindE (wrapE ''update certs'' (updateContourCerts c ns a b)) (\<lambda>_. restartEnvoy c ns)) s =
      pre @ Patch DaemonSets ns' n p # post"
  shows "ns' = ns \<and> n = ''envoy'' \<and> post = [] \<and>
    (\<exists>(s1 :: secret) s2 h. pre = [GenerateContourCerts ns, Get Secrets ns a, Update Secrets ns (ObjSecret s1),
         Get Secrets ns b, Update Secrets ns (ObjSecret s2), Now] \<and>
       index_map (secData s2) ''ca.crt'' = index_map (secData s1) ''ca.crt'' \<and>
       respond (Client c) h (GenerateContourCerts ns) =
         Strings [index_map (secData s1) ''ca.crt'', index_map (secData s1) ''tls.crt'',
           index_map (secData s1) ''tls.key'', index_map (secData s2) ''tls.crt'',
           index_map (secData s2) ''tls.key''])"
proof -
  let ?up = "wrapE ''update certs'' (updateContourCerts c ns a b)"
  have up: "emits (\<lambda>r. r \<noteq> Patch DaemonSets ns' n p) ?up"
    unfolding updateContourCerts_def updateContourSecret_def by (intro emits_intros emits_onReads) auto
  have gr: "grows (restartEnvoy c ns)" by (intro emits_intros TrueI)
  obtain x mid where m: "result ?up s = Inr x" "pre = sent ?up s @ mid"
    "sent (restartEnvoy c ns) (after ?up s) = mid @ Patch DaemonSets ns' n p # post"
    by (rule bindE_phase [OF up _ gr assms]) auto
  from m(3) have f: "mid = [Now]" "ns' = ns" "n = ''envoy''" "post = []"
    by (auto simp: restartEnvoy_sent Cons_eq_append_conv)
  have "result (updateContourCerts c ns a b) s = Inr ()" using m(1) by simp
  from updateContourCerts_Inr [OF this] show ?thesis using m(2) f by auto
qed


definition contourCluster :: "request list \<Rightarrow> request \<Rightarrow> response" where
  "contourCluster h r = (case r of
       Get _ _ _ \<Rightarrow> Obj (ObjSecret \<lparr>secName = ''s'', secData = [(''tls.crt'', ''old'')]\<rparr>)
     | GenerateContourCerts _ \<Rightarrow> Strings [''ca'', ''c'', ''ck'', ''e'', ''ek'']
     | Now \<Rightarrow> Time 9
     | _ \<Rightarrow> Done)"

definition contourController :: controller where
  "contourController = NewController sampleConfig
     (sampleEnv contourCluster\<lparr>ParseCertsPEM := \<lambda>x. Inr [oldRegistryCert]\<rparr>)"


section \<open>The kurl proxy's certificate\<close>

lemma emits_selfSignedCertKey [emits_intros]:
  "(\<And>r. is_read r \<Longrightarrow> P r) \<Longrightarrow> emits P (selfSignedCertKey env host ips names)"
  unfolding selfSignedCertKey_def by (intro emits_intros) simp_all

lemma selfSignedCertKey_Inr:
  "result (selfSignedCertKey env host ips names) s = Inr (crt, key) \<Longrightarrow>
   respond env (history s) (GenerateSelfSignedCertKey host ips names) = Strings [crt, key]"
  unfolding selfSignedCertKey_def
  by (auto simp: result_bind split: response.splits list.splits)

definition renewsKurlProxy :: "controller \<Rightarrow> request \<Rightarrow> bool" where
  "renewsKurlProxy c r \<longleftrightarrow> is_read r \<or>
     (let ns = cfgKurlProxyCertNamespace (Config c); name = cfgKurlProxyCertSecret (Config c) in
      \<exists>(sec :: secret) old certs crt key h h' h''.
        r = Update Secrets ns (ObjSecret (sec\<lparr>secData :=
          store_map (store_map (secData sec) ''tls.crt'' crt) ''tls.key'' key\<rparr>)) \<and>
        as_obj dec_secret (respond (Client c) h (Get Secrets ns name)) = Inr sec \<and>
        ParseCertsPEM (Client c) (index_map (secData sec) ''tls.crt'') = Inr (old # certs) \<and>
        boundedDuration (xNotAfter old - clock (Client c) h') \<le> cfgRotateCertsTTL (Config c) \<and>
        \<not> customCert old \<and>
        respond (Client c) h'' (GenerateSelfSignedCertKey kotsadmHost (xIPAddresses old) (xDNSNames old)) =
          Strings [crt, key])"

lemma emits_renewKurlProxyCert:
  assumes "as_obj dec_secret (respond (Client c) h (Get Secrets (cfgKurlProxyCertNamespace (Config c))
      (cfgKurlProxyCertSecret (Config c)))) = Inr (sec :: secret)"
    and "ParseCertsPEM (Client c) (index_map (secData sec) ''tls.crt'') = Inr (old # certs)"
    and "boundedDuration (xNotAfter old - clock (Client c) h') \<le> cfgRotateCertsTTL (Config c)"
    and "\<not> customCert old"
  shows "emits (renewsKurlProxy c) (renewKurlProxyCert c (cfgKurlProxyCertNamespace (Config c)) sec old)"
proof -
  let ?gen = "selfSignedCertKey (Client c) kotsadmHost (xIPAddresses old) (xDNSNames old)"
  have update: "renewsKurlProxy c (Update Secrets (cfgKurlProxyCertNamespace (Config c)) (ObjSecret (sec\<lparr>secData :=
          store_map (store_map (secData sec) ''tls.crt'' crt) ''tls.key'' key\<rparr>)))"
    if "result (wrapE ''generate self-signed cert'' ?gen) s0 = Inr (crt, key)" for s0 crt key
  proof -
    have new: "respond (Client c) (history s0)
        (GenerateSelfSignedCertKey kotsadmHost (xIPAddresses old) (xDNSNames old)) = Strings [crt, key]"
      using that by (simp add: selfSignedCertKey_Inr)
    show ?thesis
      unfolding renewsKurlProxy_def Let_def
      by (rule disjI2, intro exI conjI) (rule refl | fact new assms)+
  qed
  show ?thesis
    unfolding renewKurlProxyCert_def
  proof (rule emits_bindE_result, intro emits_intros, simp add: renewsKurlProxy_def, clarify)
    fix s0 crt key
    assume "result (wrapE ''generate self-signed cert'' ?gen) s0 = Inr (crt, key)"
    from update [OF this]
    show "emits (renewsKurlProxy c) (bindE (ret (storeData sec ''tls.crt'' crt)) (\<lambda>sec.
         bindE (ret (storeData sec ''tls.key'' key)) (\<lambda>sec.
           wrapE ''update'' (send (Client c) (Update Secrets (cfgKurlProxyCertNamespace (Config c)) (ObjSecret sec))))))"
      by (intro emits_bindE_ret emits_wrapE emits_send) auto
  qed
qed

lemma emits_RotateKurlProxyCert: "emits (renewsKurlProxy c) (RotateKurlProxyCert c)"
proof -
  let ?ns = "cfgKurlProxyCertNamespace (Config c)" and ?name = "cfgKurlProxyCertSecret (Config c)"
  have read: "\<And>r. is_read r \<Longrightarrow> renewsKurlProxy c r" by (simp add: renewsKurlProxy_def)
  show ?thesis
    unfolding RotateKurlProxyCert_def Let_def
  proof (rule emits_bind_result, intro emits_intros read, simp, intro emits_case_sum emits_if emits_return
      emits_bindE_ret emits_case_list)
    fix s sec certs old rest
    assume sec: "result (getSecret c ?ns ?name) s = Inr sec"
      and crt: "ParseCertsPEM (Client c) (index_map (secData sec) ''tls.crt'') = Inr certs"
        "certs = old # rest"
    show "emits (renewsKurlProxy c) (do {
                  ttl \<leftarrow> Until (Client c) (xNotAfter old);
                  if ttl > cfgRotateCertsTTL (Config c) then Ok ()
                  else if customCert old then Ok () else renewKurlProxyCert c ?ns sec old })"
      by (rule emits_bind_result, intro emits_Until read, simp)
        (simp only: obs_Until, intro emits_if emits_return
          emits_renewKurlProxyCert [OF sec [unfolded result_getSecret] crt(1) [unfolded crt(2)]],
          simp_all add: not_less)
  qed
qed

text \<open>
  C30: The kurl proxy's certificate is renewed only when it is one that kURL or ekco made itself: a
  certificate of the operator of the cluster (a foreign issuer, or a subject that does not start with
  kotsadm's host name) is never replaced, nor one that is valid for longer than the configured time;
  the new pair is the generated one for the same addresses and names, and every other entry of the
  secret is kept.
\<close>

theorem RotateKurlProxyCert_own_only:
  assumes "r \<in> set (sent (RotateKurlProxyCert c) s)" "\<not> is_read r"
  shows "\<exists>(sec :: secret) old certs crt key h h' h''.
      r = Update Secrets (cfgKurlProxyCertNamespace (Config c)) (ObjSecret (sec\<lparr>secData :=
        store_map (store_map (secData sec) ''tls.crt'' crt) ''tls.key'' key\<rparr>)) \<and>
      as_obj dec_secret (respond (Client c) h
        (Get Secrets (cfgKurlProxyCertNamespace (Config c)) (cfgKurlProxyCertSecret (Config c)))) = Inr sec \<and>
      ParseCertsPEM (Client c) (index_map (secData sec) ''tls.crt'') = Inr (old # certs) \<and>
      boundedDuration (xNotAfter old - clock (Client c) h') \<le> cfgRotateCertsTTL (Config c) \<and>
      HasPrefix (xSubjectCommonName old) ''kotsadm.default.svc.cluster.local'' \<and>
      (xIssuerCommonName old = '''' \<or>
       HasPrefix (xIssuerCommonName old) ''kotsadm.default.svc.cluster.local'') \<and>
      respond (Client c) h'' (GenerateSelfSignedCertKey ''kotsadm.default.svc.cluster.local''
        (xIPAddresses old) (xDNSNames old)) = Strings [crt, key]"
proof -
  have "(let ns = cfgKurlProxyCertNamespace (Config c); name = cfgKurlProxyCertSecret (Config c) in
      \<exists>(sec :: secret) old certs crt key h h' h''.
        r = Update Secrets ns (ObjSecret (sec\<lparr>secData :=
          store_map (store_map (secData sec) ''tls.crt'' crt) ''tls.key'' key\<rparr>)) \<and>
        as_obj dec_secret (respond (Client c) h (Get Secrets ns name)) = Inr sec \<and>
        ParseCertsPEM (Client c) (index_map (secData sec) ''tls.crt'') = Inr (old # certs) \<and>
        boundedDuration (xNotAfter old - clock (Client c) h') \<le> cfgRotateCertsTTL (Config c) \<and>
        \<not> customCert old \<and>
        respond (Client c) h'' (GenerateSelfSignedCertKey kotsadmHost (xIPAddresses old) (xDNSNames old)) =
          Strings [crt, key])"
    using emits_sent [OF emits_RotateKurlProxyCert assms(1)] assms(2) unfolding renewsKurlProxy_def by blast
  then show ?thesis unfolding customCert_def kotsadmHost_def Let_def by blast
qed

definition proxyCluster :: "request list \<Rightarrow> request \<Rightarrow> response" where
  "proxyCluster h r = (case r of
       Get _ _ _ \<Rightarrow> Obj (ObjSecret \<lparr>secName = ''kotsadm-tls'', secData = [(''tls.crt'', ''old'')]\<rparr>)
     | GenerateSelfSignedCertKey _ _ _ \<Rightarrow> Strings [''crt'', ''key'']
     | Now \<Rightarrow> Time 9
     | _ \<Rightarrow> Done)"

definition proxyController :: controller where
  "proxyController = NewController sampleConfig (sampleEnv proxyCluster\<lparr>ParseCertsPEM := \<lambda>x.
     Inr [oldRegistryCert\<lparr>xSubjectCommonName := ''kotsadm.default.svc.cluster.local'',
            xIssuerCommonName := ''''\<rparr>]\<rparr>)"

theorem RotateKurlProxyCert_own_only_witness:
  "\<exists>r. r \<in> set (sent (RotateKurlProxyCert proxyController) sampleProc) \<and>
     (\<exists>(sec :: secret) crt key. r = Update Secrets ''default'' (ObjSecret (sec\<lparr>secData :=
        store_map (store_map (secData sec) ''tls.crt'' crt) ''tls.key'' key\<rparr>)))"
proof -
  let ?r = "Update Secrets ''default'' (ObjSecret \<lparr>secName = ''kotsadm-tls'',
      secData = [(''tls.crt'', ''crt''), (''tls.key'', ''key'')]\<rparr>)"
  have u: "?r \<in> set (sent (RotateKurlProxyCert proxyController) sampleProc)" by code_simp
  have n: "\<not> is_read ?r" by simp
  have ns: "cfgKurlProxyCertNamespace (Config proxyController) = ''default''" by code_simp
  show ?thesis
    using RotateKurlProxyCert_own_only [OF u n, unfolded ns] u
    by (elim exE conjE) (intro exI conjI, assumption+)
qed

section \<open>The kubelet client certificate of kotsadm\<close>

abbreviation kubeletReads :: "controller \<Rightarrow> request list" where
  "kubeletReads c \<equiv>
     [Get Secrets (cfgKotsadmKubeletCertNamespace (Config c)) (cfgKotsadmKubeletCertSecret (Config c)),
      ReadFile ''/etc/kubernetes/pki/apiserver-kubelet-client.crt'',
      ReadFile ''/etc/kubernetes/pki/apiserver-kubelet-client.key'']"

text \<open>The cluster's secret and the two files of the host, as a run starting in \<open>s\<close> reads them.\<close>

definition kubeletView :: "controller \<Rightarrow> proc \<Rightarrow> secret \<Rightarrow> string \<Rightarrow> string \<Rightarrow> bool" where
  "kubeletView c s sec crt key \<longleftrightarrow>
     respond (Client c) (history s) (kubeletReads c ! 0) = Obj (ObjSecret sec) \<and>
     respond (Client c) (history s @ take 1 (kubeletReads c)) (kubeletReads c ! 1) = Bytes crt \<and>
     respond (Client c) (history s @ take 2 (kubeletReads c)) (kubeletReads c ! 2) = Bytes key"

definition synced :: "secret \<Rightarrow> string \<Rightarrow> string \<Rightarrow> bool" where
  "synced sec crt key \<longleftrightarrow>
     index_map (secData sec) ''client.crt'' = crt \<and> index_map (secData sec) ''client.key'' = key"

definition syncData :: "(string \<times> string) list \<Rightarrow> string \<Rightarrow> string \<Rightarrow> (string \<times> string) list" where
  "syncData m k v = (if index_map m k \<noteq> v then store_map m k v else m)"

lemma store_map_not_Nil [simp]: "store_map m k v \<noteq> []"
  by (cases "(m, k, v)" rule: store_map.cases) auto

lemma kubeletClientFile_simps [simp]:
  "kubeletClientFile ''crt'' = ''/etc/kubernetes/pki/apiserver-kubelet-client.crt''"
  "kubeletClientFile ''key'' = ''/etc/kubernetes/pki/apiserver-kubelet-client.key''"
  by (simp_all add: kubeletClientFile_def)

lemma storeIfChanged_eq:
  "storeIfChanged k v (sec, changed) =
     (if index_map (secData sec) k = v then Inr (sec, changed)
      else if secData sec = [] then Inl (Panic ''assignment to entry in nil map'')
      else Inr (sec\<lparr>secData := store_map (secData sec) k v\<rparr>, True))"
  by (simp add: storeIfChanged_def storeData_def)

lemma run_UpdateKubelet:
  assumes "kubeletView c s sec crt key"
  shows "run_state (UpdateKubeletClientCertSecret c) s =
    run_state
      (bindE (ret (storeIfChanged ''client.crt'' crt (sec, False))) (\<lambda>state.
       bindE (ret (storeIfChanged ''client.key'' key state)) (\<lambda>(sec, needsUpdate).
         if \<not> needsUpdate then Ok ()
         else wrapE ''update'' (send (Client c)
           (Update Secrets (cfgKotsadmKubeletCertNamespace (Config c)) (ObjSecret sec))))))
      (s\<lparr>history := history s @ kubeletReads c\<rparr>)"
  using assms
  by (simp add: kubeletView_def UpdateKubeletClientCertSecret_def getSecret_def readFile_def as_pem_def Let_def)

lemma UpdateKubelet_synced:
  assumes "kubeletView c s sec crt key" "synced sec crt key"
  shows "sent (UpdateKubeletClientCertSecret c) s = kubeletReads c \<and>
    result (UpdateKubeletClientCertSecret c) s = Inr ()"
  unfolding sent_def result_def run_UpdateKubelet [OF assms(1)]
  using assms(2) by (simp add: storeIfChanged_eq synced_def)

lemma UpdateKubelet_changed:
  assumes "kubeletView c s sec crt key" "\<not> synced sec crt key" "secData sec \<noteq> []"
  shows "sent (UpdateKubeletClientCertSecret c) s = kubeletReads c @
    [Update Secrets (cfgKotsadmKubeletCertNamespace (Config c)) (ObjSecret (sec\<lparr>secData :=
       syncData (syncData (secData sec) ''client.crt'' crt) ''client.key'' key\<rparr>))]"
proof -
  let ?st = "(if index_map (secData sec) ''client.crt'' = crt then (sec, False)
    else (sec\<lparr>secData := store_map (secData sec) ''client.crt'' crt\<rparr>, True))"
  have 1: "storeIfChanged ''client.crt'' crt (sec, False) = Inr ?st"
    using assms(3) by (simp add: storeIfChanged_eq)
  show ?thesis
    unfolding sent_def run_UpdateKubelet [OF assms(1)] 1
    using assms(2,3) by (auto simp: storeIfChanged_eq synced_def syncData_def)
qed

text \<open>A secret without data is not updated: the operation panics.\<close>

lemma UpdateKubelet_empty_panics:
  assumes "kubeletView c s sec crt key" "secData sec = []" "crt \<noteq> ''''"
  shows "result (UpdateKubeletClientCertSecret c) s = Inl (Panic ''assignment to entry in nil map'')"
  unfolding result_def run_UpdateKubelet [OF assms(1)]
  using assms(2,3) by (simp add: storeIfChanged_eq index_map_def)

lemma synced_syncData:
  "synced (sec\<lparr>secData := syncData (syncData (secData sec) ''client.crt'' crt) ''client.key'' key\<rparr>) crt key"
  by (simp add: synced_def syncData_def)

lemma map_of_syncData: "f \<noteq> k \<Longrightarrow> map_of (syncData m k v) f = map_of m f"
  by (simp add: syncData_def)

text \<open>
  Copying the kubelet client certificate converges: a run on a secret that does not hold the two
  files of the host (and has some data) writes it once, with both files and every other entry kept,
  and a run that reads back what was written, with the same files, changes nothing and succeeds.
\<close>

lemma UpdateKubeletClientCertSecret_converges:
  assumes "kubeletView c s sec crt key" "\<not> synced sec crt key" "secData sec \<noteq> []"
  shows "\<exists>sec'. sent (UpdateKubeletClientCertSecret c) s = kubeletReads c @
      [Update Secrets (cfgKotsadmKubeletCertNamespace (Config c)) (ObjSecret sec')] \<and>
    synced sec' crt key \<and>
    (\<forall>f. f \<noteq> ''client.crt'' \<longrightarrow> f \<noteq> ''client.key'' \<longrightarrow>
       map_of (secData sec') f = map_of (secData sec) f) \<and>
    (\<forall>s'. kubeletView c s' sec' crt key \<longrightarrow>
       sent (UpdateKubeletClientCertSecret c) s' = kubeletReads c \<and>
       result (UpdateKubeletClientCertSecret c) s' = Inr ())"
  by (rule exI, intro conjI, rule UpdateKubelet_changed [OF assms], rule synced_syncData)
    (simp_all add: map_of_syncData UpdateKubelet_synced synced_syncData)

definition kubeletCluster :: "request list \<Rightarrow> request \<Rightarrow> response" where
  "kubeletCluster h r = (case r of
       Get _ _ _ \<Rightarrow> Obj (ObjSecret \<lparr>secName = ''kubelet-client-cert'', secData = [(''client.crt'', ''old'')]\<rparr>)
     | ReadFile _ \<Rightarrow> Bytes ''new''
     | _ \<Rightarrow> Done)"

lemma UpdateKubeletClientCertSecret_converges_sample:
  "\<exists>sec'. sent (UpdateKubeletClientCertSecret (sampleController kubeletCluster)) sampleProc =
      kubeletReads (sampleController kubeletCluster) @ [Update Secrets ''default'' (ObjSecret sec')] \<and>
    synced sec' ''new'' ''new''"
proof -
  let ?c = "sampleController kubeletCluster"
  let ?sec = "\<lparr>secName = ''kubelet-client-cert'', secData = [(''client.crt'', ''old'')]\<rparr>"
  have 1: "kubeletView ?c sampleProc ?sec ''new'' ''new''" by code_simp
  have 2: "\<not> synced ?sec ''new'' ''new''" by code_simp
  have 3: "secData ?sec \<noteq> []" by simp
  have ns: "cfgKotsadmKubeletCertNamespace (Config ?c) = ''default''" by code_simp
  from UpdateKubeletClientCertSecret_converges [OF 1 2 3, unfolded ns] show ?thesis
    unfolding ns by (elim exE conjE) (intro exI conjI, assumption+)
qed

end
