(* ===== verification/KubeadmCerts.thy ===== *)
theory KubeadmCerts
  imports CertSecrets
begin

text \<open>
  The commands that work on the certificates of one host: \<open>rotate-certs\<close>
  (\<open>src/pkg/rotate/rotate.go\<close>, \<open>src/cmd/ekco/cli/rotate-certs.go\<close>), which the pods of theory
  \<open>HostTasks\<close> run, and \<open>regen-cert\<close> (\<open>src/cmd/ekco/cli/regen-cert.go\<close>). kubeadm's renewal manager is
  reached through \<open>RenewCall\<close>: it lists certificates and says whether one exists, when it expires
  and whether it was renewed. What a command prints is part of its result, because the operator reads
  it back from the log of the pod.
\<close>

section \<open>rotate-certs\<close>

record restarts =
  restartControllerManager :: bool
  restartScheduler :: bool
  restartAPIServer :: bool

definition noRestarts :: restarts where
  "noRestarts = \<lparr>restartControllerManager = False, restartScheduler = False, restartAPIServer = False\<rparr>"

definition needsRestart :: "env \<Rightarrow> string \<Rightarrow> restarts \<Rightarrow> restarts" where
  "needsRestart env name rs =
     (if name = ControllerManagerKubeConfigFileName env then rs\<lparr>restartControllerManager := True\<rparr>
      else if name = SchedulerKubeConfigFileName env then rs\<lparr>restartScheduler := True\<rparr>
      else if name = APIServerEtcdClientCertAndKeyBaseName env then rs\<lparr>restartAPIServer := True\<rparr>
      else if name = APIServerKubeletClientCertAndKeyBaseName env then rs\<lparr>restartAPIServer := True\<rparr>
      else if name = FrontProxyClientCertAndKeyBaseName env then rs\<lparr>restartAPIServer := True\<rparr>
      else rs)"

definition renewBool :: "env \<Rightarrow> string \<Rightarrow> string \<Rightarrow> bool res go" where
  "renewBool env op name = do {
     r \<leftarrow> call env (RenewCall op name);
     ret (case r of Failed err \<Rightarrow> Inl err | Bool b \<Rightarrow> Inr b | _ \<Rightarrow> Inl badResponse) }"

definition renewTime :: "env \<Rightarrow> string \<Rightarrow> int res go" where
  "renewTime env name = do {
     r \<leftarrow> call env (RenewCall ''GetCertificateExpirationInfo'' name);
     ret (case r of Failed err \<Rightarrow> Inl err | Time t \<Rightarrow> Inr t | _ \<Rightarrow> Inl badResponse) }"

text \<open>
  What becomes of one certificate: the function returns (with an error or, where \<open>errors.Wrapf\<close> is
  given a nil error, without one), or the loop goes on, with the line printed and whether the
  certificate was rotated.
\<close>

datatype renewal = Returns "go_error option" | Continues string bool

definition renewOne :: "env \<Rightarrow> int \<Rightarrow> string \<Rightarrow> string \<Rightarrow> renewal go" where
  "renewOne env ttl hostname name = do {
     r \<leftarrow> renewBool env ''CertificateExists'' name;
     case r of
       Inl err \<Rightarrow> ret (Returns (Some (Wrap (''check for existing '' @ name @ '' on host '' @ hostname) err)))
     | Inr False \<Rightarrow> ret (Continues (''Missing certificate '' @ name @ '' on host '' @ hostname) False)
     | Inr True \<Rightarrow> do {
         r \<leftarrow> renewTime env name;
         case r of
           Inl err \<Rightarrow>
             ret (Returns (Some (Wrap (''get certificate '' @ name @ '' expiration on host '' @ hostname) err)))
         | Inr expiration \<Rightarrow> do {
             residual \<leftarrow> Until env expiration;
             if residual > ttl
             then do {
               residual \<leftarrow> Until env expiration;
               ret (Continues (name @ '' has '' @ ShortHumanDuration env residual @
                 '' until expiration on host '' @ hostname @ '', skipping renewal'') False) }
             else do {
               r \<leftarrow> renewBool env ''RenewUsingLocalCA'' name;
               ret (case r of
                   Inl err \<Rightarrow> Returns (Some (Wrap (''renew '' @ name @ '' on host '' @ hostname) err))
                 | Inr renewed \<Rightarrow>
                     (if \<not> renewed
                      then Returns (wrap_nilable None (name @ '' has external CA  on host '' @ hostname))
                      else Continues (''Rotated '' @ name @ '' on host '' @ hostname) True)) } } } }"

fun renewAll :: "env \<Rightarrow> int \<Rightarrow> string \<Rightarrow> string list \<Rightarrow> restarts \<Rightarrow> string list \<Rightarrow>
    (string list \<times> (go_error option + restarts)) go" where
  "renewAll env ttl hostname [] rs out = ret (out, Inr rs)"
| "renewAll env ttl hostname (name # names) rs out = do {
     r \<leftarrow> renewOne env ttl hostname name;
     case r of
       Returns err \<Rightarrow> ret (out, Inl err)
     | Continues line rotated \<Rightarrow>
         renewAll env ttl hostname names (if rotated then needsRestart env name rs else rs)
           (out @ [line]) }"

definition manifestPath :: "string \<Rightarrow> string" where
  "manifestPath filename = ''/etc/kubernetes/manifests/'' @ filename"

definition restartStaticPod :: "env \<Rightarrow> string \<Rightarrow> string \<Rightarrow> string list \<Rightarrow> (string list \<times> unit res) go" where
  "restartStaticPod env filename hostname out =
     (let p = manifestPath filename; tmp = ''/etc/kubernetes/'' @ filename;
          out = out @ [''Restarting static pod '' @ p @ '' on host '' @ hostname] in do {
        r \<leftarrow> bindE (wrapE (''mv '' @ p @ '' to '' @ tmp) (send env (Rename p tmp))) (\<lambda>_.
             wrapE (''mv '' @ tmp @ '' to '' @ p) (send env (Rename tmp p)));
        ret (out, r) })"

text \<open>The restarts, in order; the first error ends them.\<close>

fun restartStaticPods :: "env \<Rightarrow> string \<Rightarrow> string list \<Rightarrow> string list \<Rightarrow> (string list \<times> unit res) go" where
  "restartStaticPods env hostname [] out = ret (out, Inr ())"
| "restartStaticPods env hostname (f # fs) out = do {
     (out, r) \<leftarrow> restartStaticPod env f hostname out;
     case r of Inl err \<Rightarrow> ret (out, Inl err) | Inr _ \<Rightarrow> restartStaticPods env hostname fs out }"

definition podsToRestart :: "restarts \<Rightarrow> string list" where
  "podsToRestart rs =
     (if restartControllerManager rs then [''kube-controller-manager.yaml''] else []) @
     (if restartScheduler rs then [''kube-scheduler.yaml''] else []) @
     (if restartAPIServer rs then [''kube-apiserver.yaml''] else [])"

definition RotateCerts :: "env \<Rightarrow> int \<Rightarrow> string \<Rightarrow> (string list \<times> unit res) go" where
  "RotateCerts env ttl hostname = do {
     r \<leftarrow> call env (RenewCall ''NewManager'' ''/etc/kubernetes'');
     case r of
       Failed err \<Rightarrow> ret ([], Inl (Wrap ''new renewal manager'' err))
     | _ \<Rightarrow> do {
         r \<leftarrow> call env (RenewCall ''Certificates'' '''');
         (out, r) \<leftarrow> renewAll env ttl hostname (case r of Strings names \<Rightarrow> names | _ \<Rightarrow> []) noRestarts [];
         case r of
           Inl err \<Rightarrow> ret (out, res_of err)
         | Inr rs \<Rightarrow> restartStaticPods env hostname (podsToRestart rs) out } }"

text \<open>The command: what it prints and its exit code.\<close>

definition RotateCertsCmd :: "env \<Rightarrow> int \<Rightarrow> string \<Rightarrow> (string list \<times> int) go" where
  "RotateCertsCmd env ttl hostname = do {
     (out, r) \<leftarrow> RotateCerts env ttl hostname;
     ret (case r of Inl err \<Rightarrow> (out @ [''Error: '' @ errorText err], 1) | Inr _ \<Rightarrow> (out, 0)) }"

section \<open>regen-cert\<close>

fun dropNames :: "env \<Rightarrow> string list \<Rightarrow> string list \<Rightarrow> string list \<Rightarrow> string list \<times> string list" where
  "dropNames env [] ips names = (ips, names)"
| "dropNames env (d # ds) ips names =
     (case ParseIP env d of
        Some ip \<Rightarrow> dropNames env ds (List.insert ip ips) names
      | None \<Rightarrow> dropNames env ds ips (List.insert d names))"

fun keepIPs :: "string list \<Rightarrow> string list \<Rightarrow> (string \<times> string) list \<Rightarrow> (string \<times> string) list" where
  "keepIPs dropped [] kept = kept"
| "keepIPs dropped (ip # ips) kept =
     keepIPs dropped ips (if ip \<in> set dropped then kept else store_map kept ip ip)"

fun keepDNSNames :: "string list \<Rightarrow> string list \<Rightarrow> (string \<times> string) list \<Rightarrow> (string \<times> string) list" where
  "keepDNSNames dropped [] kept = kept"
| "keepDNSNames dropped (n # ns) kept =
     keepDNSNames dropped ns
       (if n = '''' then kept else if n \<in> set dropped then kept else store_map kept n n)"

text \<open>
  The names to add. For a DNS name the code looks up the text of the address, which is nil there and
  prints as \<open><nil>\<close>, instead of the name.
\<close>

fun addNames :: "env \<Rightarrow> string list \<Rightarrow> (string \<times> string) list \<Rightarrow> (string \<times> string) list \<Rightarrow>
    (string \<times> string) list \<times> (string \<times> string) list" where
  "addNames env [] ips names = (ips, names)"
| "addNames env (a # as) ips names =
     (if a = '''' then addNames env as ips names
      else case ParseIP env a of
        Some ip \<Rightarrow>
          (if map_of ips ip \<noteq> None then addNames env as ips names
           else addNames env as (store_map ips ip ip) names)
      | None \<Rightarrow>
          (if map_of names ''<nil>'' \<noteq> None then addNames env as ips names
           else addNames env as ips (store_map names a a)))"

definition newAltNames :: "env \<Rightarrow> string \<Rightarrow> string \<Rightarrow> x509 \<Rightarrow> (string \<times> string) list \<times> (string \<times> string) list" where
  "newAltNames env addAltNames dropAltNames crt =
     (let (dropIPs, dropDNSNames) = dropNames env (Split (CHR '','') dropAltNames) [] [] in
      addNames env (Split (CHR '','') addAltNames)
        (keepIPs dropIPs (xIPAddresses crt) []) (keepDNSNames dropDNSNames (xDNSNames crt) []))"

definition RegenCert :: "env \<Rightarrow> string \<Rightarrow> string \<Rightarrow> unit res go" where
  "RegenCert env addAltNames dropAltNames =
     (let certPath = ''/etc/kubernetes/pki/apiserver.crt'' in
      bindE (wrapE (''parse cert from '' @ certPath)
          (bindE (do { r \<leftarrow> call env (ReadFile certPath); ret (as_pem r) })
             (\<lambda>data. ret (ParseCertsPEM env data)))) (\<lambda>certs.
        case certs of
          [crt] \<Rightarrow>
            bindE (wrapE (''get encryption algorithm type from '' @ certPath)
                (ret (GetEncryptionAlgorithmType crt))) (\<lambda>encryptionAlgorithm.
              (let (newCertIPs, newCertDNSNames) = newAltNames env addAltNames dropAltNames crt in do {
                 ips \<leftarrow> rangeMap env 0 newCertIPs;
                 names \<leftarrow> rangeMap env 1 newCertDNSNames;
                 let cfg = \<lparr>CommonName = xSubjectCommonName crt, Organization = xSubjectOrganization crt,
                   AltNamesIPs = map snd ips, AltNamesDNSNames = map snd names,
                   Usages = xExtKeyUsage crt, NotBefore = None, NotAfter = Some (xNotAfter crt),
                   PublicKeyAlgorithm = encryptionAlgorithm\<rparr>;
                 bindE (wrapE ''parse CA from /etc/kubernets/pki'' (loadClusterCA env)) (\<lambda>(caCert, caKey).
                 bindE (wrapE (''regenerate '' @ certPath) (do {
                     r \<leftarrow> call env (RenewFromCA cfg caCert caKey);
                     ret (case r of Failed err \<Rightarrow> Inl err | CertKey crt key \<Rightarrow> Inr (crt, key)
                       | _ \<Rightarrow> Inl badResponse) })) (\<lambda>(newCert, newKey).
                   wrapE ''write new cert to /etc/kubernetes/pki/apiserver.crt''
                     (send env (WriteCertAndKey ''/etc/kubernetes/pki'' ''apiserver'' newCert newKey)))) }))
        | _ \<Rightarrow> Fail (NewErr (''Expected exactly 1 cert in '' @ certPath @ '', got '' @
                 Itoa (int (length certs))))))"

section \<open>What rotate-certs restarts\<close>

text \<open>The certificates that the renewal manager reported renewed (or, with \<open>False\<close>, not renewed).\<close>

fun renewAnswers :: "env \<Rightarrow> bool \<Rightarrow> request list \<Rightarrow> request list \<Rightarrow> string list" where
  "renewAnswers env b h [] = []"
| "renewAnswers env b h (r # t) =
     (case r of
        RenewCall op name \<Rightarrow>
          (if op = ''RenewUsingLocalCA'' \<and> respond env h r = Bool b then [name] else [])
      | _ \<Rightarrow> []) @ renewAnswers env b (h @ [r]) t"

lemma renewAnswers_append:
  "renewAnswers env b h (t @ u) = renewAnswers env b h t @ renewAnswers env b (h @ t) u"
  by (induction t arbitrary: h) auto

fun is_rename :: "request \<Rightarrow> bool" where
  "is_rename (Rename _ _) = True"
| "is_rename _ = False"

lemma renewOne_sent:
  "\<not> list_ex is_rename (sent (renewOne env ttl hostname name) s) \<and>
   renewAnswers env True (history s) (sent (renewOne env ttl hostname name) s) =
     (case result (renewOne env ttl hostname name) s of Continues l True \<Rightarrow> [name] | _ \<Rightarrow> []) \<and>
   renewAnswers env False (history s) (sent (renewOne env ttl hostname name) s) =
     (case result (renewOne env ttl hostname name) s of Returns None \<Rightarrow> [name] | _ \<Rightarrow> [])"
proof -
  note d = renewOne_def sent_def result_def renewBool_def renewTime_def Until_def
  show ?thesis
    by (simp add: d split: response.split bool.split sum.split)
qed

lemma grows_renewOne: "grows (renewOne env ttl hostname name)"
  unfolding renewOne_def renewBool_def renewTime_def by (intro emits_intros TrueI)

lemma grows_renewAll: "grows (renewAll env ttl hostname names rs out)"
  by (induction env ttl hostname names rs out rule: renewAll.induct)
    (auto intro!: emits_intros grows_renewOne split: renewal.split)

definition afterRotations :: "env \<Rightarrow> restarts \<Rightarrow> string list \<Rightarrow> restarts" where
  "afterRotations env rs names = foldl (\<lambda>rs name. needsRestart env name rs) rs names"

lemma renewAll_sent:
  "let m = renewAll env ttl hostname names rs out in
    \<not> list_ex is_rename (sent m s) \<and>
    (case snd (result m s) of
       Inr rs' \<Rightarrow> rs' = afterRotations env rs (renewAnswers env True (history s) (sent m s)) \<and>
         renewAnswers env False (history s) (sent m s) = []
     | Inl None \<Rightarrow> renewAnswers env False (history s) (sent m s) \<noteq> []
     | Inl (Some e) \<Rightarrow> renewAnswers env False (history s) (sent m s) = [])"
  unfolding Let_def
proof (induction names arbitrary: rs out s)
  case Nil
  then show ?case by (simp add: afterRotations_def)
next
  case (Cons name names)
  let ?o = "renewOne env ttl hostname name"
  let ?k = "\<lambda>r. case r of Returns err \<Rightarrow> ret (out, Inl err)
     | Continues line rotated \<Rightarrow>
         renewAll env ttl hostname names (if rotated then needsRestart env name rs else rs) (out @ [line])"
  have gk: "grows (?k r)" for r by (cases r) (simp_all add: emits_intros grows_renewAll)
  have t: "sent (renewAll env ttl hostname (name # names) rs out) s =
      sent ?o s @ sent (?k (result ?o s)) (after ?o s)"
    unfolding renewAll.simps by (rule sent_bind [OF grows_renewOne gk])
  have h: "history (after ?o s) = history s @ sent ?o s" by (rule grows_history [OF grows_renewOne])
  have r: "result (renewAll env ttl hostname (name # names) rs out) s =
      result (?k (result ?o s)) (after ?o s)"
    by (simp add: result_bind)
  note one = renewOne_sent [of env ttl hostname name s]
  show ?case
  proof (cases "result ?o s")
    case (Returns err)
    then show ?thesis using one unfolding t r
      by (auto simp: renewAnswers_append split: option.split)
  next
    case (Continues line rotated)
    let ?rs = "if rotated then needsRestart env name rs else rs"
    let ?m = "renewAll env ttl hostname names ?rs (out @ [line])"
    have IH: "\<not> list_ex is_rename (sent ?m (after ?o s)) \<and>
      (case snd (result ?m (after ?o s)) of
       Inr rs' \<Rightarrow> rs' = afterRotations env ?rs
            (renewAnswers env True (history s @ sent ?o s) (sent ?m (after ?o s))) \<and>
         renewAnswers env False (history s @ sent ?o s) (sent ?m (after ?o s)) = []
     | Inl None \<Rightarrow> renewAnswers env False (history s @ sent ?o s) (sent ?m (after ?o s)) \<noteq> []
     | Inl (Some e) \<Rightarrow> renewAnswers env False (history s @ sent ?o s) (sent ?m (after ?o s)) = [])"
      using Cons.IH [of ?rs "out @ [line]" "after ?o s"] unfolding h .
    have a: "renewAnswers env True (history s) (sent ?o s) = (if rotated then [name] else [])"
      "renewAnswers env False (history s) (sent ?o s) = []"
      using one Continues by auto
    show ?thesis
      using IH one a Continues unfolding t r
      by (cases rotated; cases "result ?m (after ?o s)")
        (simp_all add: renewAnswers_append afterRotations_def split: sum.splits option.splits)
  qed
qed

text \<open>The moves of the manifests that restart the static pods of the given files.\<close>

definition restartMoves :: "string list \<Rightarrow> request list" where
  "restartMoves fs = concat (map (\<lambda>f. [Rename (''/etc/kubernetes/manifests/'' @ f) (''/etc/kubernetes/'' @ f),
     Rename (''/etc/kubernetes/'' @ f) (''/etc/kubernetes/manifests/'' @ f)]) fs)"

lemma restartStaticPods_run:
  "snd (result (restartStaticPods env hostname fs out) s) = Inr () \<Longrightarrow>
   sent (restartStaticPods env hostname fs out) s = restartMoves fs"
proof (induction fs arbitrary: out s)
  case Nil
  then show ?case by (simp add: restartMoves_def)
next
  case (Cons f fs)
  let ?o = "restartStaticPod env f hostname out"
  let ?k = "\<lambda>(out, r). case r of Inl err \<Rightarrow> ret (out, Inl err)
      | Inr _ \<Rightarrow> restartStaticPods env hostname fs out"
  have g: "grows ?o" unfolding restartStaticPod_def Let_def by (intro emits_intros TrueI)
  have gs: "grows (restartStaticPods env hostname fs out)" for out
    by (induction env hostname fs out rule: restartStaticPods.induct)
      (auto simp: restartStaticPod_def Let_def intro!: emits_intros)
  have gk: "grows (?k x)" for x by (cases x) (auto intro!: emits_intros gs split: sum.split)
  have t: "sent (restartStaticPods env hostname (f # fs) out) s =
      sent ?o s @ sent (?k (result ?o s)) (after ?o s)"
    unfolding restartStaticPods.simps by (rule sent_bind [OF g gk])
  have ok: "snd (result (?k (result ?o s)) (after ?o s)) = Inr ()"
    using Cons.prems by (simp add: result_bind)
  then obtain out' where o: "result ?o s = (out', Inr ())"
    by (cases "result ?o s") (auto split: sum.splits)
  then have so: "sent ?o s = restartMoves [f]"
    by (auto simp: restartStaticPod_def sent_def result_def restartMoves_def manifestPath_def Let_def
        split: sum.splits)
  have "sent (restartStaticPods env hostname fs out') (after ?o s) = restartMoves fs"
    using ok o by (intro Cons.IH) simp
  then show ?case unfolding t so o by (simp add: restartMoves_def)
qed

text \<open>Which static pods have to be restarted after the given certificates were rotated.\<close>

definition staleStaticPods :: "env \<Rightarrow> string list \<Rightarrow> string list" where
  "staleStaticPods env rotated =
     (if ControllerManagerKubeConfigFileName env \<in> set rotated then [''kube-controller-manager.yaml''] else []) @
     (if SchedulerKubeConfigFileName env \<in> set rotated then [''kube-scheduler.yaml''] else []) @
     (if set rotated \<inter> {APIServerEtcdClientCertAndKeyBaseName env,
           APIServerKubeletClientCertAndKeyBaseName env, FrontProxyClientCertAndKeyBaseName env} \<noteq> {}
      then [''kube-apiserver.yaml''] else [])"

lemma podsToRestart_afterRotations:
  assumes "distinct [ControllerManagerKubeConfigFileName env, SchedulerKubeConfigFileName env,
      APIServerEtcdClientCertAndKeyBaseName env, APIServerKubeletClientCertAndKeyBaseName env,
      FrontProxyClientCertAndKeyBaseName env]"
  shows "podsToRestart (afterRotations env noRestarts names) = staleStaticPods env names"
proof -
  let ?A = "{APIServerEtcdClientCertAndKeyBaseName env, APIServerKubeletClientCertAndKeyBaseName env,
      FrontProxyClientCertAndKeyBaseName env}"
  have "restartControllerManager (afterRotations env rs names) \<longleftrightarrow>
          restartControllerManager rs \<or> ControllerManagerKubeConfigFileName env \<in> set names"
    "restartScheduler (afterRotations env rs names) \<longleftrightarrow>
          restartScheduler rs \<or> SchedulerKubeConfigFileName env \<in> set names"
    "restartAPIServer (afterRotations env rs names) \<longleftrightarrow> restartAPIServer rs \<or> set names \<inter> ?A \<noteq> {}" for rs
    using assms by (induction names arbitrary: rs) (auto simp: afterRotations_def needsRestart_def)
  then show ?thesis by (simp add: podsToRestart_def staleStaticPods_def noRestarts_def)
qed

lemma emits_restartStaticPods: "emits is_rename (restartStaticPods env hostname fs out)"
proof (induction env hostname fs out rule: restartStaticPods.induct)
  case (2 env hostname f fs out)
  show ?case
    by (auto simp: restartStaticPod_def Let_def intro!: emits_intros 2)
qed (simp add: emits_return)

lemma renewAnswers_renames: "list_all is_rename t \<Longrightarrow> renewAnswers env b h t = []"
  by (induction t arbitrary: h) (auto split: request.splits)

lemma filter_renames: "list_all is_rename t \<Longrightarrow> filter is_rename t = t"
  by (induction t) auto

lemma filter_no_renames: "\<not> list_ex is_rename t \<Longrightarrow> filter is_rename t = []"
  by (induction t) auto

definition finishRotation :: "env \<Rightarrow> string \<Rightarrow> string list \<times> (go_error option + restarts) \<Rightarrow>
    (string list \<times> unit res) go" where
  "finishRotation env hostname = (\<lambda>(out, r). case r of Inl err \<Rightarrow> ret (out, res_of err)
         | Inr rs \<Rightarrow> restartStaticPods env hostname (podsToRestart rs) out)"

lemma emits_finishRotation: "emits is_rename (finishRotation env hostname x)"
  unfolding finishRotation_def
  by (cases x) (auto intro!: emits_intros emits_restartStaticPods split: sum.split)

text \<open>A run of the command: the renewal manager cannot be made, or the loop runs and then the restarts.\<close>

lemma RotateCerts_run:
  obtains (failed) e where
    "run_state (RotateCerts env ttl hostname) s = (([], Inl (Wrap ''new renewal manager'' e)),
       s\<lparr>history := history s @ [RenewCall ''NewManager'' ''/etc/kubernetes'']\<rparr>)"
  | (loop) names m s0 where "m = renewAll env ttl hostname names noRestarts []"
      "names = [] \<or> (\<exists>h. respond env h (RenewCall ''Certificates'' '''') = Strings names)"
      "sent (RotateCerts env ttl hostname) s =
         [RenewCall ''NewManager'' ''/etc/kubernetes'', RenewCall ''Certificates'' ''''] @
         sent m s0 @ sent (finishRotation env hostname (result m s0)) (after m s0)"
      "result (RotateCerts env ttl hostname) s =
         result (finishRotation env hostname (result m s0)) (after m s0)"
      "\<And>b. renewAnswers env b (history s) (sent (RotateCerts env ttl hostname) s) =
         renewAnswers env b (history s0) (sent m s0)"
proof -
  let ?NM = "RenewCall ''NewManager'' ''/etc/kubernetes''" and ?CS = "RenewCall ''Certificates'' ''''"
  let ?names = "case respond env (history s @ [?NM]) ?CS of Strings names \<Rightarrow> names | _ \<Rightarrow> []"
  let ?s = "s\<lparr>history := history s @ [?NM, ?CS]\<rparr>"
  define m where "m = renewAll env ttl hostname ?names noRestarts []"
  let ?k = "finishRotation env hostname"
  have gk: "grows (?k x)" for x by (rule emits_grows [OF emits_finishRotation])
  have gm: "grows m" unfolding m_def by (rule grows_renewAll)
  show thesis
  proof (cases "\<exists>e. respond env (history s) ?NM = Failed e")
    case True
    then show thesis by (auto simp: RotateCerts_def intro: failed)
  next
    case False
    then have run: "run_state (RotateCerts env ttl hostname) s = run_state (m \<bind> ?k) ?s"
      by (auto simp: RotateCerts_def m_def finishRotation_def split: response.split)
    have t: "sent (RotateCerts env ttl hostname) s =
        [?NM, ?CS] @ sent m ?s @ sent (?k (result m ?s)) (after m ?s)"
      using sent_bind [OF gm gk, where s = ?s] grows_history [OF emits_bind [OF gm gk], where s = ?s]
      by (simp add: sent_def run after_def)
    have a: "renewAnswers env b (history s) (sent (RotateCerts env ttl hostname) s) =
        renewAnswers env b (history ?s) (sent m ?s)" for b
      unfolding t renewAnswers_append
      by (simp add: renewAnswers_renames [OF emits_sent_all [OF emits_finishRotation]])
    show thesis
      using result_bind [of m ?k ?s] run
      by (intro loop [OF m_def _ t _ a]) (auto simp: result_def split: response.split)
  qed
qed

text \<open>
  C11: The static pods restarted on a host are exactly those that read a rotated certificate only at
  their start: when the command succeeds and every certificate due was renewed, each of their
  manifests is moved away and back, the controller manager's first and the API server's last, and
  nothing else is moved. When one of the certificates turns out to have an external authority, however,
  the command reports success at once, and restarts nothing, even though others were rotated.
\<close>

theorem RotateCerts_restarts:
  assumes "distinct [ControllerManagerKubeConfigFileName env, SchedulerKubeConfigFileName env,
      APIServerEtcdClientCertAndKeyBaseName env, APIServerKubeletClientCertAndKeyBaseName env,
      FrontProxyClientCertAndKeyBaseName env]"
  shows "let t = sent (RotateCerts env ttl hostname) s;
             rotated = renewAnswers env True (history s) t;
             external = renewAnswers env False (history s) t;
             r = snd (result (RotateCerts env ttl hostname) s) in
    (external \<noteq> [] \<longrightarrow> r = Inr () \<and> filter is_rename t = []) \<and>
    (external = [] \<and> r = Inr () \<longrightarrow> filter is_rename t = restartMoves (staleStaticPods env rotated))"
proof (cases rule: RotateCerts_run [of env ttl hostname s])
  case (failed e)
  then show ?thesis by (simp add: result_def sent_def)
next
  case (loop names m s0)
  let ?k = "finishRotation env hostname (result m s0)"
  have all: "\<not> list_ex is_rename (sent m s0)"
    "case snd (result m s0) of
       Inr rs' \<Rightarrow> rs' = afterRotations env noRestarts (renewAnswers env True (history s0) (sent m s0)) \<and>
         renewAnswers env False (history s0) (sent m s0) = []
     | Inl None \<Rightarrow> renewAnswers env False (history s0) (sent m s0) \<noteq> []
     | Inl (Some e) \<Rightarrow> renewAnswers env False (history s0) (sent m s0) = []"
    unfolding loop(1) using renewAll_sent [unfolded Let_def] by blast+
  have f: "filter is_rename (sent (RotateCerts env ttl hostname) s) = sent ?k (after m s0)"
    unfolding loop(3)
    by (simp add: filter_no_renames [OF all(1)] filter_renames [OF emits_sent_all [OF emits_finishRotation]])
  show ?thesis
    unfolding Let_def loop(4,5) f
    using all(2) restartStaticPods_run podsToRestart_afterRotations [OF assms]
    by (cases "result m s0") (auto simp: finishRotation_def split: sum.splits option.splits)
qed

text \<open>A host with two certificates that have expired, the second of them with an external authority or not.\<close>

definition twoCertificates :: "bool \<Rightarrow> request list \<Rightarrow> request \<Rightarrow> response" where
  "twoCertificates external h r = (case r of
       RenewCall op name \<Rightarrow>
         (if op = ''Certificates'' then Strings [''scheduler.conf'', ''apiserver'']
          else if op = ''CertificateExists'' then Bool True
          else if op = ''GetCertificateExpirationInfo'' then Time 0
          else if op = ''RenewUsingLocalCA'' then Bool (name = ''scheduler.conf'' \<or> \<not> external)
          else Done)
     | Now \<Rightarrow> Time 9
     | _ \<Rightarrow> Done)"

theorem RotateCerts_restarts_witness:
  "filter is_rename (sent (RotateCerts (sampleEnv (twoCertificates False)) 5 ''a'') sampleProc) =
     [Rename ''/etc/kubernetes/manifests/kube-scheduler.yaml'' ''/etc/kubernetes/kube-scheduler.yaml'',
      Rename ''/etc/kubernetes/kube-scheduler.yaml'' ''/etc/kubernetes/manifests/kube-scheduler.yaml''] \<and>
   filter is_rename (sent (RotateCerts (sampleEnv (twoCertificates True)) 5 ''a'') sampleProc) = [] \<and>
   snd (result (RotateCerts (sampleEnv (twoCertificates True)) 5 ''a'') sampleProc) = Inr ()"
proof -
  let ?e = "\<lambda>b. sampleEnv (twoCertificates b)"
  let ?m = "\<lambda>b. RotateCerts (?e b) 5 ''a''"
  have d: "distinct [ControllerManagerKubeConfigFileName (?e b), SchedulerKubeConfigFileName (?e b),
      APIServerEtcdClientCertAndKeyBaseName (?e b), APIServerKubeletClientCertAndKeyBaseName (?e b),
      FrontProxyClientCertAndKeyBaseName (?e b)]" for b
    by (simp add: sampleEnv_def)
  note run = sent_def result_def RotateCerts_def renewOne_def renewBool_def renewTime_def Until_def
    twoCertificates_def sampleEnv_def needsRestart_def noRestarts_def podsToRestart_def
    restartStaticPod_def manifestPath_def boundedDuration_def Let_def
  have 1: "sent (?m False) sampleProc = [RenewCall ''NewManager'' ''/etc/kubernetes'',
      RenewCall ''Certificates'' '''', RenewCall ''CertificateExists'' ''scheduler.conf'',
      RenewCall ''GetCertificateExpirationInfo'' ''scheduler.conf'', Now,
      RenewCall ''RenewUsingLocalCA'' ''scheduler.conf'', RenewCall ''CertificateExists'' ''apiserver'',
      RenewCall ''GetCertificateExpirationInfo'' ''apiserver'', Now,
      RenewCall ''RenewUsingLocalCA'' ''apiserver'',
      Rename ''/etc/kubernetes/manifests/kube-scheduler.yaml'' ''/etc/kubernetes/kube-scheduler.yaml'',
      Rename ''/etc/kubernetes/kube-scheduler.yaml'' ''/etc/kubernetes/manifests/kube-scheduler.yaml'']"
    "snd (result (?m False) sampleProc) = Inr ()"
    by (simp_all add: run)
  have 2: "sent (?m True) sampleProc = [RenewCall ''NewManager'' ''/etc/kubernetes'',
      RenewCall ''Certificates'' '''', RenewCall ''CertificateExists'' ''scheduler.conf'',
      RenewCall ''GetCertificateExpirationInfo'' ''scheduler.conf'', Now,
      RenewCall ''RenewUsingLocalCA'' ''scheduler.conf'', RenewCall ''CertificateExists'' ''apiserver'',
      RenewCall ''GetCertificateExpirationInfo'' ''apiserver'', Now,
      RenewCall ''RenewUsingLocalCA'' ''apiserver'']"
    by (simp add: run)
  have 3: "renewAnswers (?e False) False [] (sent (?m False) sampleProc) = []"
    "renewAnswers (?e True) False [] (sent (?m True) sampleProc) \<noteq> []"
    by (simp_all add: 1 2 twoCertificates_def)
  have "filter is_rename (sent (?m True) sampleProc) = []" "snd (result (?m True) sampleProc) = Inr ()"
    using RotateCerts_restarts [OF d, of True 5 "''a''" sampleProc] 3(2) unfolding Let_def by simp_all
  moreover have "filter is_rename (sent (?m False) sampleProc) = restartMoves (staleStaticPods (?e False)
      (renewAnswers (?e False) True (history sampleProc) (sent (?m False) sampleProc)))"
    using RotateCerts_restarts [OF d, of False 5 "''a''" sampleProc] 3(1) 1(2) unfolding Let_def by simp
  moreover have "renewAnswers (?e False) True (history sampleProc) (sent (?m False) sampleProc) =
      [''scheduler.conf'', ''apiserver'']"
    by (simp add: 1 twoCertificates_def)
  moreover have "restartMoves (staleStaticPods (?e False) [''scheduler.conf'', ''apiserver'']) =
     [Rename ''/etc/kubernetes/manifests/kube-scheduler.yaml'' ''/etc/kubernetes/kube-scheduler.yaml'',
      Rename ''/etc/kubernetes/kube-scheduler.yaml'' ''/etc/kubernetes/manifests/kube-scheduler.yaml'']"
    by (simp add: staleStaticPods_def restartMoves_def sampleEnv_def)
  ultimately show ?thesis by simp
qed

section \<open>What the operator makes of the output\<close>

text \<open>Names of certificates do not look like the lines the operator looks for.\<close>

definition plainName :: "string \<Rightarrow> bool" where
  "plainName n \<longleftrightarrow> n \<noteq> '''' \<and> hd n \<noteq> CHR ''E'' \<and> hd n \<noteq> CHR ''R''"

lemma HasPrefix_hd: "HasPrefix s (x # p) \<Longrightarrow> s \<noteq> [] \<and> hd s = x"
  by (cases s) (auto simp: HasPrefix_def)

lemma logLevel_lines:
  "logLevel (''Error: '' @ x) = LogError" "logLevel (''Rotated '' @ x) = LogInfo"
  "logLevel (''Restarting static pod '' @ x) = LogInfo" "logLevel (''Missing certificate '' @ x) = LogDebug"
  by (simp_all add: logLevel_def HasPrefix_def)

lemmas logLevel_chars = logLevel_lines [simplified]

lemma logLevel_plain: "plainName n \<Longrightarrow> logLevel (n @ x) = LogDebug"
  unfolding logLevel_def plainName_def
  by (auto dest!: HasPrefix_hd)

definition infoLines :: "string list \<Rightarrow> string list" where
  "infoLines out = filter (\<lambda>l. logLevel l = LogInfo) out"

definition rotatedLine :: "string \<Rightarrow> string \<Rightarrow> string" where
  "rotatedLine hostname name = ''Rotated '' @ name @ '' on host '' @ hostname"

definition restartingLine :: "string \<Rightarrow> string \<Rightarrow> string" where
  "restartingLine hostname f =
     ''Restarting static pod /etc/kubernetes/manifests/'' @ f @ '' on host '' @ hostname"

lemma renewOne_line:
  assumes "plainName name" "result (renewOne env ttl hostname name) s = Continues line rotated"
  shows "logLevel line \<noteq> LogError \<and> infoLines [line] = (if rotated then [rotatedLine hostname name] else [])"
  using assms unfolding renewOne_def renewBool_def renewTime_def
  by (auto simp: result_bind infoLines_def rotatedLine_def logLevel_chars logLevel_plain
      split: response.splits sum.splits bool.splits if_splits)

lemma renewAll_lines:
  assumes "\<forall>n\<in>set names. plainName n"
  shows "let m = renewAll env ttl hostname names rs out; t = sent m s in
    \<exists>lines. fst (result m s) = out @ lines \<and> (\<forall>l\<in>set lines. logLevel l \<noteq> LogError) \<and>
      infoLines lines = map (rotatedLine hostname) (renewAnswers env True (history s) t)"
  using assms unfolding Let_def
proof (induction names arbitrary: rs out s)
  case Nil
  then show ?case by (simp add: infoLines_def)
next
  case (Cons name names)
  let ?o = "renewOne env ttl hostname name"
  let ?k = "\<lambda>r. case r of Returns err \<Rightarrow> ret (out, Inl err)
     | Continues line rotated \<Rightarrow>
         renewAll env ttl hostname names (if rotated then needsRestart env name rs else rs) (out @ [line])"
  have gk: "grows (?k r)" for r by (cases r) (simp_all add: emits_intros grows_renewAll)
  have t: "sent (renewAll env ttl hostname (name # names) rs out) s =
      sent ?o s @ sent (?k (result ?o s)) (after ?o s)"
    unfolding renewAll.simps by (rule sent_bind [OF grows_renewOne gk])
  have h: "history (after ?o s) = history s @ sent ?o s" by (rule grows_history [OF grows_renewOne])
  have r: "result (renewAll env ttl hostname (name # names) rs out) s =
      result (?k (result ?o s)) (after ?o s)"
    by (simp add: result_bind)
  note one = renewOne_sent [of env ttl hostname name s]
  show ?case
  proof (cases "result ?o s")
    case (Returns err)
    then show ?thesis using one unfolding t r by (simp add: renewAnswers_append infoLines_def)
  next
    case (Continues line rotated)
    let ?rs = "if rotated then needsRestart env name rs else rs"
    let ?m = "renewAll env ttl hostname names ?rs (out @ [line])"
    obtain lines where lines: "fst (result ?m (after ?o s)) = (out @ [line]) @ lines"
      "\<forall>l\<in>set lines. logLevel l \<noteq> LogError"
      "infoLines lines = map (rotatedLine hostname) (renewAnswers env True (history s @ sent ?o s) (sent ?m (after ?o s)))"
      using Cons.IH [of ?rs "out @ [line]" "after ?o s"] Cons.prems unfolding h by auto
    have line: "logLevel line \<noteq> LogError \<and> infoLines [line] = (if rotated then [rotatedLine hostname name] else [])"
      using Cons.prems by (intro renewOne_line [OF _ Continues]) simp
    have a: "renewAnswers env True (history s) (sent ?o s) = (if rotated then [name] else [])"
      using one Continues by (cases rotated) auto
    have "infoLines (line # lines) = infoLines [line] @ infoLines lines" by (simp add: infoLines_def)
    then show ?thesis using lines line a Continues unfolding t r
      by (intro exI [of _ "line # lines"]) (cases rotated; simp add: renewAnswers_append)
  qed
qed

lemma restartStaticPods_lines:
  "\<exists>lines. fst (result (restartStaticPods env hostname fs out) s) = out @ lines \<and>
     (\<forall>l\<in>set lines. logLevel l \<noteq> LogError) \<and>
     (snd (result (restartStaticPods env hostname fs out) s) = Inr () \<longrightarrow>
        infoLines lines = map (restartingLine hostname) fs)"
proof (induction fs arbitrary: out s)
  case Nil
  then show ?case by (simp add: infoLines_def)
next
  case (Cons f fs)
  let ?line = "restartingLine hostname f"
  have l: "''Restarting static pod '' @ manifestPath f @ '' on host '' @ hostname = ?line"
    by (simp add: restartingLine_def manifestPath_def)
  have lv: "logLevel ?line = LogInfo" "infoLines (?line # ls) = ?line # infoLines ls" for ls
    by (simp_all add: logLevel_def HasPrefix_def restartingLine_def infoLines_def)
  let ?o = "restartStaticPod env f hostname out"
  obtain r where o: "result ?o s = (out @ [?line], r)"
    unfolding restartStaticPod_def Let_def l by (simp add: result_bind)
  show ?case
  proof (cases r)
    case (Inl e)
    then show ?thesis using o lv by (intro exI [of _ "[?line]"]) (simp add: result_bind)
  next
    case (Inr u)
    then show ?thesis using o lv Cons.IH [of "out @ [?line]" "after ?o s"]
      by (auto simp: result_bind)
  qed
qed

lemma finishRotation_lines:
  assumes "case snd x of
       Inr rs' \<Rightarrow> rs' = afterRotations env noRestarts rotated \<and> external = []
     | Inl None \<Rightarrow> external \<noteq> []
     | Inl (Some e) \<Rightarrow> external = []"
    and "fst x = lines" "\<forall>l\<in>set lines. logLevel l \<noteq> LogError"
    and "infoLines lines = map (rotatedLine hostname) rotated"
    and "distinct [ControllerManagerKubeConfigFileName env, SchedulerKubeConfigFileName env,
      APIServerEtcdClientCertAndKeyBaseName env, APIServerKubeletClientCertAndKeyBaseName env,
      FrontProxyClientCertAndKeyBaseName env]"
  shows "let (out, r) = result (finishRotation env hostname x) s in
    (\<forall>l\<in>set out. logLevel l \<noteq> LogError) \<and>
    (r = Inr () \<and> external = [] \<longrightarrow> infoLines out = map (rotatedLine hostname) rotated @
       map (restartingLine hostname) (staleStaticPods env rotated))"
proof (cases "snd x")
  case (Inl err)
  then show ?thesis using assms(1-4)
    by (cases x; cases err) (auto simp: finishRotation_def)
next
  case (Inr rs)
  then have x: "x = (lines, Inr rs)" using assms(2) by (cases x) auto
  let ?fs = "podsToRestart rs"
  obtain more where more: "fst (result (restartStaticPods env hostname ?fs lines) s) = lines @ more"
    "\<forall>l\<in>set more. logLevel l \<noteq> LogError"
    "snd (result (restartStaticPods env hostname ?fs lines) s) = Inr () \<longrightarrow>
        infoLines more = map (restartingLine hostname) ?fs"
    using restartStaticPods_lines by blast
  have "?fs = staleStaticPods env rotated"
    using assms(1) Inr podsToRestart_afterRotations [OF assms(5)] by simp
  moreover have "infoLines (lines @ more) = infoLines lines @ infoLines more" by (simp add: infoLines_def)
  ultimately show ?thesis using more assms(3,4) x
    by (auto simp: finishRotation_def Let_def split: prod.split)
qed

text \<open>
  C27: The operator can tell from the log of a rotation pod what happened. The lines that
  \<open>rotate-certs\<close> prints are logged at error level only for the message it ends with when it fails,
  and it fails exactly when there is such a line; and when it does not fail and no certificate has an
  external authority, the lines logged at info level are one for every rotated certificate and one for
  every restarted pod, in order.
\<close>

theorem RotateCertsCmd_log_levels:
  assumes "\<forall>h names. respond env h (RenewCall ''Certificates'' '''') = Strings names \<longrightarrow>
      (\<forall>n\<in>set names. plainName n)"
    and "distinct [ControllerManagerKubeConfigFileName env, SchedulerKubeConfigFileName env,
      APIServerEtcdClientCertAndKeyBaseName env, APIServerKubeletClientCertAndKeyBaseName env,
      FrontProxyClientCertAndKeyBaseName env]"
  shows "let (out, code) = result (RotateCertsCmd env ttl hostname) s;
             t = sent (RotateCertsCmd env ttl hostname) s;
             rotated = renewAnswers env True (history s) t in
    (code = 0 \<longleftrightarrow> (\<forall>l\<in>set out. logLevel l \<noteq> LogError)) \<and>
    (code = 0 \<and> renewAnswers env False (history s) t = [] \<longrightarrow>
       infoLines out = map (rotatedLine hostname) rotated @
         map (restartingLine hostname) (staleStaticPods env rotated))"
proof -
  have cmd: "run_state (RotateCertsCmd env ttl hostname) s =
      (case run_state (RotateCerts env ttl hostname) s of ((out, r), s') \<Rightarrow>
         ((case r of Inl err \<Rightarrow> (out @ [''Error: '' @ errorText err], 1) | Inr _ \<Rightarrow> (out, 0)), s'))"
    by (simp add: RotateCertsCmd_def split: prod.split)
  have t: "sent (RotateCertsCmd env ttl hostname) s = sent (RotateCerts env ttl hostname) s"
    by (simp add: sent_def cmd split: prod.split)
  have err: "logLevel (''Error: '' @ e) = LogError" for e by (rule logLevel_lines(1))
  show ?thesis
  proof (cases rule: RotateCerts_run [of env ttl hostname s])
    case (failed e)
    then show ?thesis unfolding Let_def using err by (simp add: result_def cmd)
  next
    case (loop names m s0)
    let ?f = "finishRotation env hostname (result m s0)"
    have "\<forall>n\<in>set names. plainName n" using loop(2) assms(1) by auto
    then have "\<exists>lines. fst (result m s0) = lines \<and> (\<forall>l\<in>set lines. logLevel l \<noteq> LogError) \<and>
        infoLines lines = map (rotatedLine hostname) (renewAnswers env True (history s0) (sent m s0))"
      using renewAll_lines [unfolded Let_def, where names = names and env = env and ttl = ttl and
          hostname = hostname and rs = noRestarts and out = "[]" and s = s0]
      unfolding loop(1) by simp
    then obtain lines where
      lines: "fst (result m s0) = lines" "\<forall>l\<in>set lines. logLevel l \<noteq> LogError"
        "infoLines lines = map (rotatedLine hostname) (renewAnswers env True (history s0) (sent m s0))"
      by blast
    have all: "case snd (result m s0) of
         Inr rs' \<Rightarrow> rs' = afterRotations env noRestarts (renewAnswers env True (history s0) (sent m s0)) \<and>
           renewAnswers env False (history s0) (sent m s0) = []
       | Inl None \<Rightarrow> renewAnswers env False (history s0) (sent m s0) \<noteq> []
       | Inl (Some e) \<Rightarrow> renewAnswers env False (history s0) (sent m s0) = []"
      unfolding loop(1) using renewAll_sent [unfolded Let_def] by blast
    obtain out r where o: "result (RotateCerts env ttl hostname) s = (out, r)" by fastforce
    have rc: "result (RotateCertsCmd env ttl hostname) s =
        (case r of Inl err \<Rightarrow> (out @ [''Error: '' @ errorText err], 1) | Inr _ \<Rightarrow> (out, 0))"
      using o by (cases r) (simp_all add: result_def cmd split_beta)
    have fo: "result ?f (after m s0) = (out, r)" using o loop(4) by simp
    note fl = finishRotation_lines [OF all lines assms(2), where s = "after m s0", unfolded fo Let_def prod.case]
    have quiet: "\<forall>l\<in>set out. logLevel l \<noteq> LogError"
      and info: "r = Inr () \<and> renewAnswers env False (history s0) (sent m s0) = [] \<longrightarrow>
        infoLines out = map (rotatedLine hostname) (renewAnswers env True (history s0) (sent m s0)) @
          map (restartingLine hostname)
            (staleStaticPods env (renewAnswers env True (history s0) (sent m s0)))"
      using fl by blast+
    show ?thesis
      unfolding t Let_def rc loop(5) using quiet info err by (cases r) auto
  qed
qed

theorem RotateCertsCmd_log_levels_witness:
  "let (out, code) = result (RotateCertsCmd (sampleEnv (twoCertificates False)) 5 ''a'') sampleProc in
   code = 0 \<and> infoLines out =
     [''Rotated scheduler.conf on host a'', ''Rotated apiserver on host a'',
      ''Restarting static pod /etc/kubernetes/manifests/kube-scheduler.yaml on host a'']"
proof -
  let ?e = "sampleEnv (twoCertificates False)"
  let ?m = "RotateCertsCmd ?e 5 ''a''"
  have n: "\<forall>h names. respond ?e h (RenewCall ''Certificates'' '''') = Strings names \<longrightarrow>
      (\<forall>n\<in>set names. plainName n)"
    by (auto simp: twoCertificates_def plainName_def)
  have d: "distinct [ControllerManagerKubeConfigFileName ?e, SchedulerKubeConfigFileName ?e,
      APIServerEtcdClientCertAndKeyBaseName ?e, APIServerKubeletClientCertAndKeyBaseName ?e,
      FrontProxyClientCertAndKeyBaseName ?e]"
    by (simp add: sampleEnv_def)
  note run = sent_def result_def RotateCertsCmd_def RotateCerts_def renewOne_def renewBool_def renewTime_def
    Until_def twoCertificates_def sampleEnv_def needsRestart_def noRestarts_def podsToRestart_def
    restartStaticPod_def manifestPath_def boundedDuration_def Let_def
  have 1: "snd (result ?m sampleProc) = 0"
    "renewAnswers ?e False (history sampleProc) (sent ?m sampleProc) = []"
    "renewAnswers ?e True (history sampleProc) (sent ?m sampleProc) = [''scheduler.conf'', ''apiserver'']"
    by (simp_all add: run)
  have 2: "map (rotatedLine ''a'') [''scheduler.conf'', ''apiserver''] @
      map (restartingLine ''a'') (staleStaticPods ?e [''scheduler.conf'', ''apiserver'']) =
     [''Rotated scheduler.conf on host a'', ''Rotated apiserver on host a'',
      ''Restarting static pod /etc/kubernetes/manifests/kube-scheduler.yaml on host a'']"
    by (simp add: rotatedLine_def restartingLine_def staleStaticPods_def sampleEnv_def)
  obtain out code where oc: "result ?m sampleProc = (out, code)" by fastforce
  with 1(1) have "code = 0" by simp
  with RotateCertsCmd_log_levels [OF n d, of 5 "''a''" sampleProc] 1(2,3) 2
  show ?thesis unfolding oc Let_def prod.case by metis
qed

section \<open>The names of a regenerated certificate\<close>

lemma dropNames_sets:
  "set (fst (dropNames env ds ips names)) = set ips \<union> {ip. \<exists>d\<in>set ds. ParseIP env d = Some ip} \<and>
   set (snd (dropNames env ds ips names)) = set names \<union> {d \<in> set ds. ParseIP env d = None}"
  by (induction env ds ips names rule: dropNames.induct) (auto split: option.splits)

lemma dom_store_map: "fst ` set (store_map m k v) = insert k (fst ` set m)"
  by (induction m k v rule: store_map.induct) auto

lemma keepIPs_set: "fst ` set (keepIPs dropped ips kept) = fst ` set kept \<union> (set ips - set dropped)"
  by (induction dropped ips kept rule: keepIPs.induct) (auto simp: dom_store_map)

lemma keepDNSNames_set:
  "fst ` set (keepDNSNames dropped ns kept) = fst ` set kept \<union> (set ns - insert '''' (set dropped))"
  by (induction dropped ns kept rule: keepDNSNames.induct) (auto simp: dom_store_map)

lemma map_of_None_dom: "map_of m k = None \<longleftrightarrow> k \<notin> fst ` set m"
  by (simp add: map_of_eq_None_iff)

lemma addNames_sets:
  assumes "''<nil>'' \<notin> fst ` set names" "''<nil>'' \<notin> set as"
  shows "fst ` set (fst (addNames env as ips names)) =
      fst ` set ips \<union> {ip. \<exists>a\<in>set as. a \<noteq> '''' \<and> ParseIP env a = Some ip} \<and>
    fst ` set (snd (addNames env as ips names)) =
      fst ` set names \<union> {a \<in> set as. a \<noteq> '''' \<and> ParseIP env a = None}"
  using assms
proof (induction env as ips names rule: addNames.induct)
  case (2 env a as ips names)
  show ?case
  proof (cases "a = ''''")
    case True
    then show ?thesis using 2 by auto
  next
    case False
    show ?thesis
    proof (cases "ParseIP env a")
      case None
      have n: "\<not> map_of names ''<nil>'' \<noteq> None" using 2(6) by (simp add: map_of_eq_None_iff)
      have "''<nil>'' \<notin> fst ` set (store_map names a a)" using 2(6,7) by (auto simp: dom_store_map)
      with 2(3) [OF False None n] n 2(7) None False show ?thesis by (auto simp: dom_store_map)
    next
      case (Some ip)
      show ?thesis
      proof (cases "map_of ips ip")
        case None
        with 2(5) [OF False Some] 2(6,7) Some False show ?thesis by (auto simp: dom_store_map)
      next
        case (Some y)
        then have "ip \<in> fst ` set ips" using map_of_None_dom [of ips ip] by auto
        with 2(4) [OF False \<open>ParseIP env a = Some ip\<close>] Some 2(6,7) \<open>ParseIP env a = Some ip\<close> False
        show ?thesis by auto
      qed
    qed
  qed
qed simp

text \<open>
  The alternative names of the new certificate are the old ones without the dropped ones, and the
  added ones; addresses are compared by their canonical text. (The code tests whether \<open><nil>\<close> is a
  name; no certificate has it.)
\<close>

lemma newAltNames_sets:
  assumes "''<nil>'' \<notin> set (xDNSNames crt)" "''<nil>'' \<notin> set (Split (CHR '','') add)"
  shows "let (ips, names) = newAltNames env add drp crt;
             dropped = set (Split (CHR '','') drp); added = set (Split (CHR '','') add) - {''''} in
    fst ` set ips = {ip \<in> set (xIPAddresses crt). \<forall>d\<in>dropped. ParseIP env d \<noteq> Some ip} \<union>
      {ip. \<exists>a\<in>added. ParseIP env a = Some ip} \<and>
    fst ` set names = {n \<in> set (xDNSNames crt). n \<noteq> '''' \<and> \<not> (n \<in> dropped \<and> ParseIP env n = None)} \<union>
      {a \<in> added. ParseIP env a = None}"
proof -
  let ?d = "dropNames env (Split (CHR '','') drp) [] []"
  let ?ips = "keepIPs (fst ?d) (xIPAddresses crt) []" and ?names = "keepDNSNames (snd ?d) (xDNSNames crt) []"
  have "''<nil>'' \<notin> fst ` set ?names" using assms(1) by (simp add: keepDNSNames_set)
  note add = addNames_sets [OF this assms(2), of env ?ips]
  have "newAltNames env add drp crt = addNames env (Split (CHR '','') add) ?ips ?names"
    by (simp add: newAltNames_def split_beta)
  then show ?thesis
    using add dropNames_sets [of env "Split (CHR '','') drp" "[]" "[]"]
    by (auto simp: Let_def split_beta keepIPs_set keepDNSNames_set)
qed

end
