(* ===== verification/CephPools.thy ===== *)
theory CephPools
  imports CephStorage
begin

text \<open>
  Replication and placement of the Ceph resources (\<open>src/pkg/cluster/rook_ceph.go\<close>): the block
  pool, the shared filesystem, the object store and the device health pool are replicated to the
  level the operator computes; the monitor and manager counts, the resources of the CSI drivers
  and the placement of the metadata servers follow the number of nodes.
\<close>

text \<open>The four operations that set a level compute the pool's \<open>min_size\<close> from it in this way.\<close>

definition minSizeOf :: "int \<Rightarrow> int" where
  "minSizeOf level = (if level > 1 then 2 else 1)"

definition atLeastQuincy :: "semver option \<Rightarrow> bool" where
  "atLeastQuincy cephVersion =
     (case cephVersion of None \<Rightarrow> False | Some v \<Rightarrow> Major CephQuincy \<le> Major v)"

section \<open>Block pool\<close>

definition GetBlockPoolReplicationLevel :: "controller \<Rightarrow> string \<Rightarrow> int res go" where
  "GetBlockPoolReplicationLevel c name =
     (if name = '''' then Fail (NewErr ''name of CephBlockPool required'')
      else do {
        r \<leftarrow> getObj (Client c) dec_cephblockpool CephBlockPools RookCephNS name;
        ret (case r of
            Inl err \<Rightarrow> (if IsNotFoundErr err then Inr 0
                       else Inl (Wrap (''failed to get CephBlockPool '' @ name) err))
          | Inr pool \<Rightarrow> Inr (of_uint (bpReplicatedSize pool))) })"

definition SetBlockPoolReplication ::
  "controller \<Rightarrow> semver \<Rightarrow> semver option \<Rightarrow> string \<Rightarrow> int \<Rightarrow> bool \<Rightarrow> bool res go" where
  "SetBlockPoolReplication c rookVersion cephVersion name level doFullReconcile =
     (if name = '''' then Ok False
      else do {
        r \<leftarrow> getObj (Client c) dec_cephblockpool CephBlockPools RookCephNS name;
        case r of
          Inl err \<Rightarrow> (if IsNotFoundErr err then Ok False
                     else Fail (Wrap (''get CephBlockPool '' @ name) err))
        | Inr pool \<Rightarrow>
            (let current = of_uint (bpReplicatedSize pool) in
             if \<not> (current < level \<or> doFullReconcile) then Ok False
             else
               bindE (wrapE (''patch CephBlockPool '' @ name)
                 (send (Client c) (Patch CephBlockPools RookCephNS (bpName pool)
                   (JSONPatch [replace_op ''/spec/replicated/size'' (JUint (to_uint level))]))))
               (\<lambda>_. if semver_LT (Client c) rookVersion Rookv14
                 then
                   (let minSize = minSizeOf level in
                    bindE (wrapE (''set block pool '' @ Quote name @ '' size to '' @ Itoa minSize)
                      (cephOSDPoolSetSize c rookVersion cephVersion name level)) (\<lambda>_.
                    bindE (wrapE (''set block pool '' @ Quote name @ '' min_size to '' @ Itoa minSize)
                      (cephOSDPoolSetMinSize c rookVersion name minSize)) (\<lambda>_.
                    Ok True)))
                 else Ok True)) })"

section \<open>Device health metrics pool\<close>

definition SetDeviceHealthMetricsReplication ::
  "controller \<Rightarrow> semver \<Rightarrow> semver option \<Rightarrow> string \<Rightarrow> int \<Rightarrow> bool \<Rightarrow> bool res go" where
  "SetDeviceHealthMetricsReplication c rookVersion cephVersion cephBlockPoolName level doFullReconcile =
     (if semver_LT (Client c) rookVersion Rookv14 then Ok False
      else if \<not> doFullReconcile then Ok False
      else
        (let minSize = minSizeOf level;
             poolName = (if atLeastQuincy cephVersion then CephDeviceHealthMetricsPoolQuincy
                         else CephDeviceHealthMetricsPool)
         in
         bindE (wrapE (''scale '' @ poolName @ '' pool size'')
           (cephOSDPoolSetSize c rookVersion cephVersion poolName level)) (\<lambda>_.
         bindE (wrapE (''scale '' @ poolName @ '' pool min_size'')
           (cephOSDPoolSetMinSize c rookVersion poolName minSize)) (\<lambda>_.
         Ok True))))"

section \<open>Monitors and managers\<close>

definition maxMonCount :: int where "maxMonCount = 3"
definition minMonCount :: int where "minMonCount = 1"
definition maxMgrCount :: int where "maxMgrCount = 2"
definition minMgrCount :: int where "minMgrCount = 1"

definition desiredMonCount :: "int \<Rightarrow> int" where
  "desiredMonCount nodeCount = (if nodeCount < maxMonCount then minMonCount else maxMonCount)"

definition desiredMgrCount :: "int \<Rightarrow> int" where
  "desiredMgrCount nodeCount = (if nodeCount < maxMgrCount then minMgrCount else maxMgrCount)"

definition ReconcileMonCount :: "controller \<Rightarrow> int \<Rightarrow> unit res go" where
  "ReconcileMonCount c nodeCount =
     bindE (wrapE ''get CephCluster config'' (GetCephCluster c)) (\<lambda>cluster.
       if ccMonCount cluster = desiredMonCount nodeCount then Ok ()
       else if ccMonCount cluster > desiredMonCount nodeCount then Ok ()
       else wrapE ''patch CephCluster with new mon count''
              (JSONPatchCephCluster c
                [replace_op ''/spec/mon/count'' (JInt (desiredMonCount nodeCount))]))"

definition ReconcileMgrCount :: "controller \<Rightarrow> semver \<Rightarrow> int \<Rightarrow> unit res go" where
  "ReconcileMgrCount c rookVersion nodeCount =
     (if semver_LT (Client c) rookVersion Rookv19 then Ok ()
      else
        bindE (wrapE ''get CephCluster config'' (GetCephCluster c)) (\<lambda>cluster.
          if ccMgrCount cluster = desiredMgrCount nodeCount then Ok ()
          else if ccMgrCount cluster > desiredMgrCount nodeCount then Ok ()
          else wrapE ''patch CephCluster with new mgr count''
                 (JSONPatchCephCluster c
                   [replace_op ''/spec/mgr/count'' (JInt (desiredMgrCount nodeCount))])))"

section \<open>Shared filesystem\<close>

text \<open>The loop over the data pools: one operation for each pool below the level, by its index.\<close>

fun dataPoolPatches :: "nat \<Rightarrow> uint list \<Rightarrow> int \<Rightarrow> JSONPatchOperation list" where
  "dataPoolPatches i [] level = []"
| "dataPoolPatches i (sz # pools) level =
     (if of_uint sz < level
      then replace_op (''/spec/dataPools/'' @ digits i @ ''/replicated/size'')
             (JUint (to_uint level)) # dataPoolPatches (Suc i) pools level
      else dataPoolPatches (Suc i) pools level)"

definition filesystemPatches :: "cephfilesystem \<Rightarrow> int \<Rightarrow> JSONPatchOperation list" where
  "filesystemPatches fs level =
     dataPoolPatches 0 (fsDataPools fs) level @
     (if of_uint (fsMetadataPool fs) < level
      then [replace_op ''/spec/metadataPool/replicated/size'' (JUint (to_uint level))] else [])"

definition SetFilesystemReplication ::
  "controller \<Rightarrow> semver \<Rightarrow> semver option \<Rightarrow> string \<Rightarrow> int \<Rightarrow> bool \<Rightarrow> bool res go" where
  "SetFilesystemReplication c rookVersion cephVersion name level doFullReconcile =
     (if name = '''' then Ok False
      else do {
        r \<leftarrow> getObj (Client c) dec_cephfilesystem CephFilesystems RookCephNS name;
        case r of
          Inl err \<Rightarrow> (if IsNotFoundErr err then Ok False
                     else Fail (Wrap (''get Filesystem '' @ name) err))
        | Inr fs \<Rightarrow>
            (let patches = filesystemPatches fs level in
             if \<not> (patches \<noteq> [] \<or> doFullReconcile) then Ok False
             else
               bindE (wrapE (''patch Filesystem '' @ name)
                 (send (Client c)
                   (Patch CephFilesystems RookCephNS (fsName fs) (JSONPatch patches))))
               (\<lambda>_. if semver_LT (Client c) rookVersion Rookv14
                 then
                   (let minSize = minSizeOf level in
                    bindE (wrapE ''scale shared cephFS metadata pool size''
                      (cephOSDPoolSetSize c rookVersion cephVersion
                        RookCephSharedFSMetadataPool level)) (\<lambda>_.
                    bindE (wrapE ''scale shared cephFS metadata pool min_size''
                      (cephOSDPoolSetMinSize c rookVersion
                        RookCephSharedFSMetadataPool minSize)) (\<lambda>_.
                    bindE (wrapE ''scale shared cephFS data pool size''
                      (cephOSDPoolSetSize c rookVersion cephVersion
                        RookCephSharedFSDataPool level)) (\<lambda>_.
                    bindE (wrapE ''scale shared cephFS data pool min_size''
                      (cephOSDPoolSetMinSize c rookVersion
                        RookCephSharedFSDataPool minSize)) (\<lambda>_.
                    Ok True)))))
                 else Ok True)) })"

text \<open>
  The merge patch is the embedded file \<open>filesystem-multinode.yaml\<close>, converted to JSON; it is
  named here and its content is not looked into.
\<close>

definition filesystemMultinodeJSON :: string where
  "filesystemMultinodeJSON = ''filesystem-multinode.yaml''"

definition PatchFilesystemMDSPlacementMultinode ::
  "controller \<Rightarrow> string \<Rightarrow> int \<Rightarrow> unit res go" where
  "PatchFilesystemMDSPlacementMultinode c name numNodes =
     (if name = '''' then Ok ()
      else if numNodes \<le> 1 then Ok ()
      else do {
        r \<leftarrow> getObj (Client c) dec_cephfilesystem CephFilesystems RookCephNS name;
        case r of
          Inl err \<Rightarrow> (if IsNotFoundErr err then Ok ()
                     else Fail (Wrap (''get cephfilesystem '' @ name) err))
        | Inr previous \<Rightarrow>
            (if fsPreferredAntiAffinity previous = Some 2
             then wrapE (''patch cephfilesystem '' @ name)
                    (send (Client c) (Patch CephFilesystems RookCephNS name
                      (MergePatch filesystemMultinodeJSON)))
             else Ok ()) })"

section \<open>Object store\<close>

definition objectStorePoolName :: "string \<Rightarrow> string \<Rightarrow> string" where
  "objectStorePoolName storeName poolName =
     (if HasPrefix poolName ''.'' then poolName else storeName @ ''.'' @ poolName)"

definition objectStorePatches :: "cephobjectstore \<Rightarrow> int \<Rightarrow> JSONPatchOperation list" where
  "objectStorePatches os level =
     (if of_uint (osDataPool os) < level
      then [replace_op ''/spec/dataPool/replicated/size'' (JUint (to_uint level))] else []) @
     (if of_uint (osMetadataPool os) < level
      then [replace_op ''/spec/metadataPool/replicated/size'' (JUint (to_uint level))] else [])"

text \<open>
  The loop over the pools of the store for Rook before 1.4: a metadata pool that does not exist is
  passed over, any other error ends the loop.
\<close>

fun scaleStorePools ::
  "controller \<Rightarrow> semver \<Rightarrow> semver option \<Rightarrow> string \<Rightarrow> int \<Rightarrow> int \<Rightarrow> string list \<Rightarrow> unit res go" where
  "scaleStorePools c rookVersion cephVersion name level minSize [] = Ok ()"
| "scaleStorePools c rookVersion cephVersion name level minSize (pool # pools) = do {
     r \<leftarrow> cephOSDPoolSetSize c rookVersion cephVersion (objectStorePoolName name pool) level;
     if r = Inl cephErrENOENT \<and> pool \<in> set RookCephObjectStoreMetadataPools
     then scaleStorePools c rookVersion cephVersion name level minSize pools
     else (case r of
         Inl e \<Rightarrow> Fail (Wrap (''scale ceph object store pool '' @ pool @ '' size'') e)
       | Inr _ \<Rightarrow>
           bindE (wrapE (''scale ceph object store pool '' @ pool @ '' min_size'')
             (cephOSDPoolSetMinSize c rookVersion (objectStorePoolName name pool) minSize))
           (\<lambda>_. scaleStorePools c rookVersion cephVersion name level minSize pools)) }"

fun setStorePgNumMin ::
  "controller \<Rightarrow> semver \<Rightarrow> string \<Rightarrow> string list \<Rightarrow> go_error list \<Rightarrow> go_error list go" where
  "setStorePgNumMin c rookVersion name [] multiErr = ret multiErr"
| "setStorePgNumMin c rookVersion name (pool # pools) multiErr = do {
     r \<leftarrow> cephOSDPoolSetPgNumMin c rookVersion (objectStorePoolName name pool) 8;
     setStorePgNumMin c rookVersion name pools
       (append_err multiErr
         (Wrap (''set ceph object store metadata pool '' @ pool @ '' pg_num_min'')) r) }"

definition objectStorePools :: "string list" where
  "objectStorePools =
     ([RookCephObjectStoreRootPool] @ RookCephObjectStoreMetadataPools) @
     RookCephObjectStoreDataPools"

definition SetObjectStoreReplication ::
  "controller \<Rightarrow> semver \<Rightarrow> semver option \<Rightarrow> string \<Rightarrow> int \<Rightarrow> bool \<Rightarrow> bool res go" where
  "SetObjectStoreReplication c rookVersion cephVersion name level doFullReconcile =
     (if name = '''' then Ok False
      else do {
        r \<leftarrow> getObj (Client c) dec_cephobjectstore CephObjectStores RookCephNS name;
        case r of
          Inl err \<Rightarrow> (if IsNotFoundErr err then Ok False
                     else Fail (Wrap (''get CephObjectStore '' @ name) err))
        | Inr os \<Rightarrow>
            (let patches = objectStorePatches os level in
             if \<not> (patches \<noteq> [] \<or> doFullReconcile) then Ok False
             else
               (let minSize = minSizeOf level in
                bindE (wrapE (''patch CephObjectStore '' @ name)
                  (send (Client c)
                    (Patch CephObjectStores RookCephNS (osName os) (JSONPatch patches)))) (\<lambda>_.
                bindE (if semver_LT (Client c) rookVersion Rookv14
                       then scaleStorePools c rookVersion cephVersion name level minSize
                              objectStorePools
                       else Ok ()) (\<lambda>_.
                if atLeastQuincy cephVersion
                then do {
                  multiErr \<leftarrow> setStorePgNumMin c rookVersion name
                    ([RookCephObjectStoreRootPool] @ RookCephObjectStoreMetadataPoolsQuincy) [];
                  if multiErr \<noteq> [] then Fail (Multi multiErr) else Ok True }
                else Ok True)))) })"

section \<open>What the operations send\<close>

lemma digits_value: "foldl (\<lambda>a x. 10 * a + (of_char x - 48)) 0 (digits n) = n"
proof (induction n rule: digits.induct)
  case (1 n)
  have d: "\<forall>k\<in>set [0..<10]. (of_char (digit k) :: nat) = 48 + k"
    by (simp add: digit_def upt_rec)
  show ?case
  proof (cases "n < 10")
    case True
    then show ?thesis using d by (subst digits.simps) simp
  next
    case False
    moreover have "(of_char (digit (n mod 10)) :: nat) = 48 + n mod 10"
      using bspec [OF d, of "n mod 10"] by simp
    ultimately show ?thesis using 1 by (subst digits.simps) simp
  qed
qed

lemma digits_inj [simp]: "digits m = digits n \<longleftrightarrow> m = n"
  using digits_value by metis

abbreviation poolCommand :: "controller \<Rightarrow> semver \<Rightarrow> request \<Rightarrow> bool" where
  "poolCommand c v r \<equiv> r = listTools c v \<or>
     (\<exists>p rest. r = execIn c v p (''ceph'' # ''osd'' # ''pool'' # ''set'' # rest))"

text \<open>
  What a setter of replication levels may do: read its resource, replace replicated sizes of that
  kind of resource by the level, and set properties of pools with Ceph commands.
\<close>

definition setsLevel :: "int \<Rightarrow> JSONPatchOperation \<Rightarrow> bool" where
  "setsLevel level p \<longleftrightarrow> Op p = JSONPatchOpReplace \<and> Value p = JUint (to_uint level)"

definition poolRequest ::
  "controller \<Rightarrow> semver \<Rightarrow> kind \<Rightarrow> string \<Rightarrow> int \<Rightarrow> request \<Rightarrow> bool" where
  "poolRequest c v k name level r \<longleftrightarrow>
     r = Get k RookCephNS name \<or>
     (\<exists>n ps. r = Patch k RookCephNS n (JSONPatch ps) \<and> list_all (setsLevel level) ps) \<or>
     poolCommand c v r"

lemma poolRequestI:
  "poolRequest c v k name level (Get k RookCephNS name)"
  "list_all (setsLevel level) ps \<Longrightarrow>
   poolRequest c v k name level (Patch k RookCephNS n (JSONPatch ps))"
  "poolRequest c v k name level (listTools c v)"
  "poolRequest c v k name level
     (execIn c v p (''ceph'' # ''osd'' # ''pool'' # ''set'' # rest))"
  by (auto simp: poolRequest_def)

lemma emits_poolCommands:
  assumes "controller_ok c"
  shows "emits (poolRequest c v k name level) (cephOSDPoolSetSize c v cv pool sz)"
    "emits (poolRequest c v k name level) (cephOSDPoolSetMinSize c v pool sz)"
    "emits (poolRequest c v k name level) (cephOSDPoolSetPgNumMin c v pool n)"
  by (auto intro!: emits_cephOSDPoolSetSize emits_cephOSDPoolSetMinSize
      emits_cephOSDPoolSetPgNumMin assms poolRequestI)

lemma emits_scaleStorePools:
  assumes "controller_ok c"
  shows "emits (poolRequest c v k nm level) (scaleStorePools c v cv name lvl minSize pools)"
  by (induction pools) (auto intro!: emits_intros emits_poolCommands [OF assms])

lemma emits_setStorePgNumMin:
  assumes "controller_ok c"
  shows "emits (poolRequest c v k nm level) (setStorePgNumMin c v name pools es)"
  by (induction pools arbitrary: es) (auto intro!: emits_intros emits_poolCommands [OF assms])

lemma emits_SetBlockPoolReplication:
  assumes "controller_ok c"
  shows "emits (poolRequest c v CephBlockPools name level)
           (SetBlockPoolReplication c v cv name level full)"
  unfolding SetBlockPoolReplication_def Let_def
  by (intro emits_intros emits_poolCommands [OF assms] poolRequestI) (simp add: setsLevel_def)

lemma dataPoolPatches_level: "list_all (setsLevel level) (dataPoolPatches i pools level)"
  by (induction pools arbitrary: i) (auto simp: setsLevel_def)

lemma emits_SetFilesystemReplication:
  assumes "controller_ok c"
  shows "emits (poolRequest c v CephFilesystems name level)
           (SetFilesystemReplication c v cv name level full)"
  unfolding SetFilesystemReplication_def Let_def
  by (intro emits_intros emits_poolCommands [OF assms] poolRequestI)
    (simp add: filesystemPatches_def dataPoolPatches_level setsLevel_def)

lemma emits_SetObjectStoreReplication:
  assumes "controller_ok c"
  shows "emits (poolRequest c v CephObjectStores name level)
           (SetObjectStoreReplication c v cv name level full)"
  unfolding SetObjectStoreReplication_def Let_def
  by (intro emits_intros emits_poolCommands [OF assms] emits_scaleStorePools [OF assms]
      emits_setStorePgNumMin [OF assms] poolRequestI)
    (simp add: objectStorePatches_def setsLevel_def)

section \<open>The contract of the setters\<close>

text \<open>
  The block pool, the filesystem and the object store each have a setter that the operator calls
  with the level it computes. They share a contract: \<open>sizes\<close> reads the replicated sizes of the
  resource's pools. A resource all of whose pools have reached the level is left alone unless a
  full reconcile is asked for, a missing one is not an error, one with a pool below the level is
  patched, and nothing but the level is ever written.
\<close>

locale replicated_pools =
  fixes c :: controller and v :: semver and k :: kind and name :: string
    and set_level :: "int \<Rightarrow> bool \<Rightarrow> bool res go" and sizes :: "obj \<Rightarrow> int list option"
  assumes footprint: "emits (poolRequest c v k name level) (set_level level full)"
    and converged: "respond (Client c) (history s) (Get k RookCephNS name) = Obj x \<Longrightarrow>
        sizes x = Some zs \<Longrightarrow> list_all (\<lambda>z. level \<le> z) zs \<Longrightarrow> name \<noteq> '''' \<Longrightarrow>
        run_state (set_level level False) s =
          (Inr False, s\<lparr>history := history s @ [Get k RookCephNS name]\<rparr>)"
    and missing: "respond (Client c) (history s) (Get k RookCephNS name) = Failed e \<Longrightarrow>
        IsNotFoundErr e \<Longrightarrow> name \<noteq> '''' \<Longrightarrow>
        run_state (set_level level full) s =
          (Inr False, s\<lparr>history := history s @ [Get k RookCephNS name]\<rparr>)"
    and behind: "respond (Client c) (history s) (Get k RookCephNS name) = Obj x \<Longrightarrow>
        sizes x = Some zs \<Longrightarrow> \<not> list_all (\<lambda>z. level \<le> z) zs \<Longrightarrow> name \<noteq> '''' \<Longrightarrow>
        \<exists>n ps t. ps \<noteq> [] \<and> sent (set_level level full) s =
          Get k RookCephNS name # Patch k RookCephNS n (JSONPatch ps) # t"
    and unnamed: "name = '''' \<Longrightarrow> run_state (set_level level full) s = (Inr False, s)"
begin

lemma grows_set: "grows (set_level level full)"
  by (rule emits_grows [OF footprint])

text \<open>Once the cluster shows the level, a further call only reads, and reports no update.\<close>

lemma second_call_quiet:
  assumes "respond (Client c) (history s) (Get k RookCephNS name) = Obj x" "sizes x = Some zs"
    and "list_all (\<lambda>z. z = level) zs"
  shows "result (set_level level False) s = Inr False \<and>
         list_all is_read (sent (set_level level False) s)"
proof (cases "name = ''''")
  case True
  then show ?thesis by (simp add: unnamed result_def sent_def)
next
  case False
  have "list_all (\<lambda>z. level \<le> z) zs" using assms(3) by (simp add: list_all_iff)
  from converged [OF assms(1,2) this False] show ?thesis by (simp add: result_def sent_def)
qed

text \<open>A lower level than every pool has is never applied, so no pool shrinks.\<close>

lemma never_shrinks:
  assumes "respond (Client c) (history s) (Get k RookCephNS name) = Obj x" "sizes x = Some zs"
    and "list_all (\<lambda>z. level < z) zs"
  shows "list_all is_read (sent (set_level level False) s)"
proof (cases "name = ''''")
  case True
  then show ?thesis by (simp add: unnamed sent_def)
next
  case False
  have "list_all (\<lambda>z. level \<le> z) zs" using assms(3) by (simp add: list_all_iff less_imp_le)
  from converged [OF assms(1,2) this False] show ?thesis by (simp add: sent_def)
qed

text \<open>Every patch it sends, it sends with the level as its only value.\<close>

lemma writes_level:
  "Patch k' ns n p \<in> set (sent (set_level level full) s) \<Longrightarrow>
   k' = k \<and> ns = RookCephNS \<and> (\<exists>ps. p = JSONPatch ps \<and> list_all (setsLevel level) ps)"
  using emits_sent [OF footprint] by (force simp: poolRequest_def)

end

definition blockPoolSizes :: "obj \<Rightarrow> int list option" where
  "blockPoolSizes x = map_option (\<lambda>p. [of_uint (bpReplicatedSize p)]) (dec_cephblockpool x)"

definition filesystemSizes :: "obj \<Rightarrow> int list option" where
  "filesystemSizes x =
     map_option (\<lambda>f. map of_uint (fsDataPools f @ [fsMetadataPool f])) (dec_cephfilesystem x)"

definition objectStoreSizes :: "obj \<Rightarrow> int list option" where
  "objectStoreSizes x =
     map_option (\<lambda>o1. map of_uint [osDataPool o1, osMetadataPool o1]) (dec_cephobjectstore x)"

lemma dataPoolPatches_Nil_iff:
  "dataPoolPatches i pools level = [] \<longleftrightarrow> list_all (\<lambda>z. level \<le> of_uint z) pools"
  by (induction pools arbitrary: i) auto

lemma filesystemPatches_Nil_iff:
  "filesystemPatches fs level = [] \<longleftrightarrow>
     list_all (\<lambda>z. level \<le> z) (map of_uint (fsDataPools fs @ [fsMetadataPool fs]))"
  by (auto simp: filesystemPatches_def dataPoolPatches_Nil_iff list_all_iff)

lemma objectStorePatches_Nil_iff:
  "objectStorePatches os level = [] \<longleftrightarrow>
     list_all (\<lambda>z. level \<le> z) (map of_uint [osDataPool os, osMetadataPool os])"
  by (auto simp: objectStorePatches_def)

lemma sent_after_patch:
  assumes "\<And>x. grows (f x)"
  shows "\<exists>t. sent (bindE (wrapE msg (send env r)) f) s = r # t"
proof -
  have "grows (wrapE msg (send env r))" by (intro emits_intros) simp
  then show ?thesis by (simp add: sent_bindE [where f = f, OF _ assms])
qed

lemma sent_getObj_bind:
  assumes "respond env (history s) (Get k ns n) = Obj x" "dec x = Some a" "grows (f (Inr a))"
  shows "sent (getObj env dec k ns n \<bind> f) s =
     Get k ns n # sent (f (Inr a)) (s\<lparr>history := history s @ [Get k ns n]\<rparr>)"
proof -
  let ?s = "s\<lparr>history := history s @ [Get k ns n]\<rparr>"
  have "after (getObj env dec k ns n \<bind> f) s = after (f (Inr a)) ?s"
    using assms(1,2) by (simp add: after_bind)
  then show ?thesis using grows_history [OF assms(3), of ?s]
    by (simp add: sent_after [of "getObj env dec k ns n \<bind> f"])
qed

lemmas grows_pool_intros = emits_intros emits_grows [OF emits_poolCommands(1)]
  emits_grows [OF emits_poolCommands(2)] emits_grows [OF emits_poolCommands(3)]
  emits_grows [OF emits_scaleStorePools] emits_grows [OF emits_setStorePgNumMin]

interpretation block_pool: replicated_pools "NewController cfg env" v CephBlockPools name
  "SetBlockPoolReplication (NewController cfg env) v cv name" blockPoolSizes
  for cfg env v cv name
proof (unfold_locales, goal_cases)
  case 1
  show ?case by (rule emits_SetBlockPoolReplication) simp
next
  case (4 s x zs level full)
  then obtain pool where p: "dec_cephblockpool x = Some pool"
    and below: "of_uint (bpReplicatedSize pool) < level"
    by (auto simp: blockPoolSizes_def)
  have resp: "respond env (history s) (Get CephBlockPools RookCephNS name) = Obj x"
    using 4(1) by simp
  have "\<exists>t. sent (SetBlockPoolReplication (NewController cfg env) v cv name level full) s =
      Get CephBlockPools RookCephNS name # Patch CephBlockPools RookCephNS (bpName pool) (JSONPatch [replace_op ''/spec/replicated/size'' (JUint (to_uint level))]) # t"
    using 4(4) below
    unfolding SetBlockPoolReplication_def NewController_fields Let_def
    apply (simp only: if_False)
    apply (subst sent_getObj_bind [where dec = dec_cephblockpool, OF resp p])
    subgoal by (auto intro!: grows_pool_intros)
    subgoal by (auto intro!: sent_after_patch grows_pool_intros)
    done
  then show ?case using below by blast
qed (auto simp: SetBlockPoolReplication_def blockPoolSizes_def Let_def)

interpretation filesystem: replicated_pools "NewController cfg env" v CephFilesystems name
  "SetFilesystemReplication (NewController cfg env) v cv name" filesystemSizes
  for cfg env v cv name
proof (unfold_locales, goal_cases)
  case 1
  show ?case by (rule emits_SetFilesystemReplication) simp
next
  case (4 s x zs level full)
  then obtain fs where p: "dec_cephfilesystem x = Some fs"
    and below: "filesystemPatches fs level \<noteq> []"
    by (auto simp: filesystemSizes_def filesystemPatches_Nil_iff)
  have resp: "respond env (history s) (Get CephFilesystems RookCephNS name) = Obj x"
    using 4(1) by simp
  have "\<exists>t. sent (SetFilesystemReplication (NewController cfg env) v cv name level full) s =
      Get CephFilesystems RookCephNS name # Patch CephFilesystems RookCephNS (fsName fs) (JSONPatch (filesystemPatches fs level)) # t"
    using 4(4) below
    unfolding SetFilesystemReplication_def NewController_fields Let_def
    apply (simp only: if_False)
    apply (subst sent_getObj_bind [where dec = dec_cephfilesystem, OF resp p])
    subgoal by (auto intro!: grows_pool_intros)
    subgoal by (auto intro!: sent_after_patch grows_pool_intros)
    done
  then show ?case using below by blast
qed (auto simp: SetFilesystemReplication_def filesystemSizes_def filesystemPatches_Nil_iff Let_def)

interpretation object_store: replicated_pools "NewController cfg env" v CephObjectStores name
  "SetObjectStoreReplication (NewController cfg env) v cv name" objectStoreSizes
  for cfg env v cv name
proof (unfold_locales, goal_cases)
  case 1
  show ?case by (rule emits_SetObjectStoreReplication) simp
next
  case (4 s x zs level full)
  then obtain os where p: "dec_cephobjectstore x = Some os"
    and below: "objectStorePatches os level \<noteq> []"
    by (auto simp: objectStoreSizes_def objectStorePatches_Nil_iff)
  have resp: "respond env (history s) (Get CephObjectStores RookCephNS name) = Obj x"
    using 4(1) by simp
  have "\<exists>t. sent (SetObjectStoreReplication (NewController cfg env) v cv name level full) s =
      Get CephObjectStores RookCephNS name # Patch CephObjectStores RookCephNS (osName os) (JSONPatch (objectStorePatches os level)) # t"
    using 4(4) below
    unfolding SetObjectStoreReplication_def NewController_fields Let_def
    apply (simp only: if_False)
    apply (subst sent_getObj_bind [where dec = dec_cephobjectstore, OF resp p])
    subgoal by (auto intro!: grows_pool_intros)
    subgoal by (auto intro!: sent_after_patch grows_pool_intros)
    done
  then show ?case using below by blast
qed (auto simp: SetObjectStoreReplication_def objectStoreSizes_def objectStorePatches_Nil_iff Let_def)

section \<open>Properties\<close>

text \<open>
  The value a JSON patch leaves at a path that had a given value: the last operation on the path
  decides.
\<close>

definition patchedSize :: "JSONPatchOperation list \<Rightarrow> string \<Rightarrow> uint \<Rightarrow> uint" where
  "patchedSize ps path old =
     (case map_of (rev (map (\<lambda>p. (Path p, Value p)) ps)) path of
        Some (JUint w) \<Rightarrow> w | _ \<Rightarrow> old)"

abbreviation dataPoolPath :: "nat \<Rightarrow> string" where
  "dataPoolPath i \<equiv> ''/spec/dataPools/'' @ digits i @ ''/replicated/size''"

lemma dataPoolPatches_paths:
  "p \<in> set (dataPoolPatches i pools level) \<Longrightarrow> \<exists>j\<ge>i. Path p = dataPoolPath j"
proof (induction pools arbitrary: i)
  case (Cons sz pools)
  then show ?case by (fastforce split: if_splits dest: Suc_leD)
qed simp

lemma map_of_dataPoolPatches:
  "map_of (map (\<lambda>p. (Path p, Value p)) (dataPoolPatches i pools level)) (dataPoolPath (i + j)) =
     (if j < length pools \<and> of_uint (pools ! j) < level then Some (JUint (to_uint level)) else None)"
proof (induction pools arbitrary: i j)
  case (Cons sz pools)
  show ?case
  proof (cases j)
    case 0
    have "map_of (map (\<lambda>p. (Path p, Value p)) (dataPoolPatches (Suc i) pools level)) (dataPoolPath i) = None"
      using dataPoolPatches_paths [of _ "Suc i" pools level]
      by (fastforce simp: map_of_eq_None_iff)
    then show ?thesis using 0 by simp
  next
    case (Suc k)
    then show ?thesis using Cons [of "Suc i" k] by simp
  qed
qed simp

lemma distinct_dataPoolPatches: "distinct (map Path (dataPoolPatches i pools level))"
proof (induction pools arbitrary: i)
  case (Cons sz pools)
  have "dataPoolPath i \<notin> set (map Path (dataPoolPatches (Suc i) pools level))"
    using dataPoolPatches_paths [of _ "Suc i" pools level] by fastforce
  then show ?case using Cons by simp
qed simp

lemma dataPoolPath_not_metadata [simp]:
  "dataPoolPath i \<noteq> ''/spec/metadataPool/replicated/size''"
  by simp

lemma distinct_filesystemPatches: "distinct (map Path (filesystemPatches fs level))"
proof -
  have "''/spec/metadataPool/replicated/size'' \<notin> set (map Path (dataPoolPatches i pools level))" for i pools
    using dataPoolPatches_paths [of _ i pools level] by fastforce
  then show ?thesis by (simp add: filesystemPatches_def distinct_dataPoolPatches)
qed

lemma map_of_rev_distinct:
  assumes "distinct (map fst xs)" shows "map_of (rev xs) = map_of xs"
proof
  fix k
  have "distinct (map fst (rev xs))" using assms by (metis distinct_rev rev_map)
  then show "map_of (rev xs) k = map_of xs k"
    using assms by (cases "map_of xs k")
      (metis map_of_eq_None_iff set_rev, metis map_of_SomeD map_of_is_SomeI set_rev)
qed

lemma patchedSize_eq:
  assumes "distinct (map Path ps)"
  shows "patchedSize ps path old =
    (case map_of (map (\<lambda>p. (Path p, Value p)) ps) path of Some (JUint w) \<Rightarrow> w | _ \<Rightarrow> old)"
  using assms by (simp add: patchedSize_def map_of_rev_distinct comp_def)

text \<open>
  The patch of \<open>SetFilesystemReplication\<close> raises every data pool and the metadata pool to the
  level, and changes none that has reached it: after the patch the size of each pool is the
  larger of its old size and the level, for every level that fits in 63 bits.
\<close>

lemma filesystemPatches_raise:
  assumes "0 \<le> level" "level < 2 ^ 63" "i < length (fsDataPools fs)"
  shows "of_uint (patchedSize (filesystemPatches fs level) (dataPoolPath i) (fsDataPools fs ! i)) =
           max (of_uint (fsDataPools fs ! i)) level \<and>
         of_uint (patchedSize (filesystemPatches fs level) ''/spec/metadataPool/replicated/size''
           (fsMetadataPool fs)) = max (of_uint (fsMetadataPool fs)) level"
proof -
  have w: "of_uint (to_uint level) = level" using assms by (intro of_uint_to_uint) auto
  have m: "map_of (map (\<lambda>p. (Path p, Value p)) (dataPoolPatches 0 (fsDataPools fs) level))
      ''/spec/metadataPool/replicated/size'' = None"
    using dataPoolPatches_paths [of _ 0 "fsDataPools fs" level]
    by (fastforce simp: map_of_eq_None_iff)
  have d: "map_of (map (\<lambda>p. (Path p, Value p)) (filesystemPatches fs level)) (dataPoolPath i) =
      (if of_uint (fsDataPools fs ! i) < level then Some (JUint (to_uint level)) else None)"
    using map_of_dataPoolPatches [of 0 "fsDataPools fs" level i] assms(3)
    by (simp add: filesystemPatches_def map_add_def)
  have e: "map_of (map (\<lambda>p. (Path p, Value p)) (filesystemPatches fs level))
      ''/spec/metadataPool/replicated/size'' =
      (if of_uint (fsMetadataPool fs) < level then Some (JUint (to_uint level)) else None)"
    using m by (simp add: filesystemPatches_def map_add_def)
  show ?thesis
    by (simp only: patchedSize_eq [OF distinct_filesystemPatches] d e) (simp add: w max_def)
qed

definition sampleFilesystem :: cephfilesystem where
  "sampleFilesystem =
     \<lparr>fsName = ''rook-shared-fs'', fsDataPools = [1, 3], fsMetadataPool = 1,
      fsPreferredAntiAffinity = None, fsGeneration = 1\<rparr>"

lemma filesystemPatches_raise_sample:
  "of_uint (patchedSize (filesystemPatches sampleFilesystem 2) (dataPoolPath 1)
     (fsDataPools sampleFilesystem ! 1)) = 3 \<and>
   of_uint (patchedSize (filesystemPatches sampleFilesystem 2)
     ''/spec/metadataPool/replicated/size'' (fsMetadataPool sampleFilesystem)) = 2"
  using filesystemPatches_raise [of 2 1 sampleFilesystem]
  by (simp add: sampleFilesystem_def of_uint_def)

abbreviation clusterRequest :: request where
  "clusterRequest \<equiv> Get CephClusters RookCephNS CephClusterName"

text \<open>
  The monitor and manager counts are only ever increased, and only to the count that the
  number of nodes calls for: one monitor below three nodes and three from there on, one manager
  for a single node and two from there on, the latter only from Rook 1.9.
\<close>

lemma ReconcileCounts_never_reduce:
  "sent (ReconcileMonCount c n) s = clusterRequest #
      (case as_obj dec_cephcluster (respond (Client c) (history s) clusterRequest) of
         Inl e \<Rightarrow> []
       | Inr cl \<Rightarrow>
           (let d = (if n < 3 then 1 else 3) in
            if ccMonCount cl < d
            then [Patch CephClusters RookCephNS CephClusterName
                   (JSONPatch [replace_op ''/spec/mon/count'' (JInt d)])] else [])) \<and>
    sent (ReconcileMgrCount c v n) s =
      (if semver_LT (Client c) v Rookv19 then [] else clusterRequest #
        (case as_obj dec_cephcluster (respond (Client c) (history s) clusterRequest) of
           Inl e \<Rightarrow> []
         | Inr cl \<Rightarrow>
             (let d = (if n < 2 then 1 else 2) in
              if ccMgrCount cl < d
              then [Patch CephClusters RookCephNS CephClusterName
                     (JSONPatch [replace_op ''/spec/mgr/count'' (JInt d)])] else [])))"
proof -
  have g: "grows (wrapE msg (GetCephCluster c))" for msg by (intro emits_intros) simp
  have mon: "grows (if ccMonCount cl = desiredMonCount n then Ok ()
       else if ccMonCount cl > desiredMonCount n then Ok ()
       else wrapE ''patch CephCluster with new mon count''
              (JSONPatchCephCluster c
                [replace_op ''/spec/mon/count'' (JInt (desiredMonCount n))]))" for cl
    by (intro emits_intros) simp
  have mgr: "grows (if ccMgrCount cl = desiredMgrCount n then Ok ()
       else if ccMgrCount cl > desiredMgrCount n then Ok ()
       else wrapE ''patch CephCluster with new mgr count''
              (JSONPatchCephCluster c
                [replace_op ''/spec/mgr/count'' (JInt (desiredMgrCount n))]))" for cl
    by (intro emits_intros) simp
  have dm: "desiredMonCount n = (if n < 3 then 1 else 3)"
    "desiredMgrCount n = (if n < 2 then 1 else 2)"
    by (simp_all add: desiredMonCount_def maxMonCount_def minMonCount_def desiredMgrCount_def
        maxMgrCount_def minMgrCount_def)
  have 1: "sent (ReconcileMonCount c n) s = clusterRequest #
      (case as_obj dec_cephcluster (respond (Client c) (history s) clusterRequest) of
         Inl e \<Rightarrow> []
       | Inr cl \<Rightarrow> (let d = desiredMonCount n in
            if ccMonCount cl < d
            then [Patch CephClusters RookCephNS CephClusterName
                   (JSONPatch [replace_op ''/spec/mon/count'' (JInt d)])] else []))"
    by (auto simp: ReconcileMonCount_def sent_bindE [OF g mon] split: sum.split)
  have 2: "sent (ReconcileMgrCount c v n) s =
      (if semver_LT (Client c) v Rookv19 then [] else clusterRequest #
        (case as_obj dec_cephcluster (respond (Client c) (history s) clusterRequest) of
           Inl e \<Rightarrow> []
         | Inr cl \<Rightarrow> (let d = desiredMgrCount n in
              if ccMgrCount cl < d
              then [Patch CephClusters RookCephNS CephClusterName
                     (JSONPatch [replace_op ''/spec/mgr/count'' (JInt d)])] else [])))"
    by (auto simp: ReconcileMgrCount_def sent_bindE [OF g mgr] split: sum.split)
  show ?thesis using 1 2 unfolding dm by (rule conjI)
qed

end
