(* ===== verification/InternalLB.thy ===== *)
theory InternalLB
  imports HostTasks OpConfig "HOL-Library.Multiset"
begin

text \<open>
  The internal load balancer: the part of the operator that writes the configuration of haproxy on
  every node when the set of nodes changes (\<open>src/pkg/cluster/internallb.go\<close>), and the command
  \<open>change-load-balancer\<close> (\<open>src/cmd/ekco/cli/change-load-balancer.go\<close>). The haproxy pods are signalled
  by goroutines, one for each pod: they are run here one after the other in the order in which they
  finish, which is up to the environment, and those that finish after the function has returned send
  their command all the same.
\<close>

section \<open>The pod that writes the files\<close>

definition getUpdateInternalLBPod :: "controller \<Rightarrow> string \<Rightarrow> string list \<Rightarrow> pod" where
  "getUpdateInternalLBPod c host primaries =
     (let img = cfgHostTaskImage (Config c);
          haproxyImage = cfgInternalLoadBalancerHAProxyImage (Config c);
          hosts = Join '','' primaries in
      \<lparr>podName = '''', podGenerateName = ''update-haproxy-'',
       podNamespace = cfgHostTaskNamespace (Config c),
       podLabels = [(TaskLabel, UpdateInternalLBValue)], podAnnotations = [],
       podDeletionTimestamp = None,
       podNodeSelector = [(''kubernetes.io/hostname'', host)],
       podTolerations = [''node-role.kubernetes.io/master'', ''node-role.kubernetes.io/control-plane''],
       podInitContainers = [\<lparr>ctrName = ''config'', ctrImage = img,
         ctrCommand = [''/bin/bash'', ''-c'',
           ''mkdir -p /host/etc/haproxy && /usr/bin/ekco generate-haproxy-config --primary-host='' @ hosts @
           '' > /host/etc/haproxy/haproxy.cfg''],
         ctrArgs = [], ctrMounts = [(''etc'', ''/host/etc'')], ctrEnvFields = [], ctrWorkingDir = '''',
         ctrImagePullPolicy = ''IfNotPresent'', ctrPrivileged = False\<rparr>],
       podContainers = [\<lparr>ctrName = ''manifest'', ctrImage = img,
         ctrCommand = [''/bin/bash'', ''-c'',
           ''/usr/bin/ekco generate-haproxy-manifest --primary-host='' @ hosts @
           '' --file /host/etc/kubernetes/manifests/haproxy.yaml --image='' @ haproxyImage],
         ctrArgs = [], ctrMounts = [(''etc'', ''/host/etc'')], ctrEnvFields = [], ctrWorkingDir = '''',
         ctrImagePullPolicy = ''IfNotPresent'', ctrPrivileged = False\<rparr>],
       podVolumeClaims = [None], podHostPaths = [(''etc'', ''/etc'')],
       podRestartPolicy = ''Never'', podPhase = '''', podConditions = [],
       podContainerStatuses = [], podPodIP = '''', podHostIP = ''''\<rparr>)"

section \<open>Signalling the pods\<close>

text \<open>What the goroutine of a pod puts into the channel.\<close>

definition sighupPod :: "controller \<Rightarrow> string \<Rightarrow> string \<Rightarrow> pod \<Rightarrow> go_error option go" where
  "sighupPod c ns ctr p = do {
     (exitCode, stdout, stderr, err) \<leftarrow> ExecContainer (Client c) ns (podName p) ctr [''/bin/kill'', ''-HUP'', ''1''];
     ret (case err of
         Some e \<Rightarrow> Some (Wrap (''exec pod '' @ podName p) e)
       | None \<Rightarrow>
           (if exitCode \<noteq> 0
            then Some (NewErr (''exec pod '' @ podName p @ '': exitcode='' @ Itoa exitCode @
              '', stderr='' @ Quote stderr))
            else None)) }"

text \<open>
  The receiving loop: each \<open>select\<close> takes the timeout or the next value. Once the function has
  returned, the goroutines left put their values into the buffered channel and nobody reads them.
\<close>

fun sighupLoop :: "controller \<Rightarrow> string \<Rightarrow> string \<Rightarrow> (string \<times> pod) list \<Rightarrow> unit res option \<Rightarrow> unit res go" where
  "sighupLoop c ns ctr [] (Some r) = ret r"
| "sighupLoop c ns ctr [] None = do {
     tick \<leftarrow> call (Client c) PollTick;
     case tick of CtxDone _ \<Rightarrow> Fail (NewErr ''timeout'') | _ \<Rightarrow> Ok () }"
| "sighupLoop c ns ctr ((_, p) # ps) (Some r) = do {
     _ \<leftarrow> sighupPod c ns ctr p;
     sighupLoop c ns ctr ps (Some r) }"
| "sighupLoop c ns ctr ((_, p) # ps) None = do {
     err \<leftarrow> sighupPod c ns ctr p;
     tick \<leftarrow> call (Client c) PollTick;
     sighupLoop c ns ctr ps
       (case tick of
          CtxDone _ \<Rightarrow> Some (Inl (NewErr ''timeout''))
        | _ \<Rightarrow> map_option Inl err) }"

definition sighupPods :: "controller \<Rightarrow> string \<Rightarrow> string \<Rightarrow> string \<Rightarrow> unit res go" where
  "sighupPods c ns selector ctr =
     bindE (wrapE ''list pods'' (listObjs (Client c) dec_pod Pods ns selector)) (\<lambda>pods.
       if pods = [] then Fail (NewErr ''found no pods'')
       else do {
         finished \<leftarrow> rangeMap (Client c) 2 (map (\<lambda>p. (podName p, p)) pods);
         sighupLoop c ns ctr finished None })"

section \<open>The update\<close>

fun primaryHosts :: "node list \<Rightarrow> string list" where
  "primaryHosts [] = []"
| "primaryHosts (n # nodes) =
     (if \<not> NodeIsMaster n then primaryHosts nodes
      else if NodeInternalIP n \<noteq> '''' then NodeInternalIP n # primaryHosts nodes
      else primaryHosts nodes)"

fun updateNodes :: "controller \<Rightarrow> string list \<Rightarrow> node list \<Rightarrow> unit res go" where
  "updateNodes c hosts [] = Ok ()"
| "updateNodes c hosts (n # nodes) =
     bindE (runTaskPod c (cfgHostTaskNamespace (Config c)) (getUpdateInternalLBPod c (nodeName n) hosts)
         (''create update internal loadbalancer pod for node '' @ nodeName n)
         (''update internal loadbalancer pod for node '' @ nodeName n))
       (\<lambda>_. updateNodes c hosts nodes)"

definition UpdateInternalLB :: "controller \<Rightarrow> node list \<Rightarrow> unit res go" where
  "UpdateInternalLB c nodes =
     (let ns = cfgHostTaskNamespace (Config c); hosts = primaryHosts nodes in do {
        _ \<leftarrow> deletePods c ns UpdateInternalLBSelector;
        if hosts = [] then Ok ()
        else bindE (updateNodes c hosts nodes) (\<lambda>_. do {
          _ \<leftarrow> deletePods c ns UpdateInternalLBSelector;
          _ \<leftarrow> sighupPods c ''kube-system'' ''app=kurl-haproxy'' ''haproxy'';
          Ok () }) })"

section \<open>When it runs\<close>

text \<open>The set of nodes as the config map records it.\<close>

definition nodeProps :: "node \<Rightarrow> string" where
  "nodeProps n = nodeName n @ '' '' @ show_bool (NodeIsMaster n) @ '' '' @ NodeInternalIP n"

definition internalLBState :: "node list \<Rightarrow> string" where
  "internalLBState nodes = Join '','' (sort (map nodeProps nodes))"

definition ReconcileInternalLB :: "controller \<Rightarrow> node list \<Rightarrow> unit res go" where
  "ReconcileInternalLB c nodes =
     (let env = Client c; ns = cfgHostTaskNamespace (Config c);
          at = '' configmap '' @ ns @ ''/'' @ UpdateInternalLBValue;
          nextInternalLB = internalLBState nodes in do {
        r \<leftarrow> getObj env dec_configmap ConfigMaps ns UpdateInternalLBValue;
        case r of
          Inl err \<Rightarrow>
            (if \<not> IsNotFoundErr err then Fail (Wrap (''get'' @ at) err)
             else wrapE (''create'' @ at) (send env (Create ConfigMaps ns (ObjConfigMap
               \<lparr>cmName = UpdateInternalLBValue, cmNamespace = ns,
                cmData = [(UpdateInternalLBValue, '''')]\<rparr>))))
        | Inr cm \<Rightarrow>
            (if nextInternalLB = index_map (cmData cm) UpdateInternalLBValue then Ok ()
             else bindE (UpdateInternalLB c nodes) (\<lambda>_.
               if cmData cm = [] then Fail (Panic ''assignment to entry in nil map'')
               else wrapE (''update'' @ at) (send env (Update ConfigMaps ns (ObjConfigMap (cm\<lparr>cmData :=
                 store_map (cmData cm) UpdateInternalLBValue nextInternalLB\<rparr>)))))) })"

section \<open>The command change-load-balancer\<close>

fun setServers :: "controller \<Rightarrow> string \<Rightarrow> string \<Rightarrow> node list \<Rightarrow> unit res go" where
  "setServers c exclude server [] = Ok ()"
| "setServers c exclude server (n # nodes) =
     (if nodeName n = exclude then setServers c exclude server nodes
      else bindE (SetKubeconfigServer c n server) (\<lambda>_. setServers c exclude server nodes))"

text \<open>The last line of the output, which scripts parse; a fatal message ends the process.\<close>

definition resultLine :: "string \<Rightarrow> unit res \<Rightarrow> string res" where
  "resultLine msg r = (case r of
       Inl err \<Rightarrow> Inl (NewErr (''Result: '' @ msg @ '': '' @ errorText err)) | Inr _ \<Rightarrow> Inr ''Result: success'')"

definition changeLoadBalancer :: "controller \<Rightarrow> bool \<Rightarrow> string \<Rightarrow> string \<Rightarrow> string res go" where
  "changeLoadBalancer c useInternal exclude server = do {
     r \<leftarrow> listObjs (Client c) dec_node Nodes '''' '''';
     case r of
       Inl err \<Rightarrow> ret (resultLine ''Failed to list nodes'' (Inl err))
     | Inr nodes \<Rightarrow> do {
         r \<leftarrow> (if useInternal then UpdateInternalLB c nodes else Ok ());
         case r of
           Inl err \<Rightarrow> ret (resultLine ''Failed to start internal load balancer'' (Inl err))
         | Inr _ \<Rightarrow> do {
             r \<leftarrow> setServers c exclude server nodes;
             ret (resultLine ''Failed to update kubeconfigs'' r) } } }"

section \<open>What is recorded\<close>

lemma emits_sighupPod: "emits (\<lambda>r. \<exists>ns p ctr cmd. r = Exec ns p ctr cmd) (sighupPod c ns ctr p)"
  unfolding sighupPod_def ExecContainer_def by (intro emits_intros) auto

lemma emits_sighupLoop:
  assumes "P PollTick" "\<And>ns p ctr cmd. P (Exec ns p ctr cmd)"
  shows "emits P (sighupLoop c ns ctr ps decided)"
proof -
  have one: "emits P (sighupPod c ns ctr p)" for c ns ctr p
    by (rule emits_mono [OF emits_sighupPod]) (auto intro: assms(2))
  show ?thesis
    by (induction c ns ctr ps decided rule: sighupLoop.induct)
      (auto simp: sighupLoop.simps split: response.split intro!: emits_intros one assms(1))
qed

lemma emits_sighupPods:
  assumes "\<And>r. is_read r \<Longrightarrow> P r" "\<And>ns p ctr cmd. P (Exec ns p ctr cmd)"
  shows "emits P (sighupPods c ns selector ctr)"
  unfolding sighupPods_def by (intro emits_intros assms emits_sighupLoop) simp_all

lemma emits_updateNodes:
  assumes "\<And>r. is_read r \<Longrightarrow> P r" "\<And>x. P (Create Pods (cfgHostTaskNamespace (Config c)) x)"
  shows "emits P (updateNodes c hosts nodes)"
  by (induction nodes) (auto intro!: emits_intros assms)

lemma emits_UpdateInternalLB:
  assumes "\<And>r. is_read r \<Longrightarrow> P r" "\<And>x. P (Create Pods (cfgHostTaskNamespace (Config c)) x)"
    and "\<And>ns p ctr cmd. P (Exec ns p ctr cmd)" "\<And>ns sel. P (DeleteCollection Pods ns sel)"
  shows "emits P (UpdateInternalLB c nodes)"
  unfolding UpdateInternalLB_def Let_def
  by (intro emits_intros emits_sighupPods emits_updateNodes assms)

lemma updateNodes_all:
  assumes "result (updateNodes c hosts nodes) s = Inr ()" "n \<in> set nodes"
  shows "\<exists>pre post. sent (updateNodes c hosts nodes) s = pre @
      Create Pods (cfgHostTaskNamespace (Config c)) (ObjPod (getUpdateInternalLBPod c (nodeName n) hosts)) # post \<and>
    podSucceeded (Client c) (history s @ pre) (cfgHostTaskNamespace (Config c))
      (getUpdateInternalLBPod c (nodeName n) hosts) post"
  using assms
proof (induction nodes arbitrary: s)
  case (Cons m nodes)
  let ?ns = "cfgHostTaskNamespace (Config c)"
  let ?P = "\<lambda>n. getUpdateInternalLBPod c (nodeName n) hosts"
  define r where "r = runTaskPod c ?ns (?P m)
    (''create update internal loadbalancer pod for node '' @ nodeName m)
    (''update internal loadbalancer pod for node '' @ nodeName m)"
  have gr: "grows r" unfolding r_def by (intro emits_intros TrueI)
  have gu: "grows (updateNodes c hosts nodes)" by (rule emits_updateNodes; simp)
  have eq: "updateNodes c hosts (m # nodes) = bindE r (\<lambda>_. updateNodes c hosts nodes)"
    by (simp only: updateNodes.simps r_def)
  from Cons.prems(1) obtain name where
    name: "result r s = Inr name" "result (updateNodes c hosts nodes) (after r s) = Inr ()"
    unfolding eq by (rule bindE_Inr)
  obtain t where t: "sent r s = Create Pods ?ns (ObjPod (?P m)) # t"
    "(\<exists>y. result r s = Inr y) \<longrightarrow> podSucceeded (Client c) (history s) ?ns (?P m) t"
    using runTaskPod_trace [of c ?ns "?P m" _ _ s] unfolding r_def by blast
  have all: "sent (updateNodes c hosts (m # nodes)) s = sent r s @ sent (updateNodes c hosts nodes) (after r s)"
    unfolding eq sent_bindE [OF gr gu] name(1) by simp
  show ?case
  proof (cases "n = m")
    case True
    have "podSucceeded (Client c) (history s) ?ns (?P m) (t @ sent (updateNodes c hosts nodes) (after r s))"
      using t(2) name(1) by (intro podSucceeded_more) blast
    then show ?thesis unfolding all t(1) True
      by (intro exI [of _ "[]"] exI [of _ "t @ sent (updateNodes c hosts nodes) (after r s)"]) simp
  next
    case False
    with Cons.prems(2) have "n \<in> set nodes" by simp
    from Cons.IH [OF name(2) this] obtain pre post where
      p: "sent (updateNodes c hosts nodes) (after r s) = pre @ Create Pods ?ns (ObjPod (?P n)) # post"
        "podSucceeded (Client c) (history (after r s) @ pre) ?ns (?P n) post" by blast
    then show ?thesis unfolding all using grows_history [OF gr, of s]
      by (intro exI [of _ "sent r s @ pre"] exI [of _ post]) simp
  qed
qed simp

text \<open>Every node has had its files written, by a pod that was reported to have succeeded.\<close>

definition updatedAll :: "controller \<Rightarrow> node list \<Rightarrow> request list \<Rightarrow> request list \<Rightarrow> bool" where
  "updatedAll c nodes h t \<longleftrightarrow>
     (\<forall>n\<in>set nodes. \<exists>pre post. t = pre @ Create Pods (cfgHostTaskNamespace (Config c))
          (ObjPod (getUpdateInternalLBPod c (nodeName n) (primaryHosts nodes))) # post \<and>
        podSucceeded (Client c) (h @ pre) (cfgHostTaskNamespace (Config c))
          (getUpdateInternalLBPod c (nodeName n) (primaryHosts nodes)) post)"

lemma updatedAll_extend:
  assumes "updatedAll c nodes (h @ t0) t"
  shows "updatedAll c nodes h (t0 @ t @ u)"
  unfolding updatedAll_def
proof
  fix n assume "n \<in> set nodes"
  with assms obtain pre post where
    "t = pre @ Create Pods (cfgHostTaskNamespace (Config c))
          (ObjPod (getUpdateInternalLBPod c (nodeName n) (primaryHosts nodes))) # post"
    "podSucceeded (Client c) ((h @ t0) @ pre) (cfgHostTaskNamespace (Config c))
          (getUpdateInternalLBPod c (nodeName n) (primaryHosts nodes)) post"
    unfolding updatedAll_def by blast
  then show "\<exists>pre post. t0 @ t @ u = pre @ Create Pods (cfgHostTaskNamespace (Config c))
          (ObjPod (getUpdateInternalLBPod c (nodeName n) (primaryHosts nodes))) # post \<and>
        podSucceeded (Client c) (h @ pre) (cfgHostTaskNamespace (Config c))
          (getUpdateInternalLBPod c (nodeName n) (primaryHosts nodes)) post"
    by (intro exI [of _ "t0 @ pre"] exI [of _ "post @ u"]) (simp add: podSucceeded_more)
qed

lemma UpdateInternalLB_all:
  assumes "result (UpdateInternalLB c nodes) s = Inr ()" "primaryHosts nodes \<noteq> []"
  shows "updatedAll c nodes (history s) (sent (UpdateInternalLB c nodes) s)"
proof -
  let ?ns = "cfgHostTaskNamespace (Config c)" and ?hosts = "primaryHosts nodes"
  let ?d = "deletePods c ?ns UpdateInternalLBSelector"
  let ?u = "updateNodes c ?hosts nodes"
  let ?e = "do { _ \<leftarrow> ?d; _ \<leftarrow> sighupPods c ''kube-system'' ''app=kurl-haproxy'' ''haproxy''; Ok () }"
  have g: "grows ?d" "grows ?u" "grows ?e" "grows (bindE ?u (\<lambda>_. ?e))"
    by (intro emits_intros TrueI emits_updateNodes emits_sighupPods)+
  have eq: "UpdateInternalLB c nodes = do { _ \<leftarrow> ?d; bindE ?u (\<lambda>_. ?e) }"
    using assms(2) by (simp add: UpdateInternalLB_def Let_def)
  have "result (bindE ?u (\<lambda>_. ?e)) (after ?d s) = Inr ()"
    using assms(1) unfolding eq by (simp add: result_bind)
  then have u: "result ?u (after ?d s) = Inr ()" by (rule bindE_Inr) simp
  have h: "history (after ?d s) = history s @ sent ?d s" by (rule grows_history [OF g(1)])
  have "updatedAll c nodes (history s @ sent ?d s) (sent ?u (after ?d s))"
    unfolding updatedAll_def using updateNodes_all [OF u] by (simp only: h) blast
  from updatedAll_extend [OF this] show ?thesis
    unfolding eq sent_bind [OF g(1,4)] sent_bindE [OF g(2,3)] u by simp
qed

lemma internalLBState_mset: "mset nodes = mset nodes' \<Longrightarrow> internalLBState nodes = internalLBState nodes'"
  unfolding internalLBState_def by (metis mset_map sorted_list_of_multiset_mset)

lemma ReconcileInternalLB_unchanged:
  assumes "respond (Client c) (history s)
      (Get ConfigMaps (cfgHostTaskNamespace (Config c)) UpdateInternalLBValue) = Obj (ObjConfigMap cm)"
    and "index_map (cmData cm) UpdateInternalLBValue = internalLBState nodes"
  shows "sent (ReconcileInternalLB c nodes) s =
      [Get ConfigMaps (cfgHostTaskNamespace (Config c)) UpdateInternalLBValue] \<and>
    result (ReconcileInternalLB c nodes) s = Inr ()"
  using assms by (simp add: ReconcileInternalLB_def sent_def result_def Let_def)

text \<open>
  C13: The set of nodes is recorded only once the load balancer has been updated for it on every node,
  by a pod that was reported to have succeeded (unless no primary has an address, when there is
  nothing to write); and once it is recorded, reconciling the same nodes, in whatever order they are
  listed, reads the record and does nothing more.
\<close>

theorem ReconcileInternalLB_records:
  assumes "Update k ns x \<in> set (sent (ReconcileInternalLB c nodes) s)"
  shows "k = ConfigMaps \<and> ns = cfgHostTaskNamespace (Config c) \<and>
    (primaryHosts nodes = [] \<or> updatedAll c nodes (history s) (sent (ReconcileInternalLB c nodes) s)) \<and>
    (\<exists>cm. x = ObjConfigMap cm \<and>
      index_map (cmData cm) UpdateInternalLBValue = internalLBState nodes \<and>
      (\<forall>s' nodes'. mset nodes' = mset nodes \<longrightarrow>
        respond (Client c) (history s') (Get ConfigMaps ns UpdateInternalLBValue) = Obj (ObjConfigMap cm) \<longrightarrow>
        sent (ReconcileInternalLB c nodes') s' = [Get ConfigMaps ns UpdateInternalLBValue] \<and>
        result (ReconcileInternalLB c nodes') s' = Inr ()))"
proof -
  let ?ns = "cfgHostTaskNamespace (Config c)" and ?r = "Update k ns x"
  let ?get = "Get ConfigMaps ?ns UpdateInternalLBValue"
  let ?s = "s\<lparr>history := history s @ [?get]\<rparr>"
  let ?u = "UpdateInternalLB c nodes"
  let ?w = "\<lambda>cm. if cmData cm = [] then Fail (Panic ''assignment to entry in nil map'')
     else wrapE (''update'' @ ('' configmap '' @ ?ns @ ''/'' @ UpdateInternalLBValue))
       (send (Client c) (Update ConfigMaps ?ns (ObjConfigMap (cm\<lparr>cmData :=
         store_map (cmData cm) UpdateInternalLBValue (internalLBState nodes)\<rparr>))))"
  obtain cm where cm: "as_obj dec_configmap (respond (Client c) (history s) ?get) = Inr cm"
    "internalLBState nodes \<noteq> index_map (cmData cm) UpdateInternalLBValue"
    using assms by (auto simp: ReconcileInternalLB_def sent_def Let_def split: sum.splits if_splits)
  have run: "run_state (ReconcileInternalLB c nodes) s = run_state (bindE ?u (\<lambda>_. ?w cm)) ?s"
    using cm by (auto simp: ReconcileInternalLB_def Let_def split: prod.split sum.split)
  have eu: "emits (\<lambda>r. \<forall>k n y. r \<noteq> Update k n y) ?u"
    by (rule emits_UpdateInternalLB) auto
  have gw: "grows (?w cm)" by (intro emits_intros TrueI)
  have gb: "grows (bindE ?u (\<lambda>_. ?w cm))" by (intro emits_bindE gw emits_grows [OF eu])
  have t: "sent (ReconcileInternalLB c nodes) s = [?get] @ sent (bindE ?u (\<lambda>_. ?w cm)) ?s"
  proof -
    have "sent (ReconcileInternalLB c nodes) s =
        drop (length (history s)) (history (after (bindE ?u (\<lambda>_. ?w cm)) ?s))"
      by (simp only: sent_def run after_def)
    then show ?thesis unfolding grows_history [OF gb] by simp
  qed
  then have "?r \<in> set (sent (bindE ?u (\<lambda>_. ?w cm)) ?s)" using assms by simp
  then obtain u0 where u: "result ?u ?s = Inr u0" and w: "?r \<in> set (sent (?w cm) (after ?u ?s))"
    by (rule sent_bindE_in [OF _ eu _ gw]) simp
  have u: "result ?u ?s = Inr ()" using u by simp
  let ?cm = "cm\<lparr>cmData := store_map (cmData cm) UpdateInternalLBValue (internalLBState nodes)\<rparr>"
  have x: "k = ConfigMaps" "ns = ?ns" "x = ObjConfigMap ?cm"
    using w by (cases "cmData cm = []"; simp only: if_True if_False obs_wrap obs_typed obs_return; simp)+
  have "updatedAll c nodes (history s) (sent (ReconcileInternalLB c nodes) s)" if "primaryHosts nodes \<noteq> []"
  proof -
    have "updatedAll c nodes (history s @ [?get]) (sent ?u ?s)"
      using UpdateInternalLB_all [OF u that] by simp
    from updatedAll_extend [OF this] show ?thesis
      unfolding t sent_bindE [OF emits_grows [OF eu] gw] by simp
  qed
  moreover have "sent (ReconcileInternalLB c nodes') s' = [?get] \<and>
      result (ReconcileInternalLB c nodes') s' = Inr ()"
    if "mset nodes' = mset nodes" "respond (Client c) (history s') ?get = Obj (ObjConfigMap ?cm)" for s' nodes'
    using ReconcileInternalLB_unchanged [OF that(2), of nodes'] internalLBState_mset [OF that(1)] by simp
  ultimately show ?thesis using x by auto
qed

definition lbCluster :: "request list \<Rightarrow> request \<Rightarrow> response" where
  "lbCluster h r = (case r of
       Get ConfigMaps ns n \<Rightarrow> Obj (ObjConfigMap \<lparr>cmName = n, cmNamespace = ns, cmData = [(n, '''')]\<rparr>)
     | Create Pods _ _ \<Rightarrow> Obj (ObjPod (samplePod ''p''))
     | Get Pods _ _ \<Rightarrow> Obj (ObjPod ((samplePod ''p'')\<lparr>podPhase := ''Succeeded''\<rparr>))
     | _ \<Rightarrow> Done)"

definition lbNode :: node where
  "lbNode = \<lparr>nodeName = ''a'', nodeLabels = [(''node-role.kubernetes.io/master'', '''')], nodeTaints = [],
     nodeAddresses = [(''InternalIP'', ''10.0.0.1'')]\<rparr>"

theorem ReconcileInternalLB_records_witness:
  "internalLBState [lbNode] = ''a true 10.0.0.1'' \<and>
   updatedAll (sampleController lbCluster) [lbNode] []
     (sent (ReconcileInternalLB (sampleController lbCluster) [lbNode]) sampleProc)"
proof -
  let ?c = "sampleController lbCluster"
  let ?x = "ObjConfigMap \<lparr>cmName = ''update-internallb'', cmNamespace = ''kurl'',
    cmData = [(''update-internallb'', ''a true 10.0.0.1'')]\<rparr>"
  have st: "internalLBState [lbNode] = ''a true 10.0.0.1''"
    by (simp add: internalLBState_def nodeProps_def lbNode_def NodeIsMaster_def NodeInternalIP_def
        MasterRoleLabel_def show_bool_def)
  have m: "NodeIsMaster lbNode" "NodeInternalIP lbNode = ''10.0.0.1''"
    by (simp_all add: lbNode_def NodeIsMaster_def NodeInternalIP_def MasterRoleLabel_def)
  then have hosts: "primaryHosts [lbNode] = [''10.0.0.1'']" by simp
  have ns: "cfgHostTaskNamespace sampleConfig = ''kurl''" "loopBound (sampleEnv lbCluster) = 4"
    by (simp_all add: sampleConfig_def sampleEnv_def)
  have u: "Update ConfigMaps ''kurl'' ?x \<in> set (sent (ReconcileInternalLB ?c [lbNode]) sampleProc)"
    by (simp add: sent_def ReconcileInternalLB_def Let_def UpdateInternalLBValue_def st
        UpdateInternalLB_def m index_map_def as_objs_def deletePods_def runTaskPod_def createObj_def ns lbCluster_def
        pollForPodCompleted_def podCompletedRound_def eval_nat_numeral sighupPods_def)
  show ?thesis using ReconcileInternalLB_records [OF u] hosts st by (simp add: sampleProc_def)
qed

end
