(* ===== verification/CephCluster.thy ===== *)
theory CephCluster
  imports CephPools InternalLB "HOL-Library.Sublist"
begin

text \<open>
  The part of \<open>src/pkg/cluster/rook_ceph.go\<close> that creates the CephCluster from a Helm chart once
  there are enough nodes, with \<open>src/pkg/helm\<close>: the choice of the embedded chart, its values, and
  the Helm calls. What Helm does is a request; the embedded files are fields of the environment.
\<close>

section \<open>Waiting for the shared file system\<close>

definition waitFilesystemRound :: "controller \<Rightarrow> semver \<Rightarrow> string \<Rightarrow> unit res option go" where
  "waitFilesystemRound c rookVersion name = do {
     tick \<leftarrow> call (Client c) PollTick;
     case tick of
       CtxDone err \<Rightarrow> ret (Some (Inl err))
     | _ \<Rightarrow> do {
         r \<leftarrow> CephFilesystemOK c rookVersion name;
         case r of
           Inl err \<Rightarrow> ret (Some (Inl err))
         | Inr ok \<Rightarrow>
             (if ok then do { _ \<leftarrow> call (Client c) (Sleep (10 * Second)); ret (Some (Inr ())) }
              else ret None) } }"

definition WaitCephFilesystem :: "controller \<Rightarrow> semver \<Rightarrow> string \<Rightarrow> unit res go" where
  "WaitCephFilesystem c rookVersion name =
     bindE (CephFilesystemOK c rookVersion name) (\<lambda>ok.
       if ok then Ok ()
       else poll_loop (loopBound (Client c)) (waitFilesystemRound c rookVersion name))"

section \<open>Helm: src/pkg/helm\<close>

text \<open>
  \<open>charts.LatestChartByName\<close>: the file names are sorted downwards as strings. The files are
  embedded in the binary, so listing them, and opening one that was listed, does not fail.
\<close>

definition LatestChartByName :: "env \<Rightarrow> string \<Rightarrow> string res" where
  "LatestChartByName env name =
     (case rev (sort (filter (\<lambda>file. HasPrefix file name) (chartFiles env))) of
        [] \<Rightarrow> Inl (NewErr (''no chartfiles found for '' @ name))
      | chart # _ \<Rightarrow> Inr chart)"

text \<open>A manager is given by its namespace.\<close>

definition NewHelmManager :: "env \<Rightarrow> string \<Rightarrow> string res go" where
  "NewHelmManager env ns =
     (if ns = '''' then Fail (NewErr ''error initializing Helm Manager: namespace must be set'')
      else bindE (wrapWE ''failed to initialize helm configuration'' (send env (HelmInit ns)))
        (\<lambda>_. Ok ns))"

fun findRelease :: "string \<Rightarrow> string list \<Rightarrow> string option" where
  "findRelease releaseName [] = None"
| "findRelease releaseName (r # releases) =
     (if r = releaseName then Some r else findRelease releaseName releases)"

definition GetRelease :: "env \<Rightarrow> string \<Rightarrow> string \<Rightarrow> string option res go" where
  "GetRelease env hm releaseName = do {
     r \<leftarrow> call env (HelmList hm);
     ret (case r of
         Failed err \<Rightarrow> Inl (WrapW ''failed to list installed releases'' err)
       | Strings releases \<Rightarrow> Inr (findRelease releaseName releases)
       | _ \<Rightarrow> Inl badResponse) }"

definition InstallChartArchive ::
  "env \<Rightarrow> string \<Rightarrow> string \<Rightarrow> (string \<times> yaml_value) list \<Rightarrow> string \<Rightarrow> string \<Rightarrow> unit res go" where
  "InstallChartArchive env hm archive values releaseName ns =
     (case chartName env archive of
        Inl err \<Rightarrow> Fail err
      | Inr name \<Rightarrow>
          (let relName = (if releaseName \<noteq> '''' then releaseName else name) in
           bindE (wrapWE (''failed to check if release '' @ relName @ '' is installed'')
               (GetRelease env hm relName)) (\<lambda>installed.
             case installed of
               Some _ \<Rightarrow> Ok ()
             | None \<Rightarrow> wrapWE (''failed to install '' @ name @ '' chart'')
                 (send env (HelmInstall ns archive relName values)))))"

section \<open>The values of the chart\<close>

text \<open>
  The entry of a key of a decoded map, made when there is none or it is \<open>null\<close>; an entry that is
  not a map itself is an error.
\<close>

definition subMap :: "string \<Rightarrow> (string \<times> yaml_value) list \<Rightarrow> (string \<times> yaml_value) list option" where
  "subMap k m = (case map_of m k of
       None \<Rightarrow> Some []
     | Some YNull \<Rightarrow> Some []
     | Some (YMap m') \<Rightarrow> Some m'
     | Some _ \<Rightarrow> None)"

definition setImage :: "string \<Rightarrow> (string \<times> yaml_value) list \<Rightarrow> (string \<times> yaml_value) list res" where
  "setImage img vals =
     (if img = '''' then Inr vals
      else case subMap ''cephClusterSpec'' vals of
        None \<Rightarrow> Inl (NewErr ''failed to get parse cephClusterSpec as map[string]interface{}'')
      | Some clusterSpec \<Rightarrow>
          (case subMap ''cephVersion'' clusterSpec of
             None \<Rightarrow> Inl (NewErr ''failed to get parse cephVersion as map[string]interface{}'')
           | Some cephVersion \<Rightarrow>
               Inr (store_map vals ''cephClusterSpec'' (YMap (store_map clusterSpec ''cephVersion''
                 (YMap (store_map cephVersion ''image'' (YString img))))))))"

definition ensureCephClusterHelm :: "controller \<Rightarrow> unit res go" where
  "ensureCephClusterHelm c =
     (let env = Client c in
      bindE (wrapWE ''unable to get rook-ceph-cluster chartfile''
          (ret (LatestChartByName env ''rook-ceph-cluster''))) (\<lambda>archive.
      bindE (wrapWE ''failed to initialize Helm Manager'' (NewHelmManager env ''rook-ceph'')) (\<lambda>hm.
      bindE (wrapWE ''failed to get rook-ceph chart values'' (ret (chartValues env))) (\<lambda>vals.
      bindE (ret (setImage (cfgRookCephImage (Config c)) vals)) (\<lambda>vals.
        wrapWE ''unable to apply chart''
          (InstallChartArchive env hm archive vals '''' ''rook-ceph''))))))"

definition cephObjectStoreUser :: cephobjectstoreuser where
  "cephObjectStoreUser =
     \<lparr>osuName = ''kurl'', osuNamespace = ''rook-ceph'', osuStore = ''rook-ceph-store'',
      osuDisplayName = ''kurl''\<rparr>"

definition createCephCluster :: "controller \<Rightarrow> unit res go" where
  "createCephCluster c = bindE (ensureCephClusterHelm c) (\<lambda>_. do {
     r \<leftarrow> send (Client c) (Create CephObjectStoreUsers RookCephNS
       (ObjCephObjectStoreUser cephObjectStoreUser));
     case r of
       Inl err \<Rightarrow> (if IsAlreadyExists err then Ok () else Fail err)
     | Inr _ \<Rightarrow> Ok () })"

definition EnsureCephCluster :: "controller \<Rightarrow> string \<Rightarrow> unit res go" where
  "EnsureCephCluster c rookStorageClassName = do {
     r \<leftarrow> GetCephCluster c;
     case r of
       Inl err \<Rightarrow>
         (if \<not> IsNotFoundErr err then Fail (Wrap ''get ceph cluster'' err) else createCephCluster c)
     | Inr _ \<Rightarrow> createCephCluster c }"

section \<open>The chart and its values\<close>

lemma LatestChartByName_greatest:
  "LatestChartByName env name = Inr chart \<longleftrightarrow>
     chart \<in> set (chartFiles env) \<and> HasPrefix chart name \<and>
     (\<forall>f\<in>set (chartFiles env). HasPrefix f name \<longrightarrow> f \<le> chart)"
proof (cases "sort (filter (\<lambda>file. HasPrefix file name) (chartFiles env))" rule: rev_cases)
  case Nil
  then have "filter (\<lambda>file. HasPrefix file name) (chartFiles env) = []" by (metis set_empty set_sort)
  then show ?thesis by (auto simp: LatestChartByName_def filter_empty_conv)
next
  case (snoc fs f)
  have "sorted (fs @ [f])" unfolding snoc [symmetric] by (rule sorted_sort)
  then have max: "\<forall>f'\<in>set fs. f' \<le> f" by (simp add: sorted_append)
  have "set (filter (\<lambda>file. HasPrefix file name) (chartFiles env)) = insert f (set fs)"
    using arg_cong [OF snoc, of set] by simp
  then have mem: "g \<in> set (chartFiles env) \<and> HasPrefix g name \<longleftrightarrow> g = f \<or> g \<in> set fs" for g
    by (simp add: set_eq_iff)
  have "LatestChartByName env name = Inr f" using snoc by (simp add: LatestChartByName_def)
  then show ?thesis using max mem by (metis order_antisym order_refl sum.inject(2))
qed

text \<open>What a path of keys leads to in decoded YAML.\<close>

fun yaml_at :: "(string \<times> yaml_value) list \<Rightarrow> string list \<Rightarrow> yaml_value option" where
  "yaml_at m [] = Some (YMap m)"
| "yaml_at m (k # ks) = (case map_of m k of
     Some (YMap m') \<Rightarrow> yaml_at m' ks
   | v \<Rightarrow> (if ks = [] then v else None))"

lemma yaml_at_store_other: "ks = [] \<or> hd ks \<noteq> k \<Longrightarrow> ks \<noteq> [] \<Longrightarrow> yaml_at (store_map m k v) ks = yaml_at m ks"
  by (cases ks) auto

lemma subMap_simps:
  "subMap k m = Some m' \<longleftrightarrow>
     map_of m k = None \<and> m' = [] \<or> map_of m k = Some YNull \<and> m' = [] \<or> map_of m k = Some (YMap m')"
  by (auto simp: subMap_def split: option.splits yaml_value.splits)

lemma yaml_at_subMap: "subMap k m = Some m' \<Longrightarrow> ks \<noteq> [] \<Longrightarrow> yaml_at m (k # ks) = yaml_at m' ks"
  by (cases ks) (auto simp: subMap_simps)

lemma setImage_sets:
  assumes "setImage img vals = Inr vals'" "img \<noteq> ''''"
  shows "yaml_at vals' [''cephClusterSpec'', ''cephVersion'', ''image''] = Some (YString img) \<and>
    (\<forall>p. \<not> prefix p [''cephClusterSpec'', ''cephVersion'', ''image''] \<and>
         \<not> prefix [''cephClusterSpec'', ''cephVersion'', ''image''] p \<longrightarrow>
       yaml_at vals' p = yaml_at vals p)"
proof -
  define a b d where "a = ''cephClusterSpec''" and "b = ''cephVersion''" and "d = ''image''"
  obtain m1 m2 where m: "subMap a vals = Some m1" "subMap b m1 = Some m2"
    and v: "vals' = store_map vals a (YMap (store_map m1 b (YMap (store_map m2 d (YString img)))))"
    using assms by (auto simp: setImage_def a_def b_def d_def split: option.splits)
  have "yaml_at vals' p = yaml_at vals p" if "\<not> prefix p [a, b, d]" "\<not> prefix [a, b, d] p" for p
  proof -
    from that obtain k ks where p: "p = k # ks" by (cases p) auto
    show ?thesis
    proof (cases "k = a")
      case True
      with that p obtain l ls where ks: "ks = l # ls" by (cases ks) auto
      have 1: "yaml_at vals p = yaml_at m1 ks" using yaml_at_subMap [OF m(1)] True p ks by simp
      show ?thesis
      proof (cases "l = b")
        case True': True
        with that p ks True obtain n ns where ls: "ls = n # ns" "n \<noteq> d" by (cases ls) auto
        have "yaml_at m1 ks = yaml_at m2 ls" using yaml_at_subMap [OF m(2)] True' ks ls by simp
        then show ?thesis using 1 True True' p ks ls by (simp add: v)
      next
        case False
        then show ?thesis using 1 True p ks by (simp add: v)
      qed
    next
      case False
      then show ?thesis using p by (simp add: v)
    qed
  qed
  then show ?thesis unfolding a_def [symmetric] b_def [symmetric] d_def [symmetric]
    by (auto simp: v)
qed

lemma findRelease_None: "findRelease n rs = None \<longleftrightarrow> n \<notin> set rs"
  by (induction rs) auto

section \<open>What is installed\<close>

lemma grows_helm [emits_intros]:
  assumes "\<And>ns. P (HelmInit ns)" "\<And>ns. P (HelmList ns)" "\<And>ns a n v. P (HelmInstall ns a n v)"
  shows "emits P (NewHelmManager env ns)" "emits P (GetRelease env hm name)"
    "emits P (InstallChartArchive env hm archive vals release ns)"
  unfolding NewHelmManager_def GetRelease_def InstallChartArchive_def Let_def
  by (rule emits_intros assms | simp)+

lemma emits_ensureCephClusterHelm [emits_intros]:
  assumes "\<And>ns. P (HelmInit ns)" "\<And>ns. P (HelmList ns)" "\<And>ns a n v. P (HelmInstall ns a n v)"
  shows "emits P (ensureCephClusterHelm c)"
  unfolding ensureCephClusterHelm_def Let_def
  by (rule emits_intros assms | simp)+

lemma emits_EnsureCephCluster [emits_intros]:
  assumes "\<And>ns. P (HelmInit ns)" "\<And>ns. P (HelmList ns)" "\<And>ns a n v. P (HelmInstall ns a n v)"
    "\<And>k ns x. P (Create k ns x)" "\<And>k ns n. P (Get k ns n)"
  shows "emits P (createCephCluster c)" "emits P (EnsureCephCluster c storageClass)"
  unfolding EnsureCephCluster_def createCephCluster_def GetCephCluster_def
  by (rule emits_intros assms | simp)+

lemma InstallChartArchive_installs:
  assumes "HelmInstall ns' chart rel vals' \<in> set (sent (InstallChartArchive env hm archive vals '''' ns) s)"
  shows "ns' = ns \<and> chart = archive \<and> vals' = vals \<and> chartName env archive = Inr rel \<and>
    (\<exists>names. respond env (history s) (HelmList hm) = Strings names \<and> rel \<notin> set names)"
  using assms
  by (cases "chartName env archive"; cases "respond env (history s) (HelmList hm)")
    (auto simp: InstallChartArchive_def GetRelease_def sent_def findRelease_None Let_def
      split: option.splits)

lemma createCephCluster_installs:
  assumes "HelmInstall ns chart rel vals \<in> set (sent (createCephCluster c) s)"
  shows "ns = ''rook-ceph'' \<and> LatestChartByName (Client c) ''rook-ceph-cluster'' = Inr chart \<and>
    chartName (Client c) chart = Inr rel \<and>
    (\<exists>names. respond (Client c) (history s @ [HelmInit ''rook-ceph'']) (HelmList ''rook-ceph'') = Strings names \<and>
       rel \<notin> set names) \<and>
    (\<exists>vals0. chartValues (Client c) = Inr vals0 \<and> setImage (cfgRookCephImage (Config c)) vals0 = Inr vals)"
proof -
  define name ns' where "name = ''rook-ceph-cluster''" and "ns' = ''rook-ceph''"
  have ne: "ns' \<noteq> ''''" by (simp add: ns'_def)
  have "HelmInstall ns chart rel vals \<in> set (sent (ensureCephClusterHelm c) s)"
    using assms
    by (auto simp: createCephCluster_def sent_bindE [OF emits_ensureCephClusterHelm] emits_intros
        sent_bind [OF emits_send] split: sum.splits if_splits)
  then obtain archive vals0 vals' where a: "LatestChartByName (Client c) name = Inr archive"
    "chartValues (Client c) = Inr vals0" "setImage (cfgRookCephImage (Config c)) vals0 = Inr vals'"
    and "HelmInstall ns chart rel vals \<in> set (sent (InstallChartArchive (Client c) ns' archive vals' '''' ns')
      (s\<lparr>history := history s @ [HelmInit ns']\<rparr>))"
    unfolding ensureCephClusterHelm_def Let_def name_def [symmetric] ns'_def [symmetric]
    using ne
    by (cases "LatestChartByName (Client c) name"; cases "chartValues (Client c)";
        cases "setImage (cfgRookCephImage (Config c)) (projr (chartValues (Client c)))";
        cases "as_done (respond (Client c) (history s) (HelmInit ns'))")
      (auto simp: NewHelmManager_def sent_bindE result_bindE after_bindE emits_intros)
  from InstallChartArchive_installs [OF this(4)] a show ?thesis
    unfolding name_def [symmetric] ns'_def [symmetric] by auto
qed

text \<open>
  C34: The chart installed is, of the embedded files of that name, the greatest one by the order of
  strings, under the name it states, with the values embedded beside it, in which only the image of
  Ceph has been set to the configured one (when one is configured); and it is installed only when
  Helm, asked just before, listed no release of that name.
\<close>

theorem EnsureCephCluster_installs_latest:
  assumes "HelmInstall ns chart rel vals \<in> set (sent (EnsureCephCluster c storageClass) s)"
  shows "ns = ''rook-ceph'' \<and>
    chart \<in> set (chartFiles (Client c)) \<and> HasPrefix chart ''rook-ceph-cluster'' \<and>
    (\<forall>f\<in>set (chartFiles (Client c)). HasPrefix f ''rook-ceph-cluster'' \<longrightarrow> f \<le> chart) \<and>
    chartName (Client c) chart = Inr rel \<and>
    (\<exists>names. respond (Client c) (history s @ [Get CephClusters RookCephNS CephClusterName, HelmInit ''rook-ceph''])
       (HelmList ''rook-ceph'') = Strings names \<and> rel \<notin> set names) \<and>
    (\<exists>vals0. chartValues (Client c) = Inr vals0 \<and>
       (if cfgRookCephImage (Config c) = '''' then vals = vals0
        else yaml_at vals [''cephClusterSpec'', ''cephVersion'', ''image''] =
            Some (YString (cfgRookCephImage (Config c))) \<and>
          (\<forall>p. \<not> prefix p [''cephClusterSpec'', ''cephVersion'', ''image''] \<and>
               \<not> prefix [''cephClusterSpec'', ''cephVersion'', ''image''] p \<longrightarrow>
             yaml_at vals p = yaml_at vals0 p)))"
proof -
  have "HelmInstall ns chart rel vals \<in> set (sent (createCephCluster c)
      (s\<lparr>history := history s @ [Get CephClusters RookCephNS CephClusterName]\<rparr>))"
    using assms
    by (auto simp: EnsureCephCluster_def GetCephCluster_def sent_bind [OF emits_getObj] emits_intros
        split: sum.splits if_splits)
  from createCephCluster_installs [OF this] obtain names vals0 where
    i: "ns = ''rook-ceph''" "LatestChartByName (Client c) ''rook-ceph-cluster'' = Inr chart"
      "chartName (Client c) chart = Inr rel" "rel \<notin> set names"
      "respond (Client c) (history s @ [Get CephClusters RookCephNS CephClusterName, HelmInit ''rook-ceph''])
        (HelmList ''rook-ceph'') = Strings names"
      "chartValues (Client c) = Inr vals0" "setImage (cfgRookCephImage (Config c)) vals0 = Inr vals"
    by auto
  have "cfgRookCephImage (Config c) = '''' \<Longrightarrow> vals = vals0" using i(7) by (simp add: setImage_def)
  with i setImage_sets [OF i(7)] show ?thesis
    by (intro conjI exI [of _ vals0] exI [of _ names])
      (auto simp: LatestChartByName_greatest)
qed

definition helmCluster :: "request list \<Rightarrow> request \<Rightarrow> response" where
  "helmCluster h r = (case r of
       Get _ _ _ \<Rightarrow> Failed (ApiErr NotFound ''not found'')
     | HelmList _ \<Rightarrow> Strings [''openebs'']
     | _ \<Rightarrow> Done)"

theorem EnsureCephCluster_installs_latest_witness:
  "let c = NewController (sampleConfig\<lparr>cfgRookCephImage := ''ceph:17''\<rparr>) (sampleEnv helmCluster);
       vals = [(''cephClusterSpec'', YMap [(''cephVersion'', YMap [(''image'', YString ''ceph:17'')])])] in
   HelmInstall ''rook-ceph'' ''rook-ceph-cluster-v1.9.12.tgz'' ''rook-ceph-cluster'' vals
     \<in> set (sent (EnsureCephCluster c '''') sampleProc) \<and>
   chartName (Client c) ''rook-ceph-cluster-v1.9.12.tgz'' = Inr ''rook-ceph-cluster'' \<and>
   yaml_at vals [''cephClusterSpec'', ''cephVersion'', ''image''] = Some (YString ''ceph:17'')"
proof -
  let ?c = "NewController (sampleConfig\<lparr>cfgRookCephImage := ''ceph:17''\<rparr>) (sampleEnv helmCluster)"
  let ?vals = "[(''cephClusterSpec'', YMap [(''cephVersion'', YMap [(''image'', YString ''ceph:17'')])])]"
  have i: "HelmInstall ''rook-ceph'' ''rook-ceph-cluster-v1.9.12.tgz'' ''rook-ceph-cluster'' ?vals
      \<in> set (sent (EnsureCephCluster ?c '''') sampleProc)" by code_simp
  have "cfgRookCephImage (Config ?c) = ''ceph:17''" by (simp add: NewController_def)
  with i EnsureCephCluster_installs_latest [OF i] show ?thesis by (simp add: Let_def)
qed

end
