(* ===== verification/Operator.thy ===== *)
theory Operator
  imports PurgeNode CephCSI Scaling Contour Minio KubeadmCerts CephCluster
begin

text \<open>
  The operator (\<open>src/pkg/ekcoops/operator.go\<close>, \<open>src/pkg/ekcoops/poll.go\<close>): one reconcile with all
  its stages, and the loop that runs it. A stage that fails is reported with the others in the end
  (\<open>multierror.Append\<close>) and does not keep the later ones from running; a run-time panic, or a
  waiting loop that has not ended, does. The lock \<open>mtx\<close> is taken by \<open>Reconcile\<close> alone, which only
  the loop calls, so it is never waited for.
\<close>

record operator =
  opConfig :: config
  opController :: controller

definition New :: "config \<Rightarrow> controller \<Rightarrow> operator" where
  "New config c = \<lparr>opConfig = config, opController = c\<rparr>"

text \<open>\<open>if err := m; err != nil { multiErr = multierror.Append(multiErr, w(err)) }\<close>\<close>

definition collect :: "(go_error \<Rightarrow> go_error) \<Rightarrow> unit res go \<Rightarrow> go_error list \<Rightarrow> go_error list res go" where
  "collect w m acc = do {
     r \<leftarrow> m;
     case r of
       Inl err \<Rightarrow> (if is_panic err then Fail err else Ok (multi_append acc (w err)))
     | Inr _ \<Rightarrow> Ok acc }"

definition onlyIf :: "bool \<Rightarrow> unit res go \<Rightarrow> unit res go" where
  "onlyIf b m = (if b then m else Ok ())"

section \<open>Nodes\<close>

text \<open>The taint that decides: the first one for being unreachable that has a time.\<close>

fun unreachableSince :: "taint list \<Rightarrow> int option" where
  "unreachableSince [] = None"
| "unreachableSince (t # ts) =
     (if taintKey t = UnreachableTaint \<and> taintTimeAdded t \<noteq> None then taintTimeAdded t
      else unreachableSince ts)"

definition isDead :: "operator \<Rightarrow> node \<Rightarrow> bool go" where
  "isDead oper n =
     (case unreachableSince (nodeTaints n) of
        None \<Rightarrow> ret False
      | Some added \<Rightarrow> do {
          t \<leftarrow> now (Client (opController oper));
          ret (added < t - NodeUnreachableToleration (opConfig oper)) })"

definition purgeSkipped :: "config \<Rightarrow> node \<Rightarrow> int \<Rightarrow> int \<Rightarrow> bool" where
  "purgeSkipped config n readyMasters readyWorkers =
     (if NodeIsMaster n \<and> readyMasters < MinReadyMasterNodes config then True
      else readyWorkers < MinReadyWorkerNodes config)"

definition clearDead :: "operator \<Rightarrow> node \<Rightarrow> unit res go" where
  "clearDead oper n = do {
     dead \<leftarrow> (if ClearDeadNodes (opConfig oper) then isDead oper n else ret False);
     if dead then wrapE (''clear dead node '' @ nodeName n) (ClearNode (opController oper) (nodeName n))
     else Ok () }"

definition reconcileNode :: "operator \<Rightarrow> node \<Rightarrow> int \<Rightarrow> int \<Rightarrow> semver option \<Rightarrow> unit res go" where
  "reconcileNode oper n readyMasters readyWorkers rookVersion =
     (let config = opConfig oper; c = opController oper in do {
        dead \<leftarrow> (if PurgeDeadNodes config then isDead oper n else ret False);
        if dead
        then
          (if purgeSkipped config n readyMasters readyWorkers then Ok ()
           else bindE (wrapE (''purge dead node '' @ nodeName n)
               (PurgeNode c (nodeName n) (MaintainRookStorageNodes config) rookVersion))
             (\<lambda>_. clearDead oper n))
        else clearDead oper n })"

fun reconcileNodes ::
  "operator \<Rightarrow> int \<Rightarrow> int \<Rightarrow> semver option \<Rightarrow> node list \<Rightarrow> go_error list \<Rightarrow> go_error list res go" where
  "reconcileNodes oper readyMasters readyWorkers rookVersion [] acc = Ok acc"
| "reconcileNodes oper readyMasters readyWorkers rookVersion (n # nodes) acc =
     bindE (collect (Wrap (''reconcile node '' @ nodeName n))
         (reconcileNode oper n readyMasters readyWorkers rookVersion) acc)
       (reconcileNodes oper readyMasters readyWorkers rookVersion nodes)"

section \<open>Rook\<close>

definition labelled :: "string \<Rightarrow> node \<Rightarrow> bool" where
  "labelled label n = list_ex (\<lambda>(k, v). label = k @ ''='' @ v) (nodeLabels n)"

definition shouldUseNodeForStorage :: "node \<Rightarrow> cephcluster \<Rightarrow> string \<Rightarrow> bool \<Rightarrow> bool" where
  "shouldUseNodeForStorage n cluster rookStorageNodesLabel manageNodes =
     (if \<not> NodeIsReady n then False
      else if manageNodes then list_ex (\<lambda>rookNode. cnName rookNode = nodeName n) (ccStorageNodes cluster)
      else if rookStorageNodesLabel = '''' then True
      else labelled rookStorageNodesLabel n)"

definition ensureAllUsedForStorage :: "operator \<Rightarrow> semver \<Rightarrow> node list \<Rightarrow> bool \<Rightarrow> int res go" where
  "ensureAllUsedForStorage oper rookVersion nodes manageNodes =
     (let c = opController oper in
      bindE (wrapE ''get CephCluster config'' (GetCephCluster c)) (\<lambda>cluster.
        UseNodesForStorage c rookVersion cluster
          (map nodeName (filter (\<lambda>n. shouldUseNodeForStorage n cluster
             (RookStorageNodesLabel (opConfig oper)) manageNodes) nodes)) manageNodes))"

definition replicationFactor :: "config \<Rightarrow> int \<Rightarrow> int" where
  "replicationFactor config numNodes =
     (let factor = numNodes;
          factor = (if factor < MinCephPoolReplication config then MinCephPoolReplication config else factor)
      in if factor > MaxCephPoolReplication config then MaxCephPoolReplication config else factor)"

text \<open>The stages of the adjustment report whether they changed something; an error counts as no.\<close>

definition collectBool :: "(go_error \<Rightarrow> go_error) \<Rightarrow> bool res go \<Rightarrow> go_error list \<Rightarrow>
    (go_error list \<times> bool) res go" where
  "collectBool w m acc = do {
     r \<leftarrow> m;
     case r of
       Inl err \<Rightarrow> (if is_panic err then Fail err else Ok (multi_append acc (w err), False))
     | Inr ok \<Rightarrow> Ok (acc, ok) }"

definition currentCephVersion :: "operator \<Rightarrow> (go_error list \<times> semver option) res go" where
  "currentCephVersion oper = do {
     r \<leftarrow> GetCephCluster (opController oper);
     case r of
       Inl err \<Rightarrow> Ok (multi_append [] (Wrap ''get CephCluster config'' err), None)
     | Inr cephcluster \<Rightarrow>
         (case GetCephVersion (Client (opController oper)) cephcluster of
            Inl err \<Rightarrow>
              (if is_panic err then Fail err
               else Ok (multi_append [] (Wrap ''get ceph version'' err), None))
          | Inr ver \<Rightarrow> Ok ([], Some ver)) }"

definition adjustPoolReplicationLevels :: "operator \<Rightarrow> semver \<Rightarrow> int \<Rightarrow> bool \<Rightarrow> unit res go" where
  "adjustPoolReplicationLevels oper rookVersion numNodes doFullReconcile =
     (let config = opConfig oper; c = opController oper; factor = replicationFactor config numNodes;
          msg = (\<lambda>what. Wrap (''set '' @ what @ '' replication to '' @ Itoa factor)) in
      bindE (currentCephVersion oper) (\<lambda>(acc, cephVersion).
      bindE (collectBool (msg (''pool '' @ CephBlockPool config))
          (SetBlockPoolReplication c rookVersion cephVersion (CephBlockPool config) factor doFullReconcile)
          acc) (\<lambda>(acc, didUpdate).
      bindE (collectBool (msg (''filesystem '' @ CephFilesystem config))
          (SetFilesystemReplication c rookVersion cephVersion (CephFilesystem config) factor doFullReconcile)
          acc) (\<lambda>(acc, ok1).
      bindE (collectBool (msg (''object store '' @ CephObjectStore config))
          (SetObjectStoreReplication c rookVersion cephVersion (CephObjectStore config) factor doFullReconcile)
          acc) (\<lambda>(acc, ok2).
      bindE (collectBool (msg ''device_health_metrics'')
          (SetDeviceHealthMetricsReplication c rookVersion cephVersion (CephBlockPool config) factor
             (doFullReconcile \<or> didUpdate \<or> ok1 \<or> ok2))
          acc) (\<lambda>(acc, _). ret (multi_res acc)))))))"

definition maintainStorageNodes :: "operator \<Rightarrow> semver \<Rightarrow> node list \<Rightarrow> bool \<Rightarrow> go_error list res go" where
  "maintainStorageNodes oper rookVersion nodes doFullReconcile =
     (let c = opController oper in do {
        r \<leftarrow> ensureAllUsedForStorage oper rookVersion nodes (RookStorageNodes (opConfig oper) \<noteq> '''');
        case r of
          Inl err \<Rightarrow>
            (if is_panic err then Fail err
             else if IsNotFoundErr err then Ok []
             else Ok (multi_append [] (Wrap ''ensure all ready nodes used for storage'' err)))
        | Inr readyCount \<Rightarrow>
            bindE (collect (Wrap ''adjust pool replication levels'')
              (adjustPoolReplicationLevels oper rookVersion readyCount doFullReconcile) []) (\<lambda>acc.
            bindE (collect (Wrap ''reconcile mon count'') (ReconcileMonCount c readyCount) acc) (\<lambda>acc.
            collect (Wrap ''reconcile mgr count'') (ReconcileMgrCount c rookVersion readyCount) acc)) })"

definition reconcileRook :: "operator \<Rightarrow> semver \<Rightarrow> node list \<Rightarrow> bool \<Rightarrow> unit res go" where
  "reconcileRook oper rookVersion nodes doFullReconcile =
     (let config = opConfig oper; c = opController oper;
          placement = Wrap (''patch filesystem '' @ CephFilesystem config @ '' mds placement'') in do {
        r \<leftarrow> GetCephCluster c;
        case r of
          Inl err \<Rightarrow> (if \<not> IsNotFoundErr err then Fail (Wrap ''get CephCluster'' err) else Ok ())
        | Inr _ \<Rightarrow>
            bindE (if MaintainRookStorageNodes config
                then maintainStorageNodes oper rookVersion nodes doFullReconcile else Ok []) (\<lambda>acc.
            bindE (collect placement (onlyIf (ReconcileCephCSIResources config)
                (bindE (SetCephCSIResources c rookVersion (int (length nodes))) (\<lambda>_. Ok ()))) acc) (\<lambda>acc.
            bindE (collect placement (onlyIf (ReconcileRookMDSPlacement config)
                (PatchFilesystemMDSPlacementMultinode c (CephFilesystem config) (int (length nodes)))) acc)
              (\<lambda>acc.
            bindE (collect (Wrap ''set rook priority class'') (onlyIf (RookPriorityClass config \<noteq> '''')
                (PrioritizeRook c)) acc) (\<lambda>acc. ret (multi_res acc))))) })"

definition reconcileRookCluster :: "operator \<Rightarrow> unit res go" where
  "reconcileRookCluster oper =
     (let config = opConfig oper; c = opController oper in
      bindE (wrapE ''list nodes'' (listObjs (Client c) dec_node Nodes '''' '''')) (\<lambda>nodes.
        let (m, w) = NodeReadyCounts nodes in
        if m + w \<ge> RookMinimumNodeCount config
        then wrapE ''ensure ceph cluster'' (EnsureCephCluster c (RookStorageClass config))
        else Ok ()))"

section \<open>Certificates\<close>

text \<open>The method \<open>RotateCerts\<close> of the operator.\<close>

definition rotateCertsIfDue :: "operator \<Rightarrow> bool \<Rightarrow> unit res go" where
  "rotateCertsIfDue oper force =
     (let c = opController oper in
      bindE (wrapE (''check if it'' @ [CHR 0x27] @ ''s time to run cert rotation jobs'')
          (CheckRotateCertsDue c force)) (\<lambda>due.
        if due
        then
          bindE (collect (Wrap ''rotate contour certs'') (RotateContourCerts c) []) (\<lambda>acc.
          bindE (collect (Wrap ''rotate registry cert'') (RotateRegistryCert c) acc) (\<lambda>acc.
          bindE (collect (Wrap ''rotate kurl proxy cert'') (RotateKurlProxyCert c) acc) (\<lambda>acc.
          bindE (collect (Wrap ''update kotsadm kubelet client cert secret'')
            (UpdateKubeletClientCertSecret c) acc) (\<lambda>acc.
          bindE (collect (Wrap ''rotate certs on primaries'') (RotateAllCerts c) acc)
            (\<lambda>acc. ret (multi_res acc))))))
        else Ok ()))"

definition pendingKubeletServing :: "csr \<Rightarrow> bool" where
  "pendingKubeletServing r \<longleftrightarrow>
     csrSignerName r = ''kubernetes.io/kubelet-serving'' \<and> csrConditions r = [] \<and> csrCertificate r = ''''"

definition approved :: "csr \<Rightarrow> csr" where
  "approved r = r\<lparr>csrConditions := csrConditions r @
     [\<lparr>condType = ''Approved'', condStatus = ''True'', condReason = ''ekcoApprove'',
       condMessage = ''automated ekco approval of kubelet csr request'',
       condLastTransitionTime = 0\<rparr>]\<rparr>"

fun approveRequests :: "env \<Rightarrow> csr list \<Rightarrow> unit res go" where
  "approveRequests env [] = Ok ()"
| "approveRequests env (r # rs) =
     (if pendingKubeletServing r
      then bindE (wrapE (''approve csr '' @ csrName r) (send env (UpdateApproval (ObjCSR (approved r)))))
        (\<lambda>_. approveRequests env rs)
      else approveRequests env rs)"

definition reconcileCertificateSigningRequests :: "operator \<Rightarrow> unit res go" where
  "reconcileCertificateSigningRequests oper =
     (let env = Client (opController oper) in
      bindE (wrapE ''list csrs'' (listObjs env dec_csr CertificateSigningRequests '''' ''''))
        (approveRequests env))"

section \<open>MinIO and kotsadm\<close>

text \<open>
  \<open>reconcileMinio\<close> in the steps in which it can be interleaved with other goroutines: the check of
  the pause flag, the attempt to take the mutex, what is done under the mutex, and its release.
  When the part under the mutex does not return (a panic, or a copy that still runs) there is no
  release.
\<close>

definition minioMutexTryLock :: "bool go" where
  "minioMutexTryLock = do {
     held \<leftarrow> reads minioMutex;
     if held then ret False else do { _ \<leftarrow> modify (\<lambda>s. s\<lparr>minioMutex := True\<rparr>); ret True } }"

definition minioMutexUnlock :: "unit go" where
  "minioMutexUnlock = modify (\<lambda>s. s\<lparr>minioMutex := False\<rparr>)"

definition scaleAndMigrateMinio :: "operator \<Rightarrow> unit res go" where
  "scaleAndMigrateMinio oper =
     (let c = opController oper; ns = MinioNamespace (opConfig oper) in
      bindE (wrapE ''scale minio statefulset'' (ScaleMinioStatefulset c ns)) (\<lambda>_. do {
        r \<leftarrow> getObj (Client c) dec_deployment Deployments ns ''minio'';
        case r of
          Inl err \<Rightarrow>
            (if \<not> IsNotFoundErr err then Fail (Wrap ''get minio deployment'' err)
             else wrapE ''ensure ha minio svc'' (EnsureHAMinioSvc c ns))
        | Inr _ \<Rightarrow>
            wrapE ''migrate data to ha minio'' (MigrateMinioData c (MinioUtilImage (opConfig oper)) ns) }))"

definition manageMinio :: "operator \<Rightarrow> unit res go" where
  "manageMinio oper =
     (let c = opController oper; ns = MinioNamespace (opConfig oper) in
      bindE (wrapE ''determine if ha-minio exists to be managed'' (DoesHAMinioExist c ns)) (\<lambda>exists.
        if \<not> exists then Ok ()
        else bindE (wrapE ''list nodes'' (listObjs (Client c) dec_node Nodes '''' '''')) (\<lambda>nodes.
          let (m, w) = NodeReadyCounts nodes in
          bindE (onlyIf (m + w \<ge> 3) (scaleAndMigrateMinio oper)) (\<lambda>_.
            wrapE ''rebalance minio servers'' (MaybeRebalanceMinioServers c ns)))))"

definition finishMinio :: "unit res \<Rightarrow> unit res go" where
  "finishMinio r = do {
     _ \<leftarrow> (case r of Inl err \<Rightarrow> (if is_panic err then ret () else minioMutexUnlock) | Inr _ \<Rightarrow> minioMutexUnlock);
     ret r }"

definition reconcileMinio :: "operator \<Rightarrow> unit res go" where
  "reconcileMinio oper = do {
     paused \<leftarrow> MinIOPaused;
     if paused then Ok ()
     else do {
       locked \<leftarrow> minioMutexTryLock;
       if \<not> locked then Ok ()
       else do {
         r \<leftarrow> manageMinio oper;
         finishMinio r } } }"

text \<open>\<open>go func() { reconcileMinio }\<close>: one more goroutine that has not run yet.\<close>

definition spawnMinio :: "unit res go" where
  "spawnMinio = do { _ \<leftarrow> modify (\<lambda>s. s\<lparr>minioTasks := minioTasks s + 1\<rparr>); Ok () }"

definition reconcileKotsadm :: "operator \<Rightarrow> unit res go" where
  "reconcileKotsadm oper = do {
     paused \<leftarrow> KotsadmPaused;
     if paused then Ok ()
     else
       bindE (wrapE ''list nodes'' (listObjs (Client (opController oper)) dec_node Nodes '''' ''''))
         (\<lambda>nodes. let (m, w) = NodeReadyCounts nodes in
           onlyIf (m + w \<ge> 3) (wrapE ''enable HA kotsadm'' (Scaling.EnableHAKotsadm (opController oper) ''default''))) }"

section \<open>The reconcile\<close>

definition findRookVersion :: "operator \<Rightarrow> semver option res go" where
  "findRookVersion oper = do {
     r \<leftarrow> GetRookVersion (opController oper);
     ret (case r of
         Inl err \<Rightarrow> (if is_panic err then Inl err else Inr None)
       | Inr rv \<Rightarrow> Inr (Some rv)) }"

definition reconcileCluster ::
  "operator \<Rightarrow> semver option \<Rightarrow> node list \<Rightarrow> bool \<Rightarrow> go_error list \<Rightarrow> go_error list res go" where
  "reconcileCluster oper rookVersion nodes doFullReconcile acc =
     (let config = opConfig oper; c = opController oper in
      bindE (collect id (case rookVersion of
          None \<Rightarrow> Ok ()
        | Some rv \<Rightarrow> reconcileRook oper rv nodes doFullReconcile) acc) (\<lambda>acc.
      bindE (collect (Wrap ''rotate certs'')
        (onlyIf (RotateCertsEnabled config \<and> doFullReconcile) (rotateCertsIfDue oper False)) acc) (\<lambda>acc.
      bindE (collect (Wrap ''update internal loadbalancer'')
        (onlyIf (EnableInternalLoadBalancer config) (ReconcileInternalLB c nodes)) acc) (\<lambda>acc.
      bindE (collect (Wrap ''failed to reconcile prometheus'')
        (ReconcilePrometheus c (int (length nodes))) acc) (\<lambda>acc.
      bindE (collect (Wrap ''failed to reconcile failed envoy pod'') (RestartFailedEnvoyPods c) acc) (\<lambda>acc.
      bindE (collect (Wrap ''reconcile csrs'') (onlyIf (AutoApproveKubeletCertSigningRequests config)
        (reconcileCertificateSigningRequests oper)) acc) (\<lambda>acc.
      bindE (onlyIf (EnableHAMinio config) spawnMinio) (\<lambda>_.
      bindE (collect (Wrap ''reconcile kotsadm'')
        (onlyIf (config.EnableHAKotsadm config) (reconcileKotsadm oper)) acc) (\<lambda>acc.
      collect (Wrap ''reconcile rook cluster'')
        (onlyIf (RookMinimumNodeCount config > 2) (reconcileRookCluster oper)) acc)))))))))"

definition Reconcile :: "operator \<Rightarrow> node list \<Rightarrow> bool \<Rightarrow> unit res go" where
  "Reconcile oper nodes doFullReconcile =
     bindE (findRookVersion oper) (\<lambda>rookVersion.
       let (readyMasters, readyWorkers) = NodeReadyCounts nodes in
       bindE (reconcileNodes oper readyMasters readyWorkers rookVersion nodes []) (\<lambda>acc.
       bindE (reconcileCluster oper rookVersion nodes doFullReconcile acc) (\<lambda>acc.
         ret (multi_res acc))))"

section \<open>The loop: src/pkg/ekcoops/poll.go\<close>

definition onLaunch :: "operator \<Rightarrow> unit res go" where
  "onLaunch oper =
     (if RotateCertsEnabled (opConfig oper) then wrapE ''rotate certs'' (rotateCertsIfDue oper True)
      else Ok ())"

text \<open>One tick: the counter moves on only after a reconcile without an error.\<close>

definition pollTick :: "operator \<Rightarrow> nat \<Rightarrow> nat res go" where
  "pollTick oper i = do {
     r \<leftarrow> listObjs (Client (opController oper)) dec_node Nodes '''' '''';
     case r of
       Inl err \<Rightarrow> Ok i
     | Inr nodes \<Rightarrow> do {
         r \<leftarrow> Reconcile oper nodes (i mod 60 = 0);
         ret (case r of
             Inl err \<Rightarrow> (if is_panic err then Inl err else Inr i)
           | Inr _ \<Rightarrow> Inr (i + 1)) } }"

fun pollLoop :: "nat \<Rightarrow> operator \<Rightarrow> nat \<Rightarrow> unit res go" where
  "pollLoop 0 oper i = Fail Running"
| "pollLoop (Suc fuel) oper i = do {
     tick \<leftarrow> call (Client (opController oper)) PollTick;
     case tick of
       CtxDone _ \<Rightarrow> Ok ()
     | _ \<Rightarrow> bindE (pollTick oper i) (pollLoop fuel oper) }"

definition Poll :: "operator \<Rightarrow> unit res go" where
  "Poll oper = do {
     r \<leftarrow> onLaunch oper;
     case r of
       Inl err \<Rightarrow>
         (if is_panic err then Fail err else pollLoop (loopBound (Client (opController oper))) oper 0)
     | Inr _ \<Rightarrow> pollLoop (loopBound (Client (opController oper))) oper 0 }"

section \<open>Automatic purges\<close>

lemma isDead_obs:
  "result (isDead oper n) s = (case unreachableSince (nodeTaints n) of None \<Rightarrow> False
     | Some added \<Rightarrow> added < clock (Client (opController oper)) (history s) -
         NodeUnreachableToleration (opConfig oper))"
  "sent (isDead oper n) s = (if unreachableSince (nodeTaints n) = None then [] else [Now])"
  by (auto simp: isDead_def clock_def result_def sent_def split: option.splits)

lemma emits_isDead [emits_intros]: "P Now \<Longrightarrow> emits P (isDead oper n)"
  unfolding isDead_def by (intro emits_intros)

lemma emits_ClearNode: "emits (forcesDeadPod (Client c) target) (ClearNode c target)"
  unfolding ClearNode_def
proof (rule emits_list_bindE)
  show "emits (forcesDeadPod (Client c) target) (clearPods c ps)"
    if "as_objs dec_pod (respond (Client c) h (ListReq Pods [] (''spec.nodeName='' @ target))) = Inr ps"
    for h ps
    using that order_refl by (rule emits_clearPods)
qed (simp add: forcesDeadPod_def)

lemma grows_clearDead: "grows (clearDead oper n)"
  unfolding clearDead_def by (intro emits_intros emits_grows [OF emits_ClearNode] TrueI)

text \<open>The node has been unreachable for longer than the toleration, by the clock as read then.\<close>

definition deadAt :: "operator \<Rightarrow> node \<Rightarrow> request list \<Rightarrow> bool" where
  "deadAt oper n h \<longleftrightarrow> (\<exists>added. unreachableSince (nodeTaints n) = Some added \<and>
     added < clock (Client (opController oper)) h - NodeUnreachableToleration (opConfig oper))"

lemma clearDead_changes:
  assumes "r \<in> set (sent (clearDead oper n) s)" "\<not> is_read r"
  shows "ClearDeadNodes (opConfig oper) \<and> forcesDeadPod (Client (opController oper)) (nodeName n) r \<and>
    deadAt oper n (history s) \<and> (\<exists>post. sent (clearDead oper n) s = Now # post \<and> r \<in> set post)"
proof -
  let ?m = "if ClearDeadNodes (opConfig oper) then isDead oper n else ret False"
  let ?f = "\<lambda>dead. if dead then wrapE (''clear dead node '' @ nodeName n)
      (ClearNode (opController oper) (nodeName n)) else Ok ()"
  have s: "sent (clearDead oper n) s = sent ?m s @ sent (?f (result ?m s)) (after ?m s)"
    unfolding clearDead_def
    by (rule sent_bind) (intro emits_intros emits_grows [OF emits_ClearNode] TrueI)+
  have "r \<notin> set (sent ?m s)" using assms(2) by (auto simp: isDead_obs)
  with assms(1) s have d: "result ?m s" "r \<in> set (sent (ClearNode (opController oper) (nodeName n)) (after ?m s))"
    by (auto split: if_splits)
  then have "ClearDeadNodes (opConfig oper)" "deadAt oper n (history s)"
    by (auto simp: isDead_obs deadAt_def split: if_splits option.splits)
  with d s emits_sent [OF emits_ClearNode d(2)] show ?thesis
    by (auto simp: isDead_obs deadAt_def)
qed
lemma grows_PurgeNode: "controller_ok c \<Longrightarrow> grows (PurgeNode c name rook rv)"
  by (rule emits_grows [OF emits_PurgeNode])

lemma purgeSkipped_iff:
  "\<not> purgeSkipped config n readyMasters readyWorkers \<longleftrightarrow>
     (NodeIsMaster n \<longrightarrow> MinReadyMasterNodes config \<le> readyMasters) \<and>
     MinReadyWorkerNodes config \<le> readyWorkers"
  by (auto simp: purgeSkipped_def)

text \<open>What a purge that is not skipped changes, with the clearing that follows it.\<close>

lemma purge_then_clear_changes:
  assumes "controller_ok (opController oper)" "\<not> is_read r"
    and "r \<in> set (sent (bindE (wrapE msg (PurgeNode (opController oper) (nodeName n) rook rv)) (\<lambda>_. clearDead oper n)) s)"
  shows "purgeRequest r \<or>
    ClearDeadNodes (opConfig oper) \<and> forcesDeadPod (Client (opController oper)) (nodeName n) r"
proof -
  let ?purge = "wrapE msg (PurgeNode (opController oper) (nodeName n) rook rv)"
  have "sent (bindE ?purge (\<lambda>_. clearDead oper n)) s = sent ?purge s @ (case result ?purge s of
      Inl e \<Rightarrow> [] | Inr x \<Rightarrow> sent (clearDead oper n) (after ?purge s))"
    by (rule sent_bindE) (intro emits_intros grows_PurgeNode grows_clearDead assms(1))+
  with assms(3) consider "r \<in> set (sent (PurgeNode (opController oper) (nodeName n) rook rv) s)"
    | "r \<in> set (sent (clearDead oper n) (after ?purge s))"
    by (auto split: sum.splits)
  then show ?thesis
  proof cases
    case 1
    then show ?thesis using emits_sent [OF emits_PurgeNode [OF assms(1)]] by blast
  next
    case 2
    from clearDead_changes [OF this assms(2)] show ?thesis by blast
  qed
qed


definition deadWorker :: node where
  "deadWorker = \<lparr>nodeName = ''w'', nodeLabels = [],
     nodeTaints = [\<lparr>taintKey = UnreachableTaint, taintTimeAdded = None\<rparr>,
       \<lparr>taintKey = UnreachableTaint, taintTimeAdded = Some 0\<rparr>], nodeAddresses = []\<rparr>"

definition deadCluster :: "request list \<Rightarrow> request \<Rightarrow> response" where
  "deadCluster h r = (case r of
       Get Nodes _ _ \<Rightarrow> Obj (ObjNode deadWorker)
     | Now \<Rightarrow> Time (61 * Minute)
     | _ \<Rightarrow> Done)"

definition sampleOperator :: "(request list \<Rightarrow> request \<Rightarrow> response) \<Rightarrow> operator" where
  "sampleOperator f =
     New (sampleOpConfig\<lparr>MaintainRookStorageNodes := False\<rparr>) (sampleController f)"


section \<open>The replication factor\<close>

lemma replicationFactor_clamps:
  "MinCephPoolReplication config \<le> MaxCephPoolReplication config \<Longrightarrow>
   replicationFactor config n = max (MinCephPoolReplication config) (min (MaxCephPoolReplication config) n)"
  by (auto simp: replicationFactor_def Let_def)

definition boundedPoolRequest :: "int \<Rightarrow> int \<Rightarrow> request \<Rightarrow> bool" where
  "boundedPoolRequest lo hi r = (case r of
       Patch k ns n (JSONPatch ps) \<Rightarrow> ns = RookCephNS \<and>
         list_all (\<lambda>p. \<exists>level. lo \<le> level \<and> level \<le> hi \<and> setsLevel level p) ps
     | Exec ns p ctr cmd \<Rightarrow> take 4 cmd = [''ceph'', ''osd'', ''pool'', ''set'']
     | _ \<Rightarrow> is_read r)"

lemma poolRequest_bounded:
  "poolRequest c v k name level r \<Longrightarrow> lo \<le> level \<Longrightarrow> level \<le> hi \<Longrightarrow> boundedPoolRequest lo hi r"
  by (auto simp: poolRequest_def boundedPoolRequest_def list_all_iff intro!: exI [of _ level])

lemma emits_collectBool [emits_intros]: "emits P m \<Longrightarrow> emits P (collectBool w m acc)"
  unfolding collectBool_def by (intro emits_intros)

lemma emits_collect [emits_intros]: "emits P m \<Longrightarrow> emits P (collect w m acc)"
  unfolding collect_def by (intro emits_intros)

lemma emits_currentCephVersion [emits_intros]:
  "P (Get CephClusters RookCephNS CephClusterName) \<Longrightarrow> emits P (currentCephVersion oper)"
  unfolding currentCephVersion_def by (intro emits_intros)



section \<open>Full reconciles\<close>

datatype tick = Skipped | Reconciled bool "unit res"

definition tickOutcome :: "operator \<Rightarrow> nat \<Rightarrow> proc \<Rightarrow> tick" where
  "tickOutcome oper i s =
     (let list = listObjs (Client (opController oper)) dec_node Nodes '''' '''' in
      case result list s of
        Inl err \<Rightarrow> Skipped
      | Inr nodes \<Rightarrow>
          Reconciled (i mod 60 = 0) (result (Reconcile oper nodes (i mod 60 = 0)) (after list s)))"

fun pollLog :: "nat \<Rightarrow> operator \<Rightarrow> nat \<Rightarrow> proc \<Rightarrow> tick list" where
  "pollLog 0 oper i s = []"
| "pollLog (Suc fuel) oper i s =
     (let wait = call (Client (opController oper)) PollTick; s' = after wait s in
      case result wait s of
        CtxDone _ \<Rightarrow> []
      | _ \<Rightarrow> tickOutcome oper i s' #
          (case result (pollTick oper i) s' of
             Inl err \<Rightarrow> []
           | Inr i' \<Rightarrow> pollLog fuel oper i' (after (pollTick oper i) s')))"

definition succeeded :: "tick \<Rightarrow> bool" where
  "succeeded t \<longleftrightarrow> (\<exists>full. t = Reconciled full (Inr ()))"

abbreviation successes :: "tick list \<Rightarrow> nat" where
  "successes ts \<equiv> length (filter succeeded ts)"

lemma pollTick_counts:
  "result (pollTick oper i) s =
     (case tickOutcome oper i s of
        Skipped \<Rightarrow> Inr i
      | Reconciled full (Inl err) \<Rightarrow> (if is_panic err then Inl err else Inr i)
      | Reconciled full (Inr _) \<Rightarrow> Inr (i + 1))"
  by (auto simp: pollTick_def tickOutcome_def result_bind Let_def split: sum.splits)

lemma pollLog_step:
  assumes "pollLog (Suc fuel) oper i s = t # ts"
  obtains s1 where "t = tickOutcome oper i s1"
    "ts = [] \<or> (\<exists>s2. ts = pollLog fuel oper (if succeeded t then i + 1 else i) s2)"
proof -
  let ?s1 = "after (call (Client (opController oper)) PollTick) s"
  have t: "t = tickOutcome oper i ?s1"
    and ts: "ts = (case result (pollTick oper i) ?s1 of Inl err \<Rightarrow> []
      | Inr i' \<Rightarrow> pollLog fuel oper i' (after (pollTick oper i) ?s1))"
    using assms by (auto simp: Let_def split: response.splits)
  have "result (pollTick oper i) ?s1 = Inr i' \<Longrightarrow> i' = (if succeeded t then i + 1 else i)" for i'
    using t by (auto simp: pollTick_counts succeeded_def split: tick.splits sum.splits if_splits)
  then have "ts = [] \<or> (\<exists>s2. ts = pollLog fuel oper (if succeeded t then i + 1 else i) s2)"
    using ts by (cases "result (pollTick oper i) ?s1") auto
  with t that show thesis by blast
qed

lemma pollLog_full:
  "pollLog fuel oper i s = pre @ Reconciled full r # post \<Longrightarrow>
   full \<longleftrightarrow> (i + successes pre) mod 60 = 0"
proof (induction fuel arbitrary: i s pre)
  case (Suc fuel)
  show ?case
  proof (cases pre)
    case Nil
    with Suc.prems have "pollLog (Suc fuel) oper i s = Reconciled full r # post"
      by (simp only: append.simps)
    then obtain s1 where "Reconciled full r = tickOutcome oper i s1" by (rule pollLog_step)
    then show ?thesis using Nil by (auto simp: tickOutcome_def Let_def split: sum.splits)
  next
    case (Cons t pre')
    with Suc.prems have "pollLog (Suc fuel) oper i s = t # pre' @ Reconciled full r # post"
      by (simp only: append.simps)
    from pollLog_step [OF this] obtain s2 where
      "pre' @ Reconciled full r # post = pollLog fuel oper (if succeeded t then i + 1 else i) s2"
      by auto
    from Suc.IH [OF this [symmetric]] Cons show ?thesis by simp
  qed
qed simp

text \<open>In a list of ticks with sixty successes there is one at which a given number of them have gone before.\<close>

lemma success_at:
  "k < successes ts \<Longrightarrow> \<exists>pre t post. ts = pre @ t # post \<and> succeeded t \<and> successes pre = k"
proof (induction ts arbitrary: k)
  case (Cons u ts)
  show ?case
  proof (cases "succeeded u \<and> k = 0")
    case True
    then show ?thesis by (intro exI [of _ "[]"]) auto
  next
    case False
    let ?k = "if succeeded u then k - 1 else k"
    have "?k < successes ts" using Cons.prems False by (auto split: if_splits)
    from Cons.IH [OF this] obtain pre t post where
      "ts = pre @ t # post" "succeeded t" "successes pre = ?k" by blast
    with False show ?thesis
      by (intro exI [of _ "u # pre"] exI [of _ t] exI [of _ post]) auto
  qed
qed simp

lemma next_multiple: "60 dvd (a::nat) + (60 - a mod 60) mod 60"
proof (cases "a mod 60 = 0")
  case False
  have split: "r < 60 \<Longrightarrow> 60 * q + r = a \<Longrightarrow> a + (60 - r) = 60 * (q + 1)" for r q :: nat by auto
  have "a + (60 - a mod 60) = 60 * (a div 60 + 1)" by (rule split) simp_all
  moreover have "60 - a mod 60 < 60" using False by simp
  ultimately show ?thesis by (metis dvd_triv_left mod_less)
qed (simp add: dvd_eq_mod_eq_0)


definition quietCluster :: "request list \<Rightarrow> request \<Rightarrow> response" where
  "quietCluster h r = (case r of
       Get _ _ _ \<Rightarrow> Failed (ApiErr NotFound ''not found'')
     | ListReq _ _ _ \<Rightarrow> (if length h < 2 then Failed (NewErr ''connection refused'') else Objs [])
     | _ \<Rightarrow> Done)"

definition quietOperator :: operator where
  "quietOperator = New (sampleOpConfig\<lparr>RotateCertsEnabled := False,
       AutoApproveKubeletCertSigningRequests := False\<rparr>)
     (NewController (sampleConfig\<lparr>cfgRestartFailedEnvoyPods := False\<rparr>) (sampleEnv quietCluster))"

lemma quiet_simps:
  "Client (opController quietOperator) = sampleEnv quietCluster"
  "cfgRestartFailedEnvoyPods (Config (opController quietOperator)) = False"
  "RotateCertsEnabled (opConfig quietOperator) = False"
  "EnableInternalLoadBalancer (opConfig quietOperator) = False"
  "AutoApproveKubeletCertSigningRequests (opConfig quietOperator) = False"
  "EnableHAMinio (opConfig quietOperator) = False"
  "config.EnableHAKotsadm (opConfig quietOperator) = False"
  "RookMinimumNodeCount (opConfig quietOperator) = 0"
  by (simp_all add: quietOperator_def New_def NewController_def sampleOpConfig_def sampleConfig_def)

lemma quiet_Reconcile:
  "prometheusPaused s \<Longrightarrow> run_state (Reconcile quietOperator [] full) s =
    (Inr (), s\<lparr>history := history s @ [Get Namespaces '''' RookCephNS]\<rparr>)"
  by (simp add: Reconcile_def reconcileCluster_def findRookVersion_def GetRookVersion_def Let_def
      collect_def onlyIf_def ReconcilePrometheus_def pause_defs quiet_simps
      RestartFailedEnvoyPods_def quietCluster_def NodeReadyCounts_def)

lemma quiet_tick:
  "prometheusPaused s \<Longrightarrow> 2 \<le> length (history s) \<Longrightarrow>
     tickOutcome quietOperator i s = Reconciled (i mod 60 = 0) (Inr ())"
  "prometheusPaused s \<Longrightarrow> 2 \<le> length (history s) \<Longrightarrow> after (pollTick quietOperator i) s =
     s\<lparr>history := history s @ [ListReq Nodes '''' '''', Get Namespaces '''' RookCephNS]\<rparr>"
  "length (history s) < 2 \<Longrightarrow> tickOutcome quietOperator i s = Skipped"
  "length (history s) < 2 \<Longrightarrow>
     after (pollTick quietOperator i) s = s\<lparr>history := history s @ [ListReq Nodes '''' '''']\<rparr>"
  by (simp_all add: tickOutcome_def pollTick_def Let_def quiet_simps after_bind quietCluster_def
      quiet_Reconcile result_def after_def)

lemma quiet_log:
  "prometheusPaused s \<Longrightarrow> history s \<noteq> [] \<Longrightarrow> pollLog (Suc n) quietOperator i s =
     Reconciled (i mod 60 = 0) (Inr ()) # pollLog n quietOperator (i + 1)
       (s\<lparr>history := history s @ [PollTick, ListReq Nodes '''' '''', Get Namespaces '''' RookCephNS]\<rparr>)"
  "history s = [] \<Longrightarrow> pollLog (Suc n) quietOperator i s =
     Skipped # pollLog n quietOperator i (s\<lparr>history := [PollTick, ListReq Nodes '''' '''']\<rparr>)"
  by (cases "history s"; simp add: pollTick_counts Let_def quiet_simps quiet_tick quietCluster_def)+


section \<open>Certificate signing requests\<close>

lemma emits_approveRequests: "grows (approveRequests env rs)"
  by (induction rs) (auto intro: emits_intros)

lemma approveRequests_prefix:
  "\<exists>approvals. prefix approvals (filter pendingKubeletServing rs) \<and>
     sent (approveRequests env rs) s = map (\<lambda>r. UpdateApproval (ObjCSR (approved r))) approvals \<and>
     (result (approveRequests env rs) s = Inr () \<longrightarrow> approvals = filter pendingKubeletServing rs)"
proof (induction rs arbitrary: s)
  case (Cons r rs)
  show ?case
  proof (cases "pendingKubeletServing r")
    case True
    define m where "m = wrapE (''approve csr '' @ csrName r) (send env (UpdateApproval (ObjCSR (approved r))))"
    have m: "approveRequests env (r # rs) = bindE m (\<lambda>_. approveRequests env rs)" using True by (simp add: m_def)
    have g: "grows m" unfolding m_def by (intro emits_intros TrueI)
    have "sent (approveRequests env (r # rs)) s = UpdateApproval (ObjCSR (approved r)) #
        (case result m s of Inl e \<Rightarrow> [] | Inr _ \<Rightarrow> sent (approveRequests env rs) (after m s))"
      unfolding m by (simp add: sent_bindE [OF g emits_approveRequests]) (simp add: m_def)
    moreover from Cons.IH obtain approvals where
      "prefix approvals (filter pendingKubeletServing rs)"
      "sent (approveRequests env rs) (after m s) = map (\<lambda>r. UpdateApproval (ObjCSR (approved r))) approvals"
      "result (approveRequests env rs) (after m s) = Inr () \<longrightarrow> approvals = filter pendingKubeletServing rs"
      by blast
    ultimately show ?thesis using True
      by (intro exI [of _ "r # (case result m s of Inl e \<Rightarrow> [] | Inr _ \<Rightarrow> approvals)"])
        (auto simp: m result_bindE simp del: approveRequests.simps(2) split: sum.splits)
  qed (use Cons.IH in simp)
qed simp

text \<open>
  C21: Of the listed certificate signing requests the operator approves only those of the kubelet's
  serving signer that have neither a condition nor a certificate, in their order, and nothing else is
  sent: each approval is the request as listed with the condition appended. All of them are
  approved when no approval failed.
\<close>

theorem reconcileCertificateSigningRequests_approves:
  assumes "respond (Client (opController oper)) (history s) (ListReq CertificateSigningRequests '''' '''') =
    Objs (map ObjCSR listed)"
  shows "\<exists>approvals. prefix approvals (filter (\<lambda>r. csrSignerName r = ''kubernetes.io/kubelet-serving'' \<and>
        csrConditions r = [] \<and> csrCertificate r = '''') listed) \<and>
    sent (reconcileCertificateSigningRequests oper) s = ListReq CertificateSigningRequests '''' '''' #
      map (\<lambda>r. UpdateApproval (ObjCSR (r\<lparr>csrConditions := [\<lparr>condType = ''Approved'', condStatus = ''True'',
        condReason = ''ekcoApprove'', condMessage = ''automated ekco approval of kubelet csr request'',
        condLastTransitionTime = 0\<rparr>]\<rparr>))) approvals \<and>
    (result (reconcileCertificateSigningRequests oper) s = Inr () \<longrightarrow>
      approvals = filter (\<lambda>r. csrSignerName r = ''kubernetes.io/kubelet-serving'' \<and>
        csrConditions r = [] \<and> csrCertificate r = '''') listed)"
proof -
  let ?env = "Client (opController oper)"
  let ?m = "wrapE ''list csrs'' (listObjs ?env dec_csr CertificateSigningRequests '''' '''')"
  have g: "grows ?m" by (intro emits_intros TrueI)
  have r: "result ?m s = Inr listed" using assms by (simp add: as_objs_def comp_def list_all_iff)
  have p: "pendingKubeletServing = (\<lambda>r. csrSignerName r = ''kubernetes.io/kubelet-serving'' \<and>
        csrConditions r = [] \<and> csrCertificate r = '''')"
    by (simp add: pendingKubeletServing_def fun_eq_iff)
  obtain approvals where a: "prefix approvals (filter pendingKubeletServing listed)"
    "sent (approveRequests ?env listed) (after ?m s) = map (\<lambda>r. UpdateApproval (ObjCSR (approved r))) approvals"
    "result (approveRequests ?env listed) (after ?m s) = Inr () \<longrightarrow> approvals = filter pendingKubeletServing listed"
    using approveRequests_prefix by blast
  have "csrConditions r = []" if "r \<in> set approvals" for r
    using set_mono_prefix [OF a(1)] that by (auto simp: p)
  then have "sent (approveRequests ?env listed) (after ?m s) = map (\<lambda>r. UpdateApproval (ObjCSR (r\<lparr>csrConditions :=
      [\<lparr>condType = ''Approved'', condStatus = ''True'', condReason = ''ekcoApprove'',
        condMessage = ''automated ekco approval of kubelet csr request'', condLastTransitionTime = 0\<rparr>]\<rparr>))) approvals"
    unfolding a(2) by (intro map_cong refl) (simp add: approved_def)
  moreover have "sent (reconcileCertificateSigningRequests oper) s = ListReq CertificateSigningRequests '''' '''' #
      sent (approveRequests ?env listed) (after ?m s)"
    "result (reconcileCertificateSigningRequests oper) s = result (approveRequests ?env listed) (after ?m s)"
    using r by (simp_all add: reconcileCertificateSigningRequests_def Let_def sent_bindE [OF g emits_approveRequests] result_bindE)
  ultimately show ?thesis using a(1,3) unfolding p by (intro exI [of _ approvals]) simp
qed

definition kubeletCSR :: "string \<Rightarrow> string \<Rightarrow> csr" where
  "kubeletCSR name signer = \<lparr>csrName = name, csrSignerName = signer, csrConditions = [], csrCertificate = ''''\<rparr>"

theorem reconcileCertificateSigningRequests_approves_witness:
  "let listed = [kubeletCSR ''a'' ''kubernetes.io/kubelet-serving'', kubeletCSR ''b'' ''example.com/other''];
       oper = sampleOperator (\<lambda>h r. case r of ListReq _ _ _ \<Rightarrow> Objs (map ObjCSR listed) | _ \<Rightarrow> Done) in
   result (reconcileCertificateSigningRequests oper) sampleProc = Inr () \<and>
   length (sent (reconcileCertificateSigningRequests oper) sampleProc) = 2"
proof -
  define listed where "listed = [kubeletCSR ''a'' ''kubernetes.io/kubelet-serving'', kubeletCSR ''b'' ''example.com/other'']"
  define oper where "oper = sampleOperator (\<lambda>h r. case r of ListReq _ _ _ \<Rightarrow> Objs (map ObjCSR listed) | _ \<Rightarrow> Done)"
  have env: "Client (opController oper) = sampleEnv (\<lambda>h r. case r of ListReq _ _ _ \<Rightarrow> Objs (map ObjCSR listed) | _ \<Rightarrow> Done)"
    by (simp add: oper_def sampleOperator_def New_def)
  have l: "respond (Client (opController oper)) (history sampleProc) (ListReq CertificateSigningRequests '''' '''') =
      Objs (map ObjCSR listed)"
    by (simp add: env)
  have r: "result (reconcileCertificateSigningRequests oper) sampleProc = Inr ()"
    by (simp add: reconcileCertificateSigningRequests_def env result_bindE after_bindE
        as_objs_def as_done_def pendingKubeletServing_def listed_def kubeletCSR_def)
  moreover have "length (filter (\<lambda>r. csrSignerName r = ''kubernetes.io/kubelet-serving'' \<and>
      csrConditions r = [] \<and> csrCertificate r = '''') listed) = 1"
    by (simp add: listed_def kubeletCSR_def)
  ultimately have "length (sent (reconcileCertificateSigningRequests oper) sampleProc) = 2"
    using reconcileCertificateSigningRequests_approves [OF l] by auto
  with r show ?thesis unfolding Let_def listed_def [symmetric] oper_def [symmetric] by blast
qed

end
