(* ===== verification/Frames.thy ===== *)
theory Frames
  imports Minio Scaling
begin

text \<open>
  What a part of the program leaves alone. A variable of the process that sending requests does not
  touch (the locale \<open>process_variable\<close>) is left alone by every program that does not assign it. The
  rules of \<open>frames_intros\<close> show it for a program from its text; they are proved here for the MinIO
  operations and the copying of the object store, whatever their log function does with it.
\<close>

named_theorems frames_intros "rules that show which variables a program leaves alone"

definition frames :: "(proc \<Rightarrow> 'b) \<Rightarrow> 'a go \<Rightarrow> bool" where
  "frames f m \<longleftrightarrow> (\<forall>s. f (after m s) = f s)"

lemma framesD: "frames f m \<Longrightarrow> f (after m s) = f s"
  by (simp add: frames_def)

lemma frames_return [frames_intros]: "frames f (ret x)"
  by (simp add: frames_def)

lemma frames_bind [frames_intros]:
  "frames f m \<Longrightarrow> (\<And>x. frames f (g x)) \<Longrightarrow> frames f (m \<bind> g)"
  by (simp add: frames_def after_bind)

lemma frames_bindE [frames_intros]:
  "frames f m \<Longrightarrow> (\<And>x. frames f (g x)) \<Longrightarrow> frames f (bindE m g)"
  by (simp add: frames_def after_bindE split: sum.split)

lemma frames_wrap [frames_intros]:
  "frames f m \<Longrightarrow> frames f (wrapE msg m)"
  "frames f m \<Longrightarrow> frames f (wrapWE msg m)"
  "frames f m \<Longrightarrow> frames f (flatE msg m)"
  by (simp_all add: frames_def)

lemma frames_if [frames_intros]: "frames f m \<Longrightarrow> frames f n \<Longrightarrow> frames f (if b then m else n)"
  by simp

lemma frames_case_sum [frames_intros]:
  "(\<And>e. frames f (g e)) \<Longrightarrow> (\<And>x. frames f (h x)) \<Longrightarrow>
   frames f (case r of Inl e \<Rightarrow> g e | Inr x \<Rightarrow> h x)"
  by (simp split: sum.split)

lemma frames_case_option [frames_intros]:
  "frames f g \<Longrightarrow> (\<And>y. frames f (h y)) \<Longrightarrow> frames f (case x of None \<Rightarrow> g | Some y \<Rightarrow> h y)"
  by (simp split: option.split)

lemma frames_case_list [frames_intros]:
  "frames f g \<Longrightarrow> (\<And>y ys. frames f (h y ys)) \<Longrightarrow> frames f (case xs of [] \<Rightarrow> g | y # ys \<Rightarrow> h y ys)"
  by (simp split: list.split)

lemma frames_case_prod [frames_intros]:
  "(\<And>a b. frames f (g a b)) \<Longrightarrow> frames f (case x of (a, b) \<Rightarrow> g a b)"
  by (simp split: prod.split)

lemma frames_case_bool [frames_intros]:
  "frames f g \<Longrightarrow> frames f h \<Longrightarrow> frames f (case b of True \<Rightarrow> g | False \<Rightarrow> h)"
  by (simp split: bool.split)

lemma frames_Let [frames_intros]: "(\<And>y. frames f (g y)) \<Longrightarrow> frames f (let y = x in g y)"
  by (simp add: Let_def)

lemma frames_poll_loop [frames_intros]: "frames f body \<Longrightarrow> frames f (poll_loop n body)"
  by (induction n) (auto intro: frames_intros)

lemma frames_rangeMap [frames_intros]: "frames f (rangeMap env i m)"
  by (simp add: frames_def)

lemma frames_reads [frames_intros]: "frames f (reads g)"
  by (simp add: frames_def)

lemma frames_modify: "(\<And>s. f (g s) = f s) \<Longrightarrow> frames f (modify g)"
  by (simp add: frames_def)

locale process_variable =
  fixes f :: "proc \<Rightarrow> 'b"
  assumes silent: "f (s\<lparr>history := h\<rparr>) = f s"
begin

lemma frames_call [frames_intros]: "frames f (call env r)"
  by (simp add: frames_def silent)

lemma frames_typed [frames_intros]:
  "frames f (getObj env dec k ns name)"
  "frames f (listObjs env dec k ns sel)"
  "frames f (send env r)"
  "frames f (now env)"
  "frames f (storeCall env client op args dec')"
  unfolding getObj_def listObjs_def send_def now_def storeCall_def by (intro frames_intros)+

lemma frames_restarts [frames_intros]:
  "frames f (RestartDeployment env ns name)"
  "frames f (RestartStatefulSet env ns name)"
  "frames f (RestartDaemonSet env ns name)"
  unfolding RestartDeployment_def RestartStatefulSet_def RestartDaemonSet_def AwaitDeploymentReady_def
    AwaitStatefulSetReady_def AwaitDaemonSetReady_def nextRound_def
  by (intro frames_intros)+

lemma frames_noLogs: "frames f (noLogs x)"
  unfolding noLogs_def by (intro frames_intros)

lemma frames_copyObjects:
  "(\<And>x. frames f (logs x)) \<Longrightarrow> frames f (copyObjects env src dst bucket logs count infos)"
  by (induction infos arbitrary: count) (simp_all add: frames_intros)

lemma frames_syncBuckets:
  "(\<And>x. frames f (logs x)) \<Longrightarrow> frames f (syncBuckets env src dst logs buckets)"
  by (induction buckets) (simp_all add: frames_intros frames_copyObjects syncBucket_def)

lemma frames_SyncAllBuckets:
  "(\<And>x. frames f (logs x)) \<Longrightarrow> frames f (SyncAllBuckets env src sak ssk dst dak dsk logs)"
  unfolding SyncAllBuckets_def by (intro frames_intros frames_syncBuckets)

lemma frames_updateBackupRepos:
  "(\<And>x. frames f (logs x)) \<Longrightarrow> frames f (updateBackupRepos env logs original host repos)"
  by (induction repos) (simp_all add: frames_intros)

lemma frames_UpdateConsumers:
  "(\<And>x. frames f (logs x)) \<Longrightarrow> frames f (UpdateConsumers env logs endpoint host ak sk oh osk)"
  unfolding UpdateConsumers_def updateRegistryObjectStore_def updateVeleroObjectStore_def
    updateKotsadmObjectStore_def updateBackupLocation_def updateCloudCredentials_def
  by (intro frames_intros frames_updateBackupRepos)

lemma frames_IsMinioInUse [frames_intros]: "frames f (IsMinioInUse env ns)"
  unfolding IsMinioInUse_def by (intro frames_intros)

lemma frames_prometheus [frames_intros]:
  "frames f (ScalePrometheus env n)" "frames f (ScaleAlertManager env n)"
  unfolding ScalePrometheus_def ScaleAlertManager_def by (intro frames_intros)+

lemma frames_minio [frames_intros]:
  "frames f (DoesHAMinioExist c ns)"
  "frames f (ScaleMinioStatefulset c ns)"
  "frames f (EnsureHAMinioSvc c ns)"
  "frames f (MigrateMinioData c img ns)"
  unfolding DoesHAMinioExist_def ScaleMinioStatefulset_def EnsureHAMinioSvc_def getMinioScale_def
    MigrateMinioData_def migrateOldMinio_def disableService_def haMinioHealthy_def
  by (intro frames_intros frames_SyncAllBuckets frames_noLogs)+

lemma frames_longUnschedulable [frames_intros]: "frames f (longUnschedulable env conds)"
  by (induction conds) (simp_all add: frames_intros)

lemma frames_firstUnschedulable [frames_intros]: "frames f (firstUnschedulable env pods)"
  by (induction pods) (simp_all add: frames_intros)

lemma frames_rescheduleOnePod [frames_intros]: "frames f (rescheduleOnePod c p)"
  unfolding rescheduleOnePod_def by (intro frames_intros)

lemma frames_rescheduleFirst [frames_intros]: "frames f (rescheduleFirst c wanted m)"
  by (induction m) (auto simp: haMinioPodSafeToReschedule_def intro!: frames_intros)

lemma frames_MaybeRebalance [frames_intros]: "frames f (MaybeRebalanceMinioServers c ns)"
  unfolding MaybeRebalanceMinioServers_def rebalancePods_def rebalanceServers_def rescheduleLoop_def
    getMinioScale_def haMinioHealthy_def
  by (intro frames_intros)

end

text \<open>
  A pause flag that is kept in a variable of the process: it stays set while a program works that
  leaves the variable alone, and is clear once the program is over, however it ended.
\<close>

locale pause_flag = pausable pause resume paused + process_variable flag
  for pause :: "unit go" and resume :: "unit go" and paused :: "bool go" and flag :: "proc \<Rightarrow> bool" +
  assumes paused_reads: "result paused s = flag s"
begin

lemma flag_held: "frames flag m \<Longrightarrow> flag (after m (after pause s))"
  using pause_paused [of s] by (simp add: paused_reads framesD)

lemma flag_cleared: "\<not> flag (after (deferring pause resume m) s)"
  using deferred_clears [of m s] by (simp add: paused_reads)

end

interpretation minio_paused: pause_flag PauseMinIO ResumeMinIO MinIOPaused minioPaused
  by unfold_locales (simp_all add: pause_defs)
interpretation prometheus_paused: pause_flag PausePrometheus ResumePrometheus PrometheusPaused prometheusPaused
  by unfold_locales (simp_all add: pause_defs)
interpretation kotsadm_paused: pause_flag PauseKotsadm ResumeKotsadm KotsadmPaused kotsadmPaused
  by unfold_locales (simp_all add: pause_defs)
interpretation minio_mutex: process_variable minioMutex by unfold_locales simp
interpretation migration_status: process_variable migrationStatus by unfold_locales simp
interpretation migration_logs: process_variable migrationLogs by unfold_locales simp

end
