(* ===== verification/MinioSystem.thy ===== *)
theory MinioSystem
  imports Operator Frames
begin

text \<open>
  The goroutines that reconcile MinIO (\<open>reconcileMinio\<close> in \<open>src/pkg/ekcoops/operator.go\<close>) beside the
  rest of the process. Every reconcile may start one; they run in any order and are interleaved
  with each other and with other goroutines between the check of the pause flag, the attempt to
  take \<open>minioMutex\<close>, the part under the mutex, and its release. The mutex is private to
  \<open>reconcileMinio\<close>, so a step of any other goroutine may change everything else in the process.
  What one goroutine does under the mutex is one step: nothing in it touches the mutex, so cutting it
  up would not let another goroutine in.
\<close>

datatype minio_task = Checking | Locking | Managing | Finishing "unit res"

type_synonym system = "proc \<times> minio_task list"

fun returned :: "unit res \<Rightarrow> bool" where
  "returned (Inl err) = (\<not> is_panic err)"
| "returned (Inr _) = True"

inductive minio_step :: "operator \<Rightarrow> system \<Rightarrow> system \<Rightarrow> bool" for oper where
  start: "minioTasks p = Suc k \<Longrightarrow> minio_step oper (p, ts) (p\<lparr>minioTasks := k\<rparr>, ts @ [Checking])"
| skip_paused: "result MinIOPaused p \<Longrightarrow>
    minio_step oper (p, us @ Checking # vs) (after MinIOPaused p, us @ vs)"
| check: "\<not> result MinIOPaused p \<Longrightarrow>
    minio_step oper (p, us @ Checking # vs) (after MinIOPaused p, us @ Locking # vs)"
| skip_locked: "\<not> result minioMutexTryLock p \<Longrightarrow>
    minio_step oper (p, us @ Locking # vs) (after minioMutexTryLock p, us @ vs)"
| lock: "result minioMutexTryLock p \<Longrightarrow>
    minio_step oper (p, us @ Locking # vs) (after minioMutexTryLock p, us @ Managing # vs)"
| manage: "minio_step oper (p, us @ Managing # vs)
    (after (manageMinio oper) p, us @ Finishing (result (manageMinio oper) p) # vs)"
| finish: "returned r \<Longrightarrow>
    minio_step oper (p, us @ Finishing r # vs) (after (finishMinio r) p, us @ vs)"
| other: "minioMutex p' = minioMutex p \<Longrightarrow> minio_step oper (p, ts) (p', ts)"

abbreviation minio_steps :: "operator \<Rightarrow> system \<Rightarrow> system \<Rightarrow> bool" where
  "minio_steps oper \<equiv> (minio_step oper)\<^sup>*\<^sup>*"

inductive_cases minio_stepE: "minio_step oper (p, ts) (p', ts')"
inductive_simps minio_step_idle: "minio_step oper (p, []) (p', ts')"

section \<open>The steps are those of the function\<close>

lemmas minio_mutex_defs = minioMutexTryLock_def minioMutexUnlock_def finishMinio_def

lemma tryLock_obs:
  "result minioMutexTryLock p = (\<not> minioMutex p)"
  "after minioMutexTryLock p = p\<lparr>minioMutex := True\<rparr>"
  by (auto simp: minioMutexTryLock_def result_bind after_bind)

lemma finishMinio_obs:
  "result (finishMinio r) p = r"
  "returned r \<Longrightarrow> after (finishMinio r) p = p\<lparr>minioMutex := False\<rparr>"
  by (auto simp: minio_mutex_defs result_bind after_bind split: sum.split)

lemma frames_manageMinio: "frames minioMutex (manageMinio oper)"
  unfolding manageMinio_def scaleAndMigrateMinio_def onlyIf_def
  by (intro frames_intros)

text \<open>
  A goroutine that is not interleaved with others goes through these steps to the end of the
  function, and leaves the process as the function does.
\<close>

lemma reconcileMinio_steps:
  assumes "returned (result (reconcileMinio oper) p)"
  shows "minio_steps oper (p, [Checking]) (after (reconcileMinio oper) p, [])"
proof (cases "minioPaused p")
  case True
  then have "minio_step oper (p, [] @ Checking # []) (after MinIOPaused p, [] @ [])"
    by (intro skip_paused) (simp add: pause_defs)
  moreover have "after (reconcileMinio oper) p = after MinIOPaused p"
    using True by (simp add: reconcileMinio_def after_bind pause_defs)
  ultimately show ?thesis by auto
next
  case False
  then have 1: "minio_step oper (p, [] @ Checking # []) (p, [] @ Locking # [])"
    using check [of p oper "[]" "[]"] by (simp add: pause_defs)
  show ?thesis
  proof (cases "minioMutex p")
    case True
    have "minio_step oper (p, [] @ Locking # []) (after minioMutexTryLock p, [] @ [])"
      using True by (intro skip_locked) (simp add: tryLock_obs)
    moreover have "after (reconcileMinio oper) p = after minioMutexTryLock p"
      using True False by (simp add: reconcileMinio_def after_bind pause_defs tryLock_obs)
    ultimately show ?thesis using 1 by auto
  next
    case free: False
    let ?p = "p\<lparr>minioMutex := True\<rparr>"
    let ?p' = "after (manageMinio oper) ?p" and ?r = "result (manageMinio oper) ?p"
    have run: "result (reconcileMinio oper) p = ?r" "after (reconcileMinio oper) p = after (finishMinio ?r) ?p'"
      using False free by (simp_all add: reconcileMinio_def result_bind after_bind pause_defs tryLock_obs finishMinio_obs)
    have "minio_step oper (p, [] @ Locking # []) (?p, [] @ Managing # [])"
      using free lock [of p oper "[]" "[]"] by (simp add: tryLock_obs)
    moreover have "minio_step oper (?p, [] @ Managing # []) (?p', [] @ Finishing ?r # [])" by (rule manage)
    moreover have "minio_step oper (?p', [] @ Finishing ?r # []) (after (finishMinio ?r) ?p', [] @ [])"
      using assms run by (intro finish) simp
    ultimately show ?thesis using 1 run by simp
  qed
qed

section \<open>Mutual exclusion\<close>

fun holding :: "minio_task \<Rightarrow> bool" where
  "holding Managing = True"
| "holding (Finishing r) = True"
| "holding t = False"

definition minio_inv :: "system \<Rightarrow> bool" where
  "minio_inv = (\<lambda>(p, ts). length (filter holding ts) = (if minioMutex p then 1 else 0))"

lemma minio_step_inv: "minio_step oper st st' \<Longrightarrow> minio_inv st \<Longrightarrow> minio_inv st'"
  by (induction rule: minio_step.induct)
    (auto simp: minio_inv_def tryLock_obs finishMinio_obs framesD [OF frames_manageMinio] pause_defs
      split: if_splits)

text \<open>
  C4: At most one goroutine manages MinIO at a time, and the mutex is held exactly when one does:
  whatever other goroutines do and in whatever order they run, from a process in which it is free
  and no goroutine has begun.
\<close>

theorem minio_mutual_exclusion:
  assumes "minio_steps oper (p0, []) (p, ts)" "\<not> minioMutex p0"
  shows "length (filter holding ts) \<le> 1 \<and> (minioMutex p \<longleftrightarrow> (\<exists>t\<in>set ts. holding t))"
proof -
  have "minio_inv (p0, [])" using assms(2) by (simp add: minio_inv_def)
  from assms(1) this have "minio_inv (p, ts)"
    by (induction rule: rtranclp_induct) (auto intro: minio_step_inv)
  then show ?thesis
    by (auto simp: minio_inv_def filter_empty_conv length_Suc_conv split: if_splits dest: filter_eq_ConsD)
qed

theorem minio_mutual_exclusion_witness:
  "let oper = sampleOperator deadCluster; p0 = sampleProc\<lparr>minioTasks := 2\<rparr>;
       p = sampleProc\<lparr>minioMutex := True\<rparr> in
   minio_steps oper (p0, []) (p, [Managing, Locking]) \<and> length (filter holding [Managing, Locking]) \<le> 1"
proof -
  let ?o = "sampleOperator deadCluster" and ?p = "\<lambda>n. sampleProc\<lparr>minioTasks := n\<rparr>"
  have t: "(sampleProc::proc)\<lparr>minioTasks := 0\<rparr> = sampleProc" by (simp add: sampleProc_def)
  have np: "\<not> result MinIOPaused sampleProc" "after MinIOPaused sampleProc = sampleProc"
    by (simp_all add: pause_defs sampleProc_def)
  have "minio_step ?o (?p 2, []) (?p 1, [Checking])"
    using start [of "?p 2" 1 ?o "[]"] by simp
  moreover have "minio_step ?o (?p 1, [Checking]) (sampleProc, [Checking, Checking])"
    using start [of "?p 1" 0 ?o "[Checking]"] by (simp add: t)
  moreover have "minio_step ?o (sampleProc, [Checking, Checking]) (sampleProc, [Locking, Checking])"
    using check [OF np(1), of ?o "[]" "[Checking]"] by (simp add: np)
  moreover have "minio_step ?o (sampleProc, [Locking, Checking]) (sampleProc, [Locking, Locking])"
    using check [OF np(1), of ?o "[Locking]" "[]"] by (simp add: np)
  moreover have "minio_step ?o (sampleProc, [Locking, Locking])
      (sampleProc\<lparr>minioMutex := True\<rparr>, [Managing, Locking])"
    using lock [of sampleProc ?o "[]" "[Locking]"] by (simp add: tryLock_obs sampleProc_def)
  ultimately have "minio_steps ?o (?p 2, []) (sampleProc\<lparr>minioMutex := True\<rparr>, [Managing, Locking])"
    by simp
  from this minio_mutual_exclusion [OF this] show ?thesis by (simp add: Let_def sampleProc_def)
qed

text \<open>
  The pause flag does not exclude the goroutines that are past its check: the storage migration
  sets it while one of them waits to take the mutex, which then manages MinIO all the same.
\<close>

lemma pause_does_not_exclude:
  assumes "minioTasks p0 = Suc k" "\<not> minioPaused p0" "\<not> minioMutex p0"
  shows "\<exists>p p'. minio_steps oper (p0, []) (p, [Locking]) \<and> result MinIOPaused p \<and>
    minio_step oper (p, [Locking]) (p', [Managing])"
proof -
  let ?p = "p0\<lparr>minioTasks := k\<rparr>" and ?q = "after PauseMinIO (p0\<lparr>minioTasks := k\<rparr>)"
  have "minio_step oper (p0, []) (?p, [Checking])" using start [OF assms(1), of oper "[]"] by simp
  moreover have "minio_step oper (?p, [Checking]) (?p, [Locking])"
    using check [of ?p oper "[]" "[]"] assms(2) by (simp add: pause_defs)
  moreover have "minio_step oper (?p, [Locking]) (?q, [Locking])"
    by (rule other) (simp add: pause_defs)
  ultimately have "minio_steps oper (p0, []) (?q, [Locking])" by simp
  moreover have "result MinIOPaused ?q" using minio.pause_paused by simp
  moreover have "minio_step oper (?q, [Locking]) (after minioMutexTryLock ?q, [Managing])"
    using lock [of ?q oper "[]" "[]"] assms(3) by (simp add: tryLock_obs pause_defs)
  ultimately show ?thesis by blast
qed

end
