(* ===== verification/Migrate.thy ===== *)
theory Migrate
  imports OpConfig CephStorage Frames
begin

text \<open>
  The storage migration (\<open>src/pkg/migrate/storage.go\<close>): from MinIO to the object store of Rook, and
  of the volumes from the storage class \<open>scaling\<close> to Rook's. Its status and its log are variables of
  the package that the HTTP server reports. The lines that \<open>pvmigrate\<close> writes to its log reach the
  log of the migration through a pipe; they are part of its answer when it succeeds, and left out
  when it fails.
\<close>

definition MIGRATION_STATUS_OBJECTSTORE :: string where
  "MIGRATION_STATUS_OBJECTSTORE = ''running object storage migration''"
definition MIGRATION_STATUS_PVCMIGRATE :: string where
  "MIGRATION_STATUS_PVCMIGRATE = ''running pvc migration''"
definition MIGRATION_STATUS_FAILED :: string where "MIGRATION_STATUS_FAILED = ''failed''"
definition MIGRATION_STATUS_COMPLETED :: string where "MIGRATION_STATUS_COMPLETED = ''completed''"
definition MIGRATION_STATUS_NOT_STARTED :: string where "MIGRATION_STATUS_NOT_STARTED = ''not started''"
definition MIGRATION_STATUS_NOT_READY :: string where "MIGRATION_STATUS_NOT_READY = ''not ready''"

lemmas status_defs = MIGRATION_STATUS_OBJECTSTORE_def MIGRATION_STATUS_PVCMIGRATE_def
  MIGRATION_STATUS_FAILED_def MIGRATION_STATUS_COMPLETED_def MIGRATION_STATUS_NOT_STARTED_def
  MIGRATION_STATUS_NOT_READY_def

definition DISTRIBUTED_STORAGE_CLASS_NAME :: string where
  "DISTRIBUTED_STORAGE_CLASS_NAME = ''distributed''"

definition addLogs :: logger where
  "addLogs line = modify (\<lambda>s. s\<lparr>migrationLogs := migrationLogs s @ line @ NL\<rparr>)"

definition setLogs :: logger where
  "setLogs logs = modify (\<lambda>s. s\<lparr>migrationLogs := logs\<rparr>)"

definition setStatus :: "string \<Rightarrow> unit go" where
  "setStatus status = modify (\<lambda>s. s\<lparr>migrationStatus := status\<rparr>)"

definition GetMigrationStatus :: "env \<Rightarrow> string res go" where
  "GetMigrationStatus env = do {
     r \<leftarrow> getObj env dec_storageclass StorageClasses '''' DISTRIBUTED_STORAGE_CLASS_NAME;
     status \<leftarrow> reads migrationStatus;
     ret (case r of
         Inl err \<Rightarrow>
           (if IsNotFoundErr err then Inr status else Inl (WrapW ''failed to get ceph storageclass'' err))
       | Inr sc \<Rightarrow>
           (if index_map (scAnnotations sc) ''storageclass.kubernetes.io/is-default-class'' = ''true''
            then Inr MIGRATION_STATUS_COMPLETED else Inr status)) }"

definition GetMigrationLogs :: "string go" where
  "GetMigrationLogs = reads migrationLogs"

section \<open>Readiness\<close>

record MigrationReadyResult =
  Ready :: bool
  Reason :: string

record ClusterReadyResult = MigrationReadyResult +
  NrNodes :: int
  RequiredNrNodes :: int

definition notReady :: "string \<Rightarrow> MigrationReadyResult res go" where
  "notReady reason = Ok \<lparr>Ready = False, Reason = reason\<rparr>"

definition kurlObjectUser :: string where
  "kurlObjectUser = ''rook-ceph-object-user-rook-ceph-store-kurl''"

definition storageReady :: "env \<Rightarrow> config \<Rightarrow> MigrationReadyResult res go" where
  "storageReady env config = do {
     r \<leftarrow> getObj env dec_secret Secrets RookCephNS kurlObjectUser;
     case r of
       Inl err \<Rightarrow>
         (if IsNotFoundErr err then notReady ''ceph object store secret not found''
          else Fail (WrapW ''get ceph object store secret'' err))
     | Inr _ \<Rightarrow> do {
         r \<leftarrow> getObj env dec_storageclass StorageClasses '''' (RookStorageClass config);
         case r of
           Inl err \<Rightarrow>
             (if IsNotFoundErr err
              then Fail (NewErr (''rook storageclass '' @ RookStorageClass config @ '' not found''))
              else Fail (WrapW ''get ceph storageclass'' err))
         | Inr _ \<Rightarrow> Ok \<lparr>Ready = True, Reason = ''migration ready''\<rparr> } }"

definition IsMigrationReady :: "env \<Rightarrow> config \<Rightarrow> MigrationReadyResult res go" where
  "IsMigrationReady env config = do {
     r \<leftarrow> getObj env dec_cephcluster CephClusters RookCephNS CephClusterName;
     case r of
       Inl err \<Rightarrow>
         (if IsNotFoundErr err then notReady ''Ceph cluster not created''
          else Fail (WrapW ''failed to get ceph cluster'' err))
     | Inr cephCluster \<Rightarrow>
         (if ccPhase cephCluster \<noteq> ''Ready''
          then notReady (''ceph cluster was '' @ ccPhase cephCluster @ '', not ready'')
          else case ccHealth cephCluster of
            Some health \<Rightarrow>
              (if health \<noteq> ''HEALTH_OK''
               then notReady (''ceph cluster was '' @ health @ '', not healthy'')
               else storageReady env config)
          | None \<Rightarrow> storageReady env config) }"

definition IsClusterReady :: "env \<Rightarrow> config \<Rightarrow> ClusterReadyResult res go" where
  "IsClusterReady env config =
     bindE (wrapWE ''failed to list nodes'' (listObjs env dec_node Nodes '''' '''')) (\<lambda>nodes.
       let nrnodes = int (length nodes) in
       if nrnodes < RookMinimumNodeCount config
       then Ok \<lparr>Ready = False, Reason = ''required number of cluster nodes ('' @
                  Itoa (RookMinimumNodeCount config) @ '') are not met'',
                NrNodes = nrnodes, RequiredNrNodes = RookMinimumNodeCount config\<rparr>
       else Ok \<lparr>Ready = True, Reason = '''', NrNodes = nrnodes,
                RequiredNrNodes = RookMinimumNodeCount config\<rparr>)"

section \<open>The object store\<close>

fun runningPodIP :: "pod list \<Rightarrow> string" where
  "runningPodIP [] = ''''"
| "runningPodIP (p # ps) = (if podPhase p = ''Running'' then podPodIP p else runningPodIP ps)"

definition findMinioPod :: "env \<Rightarrow> string \<Rightarrow> string res go" where
  "findMinioPod env minioNS =
     bindE (wrapWE ''list minio pods'' (listObjs env dec_pod Pods minioNS ''app=minio'')) (\<lambda>pods.
     bindE (if pods = []
         then bindE (wrapWE ''list ha-minio pods'' (listObjs env dec_pod Pods minioNS ''app=ha-minio''))
           (\<lambda>pods. if pods = [] then Fail (NewErr ''unable to find existing minio pod to migrate from'')
              else Ok pods)
         else Ok pods) (\<lambda>pods.
       if runningPodIP pods = '''' then Fail (NewErr ''unable to find running minio pod to migrate from'')
       else Ok (runningPodIP pods)))"

text \<open>\<open>if err != nil && !errors.IsNotFound(err)\<close>\<close>

definition deleteIfExists :: "env \<Rightarrow> kind \<Rightarrow> string \<Rightarrow> string \<Rightarrow> string \<Rightarrow> unit res go" where
  "deleteIfExists env k ns name msg = do {
     r \<leftarrow> send env (Delete k ns name);
     ret (case r of
         Inl err \<Rightarrow> (if \<not> IsNotFoundErr err then Inl (Flat msg err) else Inr ())
       | Inr _ \<Rightarrow> Inr ()) }"

definition deleteMinio :: "env \<Rightarrow> string \<Rightarrow> unit res go" where
  "deleteMinio env minioNS = do {
     _ \<leftarrow> addLogs ''deleting the minio namespace and contents'';
     bindE (deleteIfExists env StatefulSets minioNS ''ha-minio'' ''delete minio statefulset'') (\<lambda>_.
     bindE (deleteIfExists env Deployments minioNS ''minio'' ''delete minio deployment'') (\<lambda>_.
       deleteIfExists env Namespaces '''' minioNS ''delete minio namespace'')) }"

definition rgwHost :: string where "rgwHost = ''http://rook-ceph-rgw-rook-ceph-store.rook-ceph''"

definition moveObjects ::
  "env \<Rightarrow> string \<Rightarrow> string \<Rightarrow> string \<Rightarrow> string \<Rightarrow> string \<Rightarrow> string \<Rightarrow> string \<Rightarrow> unit res go" where
  "moveObjects env minioNS minioPodIP minioAccessKey minioSecretKey rookEndpoint rookAccessKey rookSecretKey =
     bindE (wrapWE ''disable existing minio service'' (send env (Patch Services minioNS ''minio''
         (selectorPatch ''doesnotexist'' ''doesnotexist'')))) (\<lambda>_.
     bindE (wrapWE ''migrate data from minio to rook''
         (SyncAllBuckets env (minioPodIP @ '':9000'') minioAccessKey minioSecretKey
            rookEndpoint rookAccessKey rookSecretKey addLogs)) (\<lambda>_. do {
     _ \<leftarrow> addLogs ''updating secrets in the cluster to point to the new rook object store'';
     bindE (wrapWE ''update secrets in the cluster to point to the new rook object store''
         (UpdateConsumers env addLogs rookEndpoint rgwHost rookAccessKey rookSecretKey
            (''minio.'' @ minioNS) minioSecretKey)) (\<lambda>_. deleteMinio env minioNS) }))"

definition moveMinio :: "env \<Rightarrow> string \<Rightarrow> unit res go" where
  "moveMinio env minioNS =
     bindE (findMinioPod env minioNS) (\<lambda>minioPodIP.
     bindE (wrapWE ''retrieve minio credentials''
         (getObj env dec_secret Secrets minioNS ''minio-credentials'')) (\<lambda>cred.
     bindE (wrapWE ''retrieve rook object store endpoint''
         (getObj env dec_service Services RookCephNS ''rook-ceph-rgw-rook-ceph-store'')) (\<lambda>rookService.
     bindE (wrapWE ''retrieve rook object store credentials''
         (getObj env dec_secret Secrets RookCephNS kurlObjectUser)) (\<lambda>rookSecret.
       moveObjects env minioNS minioPodIP (index_map (secData cred) ''MINIO_ACCESS_KEY'')
         (index_map (secData cred) ''MINIO_SECRET_KEY'') (svcClusterIP rookService)
         (index_map (secData rookSecret) ''AccessKey'') (index_map (secData rookSecret) ''SecretKey'')))))"

definition migrateObjectStorage :: "env \<Rightarrow> string \<Rightarrow> unit res go" where
  "migrateObjectStorage env minioNS =
     bindE (flatE ''check if minio is in use'' (IsMinioInUse env minioNS)) (\<lambda>minioInUse.
       if \<not> minioInUse then Ok ()
       else deferring PauseMinIO ResumeMinIO (moveMinio env minioNS))"

section \<open>The volumes\<close>

fun addAllLogs :: "string list \<Rightarrow> unit go" where
  "addAllLogs [] = ret ()"
| "addAllLogs (l # ls) = do { _ \<leftarrow> addLogs l; addAllLogs ls }"

definition pvmigrateLog :: "response \<Rightarrow> string list" where
  "pvmigrateLog r = (case r of Strings out \<Rightarrow> out | _ \<Rightarrow> [])"

definition runPvMigrate :: "env \<Rightarrow> string \<Rightarrow> string \<Rightarrow> string \<Rightarrow> unit res go" where
  "runPvMigrate env source dest img = do {
     r \<leftarrow> call env (PvMigrate source dest img);
     _ \<leftarrow> addAllLogs (pvmigrateLog r);
     ret (as_done r) }"

definition moveVolumes :: "env \<Rightarrow> config \<Rightarrow> unit res go" where
  "moveVolumes env config = do {
     _ \<leftarrow> addLogs ''scaling down prometheus'';
     bindE (flatE ''scale down prometheus'' (ScalePrometheus env 0)) (\<lambda>_. do {
     _ \<leftarrow> addLogs (''migrating data from '' @ Quote ''scaling'' @ '' storageclass to '' @
       Quote (RookStorageClass config));
     bindE (flatE ''run pvmigrate''
         (runPvMigrate env ''scaling'' (RookStorageClass config) (MinioUtilImage config))) (\<lambda>_. do {
     _ \<leftarrow> addLogs (''deleting the (empty) '' @ Quote ''scaling'' @ '' storageclass'');
     bindE (flatE ''delete scaling storage class'' (send env (Delete StorageClasses '''' ''scaling'')))
       (\<lambda>_. do {
     _ \<leftarrow> addLogs ''scaling up prometheus'';
     flatE ''scale up prometheus'' (ScalePrometheus env 2) }) }) }) }"

definition migrateStorageClasses :: "env \<Rightarrow> config \<Rightarrow> unit res go" where
  "migrateStorageClasses env config = do {
     _ \<leftarrow> setStatus MIGRATION_STATUS_PVCMIGRATE;
     deferring PausePrometheus ResumePrometheus (deferring PauseKotsadm ResumeKotsadm (moveVolumes env config)) }"

section \<open>The migration\<close>

text \<open>
  \<open>ObjectStorageAndPVCs\<close>, in the parts between which its status changes; each says whether the next
  one follows. A run-time panic, or a wait that has not ended, is not recorded as a failure: it is the
  error of these parts, in which no other error is left.
\<close>

definition failMigration :: "string \<Rightarrow> go_error \<Rightarrow> bool res go" where
  "failMigration msg err =
     (if is_panic err then Fail err
      else do {
        _ \<leftarrow> setStatus MIGRATION_STATUS_FAILED;
        _ \<leftarrow> addLogs (msg @ '': '' @ errorText err);
        Ok False })"

definition prepareMigration :: "env \<Rightarrow> config \<Rightarrow> bool res go" where
  "prepareMigration env config = do {
     _ \<leftarrow> setLogs (''checking if the cluster is ready to migrate'' @ NL);
     r \<leftarrow> IsMigrationReady env config;
     case r of
       Inl err \<Rightarrow> failMigration ''is migration ready'' err
     | Inr status \<Rightarrow>
         (if \<not> Ready status
          then do {
            _ \<leftarrow> setStatus MIGRATION_STATUS_NOT_READY;
            _ \<leftarrow> addLogs (''not ready: '' @ Reason status);
            Ok False }
          else do {
            _ \<leftarrow> addLogs ''starting object storage migration'';
            _ \<leftarrow> setStatus MIGRATION_STATUS_OBJECTSTORE;
            Ok True }) }"

definition copyMigration :: "env \<Rightarrow> config \<Rightarrow> bool res go" where
  "copyMigration env config = do {
     r \<leftarrow> migrateObjectStorage env (MinioNamespace config);
     case r of
       Inl err \<Rightarrow> failMigration ''failed to migrate object storage'' err
     | Inr _ \<Rightarrow> do {
         _ \<leftarrow> addLogs ''starting persistent volume migration'';
         _ \<leftarrow> setStatus MIGRATION_STATUS_PVCMIGRATE;
         Ok True } }"

definition volumeMigration :: "env \<Rightarrow> config \<Rightarrow> bool res go" where
  "volumeMigration env config = do {
     r \<leftarrow> migrateStorageClasses env config;
     case r of
       Inl err \<Rightarrow> failMigration ''failed to migrate storage classes'' err
     | Inr _ \<Rightarrow> do {
         _ \<leftarrow> addLogs ''storage migration completed'';
         _ \<leftarrow> setStatus MIGRATION_STATUS_COMPLETED;
         Ok True } }"

definition ObjectStorageAndPVCs :: "env \<Rightarrow> config \<Rightarrow> bool res go" where
  "ObjectStorageAndPVCs env config = do {
     status \<leftarrow> reads migrationStatus;
     if status = MIGRATION_STATUS_COMPLETED then Ok False
     else bindE (prepareMigration env config) (\<lambda>ready.
       if \<not> ready then Ok False
       else bindE (copyMigration env config) (\<lambda>moved.
         if \<not> moved then Ok False else volumeMigration env config)) }"

section \<open>Frames and footprints\<close>

lemma frames_addLogs [frames_intros]:
  "frames minioPaused (addLogs x)" "frames prometheusPaused (addLogs x)"
  "frames kotsadmPaused (addLogs x)" "frames migrationStatus (addLogs x)" "frames minioMutex (addLogs x)"
  unfolding addLogs_def by (rule frames_modify, simp)+

lemma frames_addAllLogs [frames_intros]:
  "(\<And>x. frames f (addLogs x)) \<Longrightarrow> frames f (addAllLogs ls)"
  by (induction ls) (simp_all add: frames_intros)

lemma frames_deferring:
  "frames f pause \<Longrightarrow> frames f resume \<Longrightarrow> frames f m \<Longrightarrow> frames f (deferring pause resume m)"
  unfolding deferring_def by (intro frames_intros)

context process_variable
begin

lemma frames_moveMinio:
  "(\<And>x. frames f (addLogs x)) \<Longrightarrow> frames f (moveMinio env ns)"
  unfolding moveMinio_def findMinioPod_def moveObjects_def deleteMinio_def deleteIfExists_def
  by (intro frames_intros frames_SyncAllBuckets frames_UpdateConsumers)

lemma frames_moveVolumes:
  "(\<And>x. frames f (addLogs x)) \<Longrightarrow> frames f (moveVolumes env config)"
  unfolding moveVolumes_def runPvMigrate_def
  by (intro frames_intros)

lemma frames_IsMigrationReady: "frames f (IsMigrationReady env config)"
  unfolding IsMigrationReady_def storageReady_def notReady_def by (intro frames_intros)

end

lemma frames_status_pauses [frames_intros]:
  "frames migrationStatus PauseMinIO" "frames migrationStatus ResumeMinIO"
  "frames migrationStatus PausePrometheus" "frames migrationStatus ResumePrometheus"
  "frames migrationStatus PauseKotsadm" "frames migrationStatus ResumeKotsadm"
  by (simp_all add: frames_def pause_defs)

lemma frames_setLogs [frames_intros]: "frames migrationStatus (setLogs x)"
  unfolding setLogs_def by (rule frames_modify) simp

lemma setStatus_after [simp]: "migrationStatus (after (setStatus x) s) = x" "result (setStatus x) s = ()"
  by (simp_all add: setStatus_def)

lemma status_migrateObjectStorage: "frames migrationStatus (migrateObjectStorage env ns)"
  unfolding migrateObjectStorage_def
  by (intro frames_intros frames_deferring migration_status.frames_moveMinio)

lemma status_migrateStorageClasses:
  "migrationStatus (after (migrateStorageClasses env config) s) = MIGRATION_STATUS_PVCMIGRATE"
proof -
  have "frames migrationStatus (deferring PausePrometheus ResumePrometheus
      (deferring PauseKotsadm ResumeKotsadm (moveVolumes env config)))"
    by (intro frames_intros frames_deferring migration_status.frames_moveVolumes)
  then show ?thesis by (simp add: migrateStorageClasses_def after_bind framesD)
qed

section \<open>The operator is held off while data is moved\<close>

text \<open>
  The operator finds MinIO paused from before the data is moved until it is, and kotsadm and Prometheus
  while volumes are; all three are free again afterwards, also when the migration failed.
\<close>

lemma moveMinio_held: "minioPaused (after (moveMinio env ns) (after PauseMinIO s))"
  by (rule minio_paused.flag_held) (intro minio_paused.frames_moveMinio frames_addLogs)

lemma migrateObjectStorage_releases: "\<not> minioPaused s \<Longrightarrow> \<not> minioPaused (after (migrateObjectStorage env ns) s)"
  unfolding migrateObjectStorage_def
  by (auto simp: after_bindE minio_paused.flag_cleared framesD [OF minio_paused.frames_IsMinioInUse] split: sum.split)

lemma moveVolumes_held:
  "prometheusPaused (after (moveVolumes env config) (after PauseKotsadm (after PausePrometheus s)))"
  "kotsadmPaused (after (moveVolumes env config) (after PauseKotsadm s))"
proof -
  have k: "frames prometheusPaused PauseKotsadm" by (simp add: frames_def pause_defs)
  have m: "frames prometheusPaused (moveVolumes env config)"
    by (intro prometheus_paused.frames_moveVolumes frames_addLogs)
  show "prometheusPaused (after (moveVolumes env config) (after PauseKotsadm (after PausePrometheus s)))"
    unfolding framesD [OF m] by (rule prometheus_paused.flag_held [OF k])
  show "kotsadmPaused (after (moveVolumes env config) (after PauseKotsadm s))"
    by (rule kotsadm_paused.flag_held) (intro kotsadm_paused.frames_moveVolumes frames_addLogs)
qed

lemma migrateStorageClasses_releases:
  "\<not> prometheusPaused (after (migrateStorageClasses env config) s)"
  "\<not> kotsadmPaused (after (migrateStorageClasses env config) s)"
proof -
  show "\<not> prometheusPaused (after (migrateStorageClasses env config) s)"
    by (simp add: migrateStorageClasses_def after_bind prometheus_paused.flag_cleared)
  have "frames kotsadmPaused ResumePrometheus" by (simp add: frames_def pause_defs)
  then show "\<not> kotsadmPaused (after (migrateStorageClasses env config) s)"
    by (simp add: migrateStorageClasses_def after_bind deferring_def [of PausePrometheus] framesD
        kotsadm_paused.flag_cleared)
qed

section \<open>Data is deleted last\<close>

lemma storeCopied_sub_run: "sub_run m s m' s' \<Longrightarrow> storeCopied env m' s' src dst \<Longrightarrow> storeCopied env m s src dst"
proof -
  assume a: "sub_run m s m' s'" "storeCopied env m' s' src dst"
  then obtain t u where h: "history s' = history s @ t" "sent m s = t @ sent m' s' @ u"
    by (auto simp: sub_run_def)
  define n :: "unit go" where "n = State (\<lambda>s. ((), s\<lparr>history := history s @ t @ sent m' s'\<rparr>))"
  have n: "sent n s = t @ sent m' s'" by (simp add: n_def sent_def)
  from storeCopied_right [OF a(2) h(1) n] have "storeCopied env n s src dst" .
  then show ?thesis by (rule storeCopied_left) (simp add: n h(2))
qed

lemma emits_addLogs [emits_intros]: "emits P (addLogs x)" "emits P (setLogs x)"
  unfolding addLogs_def setLogs_def by (intro emits_modify; simp)+

lemma emits_deleteIfExists [emits_intros]: "P (Delete k ns name) \<Longrightarrow> emits P (deleteIfExists env k ns name msg)"
  unfolding deleteIfExists_def by (intro emits_intros)

fun is_delete :: "request \<Rightarrow> bool" where
  "is_delete (Delete _ _ _) = True"
| "is_delete _ = False"

lemma emits_deleteMinio: "emits is_delete (deleteMinio env ns)"
  unfolding deleteMinio_def by (intro emits_intros) simp_all

lemma emits_findMinioPod: "emits is_read (findMinioPod env ns)"
  unfolding findMinioPod_def by (intro emits_intros) simp_all

lemma findMinioPod_running:
  "result (findMinioPod env ns) s = Inr ip \<Longrightarrow> ip \<noteq> ''''"
  unfolding findMinioPod_def by (auto elim!: bindE_Inr split: if_splits)

abbreviation disabling :: "string \<Rightarrow> request" where
  "disabling ns \<equiv> Patch Services ns ''minio'' (selectorPatch ''doesnotexist'' ''doesnotexist'')"

lemma moveObjects_copied:
  assumes "sent (moveObjects env ns ip mak msk endpoint rak rsk) s = pre @ r # post" "is_delete r"
  shows "storeCopied env (moveObjects env ns ip mak msk endpoint rak rsk) s (ip @ '':9000'') endpoint \<and>
    (\<exists>pre'. pre = disabling ns # pre' \<and> as_done (respond env (history s) (disabling ns)) = Inr ()) \<and>
    list_all is_delete post"
proof -
  let ?sync = "wrapWE ''migrate data from minio to rook''
    (SyncAllBuckets env (ip @ '':9000'') mak msk endpoint rak rsk addLogs)"
  let ?upd = "wrapWE ''update secrets in the cluster to point to the new rook object store''
    (UpdateConsumers env addLogs endpoint rgwHost rak rsk (''minio.'' @ ns) msk)"
  let ?log = "addLogs ''updating secrets in the cluster to point to the new rook object store''"
  let ?del = "bindE ?upd (\<lambda>_. deleteMinio env ns)"
  let ?rest = "?log \<bind> (\<lambda>_. ?del)"
  let ?dis = "wrapWE ''disable existing minio service'' (send env (disabling ns))"
  let ?keeps = "\<lambda>r. \<not> is_delete r"
  have m: "moveObjects env ns ip mak msk endpoint rak rsk = bindE ?dis (\<lambda>_. bindE ?sync (\<lambda>_. ?rest))"
    unfolding moveObjects_def by simp
  have D: "emits ?keeps ?dis" by (intro emits_intros) simp
  have S: "emits ?keeps ?sync" by (intro emits_wrapWE emits_SyncAllBuckets emits_addLogs) simp_all
  have U: "emits ?keeps ?upd" by (intro emits_wrapWE emits_UpdateConsumers emits_addLogs) (auto elim: is_read.elims)
  have L: "emits ?keeps ?log" by (rule emits_addLogs)
  have gd: "grows (deleteMinio env ns)" by (rule emits_grows [OF emits_deleteMinio])
  have gu: "grows ?del" by (intro emits_bindE emits_grows [OF U] gd)
  have gr: "grows ?rest" by (intro emits_bind emits_grows [OF L] gu)
  have gs: "grows (bindE ?sync (\<lambda>_. ?rest))" by (intro emits_bindE emits_grows [OF S] gr)
  have r: "\<not> ?keeps r" using assms(2) by simp
  obtain u mid1 where 1: "result ?dis s = Inr u" "pre = sent ?dis s @ mid1"
    "sent (bindE ?sync (\<lambda>_. ?rest)) (after ?dis s) = mid1 @ r # post"
    "sub_run (bindE ?dis (\<lambda>_. bindE ?sync (\<lambda>_. ?rest))) s (bindE ?sync (\<lambda>_. ?rest)) (after ?dis s)"
    by (rule bindE_phase_sub [OF D r gs assms(1) [unfolded m]])
  obtain v mid2 where 2: "result ?sync (after ?dis s) = Inr v"
    "sent ?rest (after ?sync (after ?dis s)) = mid2 @ r # post"
    by (rule bindE_phase_sub [OF S r gr 1(3)])
  obtain mid3 where 3: "sent ?del (after ?log (after ?sync (after ?dis s))) = mid3 @ r # post"
    by (rule bind_phase [OF L r gu 2(2)])
  obtain w mid4 where 4: "sent (deleteMinio env ns) (after ?upd (after ?log (after ?sync (after ?dis s)))) = mid4 @ r # post"
    by (rule bindE_phase_sub [OF U r gd 3])
  have "list_all is_delete post" using emits_sent_all [OF emits_deleteMinio, of env ns, where s = "after ?upd (after ?log (after ?sync (after ?dis s)))"]
    unfolding 4 by simp
  moreover have "storeCopied env ?sync (after ?dis s) (ip @ '':9000'') endpoint"
    unfolding storeCopied_wrap using 2(1) by (intro SyncAllBuckets_storeCopied emits_addLogs) simp
  then have "storeCopied env (moveObjects env ns ip mak msk endpoint rak rsk) s (ip @ '':9000'') endpoint"
    unfolding m
    by (rule storeCopied_sub_run [OF sub_run_trans [OF 1(4) sub_run_bindE_left [OF emits_grows [OF S] gr]]])
  ultimately show ?thesis using 1(1,2) by simp
qed

lemma grows_moveObjects: "grows (moveObjects env ns ip mak msk endpoint rak rsk)"
proof -
  have "grows (UpdateConsumers env addLogs endpoint rgwHost rak rsk (''minio.'' @ ns) msk)"
    by (rule emits_UpdateConsumers [OF emits_addLogs(1)]) simp_all
  moreover have "grows (SyncAllBuckets env (ip @ '':9000'') mak msk endpoint rak rsk addLogs)"
    by (rule emits_SyncAllBuckets [OF emits_addLogs(1)]) simp_all
  moreover have "grows (deleteMinio env ns)" by (rule emits_grows [OF emits_deleteMinio])
  ultimately show ?thesis unfolding moveObjects_def by (intro emits_intros TrueI)
qed

lemma grows_moveMinio: "grows (moveMinio env ns)"
  unfolding moveMinio_def
  by (intro emits_intros emits_grows [OF emits_findMinioPod] grows_moveObjects TrueI)

lemma deferring_MinIO:
  "sent (deferring PauseMinIO ResumeMinIO m) s = sent m (after PauseMinIO s)"
  "history (after PauseMinIO s) = history s"
proof -
  have "after (deferring PauseMinIO ResumeMinIO m) s = after ResumeMinIO (after m (after PauseMinIO s))"
    by (simp add: after_def [of "deferring PauseMinIO ResumeMinIO m"] run_deferring)
  then show "sent (deferring PauseMinIO ResumeMinIO m) s = sent m (after PauseMinIO s)"
    by (simp add: sent_after pause_defs)
qed (simp add: pause_defs)

lemma sub_run_deferring:
  "sub_run (deferring PauseMinIO ResumeMinIO m) s m (after PauseMinIO s)"
  unfolding sub_run_def by (intro exI [of _ "[]"]) (simp add: deferring_MinIO)

text \<open>The service that a successful lookup answers is the one that the server sent.\<close>

fun_cases dec_service_Some: "dec_service x = Some svc"

lemma exchange_getService:
  assumes "result (wrapWE msg (getObj env dec_service Services ns n)) s = Inr svc"
  shows "exchange env (wrapWE msg (getObj env dec_service Services ns n)) s (Get Services ns n) (Obj (ObjService svc))"
proof -
  have "respond env (history s) (Get Services ns n) = Obj (ObjService svc)"
    using assms by (auto simp: as_obj_def split: response.splits option.splits elim!: dec_service_Some)
  then show ?thesis unfolding exchange_def by (intro exI [of _ "[]"]) simp
qed

text \<open>The part of the migration that looks up the new store, with the pod and the credentials of the old one.\<close>

abbreviation moveToRook :: "env \<Rightarrow> string \<Rightarrow> string \<Rightarrow> secret \<Rightarrow> unit res go" where
  "moveToRook env ns ip cred \<equiv>
     bindE (wrapWE ''retrieve rook object store endpoint''
         (getObj env dec_service Services RookCephNS ''rook-ceph-rgw-rook-ceph-store'')) (\<lambda>svc.
     bindE (wrapWE ''retrieve rook object store credentials'' (getObj env dec_secret Secrets RookCephNS kurlObjectUser))
       (\<lambda>sec. moveObjects env ns ip (index_map (secData cred) ''MINIO_ACCESS_KEY'')
         (index_map (secData cred) ''MINIO_SECRET_KEY'') (svcClusterIP svc)
         (index_map (secData sec) ''AccessKey'') (index_map (secData sec) ''SecretKey'')))"

lemma moveToRook_copied:
  assumes "sent (moveToRook env ns ip cred) s = pre @ r # post" "is_delete r"
  obtains svc where "exchange env (moveToRook env ns ip cred) s
      (Get Services RookCephNS ''rook-ceph-rgw-rook-ceph-store'') (Obj (ObjService svc))"
    "storeCopied env (moveToRook env ns ip cred) s (ip @ '':9000'') (svcClusterIP svc)"
    "disabling ns \<in> set pre" "list_all is_delete post"
proof -
  let ?keeps = "\<lambda>r. \<not> is_delete r"
  let ?svc = "wrapWE ''retrieve rook object store endpoint''
         (getObj env dec_service Services RookCephNS ''rook-ceph-rgw-rook-ceph-store'')"
  let ?sec = "wrapWE ''retrieve rook object store credentials'' (getObj env dec_secret Secrets RookCephNS kurlObjectUser)"
  let ?move = "\<lambda>svc sec. moveObjects env ns ip (index_map (secData cred) ''MINIO_ACCESS_KEY'')
         (index_map (secData cred) ''MINIO_SECRET_KEY'') (svcClusterIP svc)
         (index_map (secData sec) ''AccessKey'') (index_map (secData sec) ''SecretKey'')"
  let ?k = "\<lambda>svc. bindE ?sec (?move svc)"
  have C: "emits ?keeps ?svc" "emits ?keeps ?sec" by (intro emits_intros; simp)+
  have g: "grows (?move svc sec)" for svc sec by (rule grows_moveObjects)
  have gk: "grows (?k svc)" for svc by (intro emits_bindE emits_grows [OF C(2)] g)
  have r: "\<not> ?keeps r" using assms(2) by simp
  obtain svc mid where 1: "result ?svc s = Inr svc" "pre = sent ?svc s @ mid"
    "sent (?k svc) (after ?svc s) = mid @ r # post" "sub_run (bindE ?svc ?k) s (?k svc) (after ?svc s)"
    by (rule bindE_phase_sub [OF C(1) r gk assms(1)])
  obtain sec mid' where "result ?sec (after ?svc s) = Inr sec" and 2: "mid = sent ?sec (after ?svc s) @ mid'"
    "sent (?move svc sec) (after ?sec (after ?svc s)) = mid' @ r # post"
    "sub_run (?k svc) (after ?svc s) (?move svc sec) (after ?sec (after ?svc s))"
    by (rule bindE_phase_sub [OF C(2) r g 1(3)])
  from moveObjects_copied [OF 2(2) assms(2)] have c:
    "storeCopied env (?move svc sec) (after ?sec (after ?svc s)) (ip @ '':9000'') (svcClusterIP svc)"
    "disabling ns \<in> set mid'" "list_all is_delete post" by auto
  show thesis
  proof (rule that)
    show "exchange env (bindE ?svc ?k) s (Get Services RookCephNS ''rook-ceph-rgw-rook-ceph-store'') (Obj (ObjService svc))"
      by (rule exchange_bindE_left [OF emits_grows [OF C(1)] gk exchange_getService [OF 1(1)]])
    show "storeCopied env (bindE ?svc ?k) s (ip @ '':9000'') (svcClusterIP svc)"
      by (rule storeCopied_sub_run [OF sub_run_trans [OF 1(4) 2(3)] c(1)])
  qed (use c 1(2) 2(1) in auto)
qed

lemma grows_moveToRook: "grows (moveToRook env ns ip cred)"
  by (intro emits_intros grows_moveObjects) simp_all

lemma moveMinio_copied:
  assumes "sent (moveMinio env ns) s = pre @ r # post" "is_delete r"
  shows "\<exists>ip svc. ip \<noteq> '''' \<and>
    exchange env (moveMinio env ns) s (Get Services RookCephNS ''rook-ceph-rgw-rook-ceph-store'') (Obj (ObjService svc)) \<and>
    storeCopied env (moveMinio env ns) s (ip @ '':9000'') (svcClusterIP svc) \<and>
    disabling ns \<in> set pre \<and> list_all is_delete post"
proof -
  let ?keeps = "\<lambda>r. \<not> is_delete r"
  let ?find = "findMinioPod env ns"
  let ?cred = "wrapWE ''retrieve minio credentials'' (getObj env dec_secret Secrets ns ''minio-credentials'')"
  let ?k = "\<lambda>ip. bindE ?cred (moveToRook env ns ip)"
  have m: "moveMinio env ns = bindE ?find ?k" unfolding moveMinio_def by simp
  have F: "emits ?keeps ?find" by (rule emits_mono [OF emits_findMinioPod]) (auto elim: is_read.elims)
  have C: "emits ?keeps ?cred" by (intro emits_intros; simp)
  have gk: "grows (?k ip)" for ip by (intro emits_bindE emits_grows [OF C] grows_moveToRook)
  have r: "\<not> ?keeps r" using assms(2) by simp
  obtain ip mid where 1: "result ?find s = Inr ip" "pre = sent ?find s @ mid"
    "sent (?k ip) (after ?find s) = mid @ r # post" "sub_run (bindE ?find ?k) s (?k ip) (after ?find s)"
    by (rule bindE_phase_sub [OF F r gk assms(1) [unfolded m]])
  let ?s1 = "after ?find s"
  obtain cred mid' where "result ?cred ?s1 = Inr cred" and 2: "mid = sent ?cred ?s1 @ mid'" "sent (moveToRook env ns ip cred) (after ?cred ?s1) = mid' @ r # post"
    "sub_run (?k ip) ?s1 (moveToRook env ns ip cred) (after ?cred ?s1)"
    by (rule bindE_phase_sub [OF C r grows_moveToRook 1(3)])
  note sub = sub_run_trans [OF 1(4) 2(3), folded m]
  obtain svc where "exchange env (moveToRook env ns ip cred) (after ?cred ?s1)
      (Get Services RookCephNS ''rook-ceph-rgw-rook-ceph-store'') (Obj (ObjService svc))"
    "storeCopied env (moveToRook env ns ip cred) (after ?cred ?s1) (ip @ '':9000'') (svcClusterIP svc)"
    "disabling ns \<in> set mid'" "list_all is_delete post"
    by (rule moveToRook_copied [OF 2(2) assms(2)])
  then show ?thesis
    by (intro exI [of _ ip] exI [of _ svc] conjI findMinioPod_running [OF 1(1)] exchange_sub_run [OF sub]
        storeCopied_sub_run [OF sub]) (simp_all add: 1(2) 2(1))
qed

definition sampleMoveEnv :: env where
  "sampleMoveEnv = sampleEnv (\<lambda>h r. case r of
       Get k ns _ \<Rightarrow>
         (if ns = ''kurl'' \<or> ns = ''velero'' \<or> ns = ''default'' then Failed (ApiErr NotFound '''')
          else case k of
            Services \<Rightarrow> Obj (ObjService \<lparr>svcName = ''rgw'', svcSelector = [], svcPorts = [], svcClusterIP = ''10.96.0.9''\<rparr>)
          | Secrets \<Rightarrow> Obj (ObjSecret \<lparr>secName = ''secret'', secData = []\<rparr>)
          | _ \<Rightarrow> Done)
     | ListReq _ _ _ \<Rightarrow> Objs [ObjPod ((samplePod ''minio-0'')\<lparr>podPodIP := ''10.0.0.7''\<rparr>)]
     | ObjectStoreCall _ _ _ \<Rightarrow> Strings []
     | _ \<Rightarrow> Done)"

lemma sampleMoveEnv_simps [simp]:
  "respond sampleMoveEnv h (ListReq k ns sel) = Objs [ObjPod ((samplePod ''minio-0'')\<lparr>podPodIP := ''10.0.0.7''\<rparr>)]"
  "respond sampleMoveEnv h (ObjectStoreCall d op args) = Strings []"
  "respond sampleMoveEnv h (Delete k ns n) = Done"
  "respond sampleMoveEnv h (Patch k ns n p) = Done"
  "respond sampleMoveEnv h (Get k ns n) =
     (if ns = ''kurl'' \<or> ns = ''velero'' \<or> ns = ''default'' then Failed (ApiErr NotFound '''')
      else case k of
        Services \<Rightarrow> Obj (ObjService \<lparr>svcName = ''rgw'', svcSelector = [], svcPorts = [], svcClusterIP = ''10.96.0.9''\<rparr>)
      | Secrets \<Rightarrow> Obj (ObjSecret \<lparr>secName = ''secret'', secData = []\<rparr>)
      | _ \<Rightarrow> Done)"
  by (simp_all add: sampleMoveEnv_def)

lemma sampleMove_sent:
  "Delete Namespaces '''' ''minio'' \<in> set (sent (migrateObjectStorage sampleMoveEnv ''minio'') sampleProc)"
  by (simp add: sent_def migrateObjectStorage_def IsMinioInUse_def existsRes_def deferring_def pause_defs
      moveMinio_def findMinioPod_def samplePod_def moveObjects_def deleteMinio_def deleteIfExists_def addLogs_def
      SyncAllBuckets_def storeCall_def UpdateConsumers_def updateRegistryObjectStore_def updateVeleroObjectStore_def
      updateBackupLocation_def updateCloudCredentials_def updateKotsadmObjectStore_def dataOrNone_def
      RookCephNS_def as_obj_def as_objs_def as_done_def as_strings_def sampleProc_def)


end
