(* ===== verification/MigrationSystem.thy ===== *)
theory MigrationSystem
  imports Migrate
begin

text \<open>
  The goroutines that migrate the storage beside the rest of the process. Every approval over HTTP
  starts one (\<open>src/pkg/server/server.go\<close>); \<open>migrateStorageMut\<close> lets one of them past its lock at a time,
  and the others wait for it. The status that they leave behind follows an abstract machine, which
  is what a client that polls it can rely on.
\<close>

section \<open>The abstract machine\<close>

datatype migration = NotStarted | NotReady | MovingObjects | MovingVolumes | MigrationFailed | Completed

fun statusText :: "migration \<Rightarrow> string" where
  "statusText NotStarted = MIGRATION_STATUS_NOT_STARTED"
| "statusText NotReady = MIGRATION_STATUS_NOT_READY"
| "statusText MovingObjects = MIGRATION_STATUS_OBJECTSTORE"
| "statusText MovingVolumes = MIGRATION_STATUS_PVCMIGRATE"
| "statusText MigrationFailed = MIGRATION_STATUS_FAILED"
| "statusText Completed = MIGRATION_STATUS_COMPLETED"

lemma statusText_inj [simp]: "statusText a = statusText b \<longleftrightarrow> a = b"
  by (cases a; cases b) (simp_all add: status_defs)

definition resting :: "migration \<Rightarrow> bool" where
  "resting st \<longleftrightarrow> st \<in> {NotStarted, NotReady, MigrationFailed}"

inductive status_step :: "migration \<Rightarrow> migration \<Rightarrow> bool" where
  refused: "resting st \<Longrightarrow> status_step st NotReady"
| check_failed: "resting st \<Longrightarrow> status_step st MigrationFailed"
| started: "resting st \<Longrightarrow> status_step st MovingObjects"
| objects_failed: "status_step MovingObjects MigrationFailed"
| objects_moved: "status_step MovingObjects MovingVolumes"
| volumes_failed: "status_step MovingVolumes MigrationFailed"
| finished: "status_step MovingVolumes Completed"

inductive_cases status_step_CompletedE: "status_step Completed st"
inductive_cases status_step_toCompletedE: "status_step st Completed"

lemma status_steps_Completed: "status_step\<^sup>*\<^sup>* Completed st \<Longrightarrow> st = Completed"
  by (induction rule: rtranclp_induct) (auto elim: status_step_CompletedE simp: resting_def)

section \<open>The goroutines\<close>

datatype migration_task = Waiting | Preparing | CopyingObjects | CopyingVolumes

instantiation migration_task :: linorder
begin

fun task_rank :: "migration_task \<Rightarrow> nat" where
  "task_rank Waiting = 0"
| "task_rank Preparing = 1"
| "task_rank CopyingObjects = 2"
| "task_rank CopyingVolumes = 3"

definition less_eq_migration_task :: "migration_task \<Rightarrow> migration_task \<Rightarrow> bool" where
  "t \<le> u \<longleftrightarrow> task_rank t \<le> task_rank u"

definition less_migration_task :: "migration_task \<Rightarrow> migration_task \<Rightarrow> bool" where
  "t < u \<longleftrightarrow> task_rank t < task_rank u"

instance
proof
  have inj: "task_rank t = task_rank u \<Longrightarrow> t = u" for t u by (cases t; cases u) simp_all
  fix t u v :: migration_task
  show "t < u \<longleftrightarrow> t \<le> u \<and> \<not> u \<le> t" "t \<le> t" "t \<le> u \<or> u \<le> t"
    by (auto simp: less_eq_migration_task_def less_migration_task_def)
  show "t \<le> u \<Longrightarrow> u \<le> v \<Longrightarrow> t \<le> v" by (simp add: less_eq_migration_task_def)
  show "t \<le> u \<Longrightarrow> u \<le> t \<Longrightarrow> t = u" using inj by (simp add: less_eq_migration_task_def)
qed

end

text \<open>Past the lock, and so its holder.\<close>

definition pastLock :: "migration_task list \<Rightarrow> migration_task list" where
  "pastLock ts = filter (\<lambda>t. Waiting < t) ts"

definition next_task :: "bool \<Rightarrow> migration_task \<Rightarrow> migration_task list" where
  "next_task goes t = (if goes then [t] else [])"

inductive migration_step ::
  "env \<Rightarrow> config \<Rightarrow> proc \<times> migration_task list \<Rightarrow> proc \<times> migration_task list \<Rightarrow> bool" for env config where
  approved: "migrationTasks p = Suc k \<Longrightarrow>
    migration_step env config (p, ts) (p\<lparr>migrationTasks := k\<rparr>, ts @ [Waiting])"
| already_completed: "pastLock (us @ vs) = [] \<Longrightarrow> migrationStatus p = MIGRATION_STATUS_COMPLETED \<Longrightarrow>
    migration_step env config (p, us @ Waiting # vs) (p, us @ vs)"
| locked: "pastLock (us @ vs) = [] \<Longrightarrow> migrationStatus p \<noteq> MIGRATION_STATUS_COMPLETED \<Longrightarrow>
    migration_step env config (p, us @ Waiting # vs) (p, us @ Preparing # vs)"
| prepare: "result (prepareMigration env config) p = Inr goes \<Longrightarrow>
    migration_step env config (p, us @ Preparing # vs)
      (after (prepareMigration env config) p, us @ next_task goes CopyingObjects @ vs)"
| copy: "result (copyMigration env config) p = Inr goes \<Longrightarrow>
    migration_step env config (p, us @ CopyingObjects # vs)
      (after (copyMigration env config) p, us @ next_task goes CopyingVolumes @ vs)"
| volumes: "result (volumeMigration env config) p = Inr goes \<Longrightarrow>
    migration_step env config (p, us @ CopyingVolumes # vs)
      (after (volumeMigration env config) p, us @ vs)"
| other: "migrationStatus p' = migrationStatus p \<Longrightarrow> migration_step env config (p, ts) (p', ts)"

abbreviation migration_steps ::
  "env \<Rightarrow> config \<Rightarrow> proc \<times> migration_task list \<Rightarrow> proc \<times> migration_task list \<Rightarrow> bool" where
  "migration_steps env config \<equiv> (migration_step env config)\<^sup>*\<^sup>*"

section \<open>What the parts do with the status\<close>

lemma failMigration_status:
  "result (failMigration msg err) p = Inr b \<Longrightarrow>
   \<not> b \<and> migrationStatus (after (failMigration msg err) p) = statusText MigrationFailed"
  by (auto simp: failMigration_def after_bind result_bind framesD [OF frames_addLogs(4)] split: if_splits)

lemma prepareMigration_status:
  assumes "result (prepareMigration env config) p = Inr goes"
  obtains st where "migrationStatus (after (prepareMigration env config) p) = statusText st"
    "st \<in> (if goes then {MovingObjects} else {NotReady, MigrationFailed})"
proof -
  let ?p = "after (setLogs (''checking if the cluster is ready to migrate'' @ NL)) p"
  have "migrationStatus (after (prepareMigration env config) p) \<in>
      statusText ` (if goes then {MovingObjects} else {NotReady, MigrationFailed})"
    using assms failMigration_status [of "''is migration ready''"]
    by (cases "result (IsMigrationReady env config) ?p")
      (auto simp: prepareMigration_def after_bind result_bind framesD [OF frames_addLogs(4)] split: if_splits)
  then show thesis by (auto intro: that)
qed

lemma copyMigration_status:
  assumes "result (copyMigration env config) p = Inr goes"
  shows "migrationStatus (after (copyMigration env config) p) =
    statusText (if goes then MovingVolumes else MigrationFailed)"
  using assms failMigration_status [of "''failed to migrate object storage''"]
  by (cases "result (migrateObjectStorage env (MinioNamespace config)) p")
    (auto simp: copyMigration_def after_bind result_bind)

lemma volumeMigration_status:
  assumes "result (volumeMigration env config) p = Inr goes"
  shows "migrationStatus (after (volumeMigration env config) p) =
    statusText (if goes then Completed else MigrationFailed)"
  using assms failMigration_status [of "''failed to migrate storage classes''"]
  by (cases "result (migrateStorageClasses env config) p")
    (auto simp: volumeMigration_def after_bind result_bind)

section \<open>The simulation\<close>

text \<open>The holder of the lock, if any, and the status agree.\<close>

fun holder_status :: "migration_task list \<Rightarrow> migration \<Rightarrow> bool" where
  "holder_status [] st = (resting st \<or> st = Completed)"
| "holder_status [Preparing] st = resting st"
| "holder_status [CopyingObjects] st = (st = MovingObjects)"
| "holder_status [CopyingVolumes] st = (st = MovingVolumes)"
| "holder_status _ st = False"

definition simulates :: "proc \<times> migration_task list \<Rightarrow> migration \<Rightarrow> bool" where
  "simulates = (\<lambda>(p, ts) st. migrationStatus p = statusText st \<and> holder_status (pastLock ts) st)"

lemma pastLock_simps [simp]:
  "pastLock [] = []"
  "pastLock (us @ vs) = pastLock us @ pastLock vs"
  "pastLock (Waiting # ts) = pastLock ts"
  "pastLock (Preparing # ts) = Preparing # pastLock ts"
  "pastLock (CopyingObjects # ts) = CopyingObjects # pastLock ts"
  "pastLock (CopyingVolumes # ts) = CopyingVolumes # pastLock ts"
  "pastLock (next_task goes t) = (if goes then pastLock [t] else [])"
  by (simp_all add: pastLock_def next_task_def less_migration_task_def)

lemma holder_status_elem:
  "holder_status (xs @ t # ys) st \<Longrightarrow> xs = [] \<and> ys = [] \<and> holder_status [t] st"
  by (cases xs; cases ys; cases t) (auto elim: holder_status.elims)

lemma migration_simulation:
  "migration_step env config c c' \<Longrightarrow> simulates c st \<Longrightarrow>
   \<exists>st'. simulates c' st' \<and> status_step\<^sup>=\<^sup>= st st'"
proof (induction rule: migration_step.induct)
  case (prepare p goes us vs)
  obtain st' where st': "migrationStatus (after (prepareMigration env config) p) = statusText st'"
    "st' \<in> (if goes then {MovingObjects} else {NotReady, MigrationFailed})"
    using prepareMigration_status [OF prepare.hyps] .
  have h: "pastLock us = []" "pastLock vs = []" "resting st"
    using prepare.prems holder_status_elem [of "pastLock us" Preparing "pastLock vs" st]
    by (auto simp: simulates_def)
  with st' show ?case
    by (intro exI [of _ st']) (auto simp: simulates_def resting_def intro: status_step.intros split: if_splits)
next
  case (copy p goes us vs)
  have "pastLock us = []" "pastLock vs = []" "st = MovingObjects"
    using copy.prems holder_status_elem [of "pastLock us" CopyingObjects "pastLock vs" st]
    by (auto simp: simulates_def)
  with copyMigration_status [OF copy.hyps] show ?case
    by (intro exI [of _ "if goes then MovingVolumes else MigrationFailed"])
      (auto simp: simulates_def resting_def intro: status_step.intros)
next
  case (volumes p goes us vs)
  have "pastLock us = []" "pastLock vs = []" "st = MovingVolumes"
    using volumes.prems holder_status_elem [of "pastLock us" CopyingVolumes "pastLock vs" st]
    by (auto simp: simulates_def)
  with volumeMigration_status [OF volumes.hyps] show ?case
    by (intro exI [of _ "if goes then Completed else MigrationFailed"])
      (auto simp: simulates_def resting_def intro: status_step.intros)
next
  case (locked us vs p)
  then show ?case by (intro exI [of _ st]) (auto simp: simulates_def)
qed (auto simp: simulates_def)

lemma migration_simulation_steps:
  assumes "migration_steps env config c c'" "simulates c st"
  shows "\<exists>st'. simulates c' st' \<and> status_step\<^sup>*\<^sup>* st st'"
  using assms
proof (induction rule: rtranclp_induct)
  case (step c1 c2)
  then obtain st1 where 1: "simulates c1 st1" "status_step\<^sup>*\<^sup>* st st1" by auto
  from migration_simulation [OF step.hyps(2) 1(1)] obtain st2 where
    "simulates c2 st2" "status_step\<^sup>=\<^sup>= st1 st2" by auto
  with 1 show ?case by (intro exI [of _ st2]) auto
qed auto

lemma holder_status_length: "holder_status ts st \<Longrightarrow> length ts \<le> 1"
  by (cases "(ts, st)" rule: holder_status.cases) auto

text \<open>
  C3: The status that the migration reports refines an abstract machine: from any point of an
  execution to any later one, with any number of approvals and whatever other goroutines do, the
  status goes along its transitions. So the volumes are only moved after the objects, completion is
  reported only from there, and it is final; and at any time at most one goroutine is migrating.
\<close>

theorem migration_refines:
  assumes "migration_steps env config (p0, []) (p, ts)" "migration_steps env config (p, ts) (p', ts')"
    and "migrationStatus p0 = MIGRATION_STATUS_NOT_STARTED"
  shows "\<exists>st st'. migrationStatus p = statusText st \<and> migrationStatus p' = statusText st' \<and>
    status_step\<^sup>*\<^sup>* NotStarted st \<and> status_step\<^sup>*\<^sup>* st st' \<and>
    (st = Completed \<longrightarrow> st' = Completed) \<and>
    length (pastLock ts) \<le> 1 \<and> length (pastLock ts') \<le> 1"
proof -
  have "simulates (p0, []) NotStarted" using assms(3) by (simp add: simulates_def resting_def)
  from migration_simulation_steps [OF assms(1) this] obtain st where
    1: "simulates (p, ts) st" "status_step\<^sup>*\<^sup>* NotStarted st" by auto
  from migration_simulation_steps [OF assms(2) 1(1)] obtain st' where
    2: "simulates (p', ts') st'" "status_step\<^sup>*\<^sup>* st st'" by auto
  from 1 2 status_steps_Completed show ?thesis
    by (auto simp: simulates_def dest!: holder_status_length)
qed

section \<open>The steps are those of the function\<close>

text \<open>
  A goroutine that is alone goes through these steps to the end of \<open>ObjectStorageAndPVCs\<close>, and leaves
  the process as that function does.
\<close>

lemma ObjectStorageAndPVCs_steps:
  assumes "result (ObjectStorageAndPVCs env config) p = Inr b"
  shows "migration_steps env config (p, [Waiting]) (after (ObjectStorageAndPVCs env config) p, [])"
proof (cases "migrationStatus p = MIGRATION_STATUS_COMPLETED")
  case True
  have "migration_step env config (p, [] @ Waiting # []) (p, [] @ [])"
    by (rule already_completed) (simp_all add: True)
  with True show ?thesis by (auto simp: ObjectStorageAndPVCs_def after_bind)
next
  case False
  let ?p1 = "after (prepareMigration env config) p"
  let ?p2 = "after (copyMigration env config) ?p1"
  have 1: "migration_step env config (p, [Waiting]) (p, [Preparing])"
    using locked [of "[]" "[]" p env config] False by simp
  obtain goes1 where g1: "result (prepareMigration env config) p = Inr goes1"
    using assms False by (auto simp: ObjectStorageAndPVCs_def result_bind result_bindE split: sum.splits)
  have 2: "migration_step env config (p, [Preparing]) (?p1, next_task goes1 CopyingObjects)"
    using prepare [OF g1, of "[]" "[]"] by simp
  show ?thesis
  proof (cases goes1)
    case False': False
    have "after (ObjectStorageAndPVCs env config) p = ?p1"
      using False False' g1 by (simp add: ObjectStorageAndPVCs_def after_bind after_bindE)
    with 1 2 False' show ?thesis by (simp add: next_task_def)
  next
    case True
    obtain goes2 where g2: "result (copyMigration env config) ?p1 = Inr goes2"
      using assms False True g1
      by (auto simp: ObjectStorageAndPVCs_def result_bind result_bindE split: sum.splits)
    have 3: "migration_step env config (?p1, [CopyingObjects]) (?p2, next_task goes2 CopyingVolumes)"
      using copy [OF g2, of "[]" "[]"] by simp
    show ?thesis
    proof (cases goes2)
      case False': False
      have "after (ObjectStorageAndPVCs env config) p = ?p2"
        using False False' True g1 g2 by (simp add: ObjectStorageAndPVCs_def after_bind after_bindE)
      with 1 2 3 True False' show ?thesis by (simp add: next_task_def)
    next
      case goes2: True
      obtain goes3 where g3: "result (volumeMigration env config) ?p2 = Inr goes3"
        using assms False True goes2 g1 g2
        by (auto simp: ObjectStorageAndPVCs_def result_bind result_bindE split: sum.splits)
      have "migration_step env config (?p2, [CopyingVolumes]) (after (volumeMigration env config) ?p2, [])"
        using volumes [OF g3, of "[]" "[]"] by simp
      moreover have "after (ObjectStorageAndPVCs env config) p = after (volumeMigration env config) ?p2"
        using False True goes2 g1 g2 by (simp add: ObjectStorageAndPVCs_def after_bind after_bindE)
      ultimately show ?thesis using 1 2 3 True goes2 by (simp add: next_task_def)
    qed
  qed
qed

section \<open>An execution\<close>

definition noCeph :: env where
  "noCeph = sampleEnv (\<lambda>h r. Failed (ApiErr NotFound ''not found''))"

lemma prepare_noCeph:
  "result (prepareMigration noCeph config) p = Inr False"
  "migrationStatus (after (prepareMigration noCeph config) p) = MIGRATION_STATUS_NOT_READY"
  by (simp_all add: prepareMigration_def IsMigrationReady_def notReady_def noCeph_def result_bind after_bind
      framesD [OF frames_addLogs(4)])

theorem migration_refines_witness:
  "let p0 = sampleProc\<lparr>migrationTasks := 1, migrationStatus := MIGRATION_STATUS_NOT_STARTED\<rparr> in
   \<exists>p p'. migration_steps noCeph sampleOpConfig (p0, []) (p, [Preparing]) \<and>
     migration_steps noCeph sampleOpConfig (p, [Preparing]) (p', []) \<and>
     migrationStatus p = statusText NotStarted \<and> migrationStatus p' = statusText NotReady \<and>
     status_step\<^sup>*\<^sup>* NotStarted NotReady"
proof -
  let ?start = "sampleProc\<lparr>migrationTasks := 1, migrationStatus := MIGRATION_STATUS_NOT_STARTED\<rparr>"
  let ?p = "?start\<lparr>migrationTasks := 0\<rparr>"
  let ?p' = "after (prepareMigration noCeph sampleOpConfig) ?p"
  have "migration_step noCeph sampleOpConfig (?start, []) (?p, [] @ [Waiting])"
    by (rule approved) simp
  moreover have "migration_step noCeph sampleOpConfig (?p, [Waiting]) (?p, [Preparing])"
    using locked [of "[]" "[]" ?p noCeph sampleOpConfig] by (simp add: status_defs)
  ultimately have 1: "migration_steps noCeph sampleOpConfig (?start, []) (?p, [Preparing])" by simp
  have "migration_step noCeph sampleOpConfig (?p, [Preparing]) (?p', [])"
    using prepare [OF prepare_noCeph(1), where us = "[]" and vs = "[]"] by (simp add: next_task_def)
  then have 2: "migration_steps noCeph sampleOpConfig (?p, [Preparing]) (?p', [])" by simp
  have s: "migrationStatus ?p = statusText NotStarted" "migrationStatus ?p' = statusText NotReady"
    by (simp_all add: prepare_noCeph)
  from migration_refines [OF 1 2] obtain st st' where
    st: "migrationStatus ?p = statusText st" "migrationStatus ?p' = statusText st'" "status_step\<^sup>*\<^sup>* st st'"
    by auto
  have "st = NotStarted" "st' = NotReady"
    using trans [OF st(1) [symmetric] s(1)] trans [OF st(2) [symmetric] s(2)] by (simp_all only: statusText_inj)
  with st(3) have "status_step\<^sup>*\<^sup>* NotStarted NotReady" by simp
  with 1 2 s show ?thesis unfolding Let_def by (intro exI [of _ ?p] exI [of _ ?p'] conjI)
qed

end
