(* ===== verification/Webhook.thy ===== *)
theory Webhook
  imports OpConfig CertSecrets
begin

text \<open>
  The admission webhooks (\<open>src/pkg/webhook\<close>): what the server registers with the cluster when it
  starts, and its two handlers, which answer a review of a new object with a patch of it. Reading the
  body of a request and decoding it are parameters of the handlers. The patches are assembled as
  text; the last section reads them back and applies them.
\<close>

section \<open>Reviews\<close>

record admission_request =
  reqUID :: string
  reqGroup :: string \<comment> \<open>\<open>Resource.Group\<close>\<close>
  reqResource :: string \<comment> \<open>\<open>Resource.Resource\<close>\<close>
  reqNamespace :: string
  reqObject :: string \<comment> \<open>\<open>Object.Raw\<close>\<close>

record admission_response =
  respUID :: string
  respAllowed :: bool
  respResult :: "string option" \<comment> \<open>\<open>Result.Message\<close>\<close>
  respPatchType :: "string option"
  respPatch :: string \<comment> \<open>empty when nil\<close>

record admission_review =
  reviewAPIVersion :: string
  reviewKind :: string
  reviewResponse :: admission_response

definition emptyResponse :: admission_response where
  "emptyResponse = \<lparr>respUID = '''', respAllowed = False, respResult = None, respPatchType = None,
     respPatch = ''''\<rparr>"

text \<open>
  What a handler answers: a review with a status, an error with a status, nothing (the status is 200
  and the body empty), or a run-time panic, which the recovery of \<open>gin.Default\<close> answers with 500.
\<close>

datatype gin_reply = JSONReply int admission_review | AbortWithError int go_error | NoReply | Panicked

record codecs =
  DecodeReview :: "string \<Rightarrow> admission_request option res" \<comment> \<open>\<open>None\<close>: \<open>Request\<close> is nil\<close>
  DecodePod :: "string \<Rightarrow> pod res"

record server =
  serverTLS :: "string \<times> string" \<comment> \<open>certificate and key\<close>
  rookPriorityClass :: string
  podImageOverrides :: "(string \<times> string) list"

definition StatusOK :: int where "StatusOK = 200"
definition StatusInternalServerError :: int where "StatusInternalServerError = 500"

section \<open>The handlers\<close>

text \<open>
  The identifier is copied before the request is decoded, so what it is copied from is the zero value
  and it stays empty.
\<close>

definition jsonPatched :: "string \<Rightarrow> admission_response \<Rightarrow> admission_response" where
  "jsonPatched patch resp = resp\<lparr>respPatchType := Some ''JSONPatch'', respPatch := patch\<rparr>"

definition replaceOp :: "string \<Rightarrow> string \<Rightarrow> string" where
  "replaceOp path img =
     ''{'' @ dquote ''op'' @ '':'' @ dquote ''replace'' @ '','' @ dquote ''path'' @ '':'' @ dquote path @
     '','' @ dquote ''value'' @ '':'' @ dquote img @ ''}''"

definition rookPriority :: "codecs \<Rightarrow> server \<Rightarrow> string res \<Rightarrow> gin_reply" where
  "rookPriority codecs s readBody =
     (let reply = (\<lambda>resp. JSONReply StatusOK
            \<lparr>reviewAPIVersion = '''', reviewKind = '''', reviewResponse = resp\<rparr>) in
      case readBody of
        Inl err \<Rightarrow> AbortWithError StatusInternalServerError err
      | Inr body \<Rightarrow>
          (case DecodeReview codecs body of
             Inl err \<Rightarrow> reply (emptyResponse\<lparr>respResult := Some (errorText err)\<rparr>)
           | Inr None \<Rightarrow> Panicked
           | Inr (Some request) \<Rightarrow>
               (if reqGroup request = ''apps'' \<and>
                   (reqResource request = ''deployments'' \<or> reqResource request = ''daemonsets'') \<and>
                   reqNamespace request = ''rook-ceph''
                then reply (jsonPatched
                  (''['' @ replaceOp ''/spec/template/spec/priorityClassName'' (rookPriorityClass s) @ '']'')
                  (emptyResponse\<lparr>respAllowed := True\<rparr>))
                else reply (emptyResponse\<lparr>respAllowed := True\<rparr>))))"

definition imagePath :: "string \<Rightarrow> int \<Rightarrow> string" where
  "imagePath field i = ''/spec/'' @ field @ ''/'' @ Itoa i @ ''/image''"

fun imagePatches :: "(string \<times> string) list \<Rightarrow> string \<Rightarrow> int \<Rightarrow> container list \<Rightarrow> string list" where
  "imagePatches overrides field i [] = []"
| "imagePatches overrides field i (ctr # ctrs) =
     (case map_of overrides (ctrImage ctr) of
        None \<Rightarrow> imagePatches overrides field (i + 1) ctrs
      | Some newImage \<Rightarrow>
          replaceOp (imagePath field i) newImage # imagePatches overrides field (i + 1) ctrs)"

definition overridePodImages :: "codecs \<Rightarrow> server \<Rightarrow> string res \<Rightarrow> gin_reply" where
  "overridePodImages codecs s readBody =
     (let reply = (\<lambda>resp. JSONReply StatusOK
            \<lparr>reviewAPIVersion = ''admission.k8s.io/v1'', reviewKind = ''AdmissionReview'',
             reviewResponse = resp\<rparr>) in
      case readBody of
        Inl err \<Rightarrow> AbortWithError StatusInternalServerError err
      | Inr body \<Rightarrow>
          (case DecodeReview codecs body of
             Inl err \<Rightarrow> reply (emptyResponse\<lparr>respResult := Some (errorText err)\<rparr>)
           | Inr None \<Rightarrow> Panicked
           | Inr (Some request) \<Rightarrow>
               (let resp = emptyResponse\<lparr>respAllowed := True, respUID := reqUID request\<rparr> in
                if reqResource request = ''pods''
                then (case DecodePod codecs (reqObject request) of
                    Inl err \<Rightarrow> NoReply
                  | Inr p \<Rightarrow>
                      (let patches = imagePatches (podImageOverrides s) ''initContainers'' 0 (podInitContainers p) @
                             imagePatches (podImageOverrides s) ''containers'' 0 (podContainers p) in
                       if patches = [] then reply resp
                       else reply (jsonPatched (''['' @ Join '','' patches @ '']'') resp)))
                else reply resp)))"

section \<open>Registering the webhooks\<close>

definition WebhookServiceName :: string where "WebhookServiceName = ''ekco''"
definition RookPriorityAdmissionWebhookName :: string where
  "RookPriorityAdmissionWebhookName = ''rook-priority.kurl.sh''"
definition PodImageOverridesAdmissionWebhookName :: string where
  "PodImageOverridesAdmissionWebhookName = ''pod-image-overrides.kurl.sh''"

definition webhookService :: service where
  "webhookService = \<lparr>svcName = WebhookServiceName, svcSelector = [(''app'', ''ekc-operator'')],
     svcPorts = [(443, 443)], svcClusterIP = ''''\<rparr>"

definition ensureWebhookService :: "env \<Rightarrow> string \<Rightarrow> unit res go" where
  "ensureWebhookService env ns = do {
     r \<leftarrow> getObj env dec_service Services ns WebhookServiceName;
     case r of
       Inl err \<Rightarrow>
         (if \<not> IsNotFoundErr err then Fail (Wrap (''get '' @ WebhookServiceName @ '' service'') err)
          else wrapE (''create '' @ WebhookServiceName @ '' service'')
            (send env (Create Services ns (ObjService webhookService))))
     | Inr _ \<Rightarrow> Ok () }"

definition ensurePriorityClass :: "env \<Rightarrow> string \<Rightarrow> unit res go" where
  "ensurePriorityClass env name = do {
     r \<leftarrow> getObj env dec_priorityclass PriorityClasses '''' name;
     case r of
       Inl err \<Rightarrow>
         (if \<not> IsNotFoundErr err then Fail (Wrap (''get priorityclass '' @ name) err)
          else wrapE (''create priorityclass '' @ name)
            (send env (Create PriorityClasses '''' (ObjPriorityClass
              \<lparr>pcName = name, pcValue = 1000000000,
               pcDescription = ''Used for pods that provide critical services to their node''\<rparr>))))
     | Inr _ \<Rightarrow> Ok () }"

definition admissionWebhook ::
  "string \<Rightarrow> string \<Rightarrow> string \<Rightarrow> string list \<Rightarrow> string \<Rightarrow> string list \<Rightarrow> string \<Rightarrow> mutating_webhook" where
  "admissionWebhook ns name path namespaceKeys apiGroup resources certPEM =
     \<lparr>mwName = name, mwMatchPolicy = ''Equivalent'', mwFailurePolicy = ''Ignore'',
      mwSideEffects = ''None'', mwTimeoutSeconds = 10, mwAdmissionReviewVersions = [''v1''],
      mwNamespaceSelectorExists = namespaceKeys,
      mwRules = [\<lparr>ruleAPIGroups = [apiGroup], ruleAPIVersions = [''v1''], ruleResources = resources,
        ruleOperations = [''CREATE'', ''UPDATE'']\<rparr>],
      mwServiceNamespace = ns, mwServiceName = WebhookServiceName, mwServicePath = path,
      mwServicePort = 443, mwCABundle = certPEM\<rparr>"

definition rookPriorityWebhook :: "string \<Rightarrow> string \<Rightarrow> mutating_webhook" where
  "rookPriorityWebhook ns certPEM =
     admissionWebhook ns RookPriorityAdmissionWebhookName ''/rook-priority''
       [RookPriorityAdmissionWebhookName] ''apps'' [''deployments'', ''daemonsets''] certPEM"

definition podImageOverridesWebhook :: "string \<Rightarrow> string \<Rightarrow> mutating_webhook" where
  "podImageOverridesWebhook ns certPEM =
     admissionWebhook ns PodImageOverridesAdmissionWebhookName ''/pod-image-overrides'' [] '''' [''pods'']
       certPEM"

definition ensureWebhookConfiguration :: "env \<Rightarrow> string \<Rightarrow> string \<Rightarrow> mutating_webhook \<Rightarrow> unit res go" where
  "ensureWebhookConfiguration env what name webhook =
     (let msg = (\<lambda>verb. verb @ '' '' @ what @ '' mutating admission webhook'') in do {
        r \<leftarrow> getObj env dec_mwc MutatingWebhookConfigurations '''' name;
        case r of
          Inl err \<Rightarrow>
            (if \<not> IsNotFoundErr err then Fail (Wrap (msg ''get'') err)
             else wrapE (msg ''create'') (send env (Create MutatingWebhookConfigurations ''''
               (ObjMutatingWebhookConfiguration \<lparr>mwcName = name, mwcWebhooks = [webhook]\<rparr>))))
        | Inr hook \<Rightarrow>
            wrapE (msg ''update'') (send env (Update MutatingWebhookConfigurations ''''
              (ObjMutatingWebhookConfiguration (hook\<lparr>mwcWebhooks := [webhook]\<rparr>)))) })"

definition registerRookPriority :: "env \<Rightarrow> string \<Rightarrow> string \<Rightarrow> string \<Rightarrow> unit res go" where
  "registerRookPriority env ns priorityClass certPEM =
     (if priorityClass = '''' then Ok ()
      else bindE (ensurePriorityClass env priorityClass) (\<lambda>_.
        ensureWebhookConfiguration env ''rook-priority'' RookPriorityAdmissionWebhookName
          (rookPriorityWebhook ns certPEM)))"

definition registerPodImageOverrides ::
  "env \<Rightarrow> string \<Rightarrow> (string \<times> string) list \<Rightarrow> string \<Rightarrow> unit res go" where
  "registerPodImageOverrides env ns overrides certPEM =
     (if overrides = [] then Ok ()
      else ensureWebhookConfiguration env ''pod-image-overrides'' PodImageOverridesAdmissionWebhookName
        (podImageOverridesWebhook ns certPEM))"

definition NewServer :: "env \<Rightarrow> string \<Rightarrow> string \<Rightarrow> (string \<times> string) list \<Rightarrow> server res go" where
  "NewServer env ns priorityClass overrides =
     bindE (ensureWebhookService env ns) (\<lambda>_.
     bindE (wrapE ''generate self-signed cert for webhook''
         (selfSignedCertKey env (WebhookServiceName @ ''.'' @ ns @ ''.svc'') [] [])) (\<lambda>(certPEM, keyPEM).
     bindE (wrapE ''load self-signed tls certificate'' (ret (X509KeyPair env certPEM keyPEM))) (\<lambda>_.
     bindE (registerRookPriority env ns priorityClass certPEM) (\<lambda>_.
     bindE (registerPodImageOverrides env ns overrides certPEM) (\<lambda>_.
       Ok \<lparr>serverTLS = (certPEM, keyPEM), rookPriorityClass = priorityClass,
           podImageOverrides = overrides\<rparr>)))))"

text \<open>The routes of the server that \<open>Run\<close> starts; any other path is not found.\<close>

definition routes :: "server \<Rightarrow> (string \<times> (codecs \<Rightarrow> server \<Rightarrow> string res \<Rightarrow> gin_reply)) list" where
  "routes s =
     (if rookPriorityClass s \<noteq> '''' then [(''/rook-priority'', rookPriority)] else []) @
     (if podImageOverrides s \<noteq> [] then [(''/pod-image-overrides'', overridePodImages)] else [])"

definition removeWebhook :: "env \<Rightarrow> string \<Rightarrow> unit res go" where
  "removeWebhook env name = do {
     r \<leftarrow> send env (Delete MutatingWebhookConfigurations '''' name);
     case r of
       Inl err \<Rightarrow>
         (if \<not> IsNotFoundErr err
          then Fail (Wrap (''failed to delete mutating webhook config '' @ name) err) else Ok ())
     | Inr _ \<Rightarrow> Ok () }"

definition RemoveRookPriority :: "env \<Rightarrow> unit res go" where
  "RemoveRookPriority env = removeWebhook env RookPriorityAdmissionWebhookName"

definition RemovePodImageOverrides :: "env \<Rightarrow> unit res go" where
  "RemovePodImageOverrides env = removeWebhook env PodImageOverridesAdmissionWebhookName"

section \<open>Reading a patch\<close>

text \<open>
  A decoder of JSON patches whose texts hold no escapes: a list of objects with an operation, a path
  and a value. It rejects what a JSON string must not hold as it is.
\<close>

definition plainChar :: "char \<Rightarrow> bool" where
  "plainChar x \<longleftrightarrow> x \<noteq> CHR 0x22 \<and> x \<noteq> CHR 0x5C \<and> 32 \<le> (of_char x :: nat)"

definition plainText :: "string \<Rightarrow> bool" where
  "plainText s \<longleftrightarrow> list_all plainChar s"

definition readText :: "string \<Rightarrow> (string \<times> string) option" where
  "readText s = (if \<not> HasPrefix s [CHR 0x22] then None
     else let r = dropWhile plainChar (tl s) in
       if HasPrefix r [CHR 0x22] then Some (takeWhile plainChar (tl s), tl r) else None)"

fun readMembers :: "nat \<Rightarrow> string \<Rightarrow> ((string \<times> string) list \<times> string) option" where
  "readMembers 0 s = None"
| "readMembers (Suc n) s =
     (case readText s of
        None \<Rightarrow> None
      | Some (k, r) \<Rightarrow>
          (if \<not> HasPrefix r '':'' then None
           else case readText (tl r) of
             None \<Rightarrow> None
           | Some (v, r') \<Rightarrow>
               (if HasPrefix r' ''}'' then Some ([(k, v)], tl r')
                else if HasPrefix r' '','' then
                  map_option (\<lambda>(kvs, r''). ((k, v) # kvs, r'')) (readMembers n (tl r'))
                else None)))"

type_synonym patch_op = "string \<times> string \<times> string" \<comment> \<open>operation, path and value\<close>

definition readOp :: "string \<Rightarrow> (patch_op \<times> string) option" where
  "readOp s = (if \<not> HasPrefix s ''{'' then None
     else case readMembers 3 (tl s) of
       None \<Rightarrow> None
     | Some (kvs, r) \<Rightarrow>
         (case (map_of kvs ''op'', map_of kvs ''path'', map_of kvs ''value'') of
            (Some oper, Some path, Some value) \<Rightarrow> Some ((oper, path, value), r)
          | _ \<Rightarrow> None))"

fun readOps :: "nat \<Rightarrow> string \<Rightarrow> patch_op list option" where
  "readOps 0 s = None"
| "readOps (Suc n) s =
     (case readOp s of
        None \<Rightarrow> None
      | Some (p, r) \<Rightarrow>
          (if r = '']'' then Some [p]
           else if HasPrefix r '','' then map_option ((#) p) (readOps n (tl r))
           else None))"

definition readPatch :: "string \<Rightarrow> patch_op list option" where
  "readPatch s = (if HasPrefix s ''['' then readOps (length s) (tl s) else None)"

text \<open>Applying such a patch to the values at some paths; replacing needs a value that is there.\<close>

fun applyPatch :: "patch_op list \<Rightarrow> (string \<times> string) list \<Rightarrow> (string \<times> string) list option" where
  "applyPatch [] doc = Some doc"
| "applyPatch ((oper, path, value) # ps) doc =
     (if oper = ''replace'' \<and> path \<in> fst ` set doc then applyPatch ps (store_map doc path value) else None)"

lemma readText_dquote [simp]: "plainText s \<Longrightarrow> readText (dquote s @ r) = Some (s, r)"
proof -
  assume "plainText s"
  then have "takeWhile plainChar (s @ CHR 0x22 # r) = s" "dropWhile plainChar (s @ CHR 0x22 # r) = CHR 0x22 # r"
    by (simp_all add: plainText_def list_all_iff plainChar_def takeWhile_append2 dropWhile_append2)
  then show ?thesis by (simp add: readText_def dquote_def HasPrefix_def Let_def)
qed

lemma plainText_lits [simp]:
  "plainText ''op''" "plainText ''path''" "plainText ''value''" "plainText ''replace''"
  by code_simp+

lemma readMembers_step:
  assumes "plainText k" "plainText v"
  shows "readMembers (Suc n) (dquote k @ CHR '':'' # dquote v @ r) =
     (if HasPrefix r ''}'' then Some ([(k, v)], tl r)
      else if HasPrefix r '','' then
        map_option (\<lambda>(kvs, r'). ((k, v) # kvs, r')) (readMembers n (tl r))
      else None)"
  using assms by (simp add: HasPrefix_def)

lemma readOp_replaceOp:
  assumes "plainText path" "plainText img"
  shows "readOp (replaceOp path img @ r) = Some ((''replace'', path, img), r)"
proof -
  have "readMembers 3 (tl (replaceOp path img @ r)) =
      Some ([(''op'', ''replace''), (''path'', path), (''value'', img)], r)"
    using assms by (simp add: replaceOp_def numeral_3_eq_3 readMembers_step HasPrefix_def del: readMembers.simps)
  then show ?thesis by (simp add: readOp_def HasPrefix_def replaceOp_def)
qed

lemma readOps_Join:
  assumes "ops \<noteq> []" "\<forall>(path, img)\<in>set ops. plainText path \<and> plainText img" "length ops \<le> n"
  shows "readOps n (Join '','' (map (\<lambda>(path, img). replaceOp path img) ops) @ '']'') =
    Some (map (\<lambda>(path, img). (''replace'', path, img)) ops)"
  using assms
proof (induction ops arbitrary: n)
  case (Cons p ops)
  obtain path img where p: "p = (path, img)" by force
  from Cons.prems obtain m where n: "n = Suc m" by (cases n) auto
  show ?case
  proof (cases ops)
    case Nil
    with Cons.prems p n show ?thesis by (simp add: readOp_replaceOp)
  next
    case (Cons q qs)
    with Cons.IH [of m] Cons.prems p n show ?thesis
      by (auto simp: readOp_replaceOp HasPrefix_def split: prod.splits)
  qed
qed simp

section \<open>The images of a pod\<close>

text \<open>The path and the image of every container of a pod.\<close>

fun imagesFrom :: "string \<Rightarrow> int \<Rightarrow> container list \<Rightarrow> (string \<times> string) list" where
  "imagesFrom field i [] = []"
| "imagesFrom field i (ctr # ctrs) = (imagePath field i, ctrImage ctr) # imagesFrom field (i + 1) ctrs"

definition podImages :: "pod \<Rightarrow> (string \<times> string) list" where
  "podImages p = imagesFrom ''initContainers'' 0 (podInitContainers p) @ imagesFrom ''containers'' 0 (podContainers p)"

definition overridden :: "(string \<times> string) list \<Rightarrow> string \<Rightarrow> string" where
  "overridden overrides img = (case map_of overrides img of None \<Rightarrow> img | Some new \<Rightarrow> new)"

definition replacements :: "(string \<times> string) list \<Rightarrow> (string \<times> string) list \<Rightarrow> (string \<times> string) list" where
  "replacements overrides doc =
     concat (map (\<lambda>(path, img). case map_of overrides img of None \<Rightarrow> [] | Some new \<Rightarrow> [(path, new)]) doc)"

lemma replacements_simps [simp]:
  "replacements overrides [] = []"
  "replacements overrides (xs @ ys) = replacements overrides xs @ replacements overrides ys"
  "replacements overrides ((path, img) # doc) =
     (case map_of overrides img of None \<Rightarrow> [] | Some new \<Rightarrow> [(path, new)]) @ replacements overrides doc"
  by (simp_all add: replacements_def)

lemma imagePatches_replacements:
  "imagePatches overrides field i ctrs =
     map (\<lambda>(path, img). replaceOp path img) (replacements overrides (imagesFrom field i ctrs))"
  by (induction overrides field i ctrs rule: imagePatches.induct) (auto split: option.splits)

lemma digits_inject [simp]: "digits m = digits n \<longleftrightarrow> m = n"
  by (metis digitsValue_digits option.inject)

lemma imagePath_inject: "0 \<le> i \<Longrightarrow> 0 \<le> j \<Longrightarrow> imagePath field i = imagePath field j \<longleftrightarrow> i = j"
  by (simp add: imagePath_def Itoa_def eq_nat_nat_iff)

lemma imagesFrom_paths:
  "0 \<le> i \<Longrightarrow> fst ` set (imagesFrom field i ctrs) = imagePath field ` {i..<i + int (length ctrs)}"
proof (induction field i ctrs rule: imagesFrom.induct)
  case (2 field i ctr ctrs)
  have "{i..<i + int (length (ctr # ctrs))} = insert i {i + 1..<i + 1 + int (length ctrs)}" by auto
  with 2 show ?case by simp
qed simp

lemma imagesFrom_distinct: "0 \<le> i \<Longrightarrow> distinct (map fst (imagesFrom field i ctrs))"
proof (induction field i ctrs rule: imagesFrom.induct)
  case (2 field i ctr ctrs)
  then show ?case using imagesFrom_paths [of "i + 1" field ctrs]
    by (auto simp: imagePath_inject)
qed simp

lemma podImages_distinct: "distinct (map fst (podImages p))"
proof -
  have "imagePath ''initContainers'' i \<noteq> imagePath ''containers'' j" for i j by (simp add: imagePath_def)
  then show ?thesis by (auto simp: podImages_def imagesFrom_distinct imagesFrom_paths)
qed

lemma plain_digits: "plainText (digits n)"
proof (induction n rule: digits.induct)
  case (1 n)
  have "plainChar (digit k)" if "k < 10" for k
    using that of_char_digit [OF that] by (auto simp: plainChar_def)
  with 1 show ?case by (subst digits.simps) (auto simp: plainText_def)
qed

lemma plain_imagePath:
  "0 \<le> i \<Longrightarrow> plainText field \<Longrightarrow> plainText (imagePath field i)"
proof -
  assume "0 \<le> i" "plainText field"
  moreover have "plainText ''/spec/''" "plainText ''/''" "plainText ''/image''" by code_simp+
  ultimately show ?thesis using plain_digits [of "nat i"]
    by (simp add: imagePath_def Itoa_def plainText_def)
qed

lemma plain_replacements:
  assumes "\<forall>new\<in>snd ` set overrides. plainText new" "\<forall>path\<in>fst ` set doc. plainText path"
  shows "\<forall>(path, img)\<in>set (replacements overrides doc). plainText path \<and> plainText img"
proof -
  have "plainText new" if "map_of overrides img = Some new" for img new
    using assms(1) map_of_SomeD [OF that] by force
  with assms(2) show ?thesis by (fastforce simp: replacements_def split: option.splits)
qed

lemma plain_podImages: "\<forall>path\<in>fst ` set (podImages p). plainText path"
proof -
  have "plainText ''initContainers''" "plainText ''containers''" by code_simp+
  then show ?thesis by (auto simp: podImages_def image_Un imagesFrom_paths plain_imagePath)
qed

lemma store_map_middle:
  "k \<notin> fst ` set xs \<Longrightarrow> store_map (xs @ (k, v) # ys) k w = xs @ (k, w) # ys"
  by (induction xs) auto

text \<open>Replacing every image that has an override, one after the other, overrides them all.\<close>

lemma applyPatch_replacements:
  assumes "distinct (map fst (pre @ doc))"
  shows "applyPatch (map (\<lambda>(path, img). (''replace'', path, img)) (replacements overrides doc)) (pre @ doc) =
    Some (pre @ map (\<lambda>(path, img). (path, overridden overrides img)) doc)"
  using assms
proof (induction doc arbitrary: pre)
  case (Cons x doc)
  obtain path img where x: "x = (path, img)" by force
  have "applyPatch (map (\<lambda>(path, img). (''replace'', path, img)) (replacements overrides doc))
      ((pre @ [(path, new)]) @ doc) =
      Some ((pre @ [(path, new)]) @ map (\<lambda>(path, img). (path, overridden overrides img)) doc)" for new
    using Cons.prems x by (intro Cons.IH) auto
  then show ?case using Cons.prems x
    by (auto simp: overridden_def store_map_middle split: option.splits)
qed simp

section \<open>The answers of the handlers\<close>

text \<open>
  A response is either an admission or a refusal with a message, and a patch comes with its type, is
  one that the decoder reads, and only replaces a priority class or images by configured values.
\<close>

definition configuredOp :: "server \<Rightarrow> patch_op \<Rightarrow> bool" where
  "configuredOp s = (\<lambda>(oper, path, value). oper = ''replace'' \<and>
     (path = ''/spec/template/spec/priorityClassName'' \<and> value = rookPriorityClass s \<or>
      HasPrefix path ''/spec/initContainers/'' \<and> value \<in> snd ` set (podImageOverrides s) \<or>
      HasPrefix path ''/spec/containers/'' \<and> value \<in> snd ` set (podImageOverrides s)))"

definition wellFormed :: "server \<Rightarrow> admission_response \<Rightarrow> bool" where
  "wellFormed s resp \<longleftrightarrow> respAllowed resp = (respResult resp = None) \<and>
     (case respPatchType resp of
        None \<Rightarrow> respPatch resp = ''''
      | Some t \<Rightarrow> t = ''JSONPatch'' \<and> respAllowed resp \<and>
          (case readPatch (respPatch resp) of
             None \<Rightarrow> False
           | Some ops \<Rightarrow> ops \<noteq> [] \<and> list_all (configuredOp s) ops))"

definition plainServer :: "server \<Rightarrow> bool" where
  "plainServer s \<longleftrightarrow> plainText (rookPriorityClass s) \<and> list_all (\<lambda>(_, img). plainText img) (podImageOverrides s)"

lemma length_Join_map: "(\<And>x. f x \<noteq> []) \<Longrightarrow> length xs \<le> length (Join sep (map f xs))"
proof (induction xs)
  case (Cons x xs)
  then have "Suc 0 \<le> length (f x)" by (simp add: Suc_le_eq)
  with Cons show ?case by (cases xs) auto
qed simp

lemma readPatch_Join:
  assumes "ops \<noteq> []" "\<forall>(path, img)\<in>set ops. plainText path \<and> plainText img"
  shows "readPatch (''['' @ Join '','' (map (\<lambda>(path, img). replaceOp path img) ops) @ '']'') =
    Some (map (\<lambda>(path, img). (''replace'', path, img)) ops)"
proof -
  have "(\<lambda>(path, img). replaceOp path img) x \<noteq> []" for x
    by (simp add: replaceOp_def split: prod.split)
  from length_Join_map [where f = "\<lambda>(path, img). replaceOp path img", OF this]
  have "length ops \<le> Suc (Suc (length (Join '','' (map (\<lambda>(path, img). replaceOp path img) ops))))"
    by (intro le_SucI)
  note readOps_Join [OF assms this]
  then show ?thesis by (simp add: readPatch_def HasPrefix_def del: readOps.simps)
qed

text \<open>The patches that the handler for pods assembles, and what they read as.\<close>

lemma podPatches:
  "imagePatches overrides ''initContainers'' 0 (podInitContainers p) @
   imagePatches overrides ''containers'' 0 (podContainers p) =
   map (\<lambda>(path, img). replaceOp path img) (replacements overrides (podImages p))"
  by (simp add: imagePatches_replacements podImages_def)

lemma readPatch_podPatches:
  assumes "plainServer s" "replacements (podImageOverrides s) (podImages p) \<noteq> []"
  shows "readPatch (''['' @ Join '','' (map (\<lambda>(path, img). replaceOp path img)
      (replacements (podImageOverrides s) (podImages p))) @ '']'') =
    Some (map (\<lambda>(path, img). (''replace'', path, img)) (replacements (podImageOverrides s) (podImages p)))"
  using assms by (intro readPatch_Join plain_replacements plain_podImages)
    (auto simp: plainServer_def list_all_iff)

lemma replacements_mem:
  "(path, new) \<in> set (replacements overrides doc) \<longleftrightarrow>
     (\<exists>img. (path, img) \<in> set doc \<and> map_of overrides img = Some new)"
  by (induction doc) (auto split: option.splits)

lemma replacements_configured:
  assumes "(path, img) \<in> set (replacements (podImageOverrides s) (podImages p))"
  shows "configuredOp s (''replace'', path, img)"
proof -
  from assms obtain old where old: "(path, old) \<in> set (podImages p)" "map_of (podImageOverrides s) old = Some img"
    by (auto simp: replacements_mem)
  have "img \<in> snd ` set (podImageOverrides s)" using map_of_SomeD [OF old(2)] by force
  moreover have "path \<in> fst ` set (podImages p)" using old(1) by force
  then have "HasPrefix path ''/spec/initContainers/'' \<or> HasPrefix path ''/spec/containers/''"
    by (auto simp: podImages_def image_Un imagesFrom_paths imagePath_def HasPrefix_def)
  ultimately show ?thesis by (auto simp: configuredOp_def)
qed

text \<open>
  C17: Whatever the body of a request, a review that one of the server's routes answers is well
  formed: its status is 200, it admits the object or says why not, and a patch is of type JSONPatch,
  can be read back from its text, and only replaces the priority class or the image of a container
  by what is configured. That holds when the configured names need no escape in JSON.
\<close>

theorem webhook_replies_wellformed:
  assumes "plainServer s" "(path, handler) \<in> set (routes s)"
    and "handler codecs s readBody = JSONReply status review"
  shows "status = StatusOK \<and> wellFormed s (reviewResponse review)"
proof -
  have prio: "readPatch (''['' @ replaceOp ''/spec/template/spec/priorityClassName'' (rookPriorityClass s) @ '']'') =
      Some [(''replace'', ''/spec/template/spec/priorityClassName'', rookPriorityClass s)]"
  proof -
    have "plainText ''/spec/template/spec/priorityClassName''" by code_simp
    then show ?thesis
      using readPatch_Join [of "[(''/spec/template/spec/priorityClassName'', rookPriorityClass s)]"] assms(1)
      by (simp add: plainServer_def)
  qed
  note wf = wellFormed_def emptyResponse_def jsonPatched_def
  from assms(2) consider "handler = rookPriority" | "handler = overridePodImages"
    by (auto simp: routes_def split: if_splits)
  then show ?thesis
  proof cases
    case 1
    then show ?thesis using assms(3) [unfolded 1 rookPriority_def Let_def]
      by (auto simp: wf prio [simplified] configuredOp_def split: sum.splits option.splits if_splits)
  next
    case 2
    have "list_all (configuredOp s) (map (\<lambda>(path, img). (''replace'', path, img))
        (replacements (podImageOverrides s) (podImages p)))" for p
      by (auto simp: list_all_iff intro: replacements_configured)
    moreover note readPatch_podPatches [OF assms(1), simplified]
    ultimately show ?thesis using assms(3) [unfolded 2 overridePodImages_def Let_def podPatches]
      by (auto simp: wf split: sum.splits option.splits if_splits)
  qed
qed

definition sampleServer :: server where
  "sampleServer = \<lparr>serverTLS = ('''', ''''), rookPriorityClass = ''node-critical'',
     podImageOverrides = [(''nginx:1'', ''registry/nginx:2'')]\<rparr>"

definition imageOnly :: "string \<Rightarrow> container" where
  "imageOnly img = \<lparr>ctrName = '''', ctrImage = img, ctrCommand = [], ctrArgs = [], ctrMounts = [],
     ctrEnvFields = [], ctrWorkingDir = '''', ctrImagePullPolicy = '''', ctrPrivileged = False\<rparr>"

definition samplePodSpec :: pod where
  "samplePodSpec = (samplePod ''web'')\<lparr>podInitContainers := [imageOnly ''busybox''],
     podContainers := [imageOnly ''nginx:1'']\<rparr>"

definition sampleCodecs :: codecs where
  "sampleCodecs = \<lparr>DecodeReview = (\<lambda>body. if body = '''' then Inl (NewErr ''empty'')
       else Inr (Some \<lparr>reqUID = ''u1'', reqGroup = '''', reqResource = ''pods'', reqNamespace = ''default'',
         reqObject = body\<rparr>)),
     DecodePod = (\<lambda>_. Inr samplePodSpec)\<rparr>"

lemma sample_plain: "plainServer sampleServer"
  by code_simp

text \<open>
  C8: The patch for a pod replaces each image that has an override, and no other. Applied to the
  images of the containers and init containers of the pod, by their paths, it succeeds and leaves at
  each path the override of the image that was there; when no image has one there is no patch. The
  review is admitted and carries the identifier of the request.
\<close>

theorem overridePodImages_overrides:
  assumes "plainServer s" "DecodeReview codecs body = Inr (Some request)"
    and "reqResource request = ''pods''" "DecodePod codecs (reqObject request) = Inr p"
  shows "\<exists>review. overridePodImages codecs s (Inr body) = JSONReply StatusOK review \<and>
    (let resp = reviewResponse review in
     respAllowed resp \<and> respUID resp = reqUID request \<and>
     (if respPatchType resp = None then Some (podImages p)
      else Option.bind (readPatch (respPatch resp)) (\<lambda>ops. applyPatch ops (podImages p))) =
     Some (map (\<lambda>(path, img). (path, overridden (podImageOverrides s) img)) (podImages p)))"
proof -
  let ?ops = "replacements (podImageOverrides s) (podImages p)"
  have "applyPatch (map (\<lambda>(path, img). (''replace'', path, img)) ?ops) (podImages p) =
      Some (map (\<lambda>(path, img). (path, overridden (podImageOverrides s) img)) (podImages p))"
    using applyPatch_replacements [of "[]" "podImages p"] podImages_distinct by simp
  with readPatch_podPatches [OF assms(1), of p] show ?thesis
    unfolding overridePodImages_def Let_def podPatches
    by (cases "?ops = []") (simp_all add: assms jsonPatched_def emptyResponse_def)
qed

theorem webhook_replies_wellformed_witness:
  "\<exists>review. overridePodImages sampleCodecs sampleServer (Inr ''pod'') = JSONReply StatusOK review \<and>
     wellFormed sampleServer (reviewResponse review)"
proof -
  have "(''/pod-image-overrides'', overridePodImages) \<in> set (routes sampleServer)"
    by (simp add: routes_def sampleServer_def)
  moreover have "\<exists>review. overridePodImages sampleCodecs sampleServer (Inr ''pod'') = JSONReply StatusOK review"
    by (auto simp: overridePodImages_def sampleCodecs_def Let_def)
  ultimately show ?thesis using webhook_replies_wellformed [OF sample_plain] by blast
qed

theorem overridePodImages_overrides_witness:
  "\<exists>review. overridePodImages sampleCodecs sampleServer (Inr ''pod'') = JSONReply StatusOK review \<and>
     Option.bind (readPatch (respPatch (reviewResponse review))) (\<lambda>ops. applyPatch ops (podImages samplePodSpec)) =
     Some [(''/spec/initContainers/0/image'', ''busybox''), (''/spec/containers/0/image'', ''registry/nginx:2'')]"
proof -
  obtain request where r: "DecodeReview sampleCodecs ''pod'' = Inr (Some request)" "reqResource request = ''pods''"
    by (simp add: sampleCodecs_def)
  have p: "DecodePod sampleCodecs (reqObject request) = Inr samplePodSpec" by (simp add: sampleCodecs_def)
  have i: "podImages samplePodSpec =
      [(''/spec/initContainers/0/image'', ''busybox''), (''/spec/containers/0/image'', ''nginx:1'')]"
    by code_simp
  have o: "overridden (podImageOverrides sampleServer) ''busybox'' = ''busybox''"
    "overridden (podImageOverrides sampleServer) ''nginx:1'' = ''registry/nginx:2''" by code_simp+
  from overridePodImages_overrides [OF sample_plain r p] show ?thesis
    by (auto simp: Let_def i o split: if_splits)
qed

section \<open>What is registered\<close>

text \<open>The webhooks that a request configures.\<close>

fun configured :: "request \<Rightarrow> mutating_webhook list option" where
  "configured (Create MutatingWebhookConfigurations ns (ObjMutatingWebhookConfiguration conf)) = Some (mwcWebhooks conf)"
| "configured (Update MutatingWebhookConfigurations ns (ObjMutatingWebhookConfiguration conf)) = Some (mwcWebhooks conf)"
| "configured _ = None"

definition servedBy :: "server \<Rightarrow> string \<Rightarrow> mutating_webhook \<Rightarrow> bool" where
  "servedBy s ns w \<longleftrightarrow> mwCABundle w = fst (serverTLS s) \<and> mwServiceNamespace w = ns \<and>
     mwServiceName w = WebhookServiceName \<and> mwServicePath w \<in> fst ` set (routes s) \<and>
     mwFailurePolicy w = ''Ignore''"

lemma emits_no_webhook [emits_intros]:
  "emits (\<lambda>r. configured r = None) (ensureWebhookService env ns)"
  "emits (\<lambda>r. configured r = None) (ensurePriorityClass env cls)"
  "emits (\<lambda>r. configured r = None) (selfSignedCertKey env host ips names)"
  unfolding ensureWebhookService_def ensurePriorityClass_def selfSignedCertKey_def
  by (intro emits_intros; simp)+

lemma emits_ensureWebhookConfiguration:
  "emits (\<lambda>r. configured r \<in> {None, Some [webhook]}) (ensureWebhookConfiguration env what name webhook)"
  unfolding ensureWebhookConfiguration_def by (intro emits_intros; simp)

lemma emits_registerRookPriority:
  "emits (\<lambda>r. configured r = None \<or> cls \<noteq> '''' \<and> configured r = Some [rookPriorityWebhook ns certPEM])
     (registerRookPriority env ns cls certPEM)"
  unfolding registerRookPriority_def
  by (intro emits_intros emits_mono [OF emits_no_webhook(2)] emits_mono [OF emits_ensureWebhookConfiguration]) auto

lemma emits_registerPodImageOverrides:
  "emits (\<lambda>r. configured r = None \<or> overrides \<noteq> [] \<and> configured r = Some [podImageOverridesWebhook ns certPEM])
     (registerPodImageOverrides env ns overrides certPEM)"
  unfolding registerPodImageOverrides_def
  by (intro emits_intros emits_mono [OF emits_ensureWebhookConfiguration]) auto

lemmas grows_NewServer = emits_grows [OF emits_no_webhook(1)] emits_grows [OF emits_no_webhook(2)]
  emits_grows [OF emits_no_webhook(3)] emits_grows [OF emits_ensureWebhookConfiguration]
  emits_grows [OF emits_registerRookPriority] emits_grows [OF emits_registerPodImageOverrides]

lemma ensureWebhookConfiguration_done:
  assumes "result (ensureWebhookConfiguration env what name webhook) s = Inr ()"
  shows "\<exists>r x. exchange env (ensureWebhookConfiguration env what name webhook) s r x \<and> as_done x = Inr () \<and>
    configured r = Some [webhook]"
proof -
  let ?get = "getObj env dec_mwc MutatingWebhookConfigurations '''' name"
  let ?s = "after ?get s"
  obtain r where r: "configured r = Some [webhook]" "as_done (respond env (history ?s) r) = Inr ()"
    "sent (ensureWebhookConfiguration env what name webhook) s = [Get MutatingWebhookConfigurations '''' name, r]"
  proof (cases "result ?get s")
    case (Inl err)
    with assms show thesis
      by (intro that [of "Create MutatingWebhookConfigurations '''' (ObjMutatingWebhookConfiguration
          \<lparr>mwcName = name, mwcWebhooks = [webhook]\<rparr>)"])
        (auto simp: ensureWebhookConfiguration_def Let_def result_bind sent_def after_def split: if_splits sum.splits)
  next
    case (Inr hook)
    with assms show thesis
      by (intro that [of "Update MutatingWebhookConfigurations '''' (ObjMutatingWebhookConfiguration
          (hook\<lparr>mwcWebhooks := [webhook]\<rparr>))"])
        (auto simp: ensureWebhookConfiguration_def Let_def result_bind sent_def after_def split: if_splits sum.splits)
  qed
  have "exchange env (ensureWebhookConfiguration env what name webhook) s r (respond env (history ?s) r)"
    unfolding exchange_def r(3) by (intro exI [of _ "[Get MutatingWebhookConfigurations '''' name]"] exI [of _ "[]"]) simp
  with r show ?thesis by blast
qed

text \<open>The parts of a start that succeeded.\<close>

lemma NewServer_parts:
  assumes "result (NewServer env ns cls overrides) s = Inr server"
  obtains certPEM keyPEM s1 s2 pre where
    "server = \<lparr>serverTLS = (certPEM, keyPEM), rookPriorityClass = cls, podImageOverrides = overrides\<rparr>"
    "X509KeyPair env certPEM keyPEM = Inr ()" "list_all (\<lambda>r. configured r = None) pre"
    "history s1 = history s @ pre" "s2 = after (registerRookPriority env ns cls certPEM) s1"
    "result (registerRookPriority env ns cls certPEM) s1 = Inr ()"
    "result (registerPodImageOverrides env ns overrides certPEM) s2 = Inr ()"
    "sent (NewServer env ns cls overrides) s = pre @ sent (registerRookPriority env ns cls certPEM) s1 @
       sent (registerPodImageOverrides env ns overrides certPEM) s2"
proof -
  let ?gen = "wrapE ''generate self-signed cert for webhook''
    (selfSignedCertKey env (WebhookServiceName @ ''.'' @ ns @ ''.svc'') [] [])"
  let ?s0 = "after (ensureWebhookService env ns) s"
  let ?s1 = "after ?gen ?s0"
  let ?pre = "sent (ensureWebhookService env ns) s @ sent ?gen ?s0"
  from assms obtain certPEM keyPEM where ok: "result (ensureWebhookService env ns) s = Inr ()"
    "result ?gen ?s0 = Inr (certPEM, keyPEM)" "X509KeyPair env certPEM keyPEM = Inr ()"
    "result (registerRookPriority env ns cls certPEM) ?s1 = Inr ()"
    "result (registerPodImageOverrides env ns overrides certPEM)
       (after (registerRookPriority env ns cls certPEM) ?s1) = Inr ()"
    "server = \<lparr>serverTLS = (certPEM, keyPEM), rookPriorityClass = cls, podImageOverrides = overrides\<rparr>"
    unfolding NewServer_def by (auto elim!: bindE_Inr simp del: obs_wrap(1-3)) auto
  have "list_all (\<lambda>r. configured r = None) ?pre"
    using emits_sent_all [OF emits_no_webhook(1)] emits_sent_all [OF emits_no_webhook(3)] by simp
  moreover have "history ?s1 = history s @ ?pre"
    using grows_history [OF grows_NewServer(1)] grows_history [OF grows_NewServer(3)] by simp
  moreover have "sent (NewServer env ns cls overrides) s = ?pre @ sent (registerRookPriority env ns cls certPEM) ?s1 @
       sent (registerPodImageOverrides env ns overrides certPEM) (after (registerRookPriority env ns cls certPEM) ?s1)"
    using ok unfolding NewServer_def
    by (simp add: sent_bindE grows_NewServer emits_intros split: prod.split)
  ultimately show thesis using ok by (intro that) auto
qed

lemma registered_rookPriority:
  assumes "result (registerRookPriority env ns cls certPEM) s = Inr ()" "cls \<noteq> ''''"
  shows "\<exists>r x. exchange env (registerRookPriority env ns cls certPEM) s r x \<and> as_done x = Inr () \<and>
    configured r = Some [rookPriorityWebhook ns certPEM]"
proof -
  let ?m = "ensureWebhookConfiguration env ''rook-priority'' RookPriorityAdmissionWebhookName
      (rookPriorityWebhook ns certPEM)"
  let ?s = "after (ensurePriorityClass env cls) s"
  have 1: "result (ensurePriorityClass env cls) s = Inr ()" "result ?m ?s = Inr ()"
    using assms by (auto simp: registerRookPriority_def elim!: bindE_Inr)
  from ensureWebhookConfiguration_done [OF 1(2)] obtain r x where rx:
    "exchange env ?m ?s r x" "as_done x = Inr ()" "configured r = Some [rookPriorityWebhook ns certPEM]"
    by blast
  have "exchange env (bindE (ensurePriorityClass env cls) (\<lambda>_. ?m)) s r x"
    by (rule exchange_bindE_right [OF grows_NewServer(2) grows_NewServer(4) 1(1) rx(1)])
  with rx assms(2) show ?thesis by (auto simp: registerRookPriority_def)
qed

lemma registered_podImageOverrides:
  assumes "result (registerPodImageOverrides env ns overrides certPEM) s = Inr ()" "overrides \<noteq> []"
  shows "\<exists>r x. exchange env (registerPodImageOverrides env ns overrides certPEM) s r x \<and> as_done x = Inr () \<and>
    configured r = Some [podImageOverridesWebhook ns certPEM]"
  using assms by (auto simp: registerPodImageOverrides_def dest: ensureWebhookConfiguration_done)

lemma webhook_paths:
  "mwServicePath (rookPriorityWebhook ns certPEM) = ''/rook-priority''"
  "mwServicePath (podImageOverridesWebhook ns certPEM) = ''/pod-image-overrides''"
  by (simp_all add: rookPriorityWebhook_def podImageOverridesWebhook_def admissionWebhook_def)

lemma served_webhooks:
  "server = \<lparr>serverTLS = (certPEM, keyPEM), rookPriorityClass = cls, podImageOverrides = overrides\<rparr> \<Longrightarrow>
   (cls \<noteq> '''' \<longrightarrow> servedBy server ns (rookPriorityWebhook ns certPEM)) \<and>
   (overrides \<noteq> [] \<longrightarrow> servedBy server ns (podImageOverridesWebhook ns certPEM))"
  by (simp add: servedBy_def routes_def rookPriorityWebhook_def podImageOverridesWebhook_def admissionWebhook_def)

lemma NewServer_server:
  "result (NewServer env ns cls overrides) s = Inr server \<Longrightarrow>
   rookPriorityClass server = cls \<and> podImageOverrides server = overrides"
  by (erule NewServer_parts) simp

lemma NewServer_routes:
  assumes "result (NewServer env ns cls overrides) s = Inr server" "path \<in> fst ` set (routes server)"
  shows "\<exists>r x w. exchange env (NewServer env ns cls overrides) s r x \<and> as_done x = Inr () \<and>
    configured r = Some [w] \<and> mwServicePath w = path"
proof -
  let ?new = "NewServer env ns cls overrides"
  obtain certPEM keyPEM s1 s2 pre where p:
    "server = \<lparr>serverTLS = (certPEM, keyPEM), rookPriorityClass = cls, podImageOverrides = overrides\<rparr>"
    "X509KeyPair env certPEM keyPEM = Inr ()" "list_all (\<lambda>r. configured r = None) pre"
    "history s1 = history s @ pre" "s2 = after (registerRookPriority env ns cls certPEM) s1"
    "result (registerRookPriority env ns cls certPEM) s1 = Inr ()"
    "result (registerPodImageOverrides env ns overrides certPEM) s2 = Inr ()"
    "sent ?new s = pre @ sent (registerRookPriority env ns cls certPEM) s1 @
       sent (registerPodImageOverrides env ns overrides certPEM) s2"
    by (rule NewServer_parts [OF assms(1)])
  from assms(2) p(1) consider "cls \<noteq> ''''" "path = ''/rook-priority''"
    | "overrides \<noteq> []" "path = ''/pod-image-overrides''"
    by (auto simp: routes_def split: if_splits)
  then show ?thesis
  proof cases
    case 1
    from registered_rookPriority [OF p(6) 1(1)] obtain r x where rx:
      "exchange env (registerRookPriority env ns cls certPEM) s1 r x" "as_done x = Inr ()"
      "configured r = Some [rookPriorityWebhook ns certPEM]" by blast
    from rx(1) obtain u v where u: "sent (registerRookPriority env ns cls certPEM) s1 = u @ r # v"
      "respond env (history s1 @ u) r = x" by (auto simp: exchange_def)
    have "exchange env ?new s r x"
      unfolding exchange_def using u p(4)
      by (intro exI [of _ "pre @ u"] exI [of _ "v @ sent (registerPodImageOverrides env ns overrides certPEM) s2"])
        (simp add: p(8))
    with rx 1 webhook_paths(1) show ?thesis by blast
  next
    case 2
    from registered_podImageOverrides [OF p(7) 2(1)] obtain r x where rx:
      "exchange env (registerPodImageOverrides env ns overrides certPEM) s2 r x" "as_done x = Inr ()"
      "configured r = Some [podImageOverridesWebhook ns certPEM]" by blast
    have "exchange env ?new s r x"
      by (rule exchange_right [OF rx(1), where t = "pre @ sent (registerRookPriority env ns cls certPEM) s1"])
        (simp_all add: p(4,5,8) grows_history [OF grows_NewServer(5)])
    with rx 2 webhook_paths(2) show ?thesis by blast
  qed
qed

text \<open>
  C18: The server starts only with a certificate that goes with its key, and what it has registered
  then fits what it serves: every webhook it configures is trusted by that certificate, leads to the
  service it made sure of and to a path that it has a handler for, and is ignored when it fails; and
  each of its routes was registered by a request that the cluster acknowledged.
\<close>

theorem NewServer_registers:
  assumes "result (NewServer env ns cls overrides) s = Inr server"
  shows "X509KeyPair env (fst (serverTLS server)) (snd (serverTLS server)) = Inr () \<and>
    (\<forall>r\<in>set (sent (NewServer env ns cls overrides) s). \<forall>ws. configured r = Some ws \<longrightarrow>
       (\<exists>w. ws = [w] \<and> servedBy server ns w)) \<and>
    (\<forall>path\<in>fst ` set (routes server). \<exists>r x w. exchange env (NewServer env ns cls overrides) s r x \<and>
       as_done x = Inr () \<and> configured r = Some [w] \<and> mwServicePath w = path)"
proof -
  let ?new = "NewServer env ns cls overrides"
  obtain certPEM keyPEM s1 s2 pre where p:
    "server = \<lparr>serverTLS = (certPEM, keyPEM), rookPriorityClass = cls, podImageOverrides = overrides\<rparr>"
    "X509KeyPair env certPEM keyPEM = Inr ()" "list_all (\<lambda>r. configured r = None) pre"
    "sent ?new s = pre @ sent (registerRookPriority env ns cls certPEM) s1 @
       sent (registerPodImageOverrides env ns overrides certPEM) s2"
    by (rule NewServer_parts [OF assms])
  note served = served_webhooks [OF p(1), of ns]
  have "\<exists>w. ws = [w] \<and> servedBy server ns w"
    if "r \<in> set (sent ?new s)" "configured r = Some ws" for r ws
  proof -
    from that(1) consider "r \<in> set pre" | "r \<in> set (sent (registerRookPriority env ns cls certPEM) s1)"
      | "r \<in> set (sent (registerPodImageOverrides env ns overrides certPEM) s2)"
      unfolding p(4) by auto
    then show ?thesis
    proof cases
      case 1
      with p(3) that(2) show ?thesis by (simp add: list_all_iff)
    next
      case 2
      from emits_sent [OF emits_registerRookPriority this] that(2) served show ?thesis by simp
    next
      case 3
      from emits_sent [OF emits_registerPodImageOverrides this] that(2) served show ?thesis by simp
    qed
  qed
  with NewServer_routes [OF assms] p(1,2) show ?thesis by simp
qed

definition webhookEnv :: env where
  "webhookEnv = sampleEnv (\<lambda>h r. case r of
       Get _ _ _ \<Rightarrow> Failed (ApiErr NotFound ''not found'')
     | GenerateSelfSignedCertKey _ _ _ \<Rightarrow> Strings [''cert'', ''key'']
     | _ \<Rightarrow> Done)"

lemma webhookEnv_simps [simp]:
  "respond webhookEnv h (Get k ns name) = Failed (ApiErr NotFound ''not found'')"
  "respond webhookEnv h (GenerateSelfSignedCertKey host ips names) = Strings [''cert'', ''key'']"
  "respond webhookEnv h (Create k ns x) = Done"
  "X509KeyPair webhookEnv certPEM keyPEM = Inr ()"
  by (simp_all add: webhookEnv_def) (simp add: sampleEnv_def)

theorem NewServer_registers_witness:
  "\<exists>server. result (NewServer webhookEnv ''kurl'' ''node-critical'' [(''nginx:1'', ''nginx:2'')]) sampleProc = Inr server \<and>
     fst ` set (routes server) = {''/rook-priority'', ''/pod-image-overrides''} \<and>
     (\<forall>path\<in>fst ` set (routes server). \<exists>r x w.
        exchange webhookEnv (NewServer webhookEnv ''kurl'' ''node-critical'' [(''nginx:1'', ''nginx:2'')]) sampleProc r x \<and>
        as_done x = Inr () \<and> configured r = Some [w] \<and> mwServicePath w = path)"
proof -
  let ?new = "NewServer webhookEnv ''kurl'' ''node-critical'' [(''nginx:1'', ''nginx:2'')]"
  obtain server where s: "result ?new sampleProc = Inr server"
    "fst ` set (routes server) = {''/rook-priority'', ''/pod-image-overrides''}"
    by (simp add: NewServer_def ensureWebhookService_def ensurePriorityClass_def registerRookPriority_def
        registerPodImageOverrides_def ensureWebhookConfiguration_def selfSignedCertKey_def
        result_bindE after_bindE result_bind after_bind routes_def Let_def insert_commute)
  from NewServer_registers [OF s(1)] s show ?thesis by blast
qed

end
