(* ===== verification/Server.thy ===== *)
theory Server
  imports Migrate Webhook
begin

text \<open>
  The HTTP server of the operator (\<open>src/pkg/server/server.go\<close>): its routes report on the migration of
  the storage and start it. A body that the server encodes as JSON is kept as the value it encodes.
  Writing the answer can only fail for the client.
\<close>

record http_request =
  urlPath :: string
  authorization :: string \<comment> \<open>the header \<open>Authorization\<close>, empty when there is none\<close>

datatype http_body =
    TextBody string
  | ReadyBody MigrationReadyResult
  | ClusterReadyBody ClusterReadyResult

record http_response =
  statusCode :: int
  httpBody :: http_body

definition StatusUnauthorized :: int where "StatusUnauthorized = 401"
definition StatusNotFound :: int where "StatusNotFound = 404"

definition respondHTTP :: "int \<Rightarrow> http_body \<Rightarrow> http_response go" where
  "respondHTTP status body = ret \<lparr>statusCode = status, httpBody = body\<rparr>"

text \<open>An error is answered with its text and the status 500, anything else with the status 200.\<close>

definition respondResult :: "('a \<Rightarrow> http_body) \<Rightarrow> 'a res go \<Rightarrow> http_response go" where
  "respondResult f m = do {
     r \<leftarrow> m;
     case r of
       Inl err \<Rightarrow> respondHTTP StatusInternalServerError (TextBody (errorText err))
     | Inr x \<Rightarrow> respondHTTP StatusOK (f x) }"

definition handleApprove :: "config \<Rightarrow> http_request \<Rightarrow> http_response go" where
  "handleApprove config req =
     (if authorization req \<noteq> ''Bearer '' @ StorageMigrationAuthToken config \<and>
         StorageMigrationAuthToken config \<noteq> ''''
      then respondHTTP StatusUnauthorized (TextBody ''UNAUTHORIZED'')
      else do {
        _ \<leftarrow> modify (\<lambda>s. s\<lparr>migrationTasks := migrationTasks s + 1\<rparr>);
        respondHTTP StatusOK (TextBody ''APPROVED'') })"

text \<open>The routes of \<open>Serve\<close>.\<close>

definition serveHTTP :: "env \<Rightarrow> config \<Rightarrow> http_request \<Rightarrow> http_response go" where
  "serveHTTP env config req =
     (if urlPath req = ''/healthz'' then respondHTTP StatusOK (TextBody '''')
      else if urlPath req = ''/storagemigration/cluster-ready''
      then respondResult ClusterReadyBody (IsClusterReady env config)
      else if urlPath req = ''/storagemigration/ready''
      then respondResult ReadyBody (IsMigrationReady env config)
      else if urlPath req = ''/storagemigration/status''
      then respondResult TextBody (GetMigrationStatus env)
      else if urlPath req = ''/storagemigration/logs''
      then do { logs \<leftarrow> GetMigrationLogs; respondHTTP StatusOK (TextBody logs) }
      else if urlPath req = ''/storagemigration/approve'' then handleApprove config req
      else respondHTTP StatusNotFound (TextBody (''404 page not found'' @ NL)))"

section \<open>Starting the migration\<close>

text \<open>The variables of the process: all of its state but the requests it has sent.\<close>

definition variables :: "proc \<Rightarrow> proc" where
  "variables p = p\<lparr>history := []\<rparr>"

interpretation variables: process_variable variables
  by unfold_locales (simp add: variables_def)

definition authorized :: "config \<Rightarrow> http_request \<Rightarrow> bool" where
  "authorized config req \<longleftrightarrow> StorageMigrationAuthToken config = '''' \<or>
     authorization req = ''Bearer '' @ StorageMigrationAuthToken config"

lemma frames_reports [frames_intros]:
  "frames variables (IsClusterReady env config)" "frames variables (GetMigrationStatus env)"
  "frames variables GetMigrationLogs"
  unfolding IsClusterReady_def GetMigrationStatus_def GetMigrationLogs_def by (intro frames_intros)+

lemma frames_respond [frames_intros]:
  "frames f (respondHTTP status body)" "frames f m \<Longrightarrow> frames f (respondResult g m)"
  unfolding respondHTTP_def respondResult_def by (intro frames_intros)+

lemma emits_reports [emits_intros]:
  "emits is_read (IsClusterReady env config)" "emits is_read (IsMigrationReady env config)"
  "emits is_read (GetMigrationStatus env)" "emits is_read GetMigrationLogs"
  unfolding IsClusterReady_def IsMigrationReady_def storageReady_def notReady_def GetMigrationStatus_def
    GetMigrationLogs_def Let_def
  by (intro emits_intros; simp)+

lemma emits_respond [emits_intros]:
  "emits P (respondHTTP status body)" "emits P m \<Longrightarrow> emits P (respondResult g m)"
  unfolding respondHTTP_def respondResult_def by (intro emits_intros)+

lemma respond_status [simp]:
  "statusCode (result (respondHTTP status body) s) = status"
  "statusCode (result (respondResult g m) s) =
     (case result m s of Inl _ \<Rightarrow> StatusInternalServerError | Inr _ \<Rightarrow> StatusOK)"
  by (simp_all add: respondHTTP_def respondResult_def result_bind split: sum.split)

lemma emits_handleApprove [emits_intros]: "emits P (handleApprove config req)"
  unfolding handleApprove_def by (intro emits_intros emits_modify) simp

lemma handleApprove_effect:
  "variables (after (handleApprove config req) s) =
     (if authorized config req then (variables s)\<lparr>migrationTasks := migrationTasks s + 1\<rparr> else variables s)"
  "statusCode (result (handleApprove config req) s) =
     (if authorized config req then StatusOK else StatusUnauthorized)"
  by (simp_all add: handleApprove_def authorized_def variables_def respondHTTP_def after_bind result_bind)


end
