(* ===== verification/OperatorCmd.thy ===== *)
theory OperatorCmd
  imports Operator Server
begin

text \<open>
  The command that runs the operator (\<open>src/cmd/ekco/cli/operator.go\<close>): it registers or removes the
  admission webhooks, starts their server and the HTTP server in goroutines of their own, and runs the
  loop until the context ends, when the HTTP server stops or a signal arrives. The two servers
  answer requests beside the loop (\<open>serveHTTP\<close>, \<open>routes\<close>); what starts them has no other effect.
\<close>

fun parsePodImageOverrides :: "string list \<Rightarrow> (string \<times> string) list \<Rightarrow> (string \<times> string) list res" where
  "parsePodImageOverrides [] parsed = Inr parsed"
| "parsePodImageOverrides (override # overrides) parsed =
     (case Split (CHR ''='') override of
        [old, new] \<Rightarrow> parsePodImageOverrides overrides (store_map parsed old new)
      | _ \<Rightarrow> Inl (NewErr (''Cannot parse pod image override '' @ Quote override)))"

definition startWebhooks :: "env \<Rightarrow> config \<Rightarrow> unit res go" where
  "startWebhooks env config =
     (if RookPriorityClass config \<noteq> '''' \<or> PodImageOverrides config \<noteq> []
      then bindE (ret (parsePodImageOverrides (PodImageOverrides config) [])) (\<lambda>overrides.
        bindE (wrapE ''initialize webhook server''
          (NewServer env ''kurl'' (RookPriorityClass config) overrides)) (\<lambda>webhookServer. Ok ()))
      else Ok ())"

definition removeWebhooks :: "env \<Rightarrow> config \<Rightarrow> unit res go" where
  "removeWebhooks env config =
     bindE (if RookPriorityClass config = '''' then wrapE ''delete webhook config'' (RemoveRookPriority env)
         else Ok ()) (\<lambda>_.
       if PodImageOverrides config = [] then wrapE ''delete webhook config'' (RemovePodImageOverrides env)
       else Ok ())"

definition withTimeout :: "config \<Rightarrow> config" where
  "withTimeout config =
     (if ReconcileTimeout config = 0 then config\<lparr>ReconcileTimeout := 15 * Minute\<rparr> else config)"

definition startOperator :: "startup \<Rightarrow> viper \<Rightarrow> env \<Rightarrow> operator res go" where
  "startOperator st v env = withController st v env (\<lambda>config. config) (\<lambda>config clusterController.
     bindE (startWebhooks (Client clusterController) config) (\<lambda>_.
     bindE (removeWebhooks (Client clusterController) config) (\<lambda>_.
       Ok (New (withTimeout config) clusterController))))"

definition OperatorCmd :: "startup \<Rightarrow> viper \<Rightarrow> env \<Rightarrow> unit res go" where
  "OperatorCmd st v env = bindE (startOperator st v env) Poll"

text \<open>Overrides survive being written as they are given on the command line.\<close>

lemma store_map_new: "k \<notin> fst ` set m \<Longrightarrow> store_map m k v = m @ [(k, v)]"
  by (induction m) auto

lemma parsePodImageOverrides_format:
  assumes "distinct (map fst (acc @ m))" "\<forall>(old, new)\<in>set m. CHR ''='' \<notin> set old \<and> CHR ''='' \<notin> set new"
  shows "parsePodImageOverrides (map (\<lambda>(old, new). old @ ''='' @ new) m) acc = Inr (acc @ m)"
  using assms
proof (induction m arbitrary: acc)
  case (Cons x m)
  obtain old new where x: "x = (old, new)" by force
  with Cons.prems have "Split (CHR ''='') (old @ ''='' @ new) = [old, new]"
    by (simp add: Split_append_sep Split_no_sep)
  moreover have "store_map acc old new = acc @ [(old, new)]"
    using Cons.prems x by (auto intro!: store_map_new)
  moreover have "parsePodImageOverrides (map (\<lambda>(old, new). old @ ''='' @ new) m) (acc @ [(old, new)]) =
      Inr ((acc @ [(old, new)]) @ m)"
    using Cons.prems x by (intro Cons.IH) auto
  ultimately show ?case using x by simp
qed simp

section \<open>The webhooks of a configuration\<close>

text \<open>The overrides of an accepted list are not empty when the list is not.\<close>

lemma parsePodImageOverrides_none:
  "parsePodImageOverrides ws acc = Inr m \<Longrightarrow> m = [] \<longleftrightarrow> ws = [] \<and> acc = []"
proof (induction ws acc rule: parsePodImageOverrides.induct)
  case (2 w ws acc)
  have "store_map acc old new \<noteq> []" for old new
    by (cases acc) auto
  with 2 show ?case by (auto split: list.splits)
qed auto

lemma grows_NewServer: "grows (NewServer env ns cls overrides)"
  unfolding NewServer_def ensureWebhookService_def selfSignedCertKey_def registerRookPriority_def
    registerPodImageOverrides_def ensurePriorityClass_def ensureWebhookConfiguration_def
  by (intro emits_intros) simp_all

lemma grows_startWebhooks: "grows (startWebhooks env config)"
  unfolding startWebhooks_def by (intro emits_intros grows_NewServer)

lemma grows_removeWebhooks: "grows (removeWebhooks env config)"
  unfolding removeWebhooks_def RemoveRookPriority_def RemovePodImageOverrides_def removeWebhook_def
  by (intro emits_intros) simp_all

text \<open>A successful start has registered a webhook for each of its settings.\<close>

definition registered :: "env \<Rightarrow> 'a go \<Rightarrow> proc \<Rightarrow> string \<Rightarrow> bool" where
  "registered env m s path \<longleftrightarrow> (\<exists>r x w. exchange env m s r x \<and> as_done x = Inr () \<and>
     configured r = Some [w] \<and> mwServicePath w = path)"

lemma registered_sub_run: "sub_run m s m' s' \<Longrightarrow> registered env m' s' path \<Longrightarrow> registered env m s path"
  unfolding registered_def using exchange_sub_run by blast

lemma startWebhooks_registered:
  assumes "result (startWebhooks env config) s = Inr ()"
  shows "(RookPriorityClass config \<noteq> '''' \<longrightarrow> registered env (startWebhooks env config) s ''/rook-priority'') \<and>
    (PodImageOverrides config \<noteq> [] \<longrightarrow> registered env (startWebhooks env config) s ''/pod-image-overrides'')"
proof (cases "RookPriorityClass config \<noteq> '''' \<or> PodImageOverrides config \<noteq> []")
  case True
  let ?new = "\<lambda>overrides. wrapE ''initialize webhook server''
    (NewServer env ''kurl'' (RookPriorityClass config) overrides)"
  let ?parse = "ret (parsePodImageOverrides (PodImageOverrides config) [])"
  let ?k = "\<lambda>overrides. bindE (?new overrides) (\<lambda>webhookServer. Ok ())"
  have m: "startWebhooks env config = bindE ?parse ?k" using True by (simp add: startWebhooks_def)
  have gn: "grows (?new overrides)" for overrides by (intro emits_wrapE grows_NewServer)
  have g: "grows (?k overrides)" for overrides by (intro emits_bindE gn emits_return)
  from assms obtain overrides server where ok: "parsePodImageOverrides (PodImageOverrides config) [] = Inr overrides"
    "result (NewServer env ''kurl'' (RookPriorityClass config) overrides) s = Inr server"
    unfolding m by (auto elim!: bindE_Inr)
  have "sub_run (startWebhooks env config) s (?k overrides) (after ?parse s)" unfolding m
    by (rule sub_run_bindE_right) (simp_all add: emits_return g ok(1))
  also have "sub_run (?k overrides) (after ?parse s) (?new overrides) (after ?parse s)"
    by (rule sub_run_bindE_left) (simp_all add: emits_return gn)
  finally (sub_run_trans) have sub: "sub_run (startWebhooks env config) s (?new overrides) s" by simp
  have "registered env (?new overrides) s path" if "path \<in> fst ` set (routes server)" for path
    using NewServer_routes [OF ok(2) that] by (simp add: registered_def exchange_wrap)
  then show ?thesis using registered_sub_run [OF sub] NewServer_server [OF ok(2)]
      parsePodImageOverrides_none [OF ok(1)] by (auto simp: routes_def)
qed simp

definition removed :: "env \<Rightarrow> 'a go \<Rightarrow> proc \<Rightarrow> string \<Rightarrow> bool" where
  "removed env m s name \<longleftrightarrow> (\<exists>x. exchange env m s (Delete MutatingWebhookConfigurations '''' name) x \<and>
     (case as_done x of Inl err \<Rightarrow> IsNotFoundErr err | Inr _ \<Rightarrow> True))"

lemma removed_sub_run: "sub_run m s m' s' \<Longrightarrow> removed env m' s' name \<Longrightarrow> removed env m s name"
  unfolding removed_def using exchange_sub_run by blast

lemma removeWebhook_removed:
  assumes "result (removeWebhook env name) s = Inr ()"
  shows "removed env (removeWebhook env name) s name"
proof -
  let ?r = "Delete MutatingWebhookConfigurations '''' name"
  have "sent (removeWebhook env name) s = [?r]"
    by (simp add: removeWebhook_def sent_def split: sum.split)
  then have "exchange env (removeWebhook env name) s ?r (respond env (history s) ?r)"
    unfolding exchange_def by (intro exI [of _ "[]"]) simp
  moreover have "case as_done (respond env (history s) ?r) of Inl err \<Rightarrow> IsNotFoundErr err | Inr _ \<Rightarrow> True"
    using assms by (auto simp: removeWebhook_def result_bind split: sum.splits if_splits)
  ultimately show ?thesis unfolding removed_def by blast
qed

lemma removed_wrap: "removed env (wrapE msg m) s name = removed env m s name"
  by (simp add: removed_def exchange_wrap)

lemma removeWebhooks_removed:
  assumes "result (removeWebhooks env config) s = Inr ()"
  shows "(RookPriorityClass config = '''' \<longrightarrow>
      removed env (removeWebhooks env config) s RookPriorityAdmissionWebhookName) \<and>
    (PodImageOverrides config = [] \<longrightarrow>
      removed env (removeWebhooks env config) s PodImageOverridesAdmissionWebhookName)"
proof -
  let ?rook = "if RookPriorityClass config = '''' then wrapE ''delete webhook config'' (RemoveRookPriority env) else Ok ()"
  let ?pods = "if PodImageOverrides config = [] then wrapE ''delete webhook config'' (RemovePodImageOverrides env) else Ok ()"
  have m: "removeWebhooks env config = bindE ?rook (\<lambda>_. ?pods)" by (simp add: removeWebhooks_def)
  have g: "grows ?rook" "grows ?pods"
    unfolding RemoveRookPriority_def RemovePodImageOverrides_def removeWebhook_def by (intro emits_intros TrueI)+
  from assms have ok: "result ?rook s = Inr ()" "result ?pods (after ?rook s) = Inr ()"
    unfolding m by (auto elim!: bindE_Inr split: if_splits)
  have "removed env ?rook s RookPriorityAdmissionWebhookName" if "RookPriorityClass config = ''''"
    using that ok(1) by (auto simp: removed_wrap RemoveRookPriority_def intro: removeWebhook_removed)
  moreover have "removed env ?pods (after ?rook s) PodImageOverridesAdmissionWebhookName" if "PodImageOverrides config = []"
    using that ok(2) by (auto simp: removed_wrap RemovePodImageOverrides_def intro: removeWebhook_removed split: if_splits)
  ultimately show ?thesis unfolding m
    using removed_sub_run [OF sub_run_bindE_left [OF g]] removed_sub_run [OF sub_run_bindE_right [OF g ok(1)]] by blast
qed

text \<open>
  C20: The loop of the operator starts only when the webhooks of the cluster are those of its
  configuration: for each of the two that is configured a webhook of its path was registered and
  acknowledged; each that is not was deleted, or the cluster had answered that there is none.
\<close>

theorem startOperator_webhooks:
  assumes "result (startOperator st v env) s = Inr oper"
  shows "(if RookPriorityClass (opConfig oper) = ''''
      then removed env (startOperator st v env) s RookPriorityAdmissionWebhookName
      else registered env (startOperator st v env) s ''/rook-priority'') \<and>
    (if PodImageOverrides (opConfig oper) = []
      then removed env (startOperator st v env) s PodImageOverridesAdmissionWebhookName
      else registered env (startOperator st v env) s ''/pod-image-overrides'')"
proof -
  from assms obtain config where c: "initCommand st v env (\<lambda>config. config) =
      Inr (config, NewController (controllerConfig config) env)"
    by (auto simp: startOperator_def withController_def split: sum.splits dest!: initCommand_Inr)
  let ?start = "startWebhooks env config" and ?remove = "removeWebhooks env config"
  let ?oper = "Ok (New (withTimeout config) (NewController (controllerConfig config) env))"
  let ?k = "bindE ?remove (\<lambda>_. ?oper)"
  have m: "startOperator st v env = bindE ?start (\<lambda>_. ?k)"
    using c by (simp add: startOperator_def withController_def)
  have go: "grows ?oper" by (rule emits_return)
  have gk: "grows ?k" by (intro emits_bindE grows_removeWebhooks go)
  from assms obtain u w where 1: "result ?start s = Inr ()" "result ?remove (after ?start s) = Inr ()"
    "opConfig oper = withTimeout config"
    unfolding m by (auto elim!: bindE_Inr simp: New_def)
  have start: "sub_run (startOperator st v env) s ?start s" unfolding m
    by (rule sub_run_bindE_left [OF grows_startWebhooks gk])
  have "sub_run (startOperator st v env) s ?k (after ?start s)" unfolding m
    by (rule sub_run_bindE_right [OF grows_startWebhooks gk 1(1)])
  from sub_run_trans [OF this sub_run_bindE_left [OF grows_removeWebhooks go]]
  have remove: "sub_run (startOperator st v env) s ?remove (after ?start s)" .
  have "RookPriorityClass (opConfig oper) = RookPriorityClass config"
    "PodImageOverrides (opConfig oper) = PodImageOverrides config"
    using 1(3) by (simp_all add: withTimeout_def)
  then show ?thesis
    using startWebhooks_registered [OF 1(1)] removeWebhooks_removed [OF 1(2)]
      registered_sub_run [OF start] removed_sub_run [OF remove] by auto
qed

definition sampleViper :: viper where
  "sampleViper = \<lparr>Unmarshal = Inr sampleOpConfig, IsSet = (\<lambda>_. False), GetString = (\<lambda>_. ''''), GetDuration = (\<lambda>_. 0)\<rparr>"

lemma startOperator_sample:
  "\<exists>oper. result (startOperator sampleStartup sampleViper webhookEnv) sampleProc = Inr oper \<and> opConfig oper = sampleOpConfig"
proof -
  have "initEKCOConfig sampleViper = Inr sampleOpConfig"
    by (simp add: initEKCOConfig_def sampleViper_def sampleOpConfig_def)
  moreover have "RookPriorityClass sampleOpConfig \<noteq> ''''" "PodImageOverrides sampleOpConfig = []"
    "withTimeout sampleOpConfig = sampleOpConfig"
    by (simp_all add: sampleOpConfig_def withTimeout_def Minute_def Second_def)
  moreover have "respond webhookEnv h (Delete k ns n) = Done" for h k ns n
    by (simp add: webhookEnv_def)
  ultimately show ?thesis
    by (simp add: startOperator_def withController_def initCommand_def FromViper_def sampleStartup_def
        initClusterController_def startWebhooks_def removeWebhooks_def
        RemovePodImageOverrides_def removeWebhook_def NewServer_def ensureWebhookService_def
        ensurePriorityClass_def registerRookPriority_def registerPodImageOverrides_def
        ensureWebhookConfiguration_def selfSignedCertKey_def result_bindE after_bindE result_bind after_bind
        New_def Let_def)
qed

theorem startOperator_webhooks_witness:
  "removed webhookEnv (startOperator sampleStartup sampleViper webhookEnv) sampleProc PodImageOverridesAdmissionWebhookName \<and>
   registered webhookEnv (startOperator sampleStartup sampleViper webhookEnv) sampleProc ''/rook-priority''"
proof -
  obtain oper where oper: "result (startOperator sampleStartup sampleViper webhookEnv) sampleProc = Inr oper"
    "opConfig oper = sampleOpConfig"
    using startOperator_sample by blast
  have "RookPriorityClass sampleOpConfig \<noteq> ''''" "PodImageOverrides sampleOpConfig = []"
    by (simp_all add: sampleOpConfig_def)
  with startOperator_webhooks [OF oper(1)] oper(2) show ?thesis by simp
qed

end
