(* ===== verification/HostFiles.thy ===== *)
theory HostFiles
  imports Exchange Controller
begin

text \<open>
  The files the commands write on a host: the configuration and the static pod manifest of haproxy
  (\<open>src/pkg/internallb/haproxy.go\<close> with its two templates, and the commands
  \<open>generate-haproxy-config\<close> and \<open>generate-haproxy-manifest\<close>), and the server of the kubeconfig files
  (\<open>src/pkg/kubeconfig\<close> and the command \<open>set-kubeconfig-server\<close>). The templates are executed by
  \<open>html/template\<close>, which escapes what it inserts; YAML and kubeconfig files are decoded by functions
  of the environment.
\<close>

section \<open>Templates\<close>

definition htmlEscape :: "string \<Rightarrow> string" where
  "htmlEscape s = concat (map (\<lambda>x.
     if x = CHR 0x22 then ''&#34;'' else if x = CHR ''&'' then ''&amp;''
     else if x = CHR 0x27 then ''&#39;'' else if x = CHR ''+'' then ''&#43;''
     else if x = CHR ''<'' then ''&lt;'' else if x = CHR ''>'' then ''&gt;''
     else if x = CHR 0x00 then [CHR 0xEF, CHR 0xBF, CHR 0xBD] else [x]) s)"

definition haproxyCfg :: "string list" where
  "haproxyCfg =
     [''# /etc/haproxy/haproxy.cfg'',
      ''#---------------------------------------------------------------------'',
      ''# Global settings'',
      ''#---------------------------------------------------------------------'',
      ''global'',
      ''    log stdout format raw local0 notice'',
      ''    tune.disable-zero-copy-forwarding'',
      ''    daemon'',
      '''',
      ''#---------------------------------------------------------------------'',
      ''# common defaults that all the '' @ [CHR 0x27] @ ''listen'' @ [CHR 0x27] @ '' and '' @ [CHR 0x27] @
        ''backend'' @ [CHR 0x27] @ '' sections will'',
      ''# use if not designated in their block'',
      ''# borrowed from https://github.com/openshift/machine-config-operator/blob/9674df13d76e3832c5b8404083fb6218a09503f8/templates/master/00-master/on-prem/files/haproxy-haproxy.yaml'',
      ''#---------------------------------------------------------------------'',
      ''defaults'',
      ''    log     global'',
      ''    maxconn 20000'',
      ''    mode    tcp'',
      ''    option  dontlognull'',
      ''    retries 3'',
      ''    timeout http-request 30s'',
      ''    timeout queue        1m'',
      ''    timeout connect      10s'',
      ''    timeout client       86400s'',
      ''    timeout server       86400s'',
      ''    timeout tunnel       86400s'',
      '''',
      ''frontend kubernetes-api'',
      ''    bind 0.0.0.0:6444 v4v6'',
      ''    option tcplog'',
      ''    default_backend kubernetes-primaries'',
      '''',
      ''backend kubernetes-primaries'',
      ''    option  httpchk GET /readyz HTTP/1.0'',
      ''    option  log-health-checks'',
      ''    balance roundrobin'']"

definition serverLine :: "nat \<Rightarrow> string \<Rightarrow> string" where
  "serverLine i host = ''    server k8s-primary-'' @ Itoa (int i) @ '' '' @ htmlEscape host @
     '':6443 weight 1 verify none check check-ssl inter 1s fall 2 rise 3''"

definition GenerateHAProxyConfig :: "string list \<Rightarrow> string" where
  "GenerateHAProxyConfig primaries =
     Join NL (haproxyCfg @ map (\<lambda>(i, host). serverLine i host) (enumerate 0 primaries)) @ NL"

definition HAProxyFileversionAnnotation :: string where
  "HAProxyFileversionAnnotation = ''kurl.sh/haproxy-fileversion''"

definition DefaultFileversion :: int where "DefaultFileversion = 0"
definition HAProxyImage :: string where "HAProxyImage = ''haproxy:lts-alpine''"

definition generateHAProxyManifest :: "string \<Rightarrow> int \<Rightarrow> string" where
  "generateHAProxyManifest img fileversion =
     Join NL
      [''apiVersion: v1'',
       ''kind: Pod'',
       ''metadata:'',
       ''  name: haproxy'',
       ''  namespace: kube-system'',
       ''  labels:'',
       ''    app: kurl-haproxy'',
       ''  annotations:'',
       ''    kurl.sh/haproxy-fileversion: '' @ dquote (htmlEscape (Itoa fileversion)),
       ''spec:'',
       ''  containers:'',
       ''  - image: '' @ dquote (htmlEscape img),
       ''    name: haproxy'',
       ''    livenessProbe:'',
       ''      failureThreshold: 8'',
       ''      httpGet:'',
       ''        host: localhost'',
       ''        path: /healthz'',
       ''        port: 6444'',
       ''        scheme: HTTPS'',
       ''    volumeMounts:'',
       ''    - mountPath: /usr/local/etc/haproxy/haproxy.cfg'',
       ''      name: haproxyconf'',
       ''      readOnly: true'',
       ''  hostNetwork: true'',
       ''  volumes:'',
       ''  - hostPath:'',
       ''      path: /etc/haproxy/haproxy.cfg'',
       ''      type: FileOrCreate'',
       ''    name: haproxyconf'',
       ''status: {}''] @ NL"

section \<open>The manifest of haproxy\<close>

definition getFileversion :: "pod \<Rightarrow> int" where
  "getFileversion p =
     (let str = index_map (podAnnotations p) HAProxyFileversionAnnotation in
      if str = '''' then 0 else fst (Atoi str))"

definition getImage :: "pod \<Rightarrow> string" where
  "getImage p = (case podContainers p of [] \<Rightarrow> '''' | ctr # _ \<Rightarrow> ctrImage ctr)"

definition ErrNotExist :: string where "ErrNotExist = ''file does not exist''"

definition as_text :: "response \<Rightarrow> string res" where
  "as_text r = (case r of Failed err \<Rightarrow> Inl err | Bytes b \<Rightarrow> Inr b | _ \<Rightarrow> Inl badResponse)"

definition writeManifest :: "env \<Rightarrow> string \<Rightarrow> string \<Rightarrow> int \<Rightarrow> bool res go" where
  "writeManifest env filename img fileversion =
     bindE (send env (WriteFile filename (generateHAProxyManifest img fileversion))) (\<lambda>_. Ok True)"

definition GenerateHAProxyManifest :: "env \<Rightarrow> string \<Rightarrow> string \<Rightarrow> int \<Rightarrow> bool res go" where
  "GenerateHAProxyManifest env filename img fileversion =
     bindE (send env (MkdirParents filename)) (\<lambda>_. do {
       r \<leftarrow> call env (ReadFile filename);
       case as_text r of
         Inr current \<Rightarrow>
           bindE (ret (yaml_Pod env current)) (\<lambda>p.
             if getFileversion p = fileversion \<and> getImage p = img then Ok False
             else writeManifest env filename img fileversion)
       | Inl err \<Rightarrow>
           (if \<not> errorsIs err ErrNotExist then Fail err
            else writeManifest env filename img fileversion) })"

definition GenerateHAProxyManifestCmd :: "env \<Rightarrow> string \<Rightarrow> string \<Rightarrow> unit res go" where
  "GenerateHAProxyManifestCmd env filename img =
     bindE (GenerateHAProxyManifest env filename img DefaultFileversion) (\<lambda>_. Ok ())"

section \<open>The server of a kubeconfig file\<close>

definition SetServer :: "env \<Rightarrow> string \<Rightarrow> string \<Rightarrow> unit res go" where
  "SetServer env file server =
     bindE (send env (OpenFile file)) (\<lambda>_.
     bindE (do { r \<leftarrow> call env (ReadAll file); ret (as_text r) }) (\<lambda>bs.
     bindE (ret (clientcmd_Load env bs)) (\<lambda>conf.
       (let conf = conf\<lparr>kcClusters := map (\<lambda>(key, _). (key, server)) (kcClusters conf)\<rparr> in
        bindE (ret (clientcmd_Write env conf)) (\<lambda>updated.
        bindE (send env (TruncateFile file)) (\<lambda>_.
        bindE (send env (SeekStart file)) (\<lambda>_.
          send env (FileWrite file updated))))))))"

definition RestartKubelet :: "env \<Rightarrow> unit res go" where
  "RestartKubelet env =
     bindE (wrapE ''failed to connect to dbus'' (send env DbusConnect)) (\<lambda>_.
       send env (RestartUnit ''kubelet.service'' ''replace''))"

definition SetKubeconfigServerCmd :: "env \<Rightarrow> string \<Rightarrow> string \<Rightarrow> bool \<Rightarrow> unit res go" where
  "SetKubeconfigServerCmd env hostEtcDir server admin =
     bindE (flatE ''update kubelet.conf'' (SetServer env (hostEtcDir @ ''/kubernetes/kubelet.conf'') server))
       (\<lambda>_.
     bindE (if admin
            then flatE ''update admin.conf'' (SetServer env (hostEtcDir @ ''/kubernetes/admin.conf'') server)
            else Ok ()) (\<lambda>_.
       flatE ''restart kubelet'' (RestartKubelet env)))"

section \<open>The manifest is written once\<close>

lemma htmlEscape_no_special:
  "set s \<inter> {CHR 0x22, CHR ''&'', CHR 0x27, CHR ''+'', CHR ''<'', CHR ''>'', CHR 0x00} = {} \<Longrightarrow> htmlEscape s = s"
  unfolding htmlEscape_def by (induction s) auto

text \<open>
  What decoding the manifest as YAML gives: the annotation with the version and, first of the
  containers, one with the image, as they stand between the quotes.
\<close>

definition decodesManifest :: "env \<Rightarrow> string \<Rightarrow> int \<Rightarrow> bool" where
  "decodesManifest env img fileversion \<longleftrightarrow>
     (\<exists>p ctr ctrs. yaml_Pod env (generateHAProxyManifest img fileversion) = Inr p \<and>
        podContainers p = ctr # ctrs \<and> ctrImage ctr = htmlEscape img \<and>
        index_map (podAnnotations p) HAProxyFileversionAnnotation = Itoa fileversion)"

lemma Itoa_not_Nil [simp]: "Itoa i \<noteq> []"
  by (simp add: Itoa_def)

lemma decoded_manifest:
  assumes "decodesManifest env img v" "- (2 ^ 63) \<le> v" "v < 2 ^ 63"
  shows "\<exists>p. yaml_Pod env (generateHAProxyManifest img v) = Inr p \<and> getFileversion p = v \<and>
    getImage p = htmlEscape img"
proof -
  from assms(1) obtain p ctr ctrs where p: "yaml_Pod env (generateHAProxyManifest img v) = Inr p"
    "podContainers p = ctr # ctrs" "ctrImage ctr = htmlEscape img"
    "index_map (podAnnotations p) HAProxyFileversionAnnotation = Itoa v"
    unfolding decodesManifest_def by blast
  then show ?thesis using Atoi_Itoa [OF assms(2,3)]
    by (intro exI [of _ p]) (simp add: getFileversion_def getImage_def)
qed


definition manifestPod :: pod where
  "manifestPod = (samplePod ''haproxy'')
     \<lparr>podAnnotations := [(HAProxyFileversionAnnotation, ''0'')],
      podContainers := [\<lparr>ctrName = ''haproxy'', ctrImage = ''haproxy:lts-alpine'', ctrCommand = [],
        ctrArgs = [], ctrMounts = [], ctrEnvFields = [], ctrWorkingDir = '''', ctrImagePullPolicy = '''',
        ctrPrivileged = False\<rparr>]\<rparr>"


section \<open>The kubeconfig file keeps everything but the servers\<close>

lemma SetServer_writes:
  assumes "result (SetServer env file server) s = Inr ()"
  shows "\<exists>bs conf updated. sent (SetServer env file server) s =
      [OpenFile file, ReadAll file, TruncateFile file, SeekStart file, FileWrite file updated] \<and>
    respond env (history s @ [OpenFile file]) (ReadAll file) = Bytes bs \<and>
    clientcmd_Load env bs = Inr conf \<and>
    clientcmd_Write env (conf\<lparr>kcClusters := map (\<lambda>(key, _). (key, server)) (kcClusters conf)\<rparr>) = Inr updated"
  using assms
  by (auto simp: SetServer_def result_def sent_def as_text_def Let_def split: sum.splits response.splits)

text \<open>
  The file is emptied before its new content is written, and an error in between leaves it so: the
  old configuration is then lost.
\<close>

lemma SetServer_fails_empty:
  assumes "sent (SetServer env file server) s = pre @ [TruncateFile file, SeekStart file]"
  shows "\<exists>e. result (SetServer env file server) s = Inl e"
  using assms
  by (auto simp: SetServer_def result_def sent_def Let_def append_eq_Cons_conv Cons_eq_append_conv
      split: sum.splits)

end
