(* ===== verification/CommandLine.thy ===== *)
theory CommandLine
  imports OperatorCmd InternalLB HostFiles
begin

text \<open>
  The command line of the binary (\<open>src/cmd/ekco/cli\<close>): the root command with its configuration file
  (\<open>root.go\<close>), the flags of each command with their defaults, the keys under which the fields of the
  configuration are decoded (the tags of \<open>src/pkg/ekcoops/config.go\<close>), and the commands that begin by
  decoding it. The libraries that parse flags and hold settings are the record \<open>settings_lib\<close>, what
  is assumed of them \<open>documented\<close>.
\<close>

section \<open>Settings\<close>

text \<open>The value of a setting, of the type of its flag; a duration is in nanoseconds.\<close>

datatype setting =
    IntSetting int
  | BoolSetting bool
  | TextSetting string
  | DurationSetting int
  | TextsSetting "string list"

type_synonym flags = "(string \<times> setting) list"

text \<open>
  The settings of a run: the flags given on the command line, the variables of the process
  environment, the keys of the configuration file, and the flags bound with their defaults.
\<close>

record settings =
  onCommandLine :: "string \<Rightarrow> setting option"
  inEnvironment :: "string \<Rightarrow> setting option"
  inConfigFile :: "string \<Rightarrow> setting option"
  boundFlags :: flags

text \<open>
  The library: the value of a key, whether it is set, whether decoding the configuration looks at
  it, the conversions of a value to the type of a field, and the error for the keys whose value
  could not be converted.
\<close>

record settings_lib =
  lookupSetting :: "settings \<Rightarrow> string \<Rightarrow> setting option"
  isSetSetting :: "settings \<Rightarrow> string \<Rightarrow> bool"
  knownKey :: "settings \<Rightarrow> string \<Rightarrow> bool"
  toInt :: "setting \<Rightarrow> int option"
  toBool :: "setting \<Rightarrow> bool option"
  toText :: "setting \<Rightarrow> string option"
  toDuration :: "setting \<Rightarrow> int option"
  toTexts :: "setting \<Rightarrow> string list option"
  decodeError :: "string list \<Rightarrow> go_error"

text \<open>
  What the library documents: a value given on the command line comes before one of the environment,
  that before the configuration file, and that before the default of a flag; a default does not make
  a key set; decoding looks at the keys of the file and of the bound flags only, so a variable of the
  environment counts just for those; and a value of the type of a field is converted to itself.
\<close>

definition documented :: "settings_lib \<Rightarrow> bool" where
  "documented lib \<longleftrightarrow>
     (\<forall>v k. lookupSetting lib v k = (case onCommandLine v k of Some x \<Rightarrow> Some x | None \<Rightarrow>
        (case inEnvironment v k of Some x \<Rightarrow> Some x | None \<Rightarrow>
        (case inConfigFile v k of Some x \<Rightarrow> Some x | None \<Rightarrow> map_of (boundFlags v) k)))) \<and>
     (\<forall>v k. isSetSetting lib v k \<longleftrightarrow>
        onCommandLine v k \<noteq> None \<or> inEnvironment v k \<noteq> None \<or> inConfigFile v k \<noteq> None) \<and>
     (\<forall>v k. knownKey lib v k \<longleftrightarrow> inConfigFile v k \<noteq> None \<or> k \<in> fst ` set (boundFlags v)) \<and>
     (\<forall>i. toInt lib (IntSetting i) = Some i) \<and> (\<forall>b. toBool lib (BoolSetting b) = Some b) \<and>
     (\<forall>t. toText lib (TextSetting t) = Some t) \<and> (\<forall>d. toDuration lib (DurationSetting d) = Some d) \<and>
     (\<forall>ts. toTexts lib (TextsSetting ts) = Some ts)"

section \<open>The fields of the configuration\<close>

datatype field =
    IntField "int \<Rightarrow> config \<Rightarrow> config"
  | BoolField "bool \<Rightarrow> config \<Rightarrow> config"
  | TextField "string \<Rightarrow> config \<Rightarrow> config"
  | DurationField "int \<Rightarrow> config \<Rightarrow> config"
  | TextsField "string list \<Rightarrow> config \<Rightarrow> config"

definition configFields :: "(string \<times> field) list" where
  "configFields =
     [(''node_unreachable_toleration'', DurationField (\<lambda>x c. c\<lparr>NodeUnreachableToleration := x\<rparr>)),
      (''min_ready_master_nodes'', IntField (\<lambda>x c. c\<lparr>MinReadyMasterNodes := x\<rparr>)),
      (''min_ready_worker_nodes'', IntField (\<lambda>x c. c\<lparr>MinReadyWorkerNodes := x\<rparr>)),
      (''purge_dead_nodes'', BoolField (\<lambda>x c. c\<lparr>PurgeDeadNodes := x\<rparr>)),
      (''clear_dead_nodes'', BoolField (\<lambda>x c. c\<lparr>ClearDeadNodes := x\<rparr>)),
      (''maintain_rook_storage_nodes'', BoolField (\<lambda>x c. c\<lparr>MaintainRookStorageNodes := x\<rparr>)),
      (''rook_storage_nodes_label'', TextField (\<lambda>x c. c\<lparr>RookStorageNodesLabel := x\<rparr>)),
      (''rook_storage_nodes'', TextField (\<lambda>x c. c\<lparr>RookStorageNodes := x\<rparr>)),
      (''ceph_block_pool'', TextField (\<lambda>x c. c\<lparr>CephBlockPool := x\<rparr>)),
      (''ceph_filesystem'', TextField (\<lambda>x c. c\<lparr>CephFilesystem := x\<rparr>)),
      (''ceph_object_store'', TextField (\<lambda>x c. c\<lparr>CephObjectStore := x\<rparr>)),
      (''min_ceph_pool_replication'', IntField (\<lambda>x c. c\<lparr>MinCephPoolReplication := x\<rparr>)),
      (''max_ceph_pool_replication'', IntField (\<lambda>x c. c\<lparr>MaxCephPoolReplication := x\<rparr>)),
      (''rook_priority_class'', TextField (\<lambda>x c. c\<lparr>RookPriorityClass := x\<rparr>)),
      (''reconcile_rook_mds_placement'', BoolField (\<lambda>x c. c\<lparr>ReconcileRookMDSPlacement := x\<rparr>)),
      (''reconcile_ceph_csi_resources'', BoolField (\<lambda>x c. c\<lparr>ReconcileCephCSIResources := x\<rparr>)),
      (''certificates_dir'', TextField (\<lambda>x c. c\<lparr>CertificatesDir := x\<rparr>)),
      (''reconcile_interval'', DurationField (\<lambda>x c. c\<lparr>ReconcileInterval := x\<rparr>)),
      (''reconcile_timeout'', DurationField (\<lambda>x c. c\<lparr>ReconcileTimeout := x\<rparr>)),
      (''rotate_certs'', BoolField (\<lambda>x c. c\<lparr>RotateCertsEnabled := x\<rparr>)),
      (''rotate_certs_image'', TextField (\<lambda>x c. c\<lparr>RotateCertsImage := x\<rparr>)),
      (''rotate_certs_namespace'', TextField (\<lambda>x c. c\<lparr>RotateCertsNamespace := x\<rparr>)),
      (''rotate_certs_check_interval'', DurationField (\<lambda>x c. c\<lparr>RotateCertsCheckInterval := x\<rparr>)),
      (''rotate_certs_ttl'', DurationField (\<lambda>x c. c\<lparr>RotateCertsTTL := x\<rparr>)),
      (''registry_cert_namespace'', TextField (\<lambda>x c. c\<lparr>RegistryCertNamespace := x\<rparr>)),
      (''registry_cert_secret'', TextField (\<lambda>x c. c\<lparr>RegistryCertSecret := x\<rparr>)),
      (''kurl_proxy_cert_namespace'', TextField (\<lambda>x c. c\<lparr>KurlProxyCertNamespace := x\<rparr>)),
      (''kurl_proxy_cert_secret'', TextField (\<lambda>x c. c\<lparr>KurlProxyCertSecret := x\<rparr>)),
      (''kotsadm_kubelet_cert_namespace'', TextField (\<lambda>x c. c\<lparr>KotsadmKubeletCertNamespace := x\<rparr>)),
      (''kotsadm_kubelet_cert_secret'', TextField (\<lambda>x c. c\<lparr>KotsadmKubeletCertSecret := x\<rparr>)),
      (''contour_namespace'', TextField (\<lambda>x c. c\<lparr>ContourNamespace := x\<rparr>)),
      (''contour_cert_namespace'', TextField (\<lambda>x c. c\<lparr>ContourCertNamespace := x\<rparr>)),
      (''contour_cert_secret'', TextField (\<lambda>x c. c\<lparr>ContourCertSecret := x\<rparr>)),
      (''envoy_cert_secret'', TextField (\<lambda>x c. c\<lparr>EnvoyCertSecret := x\<rparr>)),
      (''restart_failed_envoy_pods'', BoolField (\<lambda>x c. c\<lparr>RestartFailedEnvoyPodsEnabled := x\<rparr>)),
      (''envoy_pods_not_ready_duration'', DurationField (\<lambda>x c. c\<lparr>EnvoyPodsNotReadyDuration := x\<rparr>)),
      (''enable_internal_load_balancer'', BoolField (\<lambda>x c. c\<lparr>EnableInternalLoadBalancer := x\<rparr>)),
      (''internal_load_balancer_haproxy_image'', TextField (\<lambda>x c. c\<lparr>InternalLoadBalancerHAProxyImage := x\<rparr>)),
      (''internal_load_balancer_port'', IntField (\<lambda>x c. c\<lparr>InternalLoadBalancerPort := x\<rparr>)),
      (''host_task_image'', TextField (\<lambda>x c. c\<lparr>HostTaskImage := x\<rparr>)),
      (''host_task_namespace'', TextField (\<lambda>x c. c\<lparr>HostTaskNamespace := x\<rparr>)),
      (''pod_image_overrides'', TextsField (\<lambda>x c. c\<lparr>PodImageOverrides := x\<rparr>)),
      (''auto_approve_kubelet_csrs'', BoolField (\<lambda>x c. c\<lparr>AutoApproveKubeletCertSigningRequests := x\<rparr>)),
      (''rook_minimum_node_count'', IntField (\<lambda>x c. c\<lparr>RookMinimumNodeCount := x\<rparr>)),
      (''rook_storage_class'', TextField (\<lambda>x c. c\<lparr>RookStorageClass := x\<rparr>)),
      (''rook_ceph_image'', TextField (\<lambda>x c. c\<lparr>RookCephImage := x\<rparr>)),
      (''storage_migration_auth_token'', TextField (\<lambda>x c. c\<lparr>StorageMigrationAuthToken := x\<rparr>)),
      (''enable_ha_minio'', BoolField (\<lambda>x c. c\<lparr>EnableHAMinio := x\<rparr>)),
      (''minio_namespace'', TextField (\<lambda>x c. c\<lparr>MinioNamespace := x\<rparr>)),
      (''minio_util_image'', TextField (\<lambda>x c. c\<lparr>MinioUtilImage := x\<rparr>)),
      (''enable_ha_kotsadm'', BoolField (\<lambda>x c. c\<lparr>EnableHAKotsadm := x\<rparr>))]"

text \<open>The zero value of the configuration, which decoding starts from.\<close>

definition zeroConfig :: config where
  "zeroConfig =
     \<lparr>NodeUnreachableToleration = 0, MinReadyMasterNodes = 0, MinReadyWorkerNodes = 0,
      PurgeDeadNodes = False, ClearDeadNodes = False, MaintainRookStorageNodes = False,
      RookStorageNodesLabel = '''', RookStorageNodes = '''', CephBlockPool = '''', CephFilesystem = '''',
      CephObjectStore = '''', MinCephPoolReplication = 0, MaxCephPoolReplication = 0,
      RookPriorityClass = '''', ReconcileRookMDSPlacement = False, ReconcileCephCSIResources = False,
      CertificatesDir = '''', ReconcileInterval = 0, ReconcileTimeout = 0, RotateCertsEnabled = False,
      RotateCertsImage = '''', RotateCertsNamespace = '''', RotateCertsCheckInterval = 0, RotateCertsTTL = 0,
      RegistryCertNamespace = '''', RegistryCertSecret = '''', KurlProxyCertNamespace = '''',
      KurlProxyCertSecret = '''', KotsadmKubeletCertNamespace = '''', KotsadmKubeletCertSecret = '''',
      ContourNamespace = '''', ContourCertNamespace = '''', ContourCertSecret = '''', EnvoyCertSecret = '''',
      RestartFailedEnvoyPodsEnabled = False, EnvoyPodsNotReadyDuration = 0,
      EnableInternalLoadBalancer = False, InternalLoadBalancerHAProxyImage = '''',
      InternalLoadBalancerPort = 0, HostTaskImage = '''', HostTaskNamespace = '''', PodImageOverrides = [],
      AutoApproveKubeletCertSigningRequests = False, RookMinimumNodeCount = 0, RookStorageClass = '''',
      RookCephImage = '''', StorageMigrationAuthToken = '''', EnableHAMinio = False, MinioNamespace = '''',
      MinioUtilImage = '''', EnableHAKotsadm = False\<rparr>"

definition decodeField :: "settings_lib \<Rightarrow> field \<Rightarrow> setting \<Rightarrow> config \<Rightarrow> config option" where
  "decodeField lib f x c = (case f of
       IntField u \<Rightarrow> map_option (\<lambda>y. u y c) (toInt lib x)
     | BoolField u \<Rightarrow> map_option (\<lambda>y. u y c) (toBool lib x)
     | TextField u \<Rightarrow> map_option (\<lambda>y. u y c) (toText lib x)
     | DurationField u \<Rightarrow> map_option (\<lambda>y. u y c) (toDuration lib x)
     | TextsField u \<Rightarrow> map_option (\<lambda>y. u y c) (toTexts lib x))"

text \<open>The fields are decoded one after the other; a key without a value leaves its field.\<close>

fun decodeFields ::
  "settings_lib \<Rightarrow> (string \<Rightarrow> setting option) \<Rightarrow> (string \<times> field) list \<Rightarrow> config \<Rightarrow> string list \<Rightarrow> config res" where
  "decodeFields lib get [] c bad = (if bad = [] then Inr c else Inl (decodeError lib bad))"
| "decodeFields lib get ((key, f) # fs) c bad =
     (case get key of
        None \<Rightarrow> decodeFields lib get fs c bad
      | Some x \<Rightarrow>
          (case decodeField lib f x c of
             None \<Rightarrow> decodeFields lib get fs c (bad @ [key])
           | Some c' \<Rightarrow> decodeFields lib get fs c' bad))"

text \<open>What a command sees of its settings.\<close>

definition viperOf :: "settings_lib \<Rightarrow> settings \<Rightarrow> viper" where
  "viperOf lib v =
     \<lparr>Unmarshal = decodeFields lib (\<lambda>k. if knownKey lib v k then lookupSetting lib v k else None)
        configFields zeroConfig [],
      IsSet = isSetSetting lib v,
      GetString = (\<lambda>k. case lookupSetting lib v k of
         None \<Rightarrow> '''' | Some x \<Rightarrow> (case toText lib x of None \<Rightarrow> '''' | Some t \<Rightarrow> t)),
      GetDuration = (\<lambda>k. case lookupSetting lib v k of
         None \<Rightarrow> 0 | Some x \<Rightarrow> (case toDuration lib x of None \<Rightarrow> 0 | Some d \<Rightarrow> d))\<rparr>"

section \<open>The flags of the commands\<close>

definition Hour :: int where "Hour = 60 * Minute"

definition DefaultContourNamespace :: string where "DefaultContourNamespace = ''projectcontour''"
definition DefaultEnvoyPodsNotReadyDuration :: int where "DefaultEnvoyPodsNotReadyDuration = 5 * Minute"

definition operatorFlags :: flags where
  "operatorFlags =
     [(''node_unreachable_toleration'', DurationSetting Hour),
      (''purge_dead_nodes'', BoolSetting False),
      (''min_ready_master_nodes'', IntSetting 2),
      (''min_ready_worker_nodes'', IntSetting 0),
      (''maintain_rook_storage_nodes'', BoolSetting False),
      (''rook_storage_nodes_label'', TextSetting ''''),
      (''rook_storage_nodes'', TextSetting ''''),
      (''ceph_block_pool'', TextSetting ''replicapool''),
      (''ceph_filesystem'', TextSetting ''rook-shared-fs''),
      (''ceph_object_store'', TextSetting ''replicated''),
      (''reconcile_rook_mds_placement'', BoolSetting True),
      (''reconcile_ceph_csi_resources'', BoolSetting True),
      (''rook_version'', TextSetting ''1.4.3''),
      (''rook_priority_class'', TextSetting ''node-critical''),
      (''min_ceph_pool_replication'', IntSetting 1),
      (''max_ceph_pool_replication'', IntSetting 3),
      (''certificates_dir'', TextSetting ''/etc/kubernetes/pki''),
      (''reconcile_interval'', DurationSetting Minute),
      (''rotate_certs_namespace'', TextSetting ''kurl''),
      (''rotate_certs_image'', TextSetting ''replicated/ekco:latest''),
      (''rotate_certs_check_interval'', DurationSetting (24 * Hour)),
      (''rotate_certs_ttl'', DurationSetting (24 * Hour * 30)),
      (''rotate_certs'', BoolSetting True),
      (''registry_cert_namespace'', TextSetting ''kurl''),
      (''registry_cert_secret'', TextSetting ''registry-pki''),
      (''kurl_proxy_cert_namespace'', TextSetting ''default''),
      (''kurl_proxy_cert_secret'', TextSetting ''kotsadm-tls''),
      (''kotsadm_kubelet_cert_namespace'', TextSetting ''default''),
      (''kotsadm_kubelet_cert_secret'', TextSetting ''default''),
      (''contour_namespace'', TextSetting DefaultContourNamespace),
      (''contour_cert_namespace'', TextSetting DefaultContourNamespace),
      (''contour_cert_secret'', TextSetting ''contourcert''),
      (''envoy_cert_secret'', TextSetting ''envoycert''),
      (''restart_failed_envoy_pods'', BoolSetting True),
      (''envoy_pods_not_ready_duration'', DurationSetting DefaultEnvoyPodsNotReadyDuration),
      (''host_task_namespace'', TextSetting ''kurl''),
      (''host_task_image'', TextSetting ''replicated/ekco:latest''),
      (''enable_internal_load_balancer'', BoolSetting False),
      (''internal_load_balancer_haproxy_image'', TextSetting HAProxyImage),
      (''pod_image_overrides'', TextsSetting []),
      (''auto_approve_kubelet_csrs'', BoolSetting False)]"

definition purgeNodeFlags :: flags where
  "purgeNodeFlags =
     [(''min_ready_master_nodes'', IntSetting 2),
      (''min_ready_worker_nodes'', IntSetting 0),
      (''maintain_rook_storage_nodes'', BoolSetting False),
      (''rook_version'', TextSetting ''1.4.3''),
      (''certificates_dir'', TextSetting ''/etc/kubernetes/pki'')]"

definition rotateCertsFlags :: flags where
  "rotateCertsFlags = [(''ttl'', DurationSetting (Hour * 24 * 180)), (''hostname'', TextSetting '''')]"

definition regenCertFlags :: flags where
  "regenCertFlags = [(''add-alt-names'', TextSetting ''''), (''drop-alt-names'', TextSetting '''')]"

definition rotateKotsadmCertsFlags :: flags where
  "rotateKotsadmCertsFlags = [(''ttl'', DurationSetting (Hour * 24 * 180))]"

definition generateHAProxyConfigFlags :: flags where
  "generateHAProxyConfigFlags = [(''primary-host'', TextsSetting [])]"

definition generateHAProxyManifestFlags :: flags where
  "generateHAProxyManifestFlags =
     [(''file'', TextSetting ''/etc/kubernetes/manifests/haproxy''), (''image'', TextSetting HAProxyImage),
      (''primary-host'', TextsSetting [])]"

definition changeLoadBalancerFlags :: flags where
  "changeLoadBalancerFlags =
     [(''server'', TextSetting ''''), (''internal'', BoolSetting False), (''exclude'', TextSetting '''')]"

definition setKubeconfigServerFlags :: flags where
  "setKubeconfigServerFlags =
     [(''server'', TextSetting ''''), (''host-etc-dir'', TextSetting ''/etc''), (''admin'', BoolSetting False)]"

section \<open>The root command: src/cmd/ekco/cli/root.go\<close>

text \<open>Where the configuration file is looked for, and what reading it answers.\<close>

record config_source =
  configFile :: string
  configPaths :: "string list"
  configName :: string

datatype config_read =
    ConfigRead "string \<Rightarrow> setting option"
  | ConfigFileNotFound
  | ConfigReadFailed string

definition initConfig :: "(config_source \<Rightarrow> config_read) \<Rightarrow> string \<Rightarrow> (string \<Rightarrow> setting option) res" where
  "initConfig readInConfig cfgFile =
     (case readInConfig
         (if cfgFile \<noteq> '''' then \<lparr>configFile = cfgFile, configPaths = [], configName = ''''\<rparr>
          else \<lparr>configFile = '''', configPaths = [''/etc/ekco'', ''$HOME'', ''.''], configName = ''config''\<rparr>) of
        ConfigRead file \<Rightarrow> Inr file
      | ConfigFileNotFound \<Rightarrow> Inr (\<lambda>_. None)
      | ConfigReadFailed msg \<Rightarrow> Inl (Panic (''Failed to read config: '' @ msg)))"

text \<open>
  The root command: the variable of its flag \<open>--config\<close>, what runs when a command is executed, its
  flags, which every command has too, and its commands. What runs was made with the value that the
  variable had when the command was made.
\<close>

record root_command =
  cfgFileVar :: string
  onInitialize :: "(string \<Rightarrow> setting option) res"
  persistentFlags :: flags
  subcommands :: "(string \<times> flags) list"

definition RootCmd :: "(config_source \<Rightarrow> config_read) \<Rightarrow> root_command" where
  "RootCmd readInConfig =
     (let cfgFile = '''' in
      \<lparr>cfgFileVar = cfgFile,
       onInitialize = initConfig readInConfig cfgFile,
       persistentFlags = [(''config'', TextSetting ''''), (''log_level'', TextSetting ''info'')],
       subcommands =
         [(''operator'', operatorFlags), (''purge-node'', purgeNodeFlags),
          (''rotate-certs'', rotateCertsFlags), (''regen-cert'', regenCertFlags),
          (''rotate-kotsadm-certs'', rotateKotsadmCertsFlags),
          (''generate-haproxy-config'', generateHAProxyConfigFlags),
          (''generate-haproxy-manifest'', generateHAProxyManifestFlags),
          (''change-load-balancer'', changeLoadBalancerFlags),
          (''set-kubeconfig-server'', setKubeconfigServerFlags)]\<rparr>)"

definition parseConfigFlag :: "(string \<Rightarrow> setting option) \<Rightarrow> root_command \<Rightarrow> root_command" where
  "parseConfigFlag given root =
     (case given ''config'' of Some (TextSetting f) \<Rightarrow> root\<lparr>cfgFileVar := f\<rparr> | _ \<Rightarrow> root)"

text \<open>
  Executing the command \<open>name\<close>: the flags given are parsed, which sets the variable of \<open>--config\<close>,
  then the configuration file is read, and then all flags of the command are bound.
\<close>

definition executeCommand ::
  "(config_source \<Rightarrow> config_read) \<Rightarrow> (string \<Rightarrow> setting option) \<Rightarrow> (string \<Rightarrow> setting option) \<Rightarrow> string \<Rightarrow>
   settings res" where
  "executeCommand readInConfig given environment name =
     (let root = parseConfigFlag given (RootCmd readInConfig) in
      case map_of (subcommands root) name of
        None \<Rightarrow> Inl (NewErr (''unknown command '' @ Quote name @ '' for '' @ Quote ''ekco''))
      | Some cmdFlags \<Rightarrow>
          (case onInitialize root of
             Inl err \<Rightarrow> Inl err
           | Inr file \<Rightarrow> Inr \<lparr>onCommandLine = given, inEnvironment = environment, inConfigFile = file,
               boundFlags = cmdFlags @ persistentFlags root\<rparr>))"

section \<open>The commands that need the cluster\<close>

text \<open>\<open>purge_node.go\<close>, \<open>rotate-kotsadm-certs.go\<close> and \<open>change-load-balancer.go\<close>; a fatal message ends the last.\<close>

definition PurgeNodeCmd :: "startup \<Rightarrow> viper \<Rightarrow> env \<Rightarrow> string \<Rightarrow> unit res go" where
  "PurgeNodeCmd st v env name = withController st v env (\<lambda>config. config) (purgeNode name)"

definition RotateKotsadmCertsCmd :: "startup \<Rightarrow> viper \<Rightarrow> env \<Rightarrow> unit res go" where
  "RotateKotsadmCertsCmd st v env =
     withController st v env (\<lambda>config. config\<lparr>RotateCertsTTL := GetDuration v ''ttl''\<rparr>)
       (\<lambda>_ clusterController. RotateKurlProxyCert clusterController)"

definition ChangeLoadBalancerCmd ::
  "startup \<Rightarrow> viper \<Rightarrow> env \<Rightarrow> bool \<Rightarrow> string \<Rightarrow> string \<Rightarrow> string res go" where
  "ChangeLoadBalancerCmd st v env useInternal exclude server =
     (case initEKCOConfig v of
        Inl err \<Rightarrow> ret (resultLine ''Failed to initialize config'' (Inl err))
      | Inr config \<Rightarrow>
     (case FromViper st v of
        Inl err \<Rightarrow> ret (resultLine ''Failed to initialize logger'' (Inl err))
      | Inr _ \<Rightarrow>
     (case initClusterController st config env of
        Inl err \<Rightarrow> ret (resultLine ''Failed to initialize cluster controller'' (Inl err))
      | Inr clusterController \<Rightarrow> changeLoadBalancer clusterController useInternal exclude server)))"

text \<open>\<open>generate-haproxy-config.go\<close> prints the file.\<close>

definition GenerateHAProxyConfigCmd :: "string list \<Rightarrow> string res" where
  "GenerateHAProxyConfigCmd primaries = Inr (GenerateHAProxyConfig primaries)"

section \<open>Decoding the configuration\<close>

text \<open>Keys without a value leave the configuration as it is.\<close>

lemma decodeFields_none:
  "list_all (\<lambda>(k, f). get k = None) fs \<Longrightarrow> decodeFields lib get fs c [] = Inr c"
  by (induction fs) auto

lemma decodeFields_bad: "decodeFields lib get fs c bad = Inr c' \<Longrightarrow> bad = []"
  by (induction lib get fs c bad rule: decodeFields.induct) (auto split: if_splits option.splits)

text \<open>Decoding a field leaves every other part of the configuration as it is.\<close>

definition leaves :: "(config \<Rightarrow> 'a) \<Rightarrow> field \<Rightarrow> bool" where
  "leaves sel f \<longleftrightarrow> (case f of
       IntField u \<Rightarrow> (\<forall>x c. sel (u x c) = sel c)
     | BoolField u \<Rightarrow> (\<forall>x c. sel (u x c) = sel c)
     | TextField u \<Rightarrow> (\<forall>x c. sel (u x c) = sel c)
     | DurationField u \<Rightarrow> (\<forall>x c. sel (u x c) = sel c)
     | TextsField u \<Rightarrow> (\<forall>x c. sel (u x c) = sel c))"

lemma leaves_simps [simp]:
  "leaves sel (IntField u) \<longleftrightarrow> (\<forall>x c. sel (u x c) = sel c)"
  "leaves sel (BoolField v) \<longleftrightarrow> (\<forall>x c. sel (v x c) = sel c)"
  "leaves sel (TextField w) \<longleftrightarrow> (\<forall>x c. sel (w x c) = sel c)"
  "leaves sel (DurationField u) \<longleftrightarrow> (\<forall>x c. sel (u x c) = sel c)"
  "leaves sel (TextsField ws) \<longleftrightarrow> (\<forall>x c. sel (ws x c) = sel c)"
  by (simp_all add: leaves_def)

lemma decodeField_leaves: "decodeField lib f x c = Some c' \<Longrightarrow> leaves sel f \<Longrightarrow> sel c' = sel c"
  by (cases f) (auto simp: decodeField_def)

lemma decodeFields_leaves:
  "decodeFields lib get fs c bad = Inr c' \<Longrightarrow> list_all (leaves sel \<circ> snd) fs \<Longrightarrow> sel c' = sel c"
  by (induction lib get fs c bad rule: decodeFields.induct)
    (auto split: if_splits option.splits dest: decodeField_leaves)

text \<open>So the value of a part is decided by the one field that sets it.\<close>

lemma decodeFields_field:
  assumes "decodeFields lib get (fs @ (key, f) # gs) c [] = Inr c'"
    and "list_all (leaves sel \<circ> snd) fs" "list_all (leaves sel \<circ> snd) gs"
  shows "case get key of None \<Rightarrow> sel c' = sel c
    | Some x \<Rightarrow> (\<exists>d d'. decodeField lib f x d = Some d' \<and> sel d = sel c \<and> sel c' = sel d')"
proof -
  have "\<exists>d. decodeFields lib get ((key, f) # gs) d [] = Inr c' \<and> sel d = sel c"
    using assms(1,2)
  proof (induction fs arbitrary: c)
    case (Cons y fs)
    obtain k g where y: "y = (k, g)" by force
    show ?case
    proof (cases "get k")
      case None
      with Cons y show ?thesis by simp
    next
      case (Some x)
      show ?thesis
      proof (cases "decodeField lib g x c")
        case None
        with Some y Cons.prems(1) show ?thesis by (auto dest: decodeFields_bad)
      next
        fix d assume d: "decodeField lib g x c = Some d"
        then have "sel d = sel c" using Cons.prems(2) y by (auto intro: decodeField_leaves)
        moreover have "decodeFields lib get (fs @ (key, f) # gs) d [] = Inr c'"
          using d Some y Cons.prems(1) by simp
        ultimately show ?thesis using Cons.IH [of d] Cons.prems(2) by simp
      qed
    qed
  qed auto
  then obtain d where d: "decodeFields lib get ((key, f) # gs) d [] = Inr c'" "sel d = sel c" by blast
  show ?thesis
  proof (cases "get key")
    case None
    with d assms(3) show ?thesis by (auto dest: decodeFields_leaves)
  next
    case (Some x)
    then obtain d' where d': "decodeField lib f x d = Some d'"
      using d(1) by (auto split: option.splits dest: decodeFields_bad)
    then have "decodeFields lib get gs d' [] = Inr c'" using d(1) Some by simp
    then have "sel c' = sel d'" using assms(3) by (rule decodeFields_leaves)
    then show ?thesis using Some d' d(2) by auto
  qed
qed

text \<open>The fields that the properties below are about.\<close>

definition view :: "settings_lib \<Rightarrow> settings \<Rightarrow> string \<Rightarrow> setting option" where
  "view lib v k = (if knownKey lib v k then lookupSetting lib v k else None)"

lemma Unmarshal_viperOf: "Unmarshal (viperOf lib v) = decodeFields lib (view lib v) configFields zeroConfig []"
  by (simp add: viperOf_def view_def [abs_def])

lemma decoded_field:
  assumes "Unmarshal (viperOf lib v) = Inr config" "n < length configFields"
    and "list_all (leaves sel \<circ> snd) (take n configFields)" "list_all (leaves sel \<circ> snd) (drop (Suc n) configFields)"
  shows "case configFields ! n of (key, f) \<Rightarrow>
    (case view lib v key of None \<Rightarrow> sel config = sel zeroConfig
     | Some x \<Rightarrow> (\<exists>d d'. decodeField lib f x d = Some d' \<and> sel d = sel zeroConfig \<and> sel config = sel d'))"
proof -
  obtain key f where k: "configFields ! n = (key, f)" by force
  have "decodeFields lib (view lib v) (take n configFields @ (key, f) # drop (Suc n) configFields) zeroConfig [] =
      Inr config"
    using assms(1) id_take_nth_drop [OF assms(2)] k unfolding Unmarshal_viperOf by simp
  from decodeFields_field [OF this assms(3,4)] show ?thesis by (simp add: k)
qed

lemma decoded_purge:
  "Unmarshal (viperOf lib v) = Inr config \<Longrightarrow>
   PurgeDeadNodes config \<longleftrightarrow> (\<exists>x. view lib v ''purge_dead_nodes'' = Some x \<and> toBool lib x = Some True)"
  by (drule decoded_field [where n = 3 and sel = PurgeDeadNodes])
    (auto simp: configFields_def zeroConfig_def decodeField_def split: option.splits)

lemma decoded_clear:
  "Unmarshal (viperOf lib v) = Inr config \<Longrightarrow>
   ClearDeadNodes config \<longleftrightarrow> (\<exists>x. view lib v ''clear_dead_nodes'' = Some x \<and> toBool lib x = Some True)"
  by (drule decoded_field [where n = 4 and sel = ClearDeadNodes])
    (auto simp: configFields_def zeroConfig_def decodeField_def split: option.splits)

lemma decoded_contour:
  "Unmarshal (viperOf lib v) = Inr config \<Longrightarrow>
   case view lib v ''contour_namespace'' of None \<Rightarrow> ContourNamespace config = ''''
   | Some x \<Rightarrow> toText lib x = Some (ContourNamespace config)"
  by (drule decoded_field [where n = 30 and sel = ContourNamespace])
    (auto simp: configFields_def zeroConfig_def decodeField_def split: option.splits)

lemma decoded_contour_cert:
  "Unmarshal (viperOf lib v) = Inr config \<Longrightarrow>
   case view lib v ''contour_cert_namespace'' of None \<Rightarrow> ContourCertNamespace config = ''''
   | Some x \<Rightarrow> toText lib x = Some (ContourCertNamespace config)"
  by (drule decoded_field [where n = 31 and sel = ContourCertNamespace])
    (auto simp: configFields_def zeroConfig_def decodeField_def split: option.splits)

section \<open>Running a command\<close>

lemma parseConfigFlag_simps [simp]:
  "subcommands (parseConfigFlag given root) = subcommands root"
  "onInitialize (parseConfigFlag given root) = onInitialize root"
  "persistentFlags (parseConfigFlag given root) = persistentFlags root"
  by (simp_all add: parseConfigFlag_def split: option.split setting.split)

text \<open>
  Executing a command does not depend on the flag \<open>--config\<close>: what reads the file was made before it
  was parsed.
\<close>

lemma executeCommand_eq:
  "executeCommand readInConfig given environment name =
     (case map_of (subcommands (RootCmd readInConfig)) name of
        None \<Rightarrow> Inl (NewErr (''unknown command '' @ Quote name @ '' for '' @ Quote ''ekco''))
      | Some cmdFlags \<Rightarrow> (case initConfig readInConfig '''' of
          Inl err \<Rightarrow> Inl err
        | Inr file \<Rightarrow> Inr \<lparr>onCommandLine = given, inEnvironment = environment, inConfigFile = file,
            boundFlags = cmdFlags @ persistentFlags (RootCmd readInConfig)\<rparr>))"
proof -
  have init: "onInitialize (RootCmd readInConfig) = initConfig readInConfig ''''" by (simp add: RootCmd_def)
  show ?thesis unfolding executeCommand_def Let_def parseConfigFlag_simps init ..
qed

lemma executeCommand_settings:
  assumes "executeCommand readInConfig given environment name = Inr v"
  shows "onCommandLine v = given" "inEnvironment v = environment"
    "initConfig readInConfig '''' = Inr (inConfigFile v)"
    "\<exists>cmdFlags. map_of (subcommands (RootCmd readInConfig)) name = Some cmdFlags \<and>
       boundFlags v = cmdFlags @ persistentFlags (RootCmd readInConfig)"
proof -
  obtain cmdFlags where f: "map_of (subcommands (RootCmd readInConfig)) name = Some cmdFlags"
    using assms by (cases "map_of (subcommands (RootCmd readInConfig)) name") (simp_all add: executeCommand_eq)
  obtain conf where "initConfig readInConfig '''' = Inr conf"
    using assms by (cases "initConfig readInConfig ''''") (simp_all add: executeCommand_eq f)
  then show "onCommandLine v = given" "inEnvironment v = environment"
    "initConfig readInConfig '''' = Inr (inConfigFile v)"
    "\<exists>cmdFlags. map_of (subcommands (RootCmd readInConfig)) name = Some cmdFlags \<and>
       boundFlags v = cmdFlags @ persistentFlags (RootCmd readInConfig)"
    using assms by (auto simp: executeCommand_eq f)
qed

lemma documentedD:
  assumes "documented lib"
  shows "isSetSetting lib v k \<longleftrightarrow> onCommandLine v k \<noteq> None \<or> inEnvironment v k \<noteq> None \<or> inConfigFile v k \<noteq> None"
    and "knownKey lib v k \<longleftrightarrow> inConfigFile v k \<noteq> None \<or> k \<in> fst ` set (boundFlags v)"
    and "toBool lib (BoolSetting b) = Some b" "toText lib (TextSetting t) = Some t"
  using assms [unfolded documented_def, THEN conjunct2, THEN conjunct1]
    assms [unfolded documented_def, THEN conjunct2, THEN conjunct2, THEN conjunct1]
    assms [unfolded documented_def, THEN conjunct2, THEN conjunct2, THEN conjunct2, THEN conjunct2, THEN conjunct1]
    assms [unfolded documented_def, THEN conjunct2, THEN conjunct2, THEN conjunct2, THEN conjunct2, THEN conjunct2,
      THEN conjunct1]
  by simp_all

lemma documented_lookup:
  assumes "documented lib"
  shows "\<not> isSetSetting lib v k \<Longrightarrow> lookupSetting lib v k = map_of (boundFlags v) k"
    and "isSetSetting lib v k \<Longrightarrow> \<exists>x. lookupSetting lib v k = Some x"
proof -
  have l: "lookupSetting lib v k = (case onCommandLine v k of Some x \<Rightarrow> Some x | None \<Rightarrow>
      (case inEnvironment v k of Some x \<Rightarrow> Some x | None \<Rightarrow>
      (case inConfigFile v k of Some x \<Rightarrow> Some x | None \<Rightarrow> map_of (boundFlags v) k)))"
    using assms [unfolded documented_def, THEN conjunct1] by simp
  show "\<not> isSetSetting lib v k \<Longrightarrow> lookupSetting lib v k = map_of (boundFlags v) k"
    by (simp add: l documentedD(1) [OF assms])
  show "isSetSetting lib v k \<Longrightarrow> \<exists>x. lookupSetting lib v k = Some x"
    by (auto simp: l documentedD(1) [OF assms] split: option.split)
qed

lemma operator_bound:
  "executeCommand readInConfig given environment ''operator'' = Inr v \<Longrightarrow>
   \<exists>fs. boundFlags v = operatorFlags @ fs"
  by (drule executeCommand_settings(4)) (auto simp: RootCmd_def)

lemma operatorFlags_bound:
  "map_of operatorFlags ''purge_dead_nodes'' = Some (BoolSetting False)"
  "map_of operatorFlags ''contour_namespace'' = Some (TextSetting ''projectcontour'')"
  "map_of operatorFlags ''contour_cert_namespace'' = Some (TextSetting ''projectcontour'')"
  "map_of operatorFlags ''clear_dead_nodes'' = None"
  by (simp_all add: operatorFlags_def DefaultContourNamespace_def)

text \<open>
  A key with a flag of its own is looked at, and has the default of the flag unless it was set.
\<close>

lemma view_bound:
  assumes "documented lib" "map_of (boundFlags v) k = Some x"
  shows "view lib v k = lookupSetting lib v k" "\<not> isSetSetting lib v k \<Longrightarrow> view lib v k = Some x"
proof -
  have "k \<in> fst ` set (boundFlags v)" using assms(2) by (metis map_of_eq_None_iff option.distinct(1))
  then show "view lib v k = lookupSetting lib v k" by (simp add: view_def documentedD(2) [OF assms(1)])
  then show "\<not> isSetSetting lib v k \<Longrightarrow> view lib v k = Some x"
    using documented_lookup(1) [OF assms(1)] assms(2) by simp
qed

lemma bound_lookup: "documented lib \<Longrightarrow> map_of (boundFlags v) k = Some x \<Longrightarrow> \<exists>y. lookupSetting lib v k = Some y"
  using documented_lookup by metis

text \<open>A key without one is looked at only when it is in the configuration file.\<close>

lemma view_unbound:
  "documented lib \<Longrightarrow> map_of (boundFlags v) k = None \<Longrightarrow> inConfigFile v k = None \<Longrightarrow> view lib v k = None"
  by (simp add: view_def documentedD(2) map_of_eq_None_iff)

text \<open>
  C23: The configuration of the operator command, for any flags, environment and configuration file:
  at least one ready master is kept; dead nodes are purged only when that was asked for, and
  terminating pods are cleared only when the configuration file says so, because there is no flag for
  it; and the namespace of Contour is the one set, or else the one set under its old key, or else
  the default.
\<close>

theorem operator_settings:
  assumes lib: "documented lib"
    and run: "executeCommand readInConfig given environment ''operator'' = Inr v"
    and config: "initEKCOConfig (viperOf lib v) = Inr config"
  shows "1 \<le> MinReadyMasterNodes config \<and>
    (PurgeDeadNodes config \<longrightarrow> isSetSetting lib v ''purge_dead_nodes'') \<and>
    (ClearDeadNodes config \<longrightarrow> inConfigFile v ''clear_dead_nodes'' \<noteq> None) \<and>
    (if isSetSetting lib v ''contour_namespace''
     then \<exists>x. lookupSetting lib v ''contour_namespace'' = Some x \<and> toText lib x = Some (ContourNamespace config)
     else if isSetSetting lib v ''contour_cert_namespace''
     then \<exists>x. lookupSetting lib v ''contour_cert_namespace'' = Some x \<and> toText lib x = Some (ContourNamespace config)
     else ContourNamespace config = ''projectcontour'')"
proof -
  obtain c where c: "Unmarshal (viperOf lib v) = Inr c" "1 \<le> MinReadyMasterNodes c"
    "config = (if \<not> isSetSetting lib v ''contour_namespace'' \<and> isSetSetting lib v ''contour_cert_namespace''
       then c\<lparr>ContourNamespace := ContourCertNamespace c\<rparr> else c)"
    using config by (auto simp: initEKCOConfig_def viperOf_def split: sum.splits if_splits)
  have b: "boundFlags v = operatorFlags @ persistentFlags (RootCmd readInConfig)"
    using executeCommand_settings(4) [OF run] by (auto simp: RootCmd_def)
  have purge: "map_of (boundFlags v) ''purge_dead_nodes'' = Some (BoolSetting False)"
    and contour: "map_of (boundFlags v) ''contour_namespace'' = Some (TextSetting ''projectcontour'')"
      "map_of (boundFlags v) ''contour_cert_namespace'' = Some (TextSetting ''projectcontour'')"
    and clear: "map_of (boundFlags v) ''clear_dead_nodes'' = None"
    unfolding b map_of_append by (simp_all add: operatorFlags_bound map_add_def RootCmd_def)
  have "PurgeDeadNodes c \<longrightarrow> isSetSetting lib v ''purge_dead_nodes''"
    using decoded_purge [OF c(1)] view_bound(2) [OF lib purge] documentedD(3) [OF lib] by fastforce
  moreover have "ClearDeadNodes c \<longrightarrow> inConfigFile v ''clear_dead_nodes'' \<noteq> None"
    using decoded_clear [OF c(1)] view_unbound [OF lib clear]
    by (cases "inConfigFile v ''clear_dead_nodes''") auto
  moreover obtain x where "lookupSetting lib v ''contour_namespace'' = Some x" "toText lib x = Some (ContourNamespace c)"
    using decoded_contour [OF c(1)] view_bound(1) [OF lib contour(1)] bound_lookup [OF lib contour(1)] by auto
  moreover obtain y where "lookupSetting lib v ''contour_cert_namespace'' = Some y"
      "toText lib y = Some (ContourCertNamespace c)"
    using decoded_contour_cert [OF c(1)] view_bound(1) [OF lib contour(2)] bound_lookup [OF lib contour(2)] by auto
  moreover have "ContourNamespace c = ''projectcontour''" if "\<not> isSetSetting lib v ''contour_namespace''"
    using decoded_contour [OF c(1)] view_bound(2) [OF lib contour(1) that] documentedD(4) [OF lib] by simp
  ultimately show ?thesis using c(2,3) by simp
qed

text \<open>A library as documented, without conversions between types.\<close>

definition plainLib :: settings_lib where
  "plainLib =
     \<lparr>lookupSetting = (\<lambda>v k. case onCommandLine v k of Some x \<Rightarrow> Some x | None \<Rightarrow>
        (case inEnvironment v k of Some x \<Rightarrow> Some x | None \<Rightarrow>
        (case inConfigFile v k of Some x \<Rightarrow> Some x | None \<Rightarrow> map_of (boundFlags v) k))),
      isSetSetting = (\<lambda>v k. onCommandLine v k \<noteq> None \<or> inEnvironment v k \<noteq> None \<or> inConfigFile v k \<noteq> None),
      knownKey = (\<lambda>v k. inConfigFile v k \<noteq> None \<or> k \<in> fst ` set (boundFlags v)),
      toInt = (\<lambda>x. case x of IntSetting i \<Rightarrow> Some i | _ \<Rightarrow> None),
      toBool = (\<lambda>x. case x of BoolSetting b \<Rightarrow> Some b | _ \<Rightarrow> None),
      toText = (\<lambda>x. case x of TextSetting t \<Rightarrow> Some t | _ \<Rightarrow> None),
      toDuration = (\<lambda>x. case x of DurationSetting d \<Rightarrow> Some d | _ \<Rightarrow> None),
      toTexts = (\<lambda>x. case x of TextsSetting ts \<Rightarrow> Some ts | _ \<Rightarrow> None),
      decodeError = (\<lambda>keys. NewErr (''cannot decode '' @ Join '','' keys))\<rparr>"

lemma documented_plainLib: "documented plainLib"
  by (simp add: documented_def plainLib_def)

definition runSettings :: "(string \<Rightarrow> setting option) \<Rightarrow> (string \<Rightarrow> setting option) \<Rightarrow> flags \<Rightarrow> settings" where
  "runSettings given file cmdFlags = \<lparr>onCommandLine = given, inEnvironment = (\<lambda>_. None), inConfigFile = file,
     boundFlags = cmdFlags @ [(''config'', TextSetting ''''), (''log_level'', TextSetting ''info'')]\<rparr>"

text \<open>The configuration of the operator when nothing is set.\<close>

definition operatorDefaults :: config where
  "operatorDefaults =
     \<lparr>NodeUnreachableToleration = Hour, MinReadyMasterNodes = 2, MinReadyWorkerNodes = 0,
      PurgeDeadNodes = False, ClearDeadNodes = False, MaintainRookStorageNodes = False,
      RookStorageNodesLabel = '''', RookStorageNodes = '''', CephBlockPool = ''replicapool'',
      CephFilesystem = ''rook-shared-fs'', CephObjectStore = ''replicated'', MinCephPoolReplication = 1,
      MaxCephPoolReplication = 3, RookPriorityClass = ''node-critical'', ReconcileRookMDSPlacement = True,
      ReconcileCephCSIResources = True, CertificatesDir = ''/etc/kubernetes/pki'', ReconcileInterval = Minute,
      ReconcileTimeout = 0, RotateCertsEnabled = True, RotateCertsImage = ''replicated/ekco:latest'',
      RotateCertsNamespace = ''kurl'', RotateCertsCheckInterval = 24 * Hour, RotateCertsTTL = 720 * Hour,
      RegistryCertNamespace = ''kurl'', RegistryCertSecret = ''registry-pki'',
      KurlProxyCertNamespace = ''default'', KurlProxyCertSecret = ''kotsadm-tls'',
      KotsadmKubeletCertNamespace = ''default'', KotsadmKubeletCertSecret = ''default'',
      ContourNamespace = ''projectcontour'', ContourCertNamespace = ''projectcontour'',
      ContourCertSecret = ''contourcert'', EnvoyCertSecret = ''envoycert'',
      RestartFailedEnvoyPodsEnabled = True, EnvoyPodsNotReadyDuration = 5 * Minute,
      EnableInternalLoadBalancer = False, InternalLoadBalancerHAProxyImage = ''haproxy:lts-alpine'',
      InternalLoadBalancerPort = 0, HostTaskImage = ''replicated/ekco:latest'', HostTaskNamespace = ''kurl'',
      PodImageOverrides = [], AutoApproveKubeletCertSigningRequests = False, RookMinimumNodeCount = 0,
      RookStorageClass = '''', RookCephImage = '''', StorageMigrationAuthToken = '''', EnableHAMinio = False,
      MinioNamespace = '''', MinioUtilImage = '''', EnableHAKotsadm = False\<rparr>"

lemma operator_defaults:
  "initEKCOConfig (viperOf plainLib (runSettings (\<lambda>_. None) (\<lambda>_. None) operatorFlags)) = Inr operatorDefaults"
  by code_simp

text \<open>A configuration file that asks for purging and names the namespace of Contour under its old key.\<close>

definition oldKeyFile :: "string \<Rightarrow> setting option" where
  "oldKeyFile = map_of [(''purge_dead_nodes'', BoolSetting True), (''contour_cert_namespace'', TextSetting ''ingress'')]"

lemma operator_oldKey:
  "initEKCOConfig (viperOf plainLib (runSettings (\<lambda>_. None) oldKeyFile operatorFlags)) =
     Inr (operatorDefaults\<lparr>PurgeDeadNodes := True, ContourNamespace := ''ingress'', ContourCertNamespace := ''ingress''\<rparr>)"
  by code_simp

lemma executeCommand_run:
  assumes "map_of (subcommands (RootCmd (\<lambda>_. ConfigRead file))) name = Some cmdFlags"
  shows "executeCommand (\<lambda>_. ConfigRead file) given (\<lambda>_. None) name = Inr (runSettings given file cmdFlags)"
  using assms by (simp add: executeCommand_eq initConfig_def runSettings_def) (simp add: RootCmd_def)

theorem operator_settings_witness:
  "\<exists>config. initEKCOConfig (viperOf plainLib (runSettings (\<lambda>_. None) oldKeyFile operatorFlags)) = Inr config \<and>
     PurgeDeadNodes config \<and> \<not> ClearDeadNodes config \<and> ContourNamespace config = ''ingress''"
proof -
  have "executeCommand (\<lambda>_. ConfigRead oldKeyFile) (\<lambda>_. None) (\<lambda>_. None) ''operator'' =
      Inr (runSettings (\<lambda>_. None) oldKeyFile operatorFlags)"
    by (rule executeCommand_run) (simp add: RootCmd_def)
  from operator_settings [OF documented_plainLib this operator_oldKey] operator_oldKey
  show ?thesis by (simp add: runSettings_def oldKeyFile_def operatorDefaults_def)
qed

section \<open>Commands that cannot do without a configuration file\<close>

text \<open>
  C24: Without a configuration file in one of the default places, rotate-kotsadm-certs and
  change-load-balancer always fail before they send anything, whatever their flags, the environment,
  and the file that \<open>--config\<close> names: they have no flag for the minimum of ready masters, so it is zero,
  which \<open>initEKCOConfig\<close> refuses.
\<close>

theorem commands_need_config_file:
  assumes lib: "documented lib"
    and noFile: "readInConfig \<lparr>configFile = '''', configPaths = [''/etc/ekco'', ''$HOME'', ''.''],
      configName = ''config''\<rparr> = ConfigFileNotFound"
    and rotate: "executeCommand readInConfig given environment ''rotate-kotsadm-certs'' = Inr v"
    and change: "executeCommand readInConfig given' environment' ''change-load-balancer'' = Inr w"
  shows "RotateKotsadmCertsCmd st (viperOf lib v) env = Fail (Wrap ''failed to initialize config''
      (NewErr ''min_ready_master_nodes must be at least 1'')) \<and>
    ChangeLoadBalancerCmd st (viperOf lib w) env useInternal exclude server =
      ret (Inl (NewErr ''Result: Failed to initialize config: min_ready_master_nodes must be at least 1''))"
proof -
  have refused: "initEKCOConfig (viperOf lib u) = Inl (NewErr ''min_ready_master_nodes must be at least 1'')"
    if "inConfigFile u = (\<lambda>_. None)" "list_all (\<lambda>(k, f). map_of (boundFlags u) k = None) configFields" for u
  proof -
    have "list_all (\<lambda>(k, f). view lib u k = None) configFields"
      using that(2) view_unbound [OF lib] that(1) by (auto simp: list_all_iff)
    then have "Unmarshal (viperOf lib u) = Inr zeroConfig"
      unfolding Unmarshal_viperOf by (rule decodeFields_none)
    then show ?thesis by (simp add: initEKCOConfig_def zeroConfig_def)
  qed
  have none: "inConfigFile u = (\<lambda>_. None)" if "initConfig readInConfig '''' = Inr (inConfigFile u)" for u
    using that noFile by (simp add: initConfig_def)
  have v: "boundFlags v = rotateKotsadmCertsFlags @ persistentFlags (RootCmd readInConfig)"
    using executeCommand_settings(4) [OF rotate] by (auto simp: RootCmd_def)
  have w: "boundFlags w = changeLoadBalancerFlags @ persistentFlags (RootCmd readInConfig)"
    using executeCommand_settings(4) [OF change] by (auto simp: RootCmd_def)
  have "initEKCOConfig (viperOf lib v) = Inl (NewErr ''min_ready_master_nodes must be at least 1'')"
    by (rule refused [OF none [OF executeCommand_settings(3) [OF rotate]]])
      (simp add: v configFields_def rotateKotsadmCertsFlags_def RootCmd_def)
  moreover have "initEKCOConfig (viperOf lib w) = Inl (NewErr ''min_ready_master_nodes must be at least 1'')"
    by (rule refused [OF none [OF executeCommand_settings(3) [OF change]]])
      (simp add: w configFields_def changeLoadBalancerFlags_def RootCmd_def)
  ultimately show ?thesis
    by (simp add: RotateKotsadmCertsCmd_def ChangeLoadBalancerCmd_def withController_def initCommand_def
        resultLine_def)
qed

theorem commands_need_config_file_witness:
  "RotateKotsadmCertsCmd sampleStartup (viperOf plainLib (runSettings (\<lambda>_. None) (\<lambda>_. None) rotateKotsadmCertsFlags))
     webhookEnv = Fail (Wrap ''failed to initialize config'' (NewErr ''min_ready_master_nodes must be at least 1''))"
proof -
  have "executeCommand (\<lambda>_. ConfigFileNotFound) (\<lambda>_. None) (\<lambda>_. None) ''rotate-kotsadm-certs'' =
      Inr (runSettings (\<lambda>_. None) (\<lambda>_. None) rotateKotsadmCertsFlags)"
    "executeCommand (\<lambda>_. ConfigFileNotFound) (\<lambda>_. None) (\<lambda>_. None) ''change-load-balancer'' =
      Inr (runSettings (\<lambda>_. None) (\<lambda>_. None) changeLoadBalancerFlags)"
    by (simp_all add: executeCommand_eq initConfig_def runSettings_def RootCmd_def)
  from commands_need_config_file [OF documented_plainLib refl this] show ?thesis by blast
qed

section \<open>The commands that the operator runs in pods\<close>

text \<open>
  The words of a command line read as pflag documents them: a flag has its value behind an equals
  sign or, unless it is a boolean, in the next word. None of these commands takes arguments.
\<close>

fun readFlags :: "flags \<Rightarrow> string list \<Rightarrow> (string \<times> string) list option" where
  "readFlags fs [] = Some []"
| "readFlags fs (w # ws) =
     (if \<not> HasPrefix w ''--'' then None
      else (let name = takeWhile (\<lambda>x. x \<noteq> CHR ''='') (drop 2 w); rest = dropWhile (\<lambda>x. x \<noteq> CHR ''='') (drop 2 w) in
        case map_of fs name of
          None \<Rightarrow> None
        | Some d \<Rightarrow>
            (case rest of
               _ # value \<Rightarrow> map_option (\<lambda>m. (name, value) # m) (readFlags fs ws)
             | [] \<Rightarrow>
                 (case (d, ws) of
                    (BoolSetting _, _) \<Rightarrow> map_option (\<lambda>m. (name, ''true'') # m) (readFlags fs ws)
                  | (_, value # ws') \<Rightarrow> map_option (\<lambda>m. (name, value) # m) (readFlags fs ws')
                  | (_, []) \<Rightarrow> None))))"

text \<open>The command and the flags of a command line of the binary.\<close>

fun readCommand :: "string list \<Rightarrow> (string \<times> (string \<times> string) list) option" where
  "readCommand (program # name # ws) =
     (if program \<notin> {''ekco'', ''/usr/bin/ekco''} then None
      else (case map_of (subcommands (RootCmd (\<lambda>_. ConfigFileNotFound))) name of
              None \<Rightarrow> None
            | Some fs \<Rightarrow> map_option (Pair name) (readFlags fs ws)))"
| "readCommand _ = None"

text \<open>
  The last command of a line for the shell whose words need no quotes, without what its output is
  redirected to.
\<close>

definition shellSafe :: "string \<Rightarrow> bool" where
  "shellSafe w \<longleftrightarrow> w \<noteq> '''' \<and>
     list_all (\<lambda>x. x \<notin> set ('' !#$%&()*;<=>?[]^`{|}~'' @ [CHR 0x22, CHR 0x27, CHR 0x5C, CHR 0x09, CHR 0x0A])) w"

fun lastCommand :: "string list \<Rightarrow> string list \<Rightarrow> string list" where
  "lastCommand [] acc = acc"
| "lastCommand (w # ws) acc =
     (if w = ''&&'' then lastCommand ws [] else if w = ''>'' then acc else lastCommand ws (acc @ [w]))"

definition podCommand :: "container \<Rightarrow> (string \<times> (string \<times> string) list) option" where
  "podCommand ctr = (case ctrCommand ctr of
       [shell, flag, script] \<Rightarrow>
         (if shell = ''/bin/bash'' \<and> flag = ''-c'' then readCommand (lastCommand (Split (CHR '' '') script) [])
          else readCommand (ctrCommand ctr))
     | words \<Rightarrow> readCommand words)"

lemma Split_word:
  "CHR '' '' \<notin> set w \<Longrightarrow> Split (CHR '' '') (w @ CHR '' '' # s) = w # Split (CHR '' '') s"
  using Split_append_sep [of "CHR '' ''" w s] by simp

text \<open>
  C22: Every pod in which the operator runs the binary names one of its commands and gives it flags
  that it has, with the intended values: the time to live of the certificates, the server and whether
  the node is a primary, and the primaries and the image of the load balancer. The values that pass
  through a shell must not need quotes.
\<close>

theorem hostTask_commands:
  assumes "shellSafe (Join '','' primaries)" "shellSafe (cfgInternalLoadBalancerHAProxyImage (Config c))"
  shows "map podCommand (podContainers (getRotateCertsPodConfig c host)) =
      [Some (''rotate-certs'', [(''ttl'', DurationString (Client c) (cfgRotateCertsTTL (Config c)))])] \<and>
    map podCommand (podContainers (setKubeconfigServerPod c host server admin)) =
      [Some (''set-kubeconfig-server'', [(''server'', server), (''host-etc-dir'', ''/host/etc''),
         (''admin'', show_bool admin)])] \<and>
    map podCommand (podInitContainers (getUpdateInternalLBPod c host primaries)) =
      [Some (''generate-haproxy-config'', [(''primary-host'', Join '','' primaries)])] \<and>
    map podCommand (podContainers (getUpdateInternalLBPod c host primaries)) =
      [Some (''generate-haproxy-manifest'', [(''primary-host'', Join '','' primaries),
         (''file'', ''/host/etc/kubernetes/manifests/haproxy.yaml''),
         (''image'', cfgInternalLoadBalancerHAProxyImage (Config c))])]"
proof (intro conjI)
  let ?hosts = "Join '','' primaries" and ?img = "cfgInternalLoadBalancerHAProxyImage (Config c)"
  note rd = podCommand_def RootCmd_def HasPrefix_def Let_def
  have safe: "CHR '' '' \<notin> set ?hosts" "CHR '' '' \<notin> set ?img"
    using assms by (auto simp: shellSafe_def list_all_iff)
  show "map podCommand (podContainers (getRotateCertsPodConfig c host)) =
      [Some (''rotate-certs'', [(''ttl'', DurationString (Client c) (cfgRotateCertsTTL (Config c)))])]"
    by (simp add: getRotateCertsPodConfig_def rotateCertsFlags_def rd)
  show "map podCommand (podContainers (setKubeconfigServerPod c host server admin)) =
      [Some (''set-kubeconfig-server'', [(''server'', server), (''host-etc-dir'', ''/host/etc''),
         (''admin'', show_bool admin)])]"
    by (simp add: setKubeconfigServerPod_def setKubeconfigServerFlags_def rd)
  have "Split (CHR '' '') (''mkdir -p /host/etc/haproxy && /usr/bin/ekco generate-haproxy-config --primary-host='' @
      ?hosts @ '' > /host/etc/haproxy/haproxy.cfg'') =
    [''mkdir'', ''-p'', ''/host/etc/haproxy'', ''&&'', ''/usr/bin/ekco'', ''generate-haproxy-config'',
     ''--primary-host='' @ ?hosts, ''>'', ''/host/etc/haproxy/haproxy.cfg'']"
    using Split_word [of ?hosts] safe by simp
  then show "map podCommand (podInitContainers (getUpdateInternalLBPod c host primaries)) =
      [Some (''generate-haproxy-config'', [(''primary-host'', ?hosts)])]"
    by (simp add: getUpdateInternalLBPod_def generateHAProxyConfigFlags_def rd)
  have "Split (CHR '' '') (''/usr/bin/ekco generate-haproxy-manifest --primary-host='' @ ?hosts @
      '' --file /host/etc/kubernetes/manifests/haproxy.yaml --image='' @ ?img) =
    [''/usr/bin/ekco'', ''generate-haproxy-manifest'', ''--primary-host='' @ ?hosts, ''--file'',
     ''/host/etc/kubernetes/manifests/haproxy.yaml'', ''--image='' @ ?img]"
    using Split_word [of ?hosts] safe by (simp add: Split_no_sep)
  then show "map podCommand (podContainers (getUpdateInternalLBPod c host primaries)) =
      [Some (''generate-haproxy-manifest'', [(''primary-host'', ?hosts),
         (''file'', ''/host/etc/kubernetes/manifests/haproxy.yaml''), (''image'', ?img)])]"
    by (simp add: getUpdateInternalLBPod_def generateHAProxyManifestFlags_def rd)
qed

theorem hostTask_commands_witness:
  "map podCommand (podInitContainers (getUpdateInternalLBPod
      (NewController (controllerConfig operatorDefaults) webhookEnv) ''node1'' [''10.0.0.1'', ''10.0.0.2''])) =
     [Some (''generate-haproxy-config'', [(''primary-host'', ''10.0.0.1,10.0.0.2'')])]"
proof -
  have "shellSafe (Join '','' [''10.0.0.1'', ''10.0.0.2''])"
    "shellSafe (cfgInternalLoadBalancerHAProxyImage (Config (NewController (controllerConfig operatorDefaults) webhookEnv)))"
    by (simp_all add: shellSafe_def controllerConfig_def operatorDefaults_def NewController_def)
  from hostTask_commands [OF this] show ?thesis by simp
qed

end
