(* ===== verification/Version.thy ===== *)
theory Version
  imports Program
begin

text \<open>
  What the binary tells of itself (\<open>src/pkg/version\<close>): the texts that the linker puts into
  \<open>build.go\<close>, how \<open>init\<close> of \<open>run.go\<close> makes a \<open>Build\<close> of them at start, and what the root command
  prints of it (\<open>src/cmd/ekco/cli/root.go\<close>). A time is a reading of the clock, in nanoseconds since
  the start of 1970.
\<close>

section \<open>The description of a build\<close>

text \<open>The variables that are injected at build time, empty in a build without them.\<close>

record build_args =
  version :: string
  gitSHA :: string
  buildTime :: string

record GoInfo =
  goVersion :: string
  goCompiler :: string
  goOS :: string
  goArch :: string

record Build =
  buildVersion :: string
  buildGitSHA :: string
  buildBuildTime :: int
  buildTimeFallback :: string
  buildGoInfo :: GoInfo
  buildRunAt :: int

text \<open>The zero \<open>time.Time\<close>, which \<open>time.Parse\<close> answers beside an error: the start of the year 1.\<close>

definition zeroTime :: int where
  "zeroTime = - 62135596800 * 1000000000"

text \<open>
  \<open>initBuild\<close> on the zero value of the variable \<open>build\<close>: a commit is cut to seven characters, and
  none is kept that is shorter.
\<close>

definition initBuild :: "env \<Rightarrow> build_args \<Rightarrow> GoInfo \<Rightarrow> int \<Rightarrow> Build" where
  "initBuild env args info runAt =
     \<lparr>buildVersion = version args,
      buildGitSHA = (if 7 \<le> length (gitSHA args) then take 7 (gitSHA args) else ''''),
      buildBuildTime = (case ParseRFC3339 env (buildTime args) of Inl _ \<Rightarrow> zeroTime | Inr t \<Rightarrow> t),
      buildTimeFallback = (case ParseRFC3339 env (buildTime args) of Inl _ \<Rightarrow> buildTime args | Inr _ \<Rightarrow> ''''),
      buildGoInfo = info,
      buildRunAt = runAt\<rparr>"

text \<open>\<open>init\<close>: the start of the process is read off the clock once.\<close>

definition initVersion :: "env \<Rightarrow> build_args \<Rightarrow> GoInfo \<Rightarrow> Build go" where
  "initVersion env args info = do {
     runAt \<leftarrow> now env;
     ret (initBuild env args info runAt) }"

text \<open>The command without a subcommand: what it prints.\<close>

definition printVersion :: "Build \<Rightarrow> string" where
  "printVersion b = ''Embedded kURL cluster operator (EKCO) '' @ buildVersion b @ NL"

section \<open>What a build says\<close>

lemma initBuild_GitSHA:
  "buildGitSHA (initBuild env args info t) \<in> {'''', take 7 (gitSHA args)}"
  "length (buildGitSHA (initBuild env args info t)) \<in> {0, 7}"
  by (simp_all add: initBuild_def)

text \<open>The time of the build is kept, parsed or as it was given; never both.\<close>

lemma initBuild_time:
  "case ParseRFC3339 env (buildTime args) of
     Inl _ \<Rightarrow> buildTimeFallback (initBuild env args info t) = buildTime args \<and>
       buildBuildTime (initBuild env args info t) = zeroTime
   | Inr bt \<Rightarrow> buildTimeFallback (initBuild env args info t) = '''' \<and>
       buildBuildTime (initBuild env args info t) = bt"
  by (simp add: initBuild_def split: sum.split)

lemma emits_initVersion: "P Now \<Longrightarrow> emits P (initVersion env args info)"
  unfolding initVersion_def by (intro emits_intros)

lemma initVersion_run:
  "result (initVersion env args info) s = initBuild env args info (clock env (history s))"
  by (simp add: initVersion_def clock_def result_def)

end
