(* ===== verification/Spec2Isabelle.thy ===== *)
theory Spec2Isabelle
  imports MinioSystem MigrationSystem CommandLine Version
begin

text \<open>
  A verification development of EKCO, the operator of embedded kURL clusters (Go, \<open>src/\<close>).

  \<^bold>\<open>The program.\<close> One process runs a loop (\<open>src/pkg/ekcoops/poll.go\<close>) that lists the nodes at every
  tick and reconciles the cluster (\<open>src/pkg/ekcoops/operator.go\<close>): it purges or clears dead nodes,
  keeps Rook and Ceph storage, certificates, the internal load balancer, Prometheus, Envoy, kotsadm
  and MinIO in shape, through one controller (\<open>src/pkg/cluster\<close>) that holds the clients of the
  cluster. Beside the loop, MinIO is reconciled in goroutines of its own, and the HTTP server
  starts the migration of the storage in others (\<open>src/pkg/migrate\<close>); they share the pause flags
  (\<open>src/pkg/ekcoops/overrides\<close>), a mutex, and the status and log of the migration. The same
  operations are commands of the binary (\<open>src/cmd/ekco/cli\<close>), some of which the operator runs in
  pods on the hosts and whose output it reads.

  \<^bold>\<open>The model.\<close> A function of the program is a computation \<open>'a go\<close> of the library's state monad over
  the state \<open>proc\<close> of the process: the requests sent so far and the package-level variables
  (Program). What the program does not contain is the argument \<open>env\<close>: a function \<open>respond\<close> that
  answers each request, given all earlier ones, and pure functions of third-party packages. So a
  theorem about a run holds for every server, every fault and every change of the world between two
  requests. Errors are the datatype \<open>go_error\<close> with the ways Go wraps them (GoError); results are
  the sum \<open>'a res\<close>. Objects are records with the fields that the program touches (Kube). Numbers
  of bounded width that the code converts or that can wrap are words or written out (Prelude).
  Loops that wait for the cluster run at most \<open>loopBound env\<close> rounds and then end with the error
  \<open>Running\<close>, and a run-time panic ends a run with \<open>Panic\<close>: no code of the program handles either.
  The bound is a parameter: a statement about what is sent or about a success holds for every
  bound, and that a wait ends is a theorem that names the rounds that suffice
  (\<open>HostTasks.pollForPodCompleted_returns\<close>).

  \<^bold>\<open>Interleaving.\<close> Two theories put goroutines side by side as inductive step relations: MinioSystem
  for those of \<open>reconcileMinio\<close>, MigrationSystem for those of \<open>ObjectStorageAndPVCs\<close>. A step is what
  a goroutine does between two points at which the variable of interest can be seen by another: what is
  done under the mutex, or a part of the migration, is one step, while every other goroutine may
  change the rest of the process at any time. Adequacy lemmas run one goroutine through its steps
  to the result of the function. The pause flags and the process variables are framed by Frames.

  \<^bold>\<open>The theories.\<close>
  \<^item> Prelude, GoError, Kube, Program, Exchange, Frames: Go's strings and errors, the objects of the
    cluster, the monad with the rules for what a program can send (\<open>emits\<close>), which exchanges a
    successful run contains (\<open>exchange\<close>), what it leaves alone (\<open>frames\<close>).
  \<^item> Nodes, ClusterStatus, Controller, OpConfig, Overrides: \<open>src/pkg/util\<close>, the kubeadm
    ClusterStatus, the controller and its configuration, the configuration of the operator
    (\<open>src/pkg/ekcoops/config.go\<close>, \<open>src/cmd/ekco/cli/init.go\<close>), the pause flags.
  \<^item> CephExec, CephStorage, CephPools, CephCSI, CephCluster: \<open>src/pkg/cluster/rook_ceph.go\<close> with
    \<open>src/pkg/rook\<close> and \<open>src/pkg/helm\<close>.
  \<^item> PurgeNode: \<open>purge_node.go\<close>, \<open>etcd.go\<close>, \<open>clear_node.go\<close> and the purge-node command.
  \<^item> Scaling, Contour: Prometheus, Alertmanager, kotsadm's database, Envoy.
  \<^item> ObjectStore, Minio: copying an object store and repointing its consumers
    (\<open>src/pkg/objectstore\<close>), and MinIO with high availability (\<open>src/pkg/cluster/minio.go\<close>).
  \<^item> HostTasks, CertSecrets, KubeadmCerts: the pods that rotate certificates on the primaries, the
    certificates in secrets, and the rotate-certs command that runs in those pods.
  \<^item> InternalLB, HostFiles: the internal load balancer, HAProxy's files and the kubeconfig edits.
  \<^item> Operator, MinioSystem: \<open>src/pkg/ekcoops\<close>. Migrate, MigrationSystem: \<open>src/pkg/migrate\<close>.
  \<^item> Webhook: the admission webhooks (\<open>src/pkg/webhook\<close>), their server, its routes and the handlers that
    answer a review with a JSON patch, together with a reader of such a patch. Server: the handlers of
    the HTTP API (\<open>src/pkg/server\<close>).
  \<^item> OperatorCmd: the operator command (\<open>src/cmd/ekco/cli/operator.go\<close>), which starts the server, the
    webhooks and the loop; here all components above meet. CommandLine: the root command, the flags of
    every command, how they and the configuration file become the configuration
    (\<open>src/cmd/ekco/cli/root.go\<close>, \<open>init.go\<close>), and the commands that need the cluster. Version: what
    the binary tells of its build (\<open>src/pkg/version\<close>).

  \<^bold>\<open>What the lemmas show.\<close> For each operation, which requests it can send (\<open>emits_\<close> lemmas), and then,
  as the properties: in which order and under which guards changes are made (purging, OSD removal,
  rotation, rebalancing), that data is deleted only after it was copied, that repeated runs
  converge, that generated and parsed texts fit together, and how the status of the migration and
  the mutex of MinIO behave under any interleaving. Locales state the interfaces: a pause flag
  (\<open>pausable\<close>), remote execution (\<open>sync_executor\<close>), pools (\<open>replicated_pools\<close>), scaling
  (\<open>scaler\<close>), variables of the process (\<open>process_variable\<close>), and a pause flag that only its own
  functions change (\<open>pause_flag\<close>, which extends two of them); each is interpreted on the definitions
  of the model. For the servers: every review that a webhook
  answers is well formed, its patch can be read back and sets what is configured; what is registered is
  what is served; and the API changes nothing except that an authorized approval starts a migration.
  For the command line: which settings the operator runs with, that the commands which the operator
  runs in pods are commands of the binary with flags that they have, and which commands cannot run.

  \<^bold>\<open>Not modelled.\<close> Logging; the streaming of a remote command (its answer is a value); the parsing and
  signing of certificates, YAML and PEM, Helm, pvmigrate, the S3 client and kubeadm (answers of the
  environment or parameters); cancellation of a context other than in the loops that wait for it;
  parsing the command line and holding its settings (the parameter \<open>settings_lib\<close> of CommandLine, with
  what is documented of it); listening, TLS and signals; what the constructors of the clients and of
  the logger do beyond failing (\<open>startup\<close>); generated mocks.
\<close>

end
